(* ===== verification/SL_Prelude.thy ===== *)
theory SL_Prelude
  imports Main "HOL-Library.Char_ord"
begin

text \<open>
  Shared ground of the development: the fixed-width conversions of the C++ code written out on
  \<open>int\<close>, the decimal rendering of \<open>std::to_string\<close> with its inverse, and the fact
  collections the component theories extend.
  \<^item> \<open>sl_find\<close>: look-ups in the ordered containers after an update;
  \<^item> \<open>sl_frame\<close>: what an operation leaves unchanged;
  \<^item> \<open>sl_ops\<close>: the definitions of small operations, unfolded together.
\<close>

named_theorems sl_find "look-ups in the containers after an update"
named_theorems sl_frame "fields an operation leaves unchanged"
named_theorems sl_ops "definitions of small operations"

section \<open>Fixed-width integers\<close>

text \<open>
  Values of \<open>int32_t\<close>, \<open>int64_t\<close>, \<open>uint32_t\<close> and \<open>uint64_t\<close> are integers; a
  conversion that may lose information is one of the functions below (two's complement).
\<close>

definition to_int32 :: "int \<Rightarrow> int" where
  "to_int32 x = (x + 2 ^ 31) mod 2 ^ 32 - 2 ^ 31"

definition to_int64 :: "int \<Rightarrow> int" where
  "to_int64 x = (x + 2 ^ 63) mod 2 ^ 64 - 2 ^ 63"

definition to_uint32 :: "int \<Rightarrow> int" where
  "to_uint32 x = x mod 2 ^ 32"

definition to_uint64 :: "int \<Rightarrow> int" where
  "to_uint64 x = x mod 2 ^ 64"

definition is_int32 :: "int \<Rightarrow> bool" where
  "is_int32 x \<longleftrightarrow> - (2 ^ 31) \<le> x \<and> x < 2 ^ 31"

lemma to_int32_id [simp]: "is_int32 x \<Longrightarrow> to_int32 x = x"
  by (simp add: is_int32_def to_int32_def)

lemma is_int32_to_int32 [simp]: "is_int32 (to_int32 x)"
  by (simp add: is_int32_def to_int32_def)

lemma to_int64_id: "- (2 ^ 63) \<le> x \<Longrightarrow> x < 2 ^ 63 \<Longrightarrow> to_int64 x = x"
  by (simp add: to_int64_def)

lemma to_uint64_id: "0 \<le> x \<Longrightarrow> x < 2 ^ 64 \<Longrightarrow> to_uint64 x = x"
  by (simp add: to_uint64_def)

section \<open>Decimal rendering\<close>

fun dec_digits :: "nat \<Rightarrow> string" where
  "dec_digits n =
     (if n < 10 then [char_of (48 + n)] else dec_digits (n div 10) @ [char_of (48 + n mod 10)])"

declare dec_digits.simps [simp del]

text \<open>\<open>std::to_string\<close> of a signed integer.\<close>

definition to_string :: "int \<Rightarrow> string" where
  "to_string i = (if i < 0 then CHR ''-'' # dec_digits (nat (- i)) else dec_digits (nat i))"

definition dec_value :: "string \<Rightarrow> nat" where
  "dec_value cs = foldl (\<lambda>a c. 10 * a + (of_char c - 48)) 0 cs"

lemma dec_value_append: "dec_value (cs @ [c]) = 10 * dec_value cs + (of_char c - 48)"
  by (simp add: dec_value_def)

lemma dec_value_digits: "dec_value (dec_digits n) = n"
proof (induction n rule: dec_digits.induct)
  case (1 n)
  show ?case
  proof (cases "n < 10")
    case True
    then show ?thesis by (subst dec_digits.simps) (simp add: dec_value_def)
  next
    case False
    have "dec_digits n = dec_digits (n div 10) @ [char_of (48 + n mod 10)]"
      using False by (subst dec_digits.simps) simp
    moreover have "of_char (char_of (48 + n mod 10) :: char) = 48 + n mod 10"
      by (simp add: of_char_of)
    ultimately show ?thesis using False "1.IH" by (simp add: dec_value_append)
  qed
qed

lemma dec_digits_char: "c \<in> set (dec_digits n) \<Longrightarrow> 48 \<le> (of_char c :: nat) \<and> (of_char c :: nat) < 58"
proof (induction n rule: dec_digits.induct)
  case (1 n)
  show ?case
  proof (cases "n < 10")
    case True
    with "1.prems" show ?thesis by (subst (asm) dec_digits.simps) simp
  next
    case False
    have eq: "dec_digits n = dec_digits (n div 10) @ [char_of (48 + n mod 10)]"
      using False by (subst dec_digits.simps) simp
    have last: "of_char (char_of (48 + n mod 10) :: char) = 48 + n mod 10"
      by (simp add: of_char_of)
    from "1.prems" consider "c \<in> set (dec_digits (n div 10))" | "c = char_of (48 + n mod 10)"
      by (auto simp: eq)
    then show ?thesis
    proof cases
      case 1
      with False "1.IH" show ?thesis by simp
    next
      case 2
      with last show ?thesis by simp
    qed
  qed
qed

lemma dec_digits_nonempty [simp]: "dec_digits n \<noteq> []"
  by (subst dec_digits.simps) simp

lemma dec_digits_inject: "dec_digits m = dec_digits n \<longleftrightarrow> m = n"
  by (metis dec_value_digits)

lemma dec_digits_no_char: "\<not> (48 \<le> (of_char c :: nat) \<and> (of_char c :: nat) < 58) \<Longrightarrow> dec_digits n \<noteq> c # cs"
  using dec_digits_char [of c n] by auto

lemma to_string_inject [simp]: "to_string i = to_string j \<longleftrightarrow> i = j"
  using dec_digits_no_char [of "CHR ''-''"]
  by (auto simp: to_string_def dec_digits_inject split: if_splits) metis+

lemma to_string_not_letter:
  "48 \<noteq> (of_char c :: nat) \<Longrightarrow> of_char c > (57 :: nat) \<Longrightarrow> to_string i \<noteq> c # cs"
  using dec_digits_no_char [of c] by (auto simp: to_string_def split: if_splits)

section \<open>Lists\<close>

lemma list_all_filter: "list_all P xs \<Longrightarrow> list_all P (filter Q xs)"
  by (induction xs) auto

lemma find_Some_iff_set: "List.find P xs = Some x \<Longrightarrow> x \<in> set xs \<and> P x"
  by (auto simp: find_Some_iff)

end
