(* ===== verification/Std_Containers.thy ===== *)
theory Std_Containers
  imports SL_Prelude
begin

text \<open>
  \<open>std::map\<close> and \<open>std::set\<close> as the C++ code uses them: containers ordered by their keys,
  kept as lists sorted by key, so that iteration visits the keys in order.
  \<^item> \<open>mfind\<close> is \<open>find\<close> (\<open>None\<close> is \<open>end()\<close>);
  \<^item> \<open>minsert\<close> is \<open>insert\<close>/\<open>emplace\<close>: an existing entry is kept;
  \<^item> \<open>mput\<close> is assignment through an iterator or \<open>operator[]\<close>;
  \<^item> \<open>merase\<close> is \<open>erase\<close> by key.
  The lemmas relate each operation to the partial function \<open>mfind m\<close> and show that the order is
  kept; the locale \<open>lookup_table\<close> states that contract once for its clients.
\<close>

type_synonym ('k, 'v) stdmap = "('k \<times> 'v) list"

section \<open>Operations\<close>

definition mfind :: "('k, 'v) stdmap \<Rightarrow> 'k \<Rightarrow> 'v option" where
  "mfind m k = map_of m k"

primrec mput :: "'k::linorder \<Rightarrow> 'v \<Rightarrow> ('k, 'v) stdmap \<Rightarrow> ('k, 'v) stdmap" where
  "mput k v [] = [(k, v)]"
| "mput k v (p # m) =
     (if k = fst p then (k, v) # m
      else if k < fst p then (k, v) # p # m
      else p # mput k v m)"

definition minsert :: "'k::linorder \<Rightarrow> 'v \<Rightarrow> ('k, 'v) stdmap \<Rightarrow> ('k, 'v) stdmap" where
  "minsert k v m = (case mfind m k of None \<Rightarrow> mput k v m | Some _ \<Rightarrow> m)"

definition merase :: "'k \<Rightarrow> ('k, 'v) stdmap \<Rightarrow> ('k, 'v) stdmap" where
  "merase k m = filter (\<lambda>p. fst p \<noteq> k) m"

definition mwf :: "('k::linorder, 'v) stdmap \<Rightarrow> bool" where
  "mwf m \<longleftrightarrow> sorted_wrt (<) (map fst m)"

section \<open>Look-up laws\<close>

lemma mfind_Nil [simp]: "mfind [] k = None"
  by (simp add: mfind_def)

lemma mfind_Cons [simp]: "mfind ((a, b) # m) k = (if k = a then Some b else mfind m k)"
  by (simp add: mfind_def)

lemma mfind_mput [sl_find]: "mfind (mput k v m) k' = (if k' = k then Some v else mfind m k')"
  by (induction m) (auto simp: mfind_def)

lemma mfind_minsert [sl_find]:
  "mfind (minsert k v m) k' =
     (if k' = k then (case mfind m k of None \<Rightarrow> Some v | Some w \<Rightarrow> Some w) else mfind m k')"
  by (auto simp: minsert_def mfind_mput split: option.splits)

lemma mfind_merase [sl_find]: "mfind (merase k m) k' = (if k' = k then None else mfind m k')"
  by (induction m) (auto simp: mfind_def merase_def)

lemma mfind_fun_mput: "mfind (mput k v m) = (mfind m)(k \<mapsto> v)"
  by (rule ext) (simp add: mfind_mput)

lemma mfind_fun_merase: "mfind (merase k m) = (mfind m)(k := None)"
  by (rule ext) (simp add: mfind_merase)

lemma mfind_in_set: "mfind m k = Some v \<Longrightarrow> (k, v) \<in> set m"
  by (simp add: mfind_def map_of_SomeD)

lemma mfind_None_iff: "mfind m k = None \<longleftrightarrow> k \<notin> fst ` set m"
  by (simp add: mfind_def map_of_eq_None_iff)

section \<open>Order\<close>

lemma set_mput_keys: "fst ` set (mput k v m) = insert k (fst ` set m)"
  by (induction m) auto

lemma mwf_Nil [simp]: "mwf []"
  by (simp add: mwf_def)

lemma mwf_Cons: "mwf (p # m) \<longleftrightarrow> (\<forall>k \<in> fst ` set m. fst p < k) \<and> mwf m"
  by (auto simp: mwf_def)

lemma mwf_mput [simp]: "mwf m \<Longrightarrow> mwf (mput k v m)"
proof (induction m)
  case Nil
  then show ?case by (simp add: mwf_def)
next
  case (Cons p m)
  then show ?case by (auto simp: mwf_Cons set_mput_keys intro: less_trans)
qed

lemma mwf_minsert [simp]: "mwf m \<Longrightarrow> mwf (minsert k v m)"
  by (simp add: minsert_def split: option.split)

lemma mwf_filter [simp]: "mwf m \<Longrightarrow> mwf (filter P m)"
  by (induction m) (auto simp: mwf_Cons)

lemma mwf_merase [simp]: "mwf m \<Longrightarrow> mwf (merase k m)"
  by (simp add: merase_def)

lemma mwf_distinct: "mwf m \<Longrightarrow> distinct (map fst m)"
  by (simp add: mwf_def strict_sorted_iff)

lemma mfind_iff: "mwf m \<Longrightarrow> mfind m k = Some v \<longleftrightarrow> (k, v) \<in> set m"
  by (simp add: mfind_def mwf_distinct)

text \<open>The entries of the map after an update: what iteration can meet.\<close>

lemma set_mput: "set (mput k v m) \<subseteq> insert (k, v) (set m)"
  by (induction m) auto

lemma set_merase: "set (merase k m) = {p \<in> set m. fst p \<noteq> k}"
  by (auto simp: merase_def)

lemma set_minsert: "set (minsert k v m) \<subseteq> insert (k, v) (set m)"
  using set_mput [of k v m] by (auto simp: minsert_def split: option.splits)

lemma set_mput_iff: "mwf m \<Longrightarrow> p \<in> set (mput k v m) \<longleftrightarrow> p = (k, v) \<or> p \<in> set m \<and> fst p \<noteq> k"
proof (cases p)
  case (Pair a b)
  assume wf: "mwf m"
  then have "p \<in> set (mput k v m) \<longleftrightarrow> mfind (mput k v m) a = Some b"
    by (simp add: Pair mfind_iff)
  also have "\<dots> \<longleftrightarrow> p = (k, v) \<or> p \<in> set m \<and> fst p \<noteq> k"
    using wf by (auto simp: mfind_mput mfind_iff Pair)
  finally show ?thesis .
qed

section \<open>The contract of a look-up table\<close>

text \<open>
  What the components rely on: an entry is read back after it was stored, other keys are not
  touched, and an erased key is gone.  \<open>find\<close>, \<open>put\<close> and \<open>drop\<close> are the client's view.
\<close>

locale lookup_table =
  fixes find :: "'m \<Rightarrow> 'k \<Rightarrow> 'v option"
    and put :: "'k \<Rightarrow> 'v \<Rightarrow> 'm \<Rightarrow> 'm"
    and drop :: "'k \<Rightarrow> 'm \<Rightarrow> 'm"
  assumes find_put: "find (put k v m) k' = (if k' = k then Some v else find m k')"
    and find_drop: "find (drop k m) k' = (if k' = k then None else find m k')"
begin

lemma put_put_same: "find (put k v (put k w m)) = find (put k v m)"
  by (rule ext) (simp add: find_put)

lemma put_put_other: "k \<noteq> j \<Longrightarrow> find (put k v (put j w m)) = find (put j w (put k v m))"
  by (rule ext) (simp add: find_put)

lemma drop_put_same: "find (drop k (put k v m)) = find (drop k m)"
  by (rule ext) (simp add: find_put find_drop)

lemma drop_other: "k \<noteq> j \<Longrightarrow> find (drop j m) k = find m k"
  by (simp add: find_drop)

lemma fold_put_other:
  "\<forall>p \<in> set ps. fst p \<noteq> k \<Longrightarrow> find (fold (\<lambda>p. put (fst p) (snd p)) ps m) k = find m k"
proof (induction ps arbitrary: m)
  case Nil
  then show ?case by simp
next
  case (Cons p ps)
  then have "find (fold (\<lambda>p. put (fst p) (snd p)) ps (put (fst p) (snd p) m)) k
      = find (put (fst p) (snd p) m) k"
    by simp
  also have "\<dots> = find m k" using Cons.prems by (auto simp: find_put)
  finally show ?case by simp
qed

end

interpretation smap: lookup_table mfind mput merase
  by unfold_locales (simp_all add: mfind_mput mfind_merase)

end
