(* ===== verification/SL_Common.thy ===== *)
theory SL_Common
  imports Std_Containers
begin

text \<open>
  The data every component shares: the enumerations and names of \<open>screenlock_common.h\<close>, the
  objects that cross process boundaries, and the observable effects of the service.
  \<^item> An effect is a call the service makes that somebody outside can see (a callback, a published
    event, a timer request, a preferences flush); every state record of the development starts with
    the list of the effects emitted so far, oldest first.
\<close>

section \<open>Error codes and results\<close>

datatype sl_error =
    E_SCREENLOCK_OK
  | E_SCREENLOCK_SA_DIED
  | E_SCREENLOCK_READ_PARCEL_ERROR
  | E_SCREENLOCK_WRITE_PARCEL_ERROR
  | E_SCREENLOCK_PUBLISH_FAIL
  | E_SCREENLOCK_TRANSACT_ERROR
  | E_SCREENLOCK_DEAL_FAILED
  | E_SCREENLOCK_PARAMETERS_INVALID
  | E_SCREENLOCK_SET_RTC_FAILED
  | E_SCREENLOCK_NOT_FOUND
  | E_SCREENLOCK_NO_PERMISSION
  | E_SCREENLOCK_NULLPTR
  | E_SCREENLOCK_SENDREQUEST_FAILED
  | E_SCREENLOCK_NOT_SYSTEM_APP
  | E_SCREENLOCK_NOT_FOCUS_APP
  | E_SCREENLOCK_USER_ID_INVALID

text \<open>The position of a constructor in the C++ enumeration, which starts at the error offset.\<close>

fun sl_error_index :: "sl_error \<Rightarrow> int" where
  "sl_error_index E_SCREENLOCK_OK = 0"
| "sl_error_index E_SCREENLOCK_SA_DIED = 1"
| "sl_error_index E_SCREENLOCK_READ_PARCEL_ERROR = 2"
| "sl_error_index E_SCREENLOCK_WRITE_PARCEL_ERROR = 3"
| "sl_error_index E_SCREENLOCK_PUBLISH_FAIL = 4"
| "sl_error_index E_SCREENLOCK_TRANSACT_ERROR = 5"
| "sl_error_index E_SCREENLOCK_DEAL_FAILED = 6"
| "sl_error_index E_SCREENLOCK_PARAMETERS_INVALID = 7"
| "sl_error_index E_SCREENLOCK_SET_RTC_FAILED = 8"
| "sl_error_index E_SCREENLOCK_NOT_FOUND = 9"
| "sl_error_index E_SCREENLOCK_NO_PERMISSION = 10"
| "sl_error_index E_SCREENLOCK_NULLPTR = 11"
| "sl_error_index E_SCREENLOCK_SENDREQUEST_FAILED = 12"
| "sl_error_index E_SCREENLOCK_NOT_SYSTEM_APP = 13"
| "sl_error_index E_SCREENLOCK_NOT_FOCUS_APP = 14"
| "sl_error_index E_SCREENLOCK_USER_ID_INVALID = 15"

lemma sl_error_index_range: "0 \<le> sl_error_index x \<and> sl_error_index x \<le> 15"
  by (cases x) auto

lemma sl_error_index_inject [simp]: "sl_error_index x = sl_error_index y \<longleftrightarrow> x = y"
  by (cases x; cases y) simp_all

datatype screen_change =
    SCREEN_SUCC
  | SCREEN_FAIL
  | SCREEN_CANCEL
  | EARLY_SUCCESS
  | ALREADY_UNLOCKED

fun screen_change_code :: "screen_change \<Rightarrow> int" where
  "screen_change_code SCREEN_SUCC = 0"
| "screen_change_code SCREEN_FAIL = 1"
| "screen_change_code SCREEN_CANCEL = 2"
| "screen_change_code EARLY_SUCCESS = 3"
| "screen_change_code ALREADY_UNLOCKED = 4"

text \<open>
  Operations of the service return an \<open>int32_t\<close> that is a constant of one of the two
  enumerations; the sum keeps which one the code wrote.
\<close>

datatype status = Code sl_error | Change screen_change

abbreviation OK :: status where
  "OK \<equiv> Code E_SCREENLOCK_OK"

text \<open>The integer the caller sees, for an error offset \<open>off\<close> of the error-code scheme.\<close>

fun status_code :: "int \<Rightarrow> status \<Rightarrow> int" where
  "status_code off (Code e) = off + sl_error_index e"
| "status_code off (Change c) = screen_change_code c"

section \<open>Names of events\<close>

definition BEGIN_WAKEUP :: string where "BEGIN_WAKEUP = ''beginWakeUp''"
definition END_WAKEUP :: string where "END_WAKEUP = ''endWakeUp''"
definition BEGIN_SCREEN_ON :: string where "BEGIN_SCREEN_ON = ''beginScreenOn''"
definition END_SCREEN_ON :: string where "END_SCREEN_ON = ''endScreenOn''"
definition BEGIN_SLEEP :: string where "BEGIN_SLEEP = ''beginSleep''"
definition END_SLEEP :: string where "END_SLEEP = ''endSleep''"
definition BEGIN_SCREEN_OFF :: string where "BEGIN_SCREEN_OFF = ''beginScreenOff''"
definition END_SCREEN_OFF :: string where "END_SCREEN_OFF = ''endScreenOff''"
definition STRONG_AUTH_CHANGED :: string where "STRONG_AUTH_CHANGED = ''strongAuthChanged''"
definition EXIT_ANIMATION :: string where "EXIT_ANIMATION = ''beginExitAnimation''"
definition UNLOCKSCREEN :: string where "UNLOCKSCREEN = ''unlockScreen''"
definition UNLOCK_SCREEN_RESULT :: string where "UNLOCK_SCREEN_RESULT = ''unlockScreenResult''"
definition LOCKSCREEN :: string where "LOCKSCREEN = ''lockScreen''"
definition LOCK_SCREEN_RESULT :: string where "LOCK_SCREEN_RESULT = ''lockScreenResult''"
definition SCREEN_DRAWDONE :: string where "SCREEN_DRAWDONE = ''screenDrawDone''"
definition SYSTEM_READY :: string where "SYSTEM_READY = ''systemReady''"
definition SERVICE_RESTART :: string where "SERVICE_RESTART = ''serviceRestart''"
definition USERIAM_READY :: string where "USERIAM_READY = ''useriamReady''"
definition PRE_AUTH_RESULT :: string where "PRE_AUTH_RESULT = ''preAuthResult''"
definition UNLOCK_POLICY_CHANGE :: string where "UNLOCK_POLICY_CHANGE = ''unlockPolicyChanged''"

lemmas event_names =
  BEGIN_WAKEUP_def END_WAKEUP_def BEGIN_SCREEN_ON_def END_SCREEN_ON_def BEGIN_SLEEP_def
  END_SLEEP_def BEGIN_SCREEN_OFF_def END_SCREEN_OFF_def STRONG_AUTH_CHANGED_def EXIT_ANIMATION_def
  UNLOCKSCREEN_def UNLOCK_SCREEN_RESULT_def LOCKSCREEN_def LOCK_SCREEN_RESULT_def
  SCREEN_DRAWDONE_def SYSTEM_READY_def SERVICE_RESTART_def USERIAM_READY_def PRE_AUTH_RESULT_def
  UNLOCK_POLICY_CHANGE_def

section \<open>Users, flags and listen types\<close>

definition USER_NULL :: int where "USER_NULL = - 10000"

datatype special_user = USER_ALL | USER_CURRENT | USER_UNDEFINED

fun special_user_code :: "special_user \<Rightarrow> int" where
  "special_user_code USER_ALL = - 1"
| "special_user_code USER_CURRENT = - 2"
| "special_user_code USER_UNDEFINED = - 10000"

text \<open>
  The reason flags of a strong-authentication request, with the values the header gives them
  (\<open>SECURITY_ENHANCEMENT\<close> is hexadecimal 16, that is 22).
\<close>

datatype strong_auth_reason =
    REASON_NONE
  | AFTER_BOOT
  | AFTER_TIMEOUT
  | ACTIVE_REQUEST
  | DPM_RESTRICT
  | SECURITY_ENHANCEMENT
  | AFTER_CREDENTIAL_CHANGED

fun reason_code :: "strong_auth_reason \<Rightarrow> int" where
  "reason_code REASON_NONE = 0x0"
| "reason_code AFTER_BOOT = 0x1"
| "reason_code AFTER_TIMEOUT = 0x2"
| "reason_code ACTIVE_REQUEST = 0x4"
| "reason_code DPM_RESTRICT = 0x8"
| "reason_code SECURITY_ENHANCEMENT = 0x16"
| "reason_code AFTER_CREDENTIAL_CHANGED = 0x20"

lemma reason_code_inject [simp]: "reason_code x = reason_code y \<longleftrightarrow> x = y"
  by (cases x; cases y) simp_all

text \<open>
  The underlying type of \<open>ListenType\<close> is \<open>int32_t\<close>, and the stub casts any received
  integer to it: a listen type is an integer, the enumeration names some of them.
\<close>

datatype listen_type_name = STRONG_AUTH | DEVICE_LOCK | LISTEN_TYPE_BUT

fun listen_type :: "listen_type_name \<Rightarrow> int" where
  "listen_type STRONG_AUTH = 0"
| "listen_type DEVICE_LOCK = 1"
| "listen_type LISTEN_TYPE_BUT = 2"

datatype auth_state =
    UNAUTH
  | PRE_AUTHED_BY_CREDENTIAL
  | PRE_AUTHED_BY_FINGERPRINT
  | PRE_AUTHED_BY_FACE
  | AUTHED_BY_CREDENTIAL
  | AUTHED_BY_FINGERPRINT
  | AUTHED_BY_FACE
  | PRE_AUTHED_RESULT_BY_CREDENTIAL
  | PRE_AUTHED_RESULT_BY_FINGERPRINT
  | PRE_AUTHED_RESULT_BY_FACE

fun auth_code :: "auth_state \<Rightarrow> int" where
  "auth_code UNAUTH = 0"
| "auth_code PRE_AUTHED_BY_CREDENTIAL = 1"
| "auth_code PRE_AUTHED_BY_FINGERPRINT = 2"
| "auth_code PRE_AUTHED_BY_FACE = 3"
| "auth_code AUTHED_BY_CREDENTIAL = 4"
| "auth_code AUTHED_BY_FINGERPRINT = 5"
| "auth_code AUTHED_BY_FACE = 6"
| "auth_code PRE_AUTHED_RESULT_BY_CREDENTIAL = 7"
| "auth_code PRE_AUTHED_RESULT_BY_FINGERPRINT = 8"
| "auth_code PRE_AUTHED_RESULT_BY_FACE = 9"

section \<open>Objects that cross the process boundary\<close>

text \<open>
  A remote object is a number.  An inner listener is a pointer to an interface object (its address)
  together with the remote object its \<open>AsObject()\<close> returns, \<open>None\<close> for null: two
  listeners may be different interface objects over one remote object.  Pointers order the sets and
  maps that hold listeners.
\<close>

datatype listener = Listener (address: nat) (AsObject: "nat option")

definition remote_rank :: "nat option \<Rightarrow> nat" where
  "remote_rank r = (case r of None \<Rightarrow> 0 | Some n \<Rightarrow> Suc n)"

lemma remote_rank_inject [simp]: "remote_rank r = remote_rank q \<longleftrightarrow> r = q"
  by (simp add: remote_rank_def split: option.splits)

instantiation listener :: linorder
begin

definition less_eq_listener :: "listener \<Rightarrow> listener \<Rightarrow> bool" where
  "less_eq_listener l k \<longleftrightarrow>
     address l < address k
     \<or> address l = address k \<and> remote_rank (AsObject l) \<le> remote_rank (AsObject k)"

definition less_listener :: "listener \<Rightarrow> listener \<Rightarrow> bool" where
  "less_listener l k \<longleftrightarrow>
     address l < address k
     \<or> address l = address k \<and> remote_rank (AsObject l) < remote_rank (AsObject k)"

instance
proof
  fix x y z :: listener
  show "(x < y) = (x \<le> y \<and> \<not> y \<le> x)"
    by (auto simp: less_eq_listener_def less_listener_def)
  show "x \<le> x"
    by (simp add: less_eq_listener_def)
  show "x \<le> y \<Longrightarrow> y \<le> z \<Longrightarrow> x \<le> z"
    by (auto simp: less_eq_listener_def)
  show "x \<le> y \<Longrightarrow> y \<le> x \<Longrightarrow> x = y"
    by (cases x; cases y) (auto simp: less_eq_listener_def)
  show "x \<le> y \<or> y \<le> x"
    by (auto simp: less_eq_listener_def)
qed

end

record system_event =
  eventType :: string
  params :: string
  eventUserId :: int

text \<open>The constructor with its default arguments.\<close>

definition SystemEvent :: "string \<Rightarrow> system_event" where
  "SystemEvent name = \<lparr>eventType = name, params = '''', eventUserId = - 1\<rparr>"

record auth_timer =
  timerRepeat :: bool
  timerInterval :: int
  timerType :: int
  timerUserId :: int
  timerHasCallback :: bool

datatype display_event = KEYGUARD_DRAWN | DISPLAY_UNLOCK

section \<open>Effects\<close>

text \<open>The kinds of account event the service subscribes to.\<close>

datatype account_event = ACTIVATED | REMOVED | UNLOCKED

text \<open>The parameter values of a system-event record.\<close>

datatype event_value = IntValue int | StrValue string

datatype effect =
    DeathLink nat
  | DeathUnlink nat
  | InnerStateChanged listener int int
  | SystemEventCallback nat system_event
  | LockCallback nat int
  | UnlockCallback nat int
  | CommonEvent string int
  | DisplayNotify display_event
  | TimerCreate nat auth_timer
  | TimerStart nat int
  | TimerStop nat
  | TimerDestroy nat
  | PrefsFlush
  | AppObserverRegister
  | AppObserverUnregister
  | SettingObserverRegister string
  | SettingObserverUnregister string
  | AccountUnsubscribe account_event
  | ServiceCall string
  | CredentialRequest int
  | WidgetAuth int "int list"
  | SysEventWrite string string "(string \<times> event_value) list"

record base_state =
  trace :: "effect list"

definition emit :: "effect list \<Rightarrow> ('s base_state_scheme) \<Rightarrow> ('s base_state_scheme)" where
  "emit es s = s\<lparr>trace := trace s @ es\<rparr>"

lemma trace_emit [simp]: "trace (emit es s) = trace s @ es"
  by (simp add: emit_def)

lemma more_emit [simp]: "base_state.more (emit es s) = base_state.more s"
  by (simp add: emit_def)

lemma emit_Nil [simp]: "emit [] s = s"
  by (simp add: emit_def)

lemma emit_emit [simp]: "emit es (emit ds s) = emit (ds @ es) s"
  by (simp add: emit_def)

end
