(* ===== verification/Preferences_Util.thy ===== *)
theory Preferences_Util
  imports SL_Common
begin

text \<open>
  \<open>services/src/preferences_util.cpp\<close>: the key/value store the service keeps its per-user
  settings in.  The store itself (\<open>NativePreferences\<close>) is code outside the repository: the
  record \<open>native_prefs\<close> holds its calls as parameters over an abstract content type, and
  \<open>prefs_laws\<close> states the documented behaviour the service relies on.  Each wrapper opens the
  store first and falls back to the default, or to \<open>E_ERROR\<close>, when that fails; a \<open>Save\<close>
  flushes at once, \<open>RemoveKey\<close> does not.
  The locale \<open>settings_store\<close> is the interface the other components use; \<open>user_settings\<close>
  adds an injective naming of users, from which isolation of users follows.
\<close>

section \<open>The native store\<close>

record 'p native_prefs =
  getPreferences :: "'p \<Rightarrow> bool"
  E_ERROR :: int
  putString :: "string \<Rightarrow> string \<Rightarrow> 'p \<Rightarrow> int \<times> 'p"
  getString :: "string \<Rightarrow> string \<Rightarrow> 'p \<Rightarrow> string"
  putInt :: "string \<Rightarrow> int \<Rightarrow> 'p \<Rightarrow> int \<times> 'p"
  getInt :: "string \<Rightarrow> int \<Rightarrow> 'p \<Rightarrow> int"
  putBool :: "string \<Rightarrow> bool \<Rightarrow> 'p \<Rightarrow> int \<times> 'p"
  getBool :: "string \<Rightarrow> bool \<Rightarrow> 'p \<Rightarrow> bool"
  putLong :: "string \<Rightarrow> int \<Rightarrow> 'p \<Rightarrow> int \<times> 'p"
  getLong :: "string \<Rightarrow> int \<Rightarrow> 'p \<Rightarrow> int"
  hasKey :: "string \<Rightarrow> 'p \<Rightarrow> bool"
  deleteKey :: "string \<Rightarrow> 'p \<Rightarrow> int \<times> 'p"
  clearAll :: "'p \<Rightarrow> int \<times> 'p"
  flush :: "'p \<Rightarrow> 'p"
  flushSync :: "'p \<Rightarrow> int \<times> 'p"
  deletePreferences :: "'p \<Rightarrow> int \<times> 'p"

text \<open>
  What the documentation of the store promises: it opens; a value put under a key is what the same
  kind of get returns for that key, other keys are untouched, whatever their kind; after a delete a
  get returns its default; flushing does not change what is read.
\<close>

definition prefs_laws :: "'p native_prefs \<Rightarrow> bool" where
  "prefs_laws np \<longleftrightarrow>
     (\<forall>p. getPreferences np p)
   \<and> (\<forall>k k' v d p. getBool np k d (snd (putBool np k' v p)) = (if k = k' then v else getBool np k d p))
   \<and> (\<forall>k k' v d p. getInt np k d (snd (putInt np k' v p)) = (if k = k' then v else getInt np k d p))
   \<and> (\<forall>k k' v d p. k \<noteq> k' \<longrightarrow> getInt np k d (snd (putBool np k' v p)) = getInt np k d p)
   \<and> (\<forall>k k' v d p. k \<noteq> k' \<longrightarrow> getBool np k d (snd (putInt np k' v p)) = getBool np k d p)
   \<and> (\<forall>k k' d p. getBool np k d (snd (deleteKey np k' p)) = (if k = k' then d else getBool np k d p))
   \<and> (\<forall>k k' d p. getInt np k d (snd (deleteKey np k' p)) = (if k = k' then d else getInt np k d p))
   \<and> (\<forall>k d p. getBool np k d (flush np p) = getBool np k d p)
   \<and> (\<forall>k d p. getInt np k d (flush np p) = getInt np k d p)"

lemma prefs_lawsD:
  assumes "prefs_laws np"
  shows "getPreferences np p"
    and "getBool np k d (snd (putBool np k' v p)) = (if k = k' then v else getBool np k d p)"
    and "getInt np k i (snd (putInt np k' j p)) = (if k = k' then j else getInt np k i p)"
    and "k \<noteq> k' \<Longrightarrow> getInt np k i (snd (putBool np k' v p)) = getInt np k i p"
    and "k \<noteq> k' \<Longrightarrow> getBool np k d (snd (putInt np k' j p)) = getBool np k d p"
    and "getBool np k d (snd (deleteKey np k' p)) = (if k = k' then d else getBool np k d p)"
    and "getInt np k i (snd (deleteKey np k' p)) = (if k = k' then i else getInt np k i p)"
    and "getBool np k d (flush np p) = getBool np k d p"
    and "getInt np k i (flush np p) = getInt np k i p"
  using assms unfolding prefs_laws_def by metis+

record 'p prefs_state = base_state +
  store :: 'p

text \<open>Writing the pending changes out, which the trace records.\<close>

definition flush_store :: "'p native_prefs \<Rightarrow> ('p, 's) prefs_state_scheme \<Rightarrow> ('p, 's) prefs_state_scheme" where
  "flush_store np s = emit [PrefsFlush] (s\<lparr>store := flush np (store s)\<rparr>)"

section \<open>The wrappers\<close>

definition SaveString ::
  "'p native_prefs \<Rightarrow> string \<Rightarrow> string \<Rightarrow> ('p, 's) prefs_state_scheme \<Rightarrow> int \<times> ('p, 's) prefs_state_scheme"
where
  "SaveString np key value s =
     (if \<not> getPreferences np (store s) then (E_ERROR np, s)
      else let (ret, p) = putString np key value (store s)
           in (ret, flush_store np (s\<lparr>store := p\<rparr>)))"

definition ObtainString :: "'p native_prefs \<Rightarrow> string \<Rightarrow> string \<Rightarrow> ('p, 's) prefs_state_scheme \<Rightarrow> string" where
  "ObtainString np key def s =
     (if \<not> getPreferences np (store s) then def else getString np key def (store s))"

definition SaveInt ::
  "'p native_prefs \<Rightarrow> string \<Rightarrow> int \<Rightarrow> ('p, 's) prefs_state_scheme \<Rightarrow> int \<times> ('p, 's) prefs_state_scheme"
where
  "SaveInt np key value s =
     (if \<not> getPreferences np (store s) then (E_ERROR np, s)
      else let (ret, p) = putInt np key value (store s)
           in (ret, flush_store np (s\<lparr>store := p\<rparr>)))"

definition ObtainInt :: "'p native_prefs \<Rightarrow> string \<Rightarrow> int \<Rightarrow> ('p, 's) prefs_state_scheme \<Rightarrow> int" where
  "ObtainInt np key def s =
     (if \<not> getPreferences np (store s) then def else getInt np key def (store s))"

definition SaveBool ::
  "'p native_prefs \<Rightarrow> string \<Rightarrow> bool \<Rightarrow> ('p, 's) prefs_state_scheme \<Rightarrow> int \<times> ('p, 's) prefs_state_scheme"
where
  "SaveBool np key value s =
     (if \<not> getPreferences np (store s) then (E_ERROR np, s)
      else let (ret, p) = putBool np key value (store s)
           in (ret, flush_store np (s\<lparr>store := p\<rparr>)))"

definition ObtainBool :: "'p native_prefs \<Rightarrow> string \<Rightarrow> bool \<Rightarrow> ('p, 's) prefs_state_scheme \<Rightarrow> bool" where
  "ObtainBool np key def s =
     (if \<not> getPreferences np (store s) then def else getBool np key def (store s))"

definition SaveLong ::
  "'p native_prefs \<Rightarrow> string \<Rightarrow> int \<Rightarrow> ('p, 's) prefs_state_scheme \<Rightarrow> int \<times> ('p, 's) prefs_state_scheme"
where
  "SaveLong np key value s =
     (if \<not> getPreferences np (store s) then (E_ERROR np, s)
      else let (ret, p) = putLong np key value (store s)
           in (ret, flush_store np (s\<lparr>store := p\<rparr>)))"

definition ObtainLong :: "'p native_prefs \<Rightarrow> string \<Rightarrow> int \<Rightarrow> ('p, 's) prefs_state_scheme \<Rightarrow> int" where
  "ObtainLong np key def s =
     (if \<not> getPreferences np (store s) then def else getLong np key def (store s))"

definition IsExistKey :: "'p native_prefs \<Rightarrow> string \<Rightarrow> ('p, 's) prefs_state_scheme \<Rightarrow> bool" where
  "IsExistKey np key s = (if \<not> getPreferences np (store s) then False else hasKey np key (store s))"

definition RemoveKey ::
  "'p native_prefs \<Rightarrow> string \<Rightarrow> ('p, 's) prefs_state_scheme \<Rightarrow> int \<times> ('p, 's) prefs_state_scheme"
where
  "RemoveKey np key s =
     (if \<not> getPreferences np (store s) then (E_ERROR np, s)
      else let (ret, p) = deleteKey np key (store s) in (ret, s\<lparr>store := p\<rparr>))"

definition RemoveAll ::
  "'p native_prefs \<Rightarrow> ('p, 's) prefs_state_scheme \<Rightarrow> int \<times> ('p, 's) prefs_state_scheme"
where
  "RemoveAll np s =
     (if \<not> getPreferences np (store s) then (E_ERROR np, s)
      else let (ret, p) = clearAll np (store s) in (ret, s\<lparr>store := p\<rparr>))"

definition Refresh :: "'p native_prefs \<Rightarrow> ('p, 's) prefs_state_scheme \<Rightarrow> ('p, 's) prefs_state_scheme" where
  "Refresh np s = (if getPreferences np (store s) then flush_store np s else s)"

definition RefreshSync ::
  "'p native_prefs \<Rightarrow> ('p, 's) prefs_state_scheme \<Rightarrow> int \<times> ('p, 's) prefs_state_scheme"
where
  "RefreshSync np s =
     (if \<not> getPreferences np (store s) then (E_ERROR np, s)
      else let (ret, p) = flushSync np (store s) in (ret, emit [PrefsFlush] (s\<lparr>store := p\<rparr>)))"

definition DeleteProfiles ::
  "'p native_prefs \<Rightarrow> ('p, 's) prefs_state_scheme \<Rightarrow> int \<times> ('p, 's) prefs_state_scheme"
where
  "DeleteProfiles np s =
     (let (ret, p) = deletePreferences np (store s) in (ret, s\<lparr>store := p\<rparr>))"

lemmas prefs_write_defs = SaveInt_def SaveBool_def RemoveKey_def Refresh_def flush_store_def

section \<open>Read-back\<close>

lemma ObtainBool_SaveBool:
  assumes "prefs_laws np"
  shows "ObtainBool np k d (snd (SaveBool np k' v s)) = (if k = k' then v else ObtainBool np k d s)"
  using prefs_lawsD [OF assms] by (auto simp: ObtainBool_def prefs_write_defs split_def Let_def emit_def)

lemma ObtainInt_SaveInt:
  assumes "prefs_laws np"
  shows "ObtainInt np k d (snd (SaveInt np k' v s)) = (if k = k' then v else ObtainInt np k d s)"
  using prefs_lawsD [OF assms] by (auto simp: ObtainInt_def prefs_write_defs split_def Let_def emit_def)

lemma ObtainBool_RemoveKey:
  assumes "prefs_laws np"
  shows "ObtainBool np k d (snd (RemoveKey np k' s)) = (if k = k' then d else ObtainBool np k d s)"
  using prefs_lawsD [OF assms] by (auto simp: ObtainBool_def prefs_write_defs split_def Let_def)

lemma ObtainInt_RemoveKey:
  assumes "prefs_laws np"
  shows "ObtainInt np k d (snd (RemoveKey np k' s)) = (if k = k' then d else ObtainInt np k d s)"
  using prefs_lawsD [OF assms] by (auto simp: ObtainInt_def prefs_write_defs split_def Let_def)

lemma ObtainInt_SaveBool:
  assumes "prefs_laws np" and "k \<noteq> k'"
  shows "ObtainInt np k d (snd (SaveBool np k' v s)) = ObtainInt np k d s"
  using prefs_lawsD [OF assms(1)] assms(2)
  by (auto simp: ObtainInt_def prefs_write_defs split_def Let_def emit_def)

lemma ObtainBool_SaveInt:
  assumes "prefs_laws np" and "k \<noteq> k'"
  shows "ObtainBool np k d (snd (SaveInt np k' v s)) = ObtainBool np k d s"
  using prefs_lawsD [OF assms(1)] assms(2)
  by (auto simp: ObtainBool_def prefs_write_defs split_def Let_def emit_def)

lemma ObtainBool_Refresh: "prefs_laws np \<Longrightarrow> ObtainBool np k d (Refresh np s) = ObtainBool np k d s"
  by (simp add: ObtainBool_def prefs_write_defs emit_def prefs_lawsD)

lemma ObtainInt_Refresh: "prefs_laws np \<Longrightarrow> ObtainInt np k d (Refresh np s) = ObtainInt np k d s"
  by (simp add: ObtainInt_def prefs_write_defs emit_def prefs_lawsD)

section \<open>The interface other components use\<close>

text \<open>
  \<open>good\<close> is the condition under which the store keeps its promises; \<open>key\<close> names the
  setting of a user.
\<close>

locale settings_store =
  fixes good :: bool
    and obtain_value :: "string \<Rightarrow> 'v \<Rightarrow> 's \<Rightarrow> 'v"
    and save :: "string \<Rightarrow> 'v \<Rightarrow> 's \<Rightarrow> 's"
    and remove :: "string \<Rightarrow> 's \<Rightarrow> 's"
    and refresh :: "'s \<Rightarrow> 's"
  assumes obtain_save: "good \<Longrightarrow> obtain_value k d (save k' v s) = (if k = k' then v else obtain_value k d s)"
    and obtain_remove: "good \<Longrightarrow> obtain_value k d (remove k' s) = (if k = k' then d else obtain_value k d s)"
    and obtain_refresh: "good \<Longrightarrow> obtain_value k d (refresh s) = obtain_value k d s"
begin

lemma saved_and_refreshed: "good \<Longrightarrow> obtain_value k d (refresh (save k v s)) = v"
  by (simp add: obtain_save obtain_refresh)

lemma removed_and_refreshed: "good \<Longrightarrow> obtain_value k d (refresh (remove k s)) = d"
  by (simp add: obtain_remove obtain_refresh)

end

locale user_settings = settings_store good obtain_value save remove refresh
  for good :: bool
    and obtain_value :: "string \<Rightarrow> 'v \<Rightarrow> 's \<Rightarrow> 'v"
    and save :: "string \<Rightarrow> 'v \<Rightarrow> 's \<Rightarrow> 's"
    and remove :: "string \<Rightarrow> 's \<Rightarrow> 's"
    and refresh :: "'s \<Rightarrow> 's" +
  fixes key :: "int \<Rightarrow> string"
  assumes key_inject: "key u = key w \<longleftrightarrow> u = w"
begin

lemma other_user_save:
  "good \<Longrightarrow> u \<noteq> w \<Longrightarrow> obtain_value (key u) d (refresh (save (key w) v s)) = obtain_value (key u) d s"
  by (simp add: obtain_save obtain_refresh key_inject)

lemma other_user_remove:
  "good \<Longrightarrow> u \<noteq> w \<Longrightarrow> obtain_value (key u) d (remove (key w) s) = obtain_value (key u) d s"
  by (simp add: obtain_remove key_inject)

end

text \<open>
  The two settings the service keeps: the disabled flag under the user's number, and the unlock
  policy under a prefixed key (\<open>UNLOCK_POLICY_KEY_PREFIX\<close>).
\<close>

definition disabled_key :: "int \<Rightarrow> string" where
  "disabled_key userId = to_string userId"

definition UNLOCK_POLICY_KEY_PREFIX :: string where
  "UNLOCK_POLICY_KEY_PREFIX = ''unlockPolicy_''"

definition preferKey :: "int \<Rightarrow> string" where
  "preferKey userId = UNLOCK_POLICY_KEY_PREFIX @ to_string userId"

lemma disabled_key_inject [simp]: "disabled_key u = disabled_key w \<longleftrightarrow> u = w"
  by (simp add: disabled_key_def)

lemma preferKey_inject [simp]: "preferKey u = preferKey w \<longleftrightarrow> u = w"
  by (simp add: preferKey_def)

lemma disabled_key_preferKey [simp]: "disabled_key u \<noteq> preferKey w"
  using to_string_not_letter [of "CHR ''u''" u]
  by (auto simp: disabled_key_def preferKey_def UNLOCK_POLICY_KEY_PREFIX_def)

interpretation disabled_flags: user_settings
  "prefs_laws np" "ObtainBool np" "\<lambda>k v s. snd (SaveBool np k v s)" "\<lambda>k s. snd (RemoveKey np k s)"
  "Refresh np" disabled_key
  for np :: "'p native_prefs"
  by unfold_locales
    (simp_all add: ObtainBool_SaveBool ObtainBool_RemoveKey ObtainBool_Refresh)

interpretation unlock_policies: user_settings
  "prefs_laws np" "ObtainInt np" "\<lambda>k v s. snd (SaveInt np k v s)" "\<lambda>k s. snd (RemoveKey np k s)"
  "Refresh np" preferKey
  for np :: "'p native_prefs"
  by unfold_locales
    (simp_all add: ObtainInt_SaveInt ObtainInt_RemoveKey ObtainInt_Refresh)

end
