(* ===== verification/SL_Environment.thy ===== *)
theory SL_Environment
  imports Preferences_Util
begin

text \<open>
  The environment of one operation: the build options, the identity of the caller, and the answers
  of the services outside the repository.  Every field is a parameter of the model; the C++ call it
  stands for is named beside it.  The small helpers every component uses to read it
  (\<open>common_helper.h\<close> and the permission checks of \<open>screenlock_system_ability.cpp\<close>) follow.
\<close>

text \<open>\<open>ATokenTypeEnum\<close> as far as the code distinguishes its values.\<close>

datatype token_type = TOKEN_HAP | TOKEN_NATIVE | TOKEN_OTHER

text \<open>The result codes of the user-authentication clients the code compares with.\<close>

datatype auth_result = AUTH_SUCCESS | AUTH_NOT_ENROLLED | AUTH_FAILURE

datatype bundle_reply =
    NoSystemAbilityManager
  | NoRemoteObject
  | NoBundleManager
  | NameForUid string

text \<open>
  One query of the settings database: the helper cannot be created, the query fails, one of the
  cursor calls fails or throws, or a value is read.
\<close>

datatype query_reply =
    NoSettingHelper
  | NoResultSet
  | NoFirstRow
  | NoColumn
  | NoString
  | StringThrows
  | StringValue string

record 'p env =
  \<comment> \<open>build options\<close>
  SUPPORT_WEAR_PAYMENT_APP :: bool
  IS_SO_CROP_H :: bool
  CONFIG_FACTORY_MODE :: bool
  \<comment> \<open>IPCSkeleton, TokenIdKit, AccessTokenKit\<close>
  callingUid :: int
  callingPid :: int
  callingTokenId :: int
  callingFullTokenId :: int
  systemAppToken :: "int \<Rightarrow> bool"
  tokenTypeFlag :: "int \<Rightarrow> token_type"
  permissionGranted :: "int \<Rightarrow> string \<Rightarrow> bool"
  \<comment> \<open>OsAccountManager: the out parameter, \<open>None\<close> where the call leaves it unchanged\<close>
  localIdFromUid :: "int \<Rightarrow> int option"
  foregroundLocalId :: "int option"
  activeOsAccountIds :: "int list option"
  osAccountVerified :: "int \<Rightarrow> bool option"
  subscribeAccountOk :: bool
  \<comment> \<open>UserIdmClient\<close>
  credentialInfoSync :: "int \<Rightarrow> auth_result \<times> nat"
  getCredentialInfo :: "int \<Rightarrow> auth_result"
  \<comment> \<open>window manager, ability manager: the processes in focus (\<open>None\<close> is a null entry)\<close>
  focusPids :: "int option list"
  uiExtensionFocused :: "int \<Rightarrow> bool \<times> bool"
  \<comment> \<open>display manager: does the n-th registration succeed\<close>
  registerDisplayListener :: "nat \<Rightarrow> bool"
  publishService :: "nat \<Rightarrow> bool"
  \<comment> \<open>time service: the n-th reading of the boot clock, the n-th timer created (0 on failure)\<close>
  bootTimeMs :: "nat \<Rightarrow> int"
  createTimer :: "nat \<Rightarrow> nat"
  TIMER_TYPE_REALTIME :: int
  TIMER_TYPE_WAKEUP :: int
  TIMER_TYPE_IDLE :: int
  \<comment> \<open>system parameters\<close>
  deviceType :: string
  systemParameter :: "string \<Rightarrow> string option"
  \<comment> \<open>remote objects: is a death recipient allocated, does the object accept it\<close>
  newDeathRecipient :: bool
  remoteAddDeathRecipient :: "nat \<Rightarrow> bool"
  \<comment> \<open>preferences; is the singleton available\<close>
  preferencesUtil :: bool
  prefs :: "'p native_prefs"
  \<comment> \<open>common events\<close>
  subscribeCommonEvent :: bool
  \<comment> \<open>watch build: settings, bundles, payment services, widget authentication, observers\<close>
  dataShareQuery :: "string \<Rightarrow> string \<Rightarrow> query_reply"
  bundleNameForUid :: "int \<Rightarrow> bundle_reply"
  paymentServices :: "int \<times> string list"
  widgetAuthResult :: int
  makeAppObserver :: bool
  appMgrClient :: bool
  registerAppObserverOk :: bool
  unregisterAppObserverOk :: bool
  makeSettingObserver :: bool
  settingHelper :: bool
  settingObserverOk :: bool
  randomWord :: "nat \<Rightarrow> nat"
  sensorAttempt :: "nat \<Rightarrow> int \<times> int \<times> int"
  wearDisplayAttempt :: "nat \<Rightarrow> bool"
  sysEventNameSize :: nat

section \<open>Who is calling\<close>

text \<open>\<open>GetUserIdFromCallingUid\<close> of \<open>common_helper.h\<close>.\<close>

definition GetUserIdFromCallingUid :: "'p env \<Rightarrow> int" where
  "GetUserIdFromCallingUid e =
     (let userId = (case localIdFromUid e (callingUid e) of None \<Rightarrow> 0 | Some u \<Rightarrow> u)
      in if userId = 0 then (case foregroundLocalId e of None \<Rightarrow> userId | Some u \<Rightarrow> u)
         else userId)"

definition GetCurrentActiveOsAccountId :: "'p env \<Rightarrow> int" where
  "GetCurrentActiveOsAccountId e =
     (case activeOsAccountIds e of
        None \<Rightarrow> screen_change_code SCREEN_FAIL
      | Some [] \<Rightarrow> screen_change_code SCREEN_FAIL
      | Some (osAccountId # _) \<Rightarrow> osAccountId)"

definition IsOsAccountUnlocked :: "'p env \<Rightarrow> int \<Rightarrow> bool" where
  "IsOsAccountUnlocked e osAccountId =
     (case osAccountVerified e osAccountId of None \<Rightarrow> False | Some isUnlocked \<Rightarrow> isUnlocked)"

definition IsSystemApp :: "'p env \<Rightarrow> bool" where
  "IsSystemApp e = systemAppToken e (callingFullTokenId e)"

definition CheckPermission :: "'p env \<Rightarrow> string \<Rightarrow> bool" where
  "CheckPermission e permissionName = permissionGranted e (callingTokenId e) permissionName"

text \<open>True when the caller is neither a system application nor a native process.\<close>

definition CheckSystemPermission :: "'p env \<Rightarrow> bool" where
  "CheckSystemPermission e \<longleftrightarrow> \<not> IsSystemApp e \<and> tokenTypeFlag e (callingTokenId e) \<noteq> TOKEN_NATIVE"

definition IsNativeAccess :: "'p env \<Rightarrow> bool" where
  "IsNativeAccess e \<longleftrightarrow> tokenTypeFlag e (callingTokenId e) = TOKEN_NATIVE"

text \<open>The loop over the focused windows returns at the first entry of the calling process.\<close>

fun focused_pid :: "int \<Rightarrow> int option list \<Rightarrow> bool" where
  "focused_pid pid [] = False"
| "focused_pid pid (None # infos) = focused_pid pid infos"
| "focused_pid pid (Some p # infos) = (if pid = p then True else focused_pid pid infos)"

definition IsAppInForeground :: "'p env \<Rightarrow> int \<Rightarrow> int \<Rightarrow> bool" where
  "IsAppInForeground e pid tokenId =
     (if CONFIG_FACTORY_MODE e then True
      else if focused_pid pid (focusPids e) then True
      else let (ok, isFocused) = uiExtensionFocused e tokenId in ok \<and> isFocused)"

lemma focused_pid_iff: "focused_pid pid infos \<longleftrightarrow> Some pid \<in> set infos"
  by (induction pid infos rule: focused_pid.induct) auto

section \<open>Permission names\<close>

definition ACCESS_SCREEN_LOCK :: string where
  "ACCESS_SCREEN_LOCK = ''ohos.permission.ACCESS_SCREEN_LOCK''"

definition ACCESS_SCREEN_LOCK_INNER :: string where
  "ACCESS_SCREEN_LOCK_INNER = ''ohos.permission.ACCESS_SCREEN_LOCK_INNER''"

section \<open>A concrete environment for evaluation\<close>

text \<open>
  A store kept as a list of entries, the latest first, and an environment in which every call
  succeeds: theorems with hypotheses on the environment are applied to it, or to a variant of it, to
  show that the hypotheses can hold.
\<close>

datatype sample_value = SBool bool | SInt int | SString string | SLong int

type_synonym sample_store = "(string \<times> sample_value) list"

definition sample_prefs :: "sample_store native_prefs" where
  "sample_prefs = \<lparr>
     getPreferences = (\<lambda>_. True), E_ERROR = - 1,
     putString = (\<lambda>k v p. (0, (k, SString v) # p)),
     getString = (\<lambda>k d p. case map_of p k of Some (SString v) \<Rightarrow> v | _ \<Rightarrow> d),
     putInt = (\<lambda>k v p. (0, (k, SInt v) # p)),
     getInt = (\<lambda>k d p. case map_of p k of Some (SInt v) \<Rightarrow> v | _ \<Rightarrow> d),
     putBool = (\<lambda>k v p. (0, (k, SBool v) # p)),
     getBool = (\<lambda>k d p. case map_of p k of Some (SBool v) \<Rightarrow> v | _ \<Rightarrow> d),
     putLong = (\<lambda>k v p. (0, (k, SLong v) # p)),
     getLong = (\<lambda>k d p. case map_of p k of Some (SLong v) \<Rightarrow> v | _ \<Rightarrow> d),
     hasKey = (\<lambda>k p. map_of p k \<noteq> None),
     deleteKey = (\<lambda>k p. (0, filter (\<lambda>q. fst q \<noteq> k) p)),
     clearAll = (\<lambda>p. (0, [])),
     flush = (\<lambda>p. p), flushSync = (\<lambda>p. (0, p)), deletePreferences = (\<lambda>p. (0, []))\<rparr>"

lemma map_of_filter_ne: "map_of (filter (\<lambda>q. fst q \<noteq> k') p) k = (if k = k' then None else map_of p k)"
  by (induction p) auto

lemma prefs_laws_sample: "prefs_laws sample_prefs"
  by (simp add: prefs_laws_def sample_prefs_def map_of_filter_ne)

definition sample_env :: "sample_store env" where
  "sample_env = \<lparr>
     SUPPORT_WEAR_PAYMENT_APP = False, IS_SO_CROP_H = False, CONFIG_FACTORY_MODE = False,
     callingUid = 20000000, callingPid = 42, callingTokenId = 7, callingFullTokenId = 7,
     systemAppToken = (\<lambda>_. True), tokenTypeFlag = (\<lambda>_. TOKEN_NATIVE),
     permissionGranted = (\<lambda>_ _. True),
     localIdFromUid = (\<lambda>_. Some 100), foregroundLocalId = Some 100,
     activeOsAccountIds = Some [100], osAccountVerified = (\<lambda>_. Some True),
     subscribeAccountOk = True,
     credentialInfoSync = (\<lambda>_. (AUTH_SUCCESS, 0)), getCredentialInfo = (\<lambda>_. AUTH_SUCCESS),
     focusPids = [Some 42], uiExtensionFocused = (\<lambda>_. (True, False)),
     registerDisplayListener = (\<lambda>_. True), publishService = (\<lambda>_. True),
     bootTimeMs = (\<lambda>n. 1000 * int n), createTimer = Suc,
     TIMER_TYPE_REALTIME = 1, TIMER_TYPE_WAKEUP = 2, TIMER_TYPE_IDLE = 8,
     deviceType = ''phone'', systemParameter = (\<lambda>_. None),
     newDeathRecipient = True, remoteAddDeathRecipient = (\<lambda>_. True),
     preferencesUtil = True, prefs = sample_prefs, subscribeCommonEvent = True,
     dataShareQuery = (\<lambda>_ _. NoSettingHelper), bundleNameForUid = (\<lambda>_. NameForUid ''app''),
     paymentServices = (0, []), widgetAuthResult = 0, makeAppObserver = True, appMgrClient = True,
     registerAppObserverOk = True, unregisterAppObserverOk = True, makeSettingObserver = True,
     settingHelper = True, settingObserverOk = True, randomWord = (\<lambda>n. n),
     sensorAttempt = (\<lambda>_. (0, 0, 0)), wearDisplayAttempt = (\<lambda>_. True), sysEventNameSize = 49\<rparr>"

end
