(* ===== verification/Inner_Listener_Manager.thy ===== *)
theory Inner_Listener_Manager
  imports SL_Environment
begin

text \<open>
  \<open>services/src/innerlistenermanager.cpp\<close>: the listeners of strong-authentication and
  device-lock changes, kept per listen type and per user, and the death recipients that clean up
  when a client process dies.  One section per group of operations; the invariant
  \<open>inner_inv\<close> says that the containers are ordered, that no set holds two listeners of one remote
  object and that every listener has a remote object.
\<close>

record 'p inner_state = "'p prefs_state" +
  deathRecipientMap :: "(listener, int \<times> bool) stdmap"
  innerListenMap :: "(int, (int, listener list) stdmap) stdmap"

text \<open>
  The value of \<open>deathRecipientMap_\<close> is the listen type and the recipient pointer, of which only
  whether it is null matters.  A set of listeners is a list in pointer order.
\<close>

section \<open>Death recipients\<close>

definition FinderMap :: "nat option \<Rightarrow> listener \<times> int \<times> bool \<Rightarrow> bool" where
  "FinderMap remoteObject p \<longleftrightarrow> AsObject (fst p) = remoteObject"

definition FinderSet :: "nat option \<Rightarrow> listener \<Rightarrow> bool" where
  "FinderSet remoteObject l \<longleftrightarrow> AsObject l = remoteObject"

definition AddDeathRecipient ::
  "'p env \<Rightarrow> int \<Rightarrow> listener option \<Rightarrow> ('p, 's) inner_state_scheme \<Rightarrow> status \<times> ('p, 's) inner_state_scheme"
where
  "AddDeathRecipient e listenType listener s =
     (case listener of
        None \<Rightarrow> (Code E_SCREENLOCK_NULLPTR, s)
      | Some l \<Rightarrow>
          (case AsObject l of
             None \<Rightarrow> (Code E_SCREENLOCK_NULLPTR, s)
           | Some obj \<Rightarrow>
               (case List.find (FinderMap (Some obj)) (deathRecipientMap s) of
                  Some _ \<Rightarrow> (OK, s)
                | None \<Rightarrow>
                    if \<not> newDeathRecipient e \<or> \<not> remoteAddDeathRecipient e obj
                    then (Code E_SCREENLOCK_NULLPTR, s)
                    else (OK, emit [DeathLink obj]
                            (s\<lparr>deathRecipientMap := minsert l (listenType, True) (deathRecipientMap s)\<rparr>)))))"

definition RemoveDeathRecipient ::
  "listener option \<Rightarrow> ('p, 's) inner_state_scheme \<Rightarrow> status \<times> ('p, 's) inner_state_scheme"
where
  "RemoveDeathRecipient listener s =
     (case listener of
        None \<Rightarrow> (Code E_SCREENLOCK_NULLPTR, s)
      | Some l \<Rightarrow>
          (case AsObject l of
             None \<Rightarrow> (Code E_SCREENLOCK_NULLPTR, s)
           | Some obj \<Rightarrow>
               (case List.find (FinderMap (Some obj)) (deathRecipientMap s) of
                  None \<Rightarrow> (OK, s)
                | Some (l', listenType, deathRecipient) \<Rightarrow>
                    if \<not> deathRecipient then (Code E_SCREENLOCK_NULLPTR, s)
                    else (OK, emit [DeathUnlink obj]
                            (s\<lparr>deathRecipientMap := merase l' (deathRecipientMap s)\<rparr>)))))"

section \<open>The sets of listeners\<close>

text \<open>\<open>getListenerSet\<close>: the empty set where there is no entry.\<close>

definition getListenerSet :: "int \<Rightarrow> int \<Rightarrow> ('p, 's) inner_state_scheme \<Rightarrow> listener list" where
  "getListenerSet userId listenType s =
     (case mfind (innerListenMap s) listenType of
        None \<Rightarrow> []
      | Some m \<Rightarrow> (case mfind m userId of None \<Rightarrow> [] | Some ls \<Rightarrow> ls))"

definition HasListenerSet :: "int \<Rightarrow> int \<Rightarrow> ('p, 's) inner_state_scheme \<Rightarrow> bool" where
  "HasListenerSet userId listenType s =
     (case mfind (innerListenMap s) listenType of
        None \<Rightarrow> False
      | Some m \<Rightarrow> (case mfind m userId of None \<Rightarrow> False | Some _ \<Rightarrow> True))"

text \<open>
  \<open>AddInnerListener\<close> creates the entries of the type and of the user that are missing, then
  inserts the listener unless the set already holds one of the same remote object.
\<close>

definition AddInnerListener ::
  "int \<Rightarrow> int \<Rightarrow> listener \<Rightarrow> ('p, 's) inner_state_scheme \<Rightarrow> status \<times> ('p, 's) inner_state_scheme"
where
  "AddInnerListener userId listenType l s =
     (let m0 = minsert listenType [] (innerListenMap s);
          typed = (case mfind m0 listenType of None \<Rightarrow> [] | Some t \<Rightarrow> t);
          users = minsert userId [] typed;
          ls = (case mfind users userId of None \<Rightarrow> [] | Some xs \<Rightarrow> xs)
      in case List.find (FinderSet (AsObject l)) ls of
           Some _ \<Rightarrow> (OK, s\<lparr>innerListenMap := mput listenType users m0\<rparr>)
         | None \<Rightarrow> (OK, s\<lparr>innerListenMap := mput listenType (mput userId (insort_insert l ls) users) m0\<rparr>))"

text \<open>
  \<open>RemoveInnerListener\<close> walks the users of the type in order and erases the listener from the
  first set that holds its remote object, then returns.
\<close>

fun remove_first :: "nat option \<Rightarrow> (int, listener list) stdmap \<Rightarrow> (int, listener list) stdmap" where
  "remove_first obj [] = []"
| "remove_first obj ((userId, ls) # rest) =
     (case List.find (FinderSet obj) ls of
        Some l \<Rightarrow> (userId, remove1 l ls) # rest
      | None \<Rightarrow> (userId, ls) # remove_first obj rest)"

definition RemoveInnerListener ::
  "int \<Rightarrow> listener \<Rightarrow> ('p, 's) inner_state_scheme \<Rightarrow> status \<times> ('p, 's) inner_state_scheme"
where
  "RemoveInnerListener listenType l s =
     (case mfind (innerListenMap s) listenType of
        None \<Rightarrow> (OK, s)
      | Some m \<Rightarrow>
          (OK, s\<lparr>innerListenMap := mput listenType (remove_first (AsObject l) m) (innerListenMap s)\<rparr>))"

section \<open>Registration\<close>

definition RegisterInnerListener ::
  "'p env \<Rightarrow> int \<Rightarrow> int \<Rightarrow> listener option \<Rightarrow> ('p, 's) inner_state_scheme
     \<Rightarrow> status \<times> ('p, 's) inner_state_scheme"
where
  "RegisterInnerListener e userId listenType listener s =
     (case listener of
        None \<Rightarrow> (Code E_SCREENLOCK_NULLPTR, s)
      | Some l \<Rightarrow>
          let (result, s1) = AddDeathRecipient e listenType (Some l) s
          in if result \<noteq> OK then (result, s1)
             else let userId' = (if userId = special_user_code USER_CURRENT
                                 then GetUserIdFromCallingUid e else userId);
                      (result2, s2) = AddInnerListener userId' listenType l s1
                  in if result2 \<noteq> OK then (result2, s2) else (OK, s2))"

definition UnRegisterInnerListener ::
  "int \<Rightarrow> listener option \<Rightarrow> ('p, 's) inner_state_scheme \<Rightarrow> status \<times> ('p, 's) inner_state_scheme"
where
  "UnRegisterInnerListener listenType listener s =
     (case listener of
        None \<Rightarrow> (Code E_SCREENLOCK_NULLPTR, s)
      | Some l \<Rightarrow>
          let (result, s1) = RemoveDeathRecipient (Some l) s
          in if result \<noteq> OK then (result, s1)
             else let (result2, s2) = RemoveInnerListener listenType l s1
                  in if result2 \<noteq> OK then (result2, s2) else (OK, s2))"

text \<open>
  \<open>OnRemoteDied\<close> iterates over a copy of the death-recipient map taken at the start.
\<close>

fun unregister_dead ::
  "nat \<Rightarrow> (listener, int \<times> bool) stdmap \<Rightarrow> ('p, 's) inner_state_scheme \<Rightarrow> ('p, 's) inner_state_scheme"
where
  "unregister_dead remote [] s = s"
| "unregister_dead remote ((l, listenType, dr) # rest) s =
     (if AsObject l = Some remote
      then unregister_dead remote rest (snd (UnRegisterInnerListener listenType (Some l) s))
      else unregister_dead remote rest s)"

definition OnRemoteDied :: "nat option \<Rightarrow> ('p, 's) inner_state_scheme \<Rightarrow> ('p, 's) inner_state_scheme" where
  "OnRemoteDied remote s =
     (case remote of None \<Rightarrow> s | Some r \<Rightarrow> unregister_dead r (deathRecipientMap s) s)"

section \<open>Notification\<close>

text \<open>
  A change of a user's state goes to the listeners of that user, then to the listeners of all
  users.
\<close>

definition OnStateChanged ::
  "int \<Rightarrow> int \<Rightarrow> int \<Rightarrow> ('p, 's) inner_state_scheme \<Rightarrow> ('p, 's) inner_state_scheme"
where
  "OnStateChanged userId state listenType s =
     (let listenerSetTemp = getListenerSet userId listenType s;
          s1 = emit (map (\<lambda>l. InnerStateChanged l userId state) listenerSetTemp) s;
          listenerSetAll = getListenerSet (special_user_code USER_ALL) listenType s1
      in emit (map (\<lambda>l. InnerStateChanged l userId state) listenerSetAll) s1)"

definition OnStrongAuthChanged ::
  "int \<Rightarrow> int \<Rightarrow> ('p, 's) inner_state_scheme \<Rightarrow> ('p, 's) inner_state_scheme"
where
  "OnStrongAuthChanged userId strongAuth s = OnStateChanged userId strongAuth (listen_type STRONG_AUTH) s"

definition OnDeviceLockStateChanged ::
  "int \<Rightarrow> int \<Rightarrow> ('p, 's) inner_state_scheme \<Rightarrow> ('p, 's) inner_state_scheme"
where
  "OnDeviceLockStateChanged userId lockState s =
     OnStateChanged userId lockState (listen_type DEVICE_LOCK) s"

section \<open>The invariant\<close>

text \<open>A set of listeners is in pointer order and holds at most one listener of a remote object.\<close>

definition listeners_ok :: "listener list \<Rightarrow> bool" where
  "listeners_ok ls \<longleftrightarrow> sorted ls \<and> distinct (map AsObject ls) \<and> None \<notin> AsObject ` set ls"

definition users_ok :: "(int, listener list) stdmap \<Rightarrow> bool" where
  "users_ok m \<longleftrightarrow> mwf m \<and> (\<forall>p \<in> set m. listeners_ok (snd p))"

definition recipients_ok :: "(listener, int \<times> bool) stdmap \<Rightarrow> bool" where
  "recipients_ok d \<longleftrightarrow> mwf d \<and> distinct (map (AsObject \<circ> fst) d) \<and> (\<forall>p \<in> set d. AsObject (fst p) \<noteq> None \<and> snd (snd p))"

definition inner_inv :: "('p, 's) inner_state_scheme \<Rightarrow> bool" where
  "inner_inv s \<longleftrightarrow>
     mwf (innerListenMap s) \<and> (\<forall>p \<in> set (innerListenMap s). users_ok (snd p))
     \<and> recipients_ok (deathRecipientMap s)"

subsection \<open>Sets of listeners\<close>

lemma find_FinderSet_None: "List.find (FinderSet obj) ls = None \<longleftrightarrow> obj \<notin> AsObject ` set ls"
  by (auto simp: find_None_iff FinderSet_def)

lemma find_FinderSet_Some: "List.find (FinderSet obj) ls = Some l \<Longrightarrow> l \<in> set ls \<and> AsObject l = obj"
  by (auto simp: FinderSet_def dest: find_Some_iff_set)

lemma listeners_ok_Nil [simp]: "listeners_ok []"
  by (simp add: listeners_ok_def)

lemma distinct_AsObject_iff: "distinct (map AsObject ls) \<longleftrightarrow> distinct ls \<and> inj_on AsObject (set ls)"
  by (simp add: distinct_map)

lemma listeners_ok_insert:
  assumes ok: "listeners_ok ls" and new: "AsObject l \<notin> AsObject ` set ls" and nn: "AsObject l \<noteq> None"
  shows "listeners_ok (insort_insert l ls)"
proof -
  have notin: "l \<notin> set ls" using new by auto
  have "distinct (insort_insert l ls)"
    using ok by (simp add: distinct_insort_insert listeners_ok_def distinct_AsObject_iff)
  moreover have "inj_on AsObject (set (insort_insert l ls))"
    using ok new by (simp add: set_insort_insert listeners_ok_def distinct_AsObject_iff notin)
  ultimately show ?thesis
    using ok nn by (auto simp: listeners_ok_def distinct_AsObject_iff sorted_insort_insert set_insort_insert)
qed

lemma listeners_ok_remove1: "listeners_ok ls \<Longrightarrow> listeners_ok (remove1 l ls)"
  by (auto simp: listeners_ok_def distinct_AsObject_iff sorted_remove1 intro: inj_on_subset
      dest: notin_set_remove1 subsetD [OF set_remove1_subset])

lemma remotes_remove1:
  assumes "listeners_ok ls" and "l \<in> set ls"
  shows "AsObject ` set (remove1 l ls) = AsObject ` set ls - {AsObject l}"
  using assms by (auto simp: listeners_ok_def distinct_AsObject_iff inj_on_def)

subsection \<open>Every operation keeps it\<close>

lemma inner_inv_emit [simp]: "inner_inv (emit es s) \<longleftrightarrow> inner_inv s"
  by (simp add: inner_inv_def emit_def)

lemma users_ok_Nil [simp]: "users_ok []"
  by (simp add: users_ok_def)

lemma users_ok_mput: "users_ok m \<Longrightarrow> listeners_ok ls \<Longrightarrow> users_ok (mput u ls m)"
  using set_mput [of u ls m] by (auto simp: users_ok_def)

lemma users_ok_minsert: "users_ok m \<Longrightarrow> users_ok (minsert u [] m)"
  by (auto simp: minsert_def users_ok_mput split: option.split)

lemma users_ok_find: "users_ok m \<Longrightarrow> mfind m u = Some ls \<Longrightarrow> listeners_ok ls"
  by (auto simp: users_ok_def dest!: mfind_in_set)

lemma inner_inv_find: "inner_inv s \<Longrightarrow> mfind (innerListenMap s) t = Some m \<Longrightarrow> users_ok m"
  by (auto simp: inner_inv_def dest!: mfind_in_set)

lemma inner_inv_put:
  assumes "inner_inv s" and "users_ok m"
  shows "inner_inv (s\<lparr>innerListenMap := mput t m (innerListenMap s)\<rparr>)"
  using assms set_mput [of t m "innerListenMap s"] by (auto simp: inner_inv_def)

lemma mput_minsert_same: "mput k v (minsert k w m) = mput k v m"
proof (cases "mfind m k")
  case None
  have "mput k v (mput k w m) = mput k v m" by (induction m) auto
  with None show ?thesis by (simp add: minsert_def)
qed (simp add: minsert_def)

lemma getListenerSet_ok: "inner_inv s \<Longrightarrow> listeners_ok (getListenerSet u t s)"
  by (auto simp: getListenerSet_def split: option.split dest: inner_inv_find users_ok_find)

lemma AddInnerListener_inv:
  assumes inv: "inner_inv s" and nn: "AsObject l \<noteq> None"
  shows "inner_inv (snd (AddInnerListener u t l s))"
proof -
  let ?typed = "case mfind (minsert t [] (innerListenMap s)) t of None \<Rightarrow> [] | Some m \<Rightarrow> m"
  let ?users = "minsert u [] ?typed"
  let ?ls = "case mfind ?users u of None \<Rightarrow> [] | Some xs \<Rightarrow> xs"
  have users: "users_ok ?users"
    using inner_inv_find [OF inv] by (intro users_ok_minsert) (auto simp: mfind_minsert split: option.split)
  then have ls: "listeners_ok ?ls"
    by (auto split: option.split dest: users_ok_find)
  have "users_ok (mput u (insort_insert l ?ls) ?users)" if "AsObject l \<notin> AsObject ` set ?ls"
    using users listeners_ok_insert [OF ls that nn] by (rule users_ok_mput)
  with users show ?thesis
    unfolding AddInnerListener_def Let_def
    by (auto simp: mput_minsert_same find_FinderSet_None inner_inv_put [OF inv] split: option.split)
qed

lemma remove_first_keys: "fst ` set (remove_first obj m) = fst ` set m"
  by (induction m rule: remove_first.induct) (auto split: option.split)

lemma users_ok_Cons:
  "users_ok (p # m) \<longleftrightarrow> (\<forall>k \<in> fst ` set m. fst p < k) \<and> listeners_ok (snd p) \<and> users_ok m"
  by (auto simp: users_ok_def mwf_Cons)

lemma users_ok_remove_first: "users_ok m \<Longrightarrow> users_ok (remove_first obj m)"
proof (induction m rule: remove_first.induct)
  case (1 obj)
  then show ?case by simp
next
  case (2 obj u ls rest)
  then show ?case
    by (auto simp: users_ok_Cons remove_first_keys listeners_ok_remove1 split: option.split)
qed

lemma RemoveInnerListener_inv: "inner_inv s \<Longrightarrow> inner_inv (snd (RemoveInnerListener t l s))"
  by (auto simp: RemoveInnerListener_def
      intro: inner_inv_put users_ok_remove_first inner_inv_find split: option.split)

lemma find_FinderMap_None: "List.find (FinderMap obj) d = None \<longleftrightarrow> obj \<notin> (AsObject \<circ> fst) ` set d"
  by (force simp: find_None_iff FinderMap_def)

lemma find_FinderMap_Some: "List.find (FinderMap obj) d = Some p \<Longrightarrow> p \<in> set d \<and> AsObject (fst p) = obj"
  by (auto simp: FinderMap_def dest: find_Some_iff_set)

lemma distinct_map_mput:
  assumes "mwf d" and "f k \<notin> (f \<circ> fst) ` set d" and "distinct (map (f \<circ> fst) d)"
  shows "distinct (map (f \<circ> fst) (mput k v d))"
  using assms
proof (induction d)
  case Nil
  then show ?case by simp
next
  case (Cons p d)
  have "(f \<circ> fst) ` set (mput k v d) \<subseteq> insert (f k) ((f \<circ> fst) ` set d)"
    using set_mput [of k v d] by auto
  with Cons show ?case by (auto simp: mwf_Cons)
qed

lemma recipients_ok_minsert:
  assumes ok: "recipients_ok d" and new: "AsObject l \<notin> (AsObject \<circ> fst) ` set d" and nn: "AsObject l \<noteq> None"
  shows "recipients_ok (minsert l (t, True) d)"
proof -
  have "mfind d l = None" using new by (auto simp: mfind_None_iff)
  then have eq: "minsert l (t, True) d = mput l (t, True) d" by (simp add: minsert_def)
  show ?thesis
    using ok nn distinct_map_mput [of d AsObject l, OF _ new] set_mput [of l "(t, True)" d]
    unfolding eq recipients_ok_def by (auto simp: comp_def)
qed

lemma recipients_ok_merase: "recipients_ok d \<Longrightarrow> recipients_ok (merase l d)"
  by (auto simp: recipients_ok_def merase_def distinct_map_filter)

lemma AddDeathRecipient_inv: "inner_inv s \<Longrightarrow> inner_inv (snd (AddDeathRecipient e t lo s))"
  by (auto simp: AddDeathRecipient_def inner_inv_def find_FinderMap_None recipients_ok_minsert emit_def
      split: option.split)

lemma RemoveDeathRecipient_inv: "inner_inv s \<Longrightarrow> inner_inv (snd (RemoveDeathRecipient lo s))"
  by (auto simp: RemoveDeathRecipient_def inner_inv_def recipients_ok_merase emit_def
      split: option.split prod.split)

lemma AddDeathRecipient_OK: "AddDeathRecipient e t (Some l) s = (OK, s') \<Longrightarrow> AsObject l \<noteq> None"
  by (auto simp: AddDeathRecipient_def split: option.splits)

lemma AddInnerListener_status [simp]: "fst (AddInnerListener u t l s) = OK"
  by (simp add: AddInnerListener_def Let_def split: option.split)

lemma RemoveInnerListener_status [simp]: "fst (RemoveInnerListener t l s) = OK"
  by (simp add: RemoveInnerListener_def split: option.split)

lemma RegisterInnerListener_inv:
  assumes "inner_inv s"
  shows "inner_inv (snd (RegisterInnerListener e u t lo s))"
proof (cases lo)
  case None
  with assms show ?thesis by (simp add: RegisterInnerListener_def)
next
  case (Some l)
  obtain r s1 where a: "AddDeathRecipient e t (Some l) s = (r, s1)" by (cases "AddDeathRecipient e t (Some l) s")
  have inv1: "inner_inv s1" using AddDeathRecipient_inv [OF assms, of e t "Some l"] by (simp add: a)
  show ?thesis
  proof (cases "r = OK")
    case True
    with a have "AsObject l \<noteq> None" by (auto dest: AddDeathRecipient_OK)
    with inv1 have "inner_inv (snd (AddInnerListener w t l s1))" for w by (rule AddInnerListener_inv)
    with True show ?thesis by (auto simp: RegisterInnerListener_def Some a Let_def split_def)
  next
    case False
    with inv1 show ?thesis by (simp add: RegisterInnerListener_def Some a)
  qed
qed

lemma UnRegisterInnerListener_inv: "inner_inv s \<Longrightarrow> inner_inv (snd (UnRegisterInnerListener t lo s))"
  using RemoveDeathRecipient_inv [of s lo]
  by (auto simp: UnRegisterInnerListener_def RemoveInnerListener_inv Let_def split_def split: option.split)

lemma unregister_dead_inv: "inner_inv s \<Longrightarrow> inner_inv (unregister_dead r d s)"
  by (induction r d s rule: unregister_dead.induct) (auto simp: UnRegisterInnerListener_inv)

lemma OnRemoteDied_inv: "inner_inv s \<Longrightarrow> inner_inv (OnRemoteDied ro s)"
  by (auto simp: OnRemoteDied_def unregister_dead_inv split: option.split)

lemma OnStateChanged_inv [simp]: "inner_inv (OnStateChanged u st t s) \<longleftrightarrow> inner_inv s"
  by (simp add: OnStateChanged_def Let_def)

end
