(* ===== verification/Inner_Listener_Props.thy ===== *)
theory Inner_Listener_Props
  imports Inner_Listener_Manager
begin

text \<open>
  What the inner-listener manager promises, stated over two abstract views of its state: the set
  \<open>registrations\<close> of triples (listen type, user, remote object) and the set \<open>watched\<close> of
  remote objects under a death recipient, with the listen type recorded for them.  Registration,
  removal and the death of a client are functions of these views; a state change is delivered to
  each registered remote object exactly once.  The locale \<open>notifier\<close> is the interface through
  which the other components send notifications.
\<close>

section \<open>Abstract views\<close>

definition registrations :: "('p, 's) inner_state_scheme \<Rightarrow> (int \<times> int \<times> nat) set" where
  "registrations s = {(t, u, r). Some r \<in> AsObject ` set (getListenerSet u t s)}"

definition watched :: "('p, 's) inner_state_scheme \<Rightarrow> (nat \<times> int) set" where
  "watched s = {(r, t). \<exists>l dr. (l, t, dr) \<in> set (deathRecipientMap s) \<and> AsObject l = Some r}"

lemma registrations_iff: "(t, u, r) \<in> registrations s \<longleftrightarrow> Some r \<in> AsObject ` set (getListenerSet u t s)"
  by (simp add: registrations_def)

lemma registrations_emit [simp]: "registrations (emit es s) = registrations s"
  by (simp add: registrations_def getListenerSet_def emit_def)

lemma registrations_recipients [simp]:
  "registrations (s\<lparr>deathRecipientMap := d\<rparr>) = registrations s"
  by (simp add: registrations_def getListenerSet_def)

lemma watched_emit [simp]: "watched (emit es s) = watched s"
  by (simp add: watched_def emit_def)

lemma watched_listeners [simp]: "watched (s\<lparr>innerListenMap := m\<rparr>) = watched s"
  by (simp add: watched_def)

text \<open>The users of a type, as a list of (user, remote object) pairs.\<close>

definition user_remotes :: "(int, listener list) stdmap \<Rightarrow> (int \<times> nat) set" where
  "user_remotes m = {(u, r). \<exists>ls. (u, ls) \<in> set m \<and> Some r \<in> AsObject ` set ls}"

lemma user_remotes_iff:
  "mwf m \<Longrightarrow> (u, r) \<in> user_remotes m \<longleftrightarrow> (\<exists>ls. mfind m u = Some ls \<and> Some r \<in> AsObject ` set ls)"
  by (simp add: user_remotes_def mfind_iff)

lemma registrations_typed:
  assumes "inner_inv s" and "mfind (innerListenMap s) t = Some m"
  shows "(t, u, r) \<in> registrations s \<longleftrightarrow> (u, r) \<in> user_remotes m"
proof -
  have "users_ok m" using assms by (rule inner_inv_find)
  then have "mwf m" by (simp add: users_ok_def)
  then show ?thesis
    by (cases "mfind m u") (simp_all add: registrations_iff getListenerSet_def assms(2) user_remotes_iff)
qed

section \<open>Adding a listener\<close>

lemma find_FinderSet_mem: "List.find (FinderSet obj) ls = Some l \<Longrightarrow> obj \<in> AsObject ` set ls"
  by (force dest: find_FinderSet_Some)

lemma getListenerSet_Add:
  "getListenerSet u' t' (snd (AddInnerListener u t l s)) =
     (if t' = t \<and> u' = u \<and> AsObject l \<notin> AsObject ` set (getListenerSet u t s)
      then insort_insert l (getListenerSet u t s) else getListenerSet u' t' s)"
  by (auto simp: AddInnerListener_def getListenerSet_def Let_def sl_find find_FinderSet_None
      mput_minsert_same dest: find_FinderSet_mem split: option.split)

lemma registrations_Add:
  assumes "AsObject l = Some r"
  shows "registrations (snd (AddInnerListener u t l s)) = insert (t, u, r) (registrations s)"
  using assms
  by (auto simp: registrations_def getListenerSet_Add set_insort_insert image_iff split: if_splits)

lemma watched_Add [simp]: "watched (snd (AddInnerListener u t l s)) = watched s"
  by (simp add: AddInnerListener_def Let_def split: option.split)

section \<open>Removing a listener\<close>

lemma first_user_removed:
  fixes R :: "(int \<times> nat) set"
  assumes less: "\<And>w q. (w, q) \<in> R \<Longrightarrow> u < w" and r: "r \<in> A"
  shows "Pair u ` (A - {r}) \<union> R
       = (Pair u ` A \<union> R) - {(u', r) |u'. \<forall>w. (w, r) \<in> Pair u ` A \<union> R \<longrightarrow> u' \<le> w}"
proof (intro set_eqI iffI)
  fix p assume "p \<in> Pair u ` (A - {r}) \<union> R"
  then consider q where "p = (u, q)" "q \<in> A" "q \<noteq> r" | "p \<in> R" by auto
  then show "p \<in> (Pair u ` A \<union> R) - {(u', r) |u'. \<forall>w. (w, r) \<in> Pair u ` A \<union> R \<longrightarrow> u' \<le> w}"
  proof cases
    case 1
    then show ?thesis by simp
  next
    case 2
    have "\<not> fst p \<le> u" using less [of "fst p" "snd p"] 2 by simp
    moreover have "(u, r) \<in> Pair u ` A \<union> R" using r by simp
    ultimately show ?thesis using 2 by fastforce
  qed
next
  fix p assume p: "p \<in> (Pair u ` A \<union> R) - {(u', r) |u'. \<forall>w. (w, r) \<in> Pair u ` A \<union> R \<longrightarrow> u' \<le> w}"
  show "p \<in> Pair u ` (A - {r}) \<union> R"
  proof (cases "p = (u, r)")
    case True
    have "\<forall>w. (w, r) \<in> Pair u ` A \<union> R \<longrightarrow> u \<le> w" using less by (auto dest: less_imp_le)
    with p True show ?thesis by blast
  next
    case False
    with p show ?thesis by auto
  qed
qed

lemma later_user_removed:
  fixes R :: "(int \<times> nat) set"
  assumes "\<And>w q. (w, q) \<in> R \<Longrightarrow> u < w" and r: "r \<notin> A"
  shows "Pair u ` A \<union> (R - {(u', r) |u'. \<forall>w. (w, r) \<in> R \<longrightarrow> u' \<le> w})
       = (Pair u ` A \<union> R) - {(u', r) |u'. \<forall>w. (w, r) \<in> Pair u ` A \<union> R \<longrightarrow> u' \<le> w}"
proof -
  have "(w, r) \<in> Pair u ` A \<union> R \<longleftrightarrow> (w, r) \<in> R" for w using r by auto
  then show ?thesis using r by auto
qed

definition remotes :: "listener list \<Rightarrow> nat set" where
  "remotes ls = {r. Some r \<in> AsObject ` set ls}"

lemma user_remotes_Cons: "user_remotes ((u, ls) # m) = Pair u ` remotes ls \<union> user_remotes m"
  by (auto simp: user_remotes_def remotes_def)

lemma user_remotes_remove_first:
  assumes "users_ok m"
  shows "user_remotes (remove_first (Some r) m)
       = user_remotes m - {(u, r) |u. \<forall>w. (w, r) \<in> user_remotes m \<longrightarrow> u \<le> w}"
  using assms
proof (induction "Some r" m rule: remove_first.induct)
  case 1
  then show ?case by (simp add: user_remotes_def)
next
  case (2 u ls rest)
  have ok: "listeners_ok ls" "users_ok rest" and less: "\<And>w q. (w, q) \<in> user_remotes rest \<Longrightarrow> u < w"
    using "2.prems" by (auto simp: users_ok_Cons user_remotes_def)
  show ?case
  proof (cases "List.find (FinderSet (Some r)) ls")
    case None
    then have "r \<notin> remotes ls" by (simp add: find_FinderSet_None remotes_def)
    from later_user_removed [OF less this] show ?thesis
      by (simp add: None user_remotes_Cons "2.hyps" [OF None ok(2)])
  next
    case (Some l)
    then have l: "l \<in> set ls" "AsObject l = Some r" by (auto dest: find_FinderSet_Some)
    then have r: "r \<in> remotes ls" unfolding remotes_def by force
    have "remotes (remove1 l ls) = remotes ls - {r}"
      using remotes_remove1 [OF ok(1) l(1)] l(2) by (auto simp: remotes_def)
    with first_user_removed [OF less r] show ?thesis
      by (simp add: Some user_remotes_Cons)
  qed
qed

text \<open>The user under which a remote object is removed: the least one it is registered for.\<close>

definition least_entry :: "int \<Rightarrow> nat \<Rightarrow> (int \<times> int \<times> nat) set \<Rightarrow> (int \<times> int \<times> nat) set" where
  "least_entry t r R = {(t, u, r) |u. (t, u, r) \<in> R \<and> (\<forall>w. (t, w, r) \<in> R \<longrightarrow> u \<le> w)}"

lemma getListenerSet_other_type:
  "t' \<noteq> t \<Longrightarrow> getListenerSet u t' (s\<lparr>innerListenMap := mput t m (innerListenMap s)\<rparr>) = getListenerSet u t' s"
  by (simp add: getListenerSet_def sl_find)

lemma registrations_Remove:
  assumes inv: "inner_inv s" and r: "AsObject l = Some r"
  shows "registrations (snd (RemoveInnerListener t l s)) = registrations s - least_entry t r (registrations s)"
proof (cases "mfind (innerListenMap s) t")
  case None
  then have "\<And>u q. (t, u, q) \<notin> registrations s"
    by (simp add: registrations_iff getListenerSet_def)
  with None show ?thesis by (auto simp: RemoveInnerListener_def least_entry_def)
next
  case (Some m)
  let ?s' = "snd (RemoveInnerListener t l s)"
  have s': "?s' = s\<lparr>innerListenMap := mput t (remove_first (Some r) m) (innerListenMap s)\<rparr>"
    by (simp add: RemoveInnerListener_def Some r)
  have inv': "inner_inv ?s'" using inv by (rule RemoveInnerListener_inv)
  have "(t', u, q) \<in> registrations ?s' \<longleftrightarrow> (t', u, q) \<in> registrations s - least_entry t r (registrations s)"
    for t' u q
  proof (cases "t' = t")
    case True
    have "mfind (innerListenMap ?s') t = Some (remove_first (Some r) m)"
      by (simp add: s' sl_find)
    then have "(t, u, q) \<in> registrations ?s' \<longleftrightarrow> (u, q) \<in> user_remotes (remove_first (Some r) m)"
      by (rule registrations_typed [OF inv'])
    also have "\<dots> \<longleftrightarrow> (u, q) \<in> user_remotes m - {(u, r) |u. \<forall>w. (w, r) \<in> user_remotes m \<longrightarrow> u \<le> w}"
      using user_remotes_remove_first [OF inner_inv_find [OF inv Some], of r] by simp
    finally show ?thesis
      using True by (auto simp: registrations_typed [OF inv Some] least_entry_def)
  next
    case False
    then show ?thesis
      by (simp add: s' registrations_iff getListenerSet_other_type least_entry_def)
  qed
  then show ?thesis by auto
qed

lemma watched_Remove [simp]: "watched (snd (RemoveInnerListener t l s)) = watched s"
  by (simp add: RemoveInnerListener_def split: option.split)

section \<open>Death recipients\<close>

lemma find_watched:
  assumes "recipients_ok (deathRecipientMap s)"
  shows "List.find (FinderMap (Some r)) (deathRecipientMap s) = None \<longleftrightarrow> r \<notin> fst ` watched s"
  by (force simp: find_FinderMap_None watched_def image_iff)

lemma watched_minsert:
  assumes "AsObject l = Some r" and "r \<notin> fst ` watched s" and "mwf (deathRecipientMap s)"
  shows "watched (s\<lparr>deathRecipientMap := minsert l (t, dr) (deathRecipientMap s)\<rparr>) = insert (r, t) (watched s)"
proof -
  let ?d = "deathRecipientMap s"
  have fresh: "fst p \<noteq> l" if "p \<in> set ?d" for p
  proof
    obtain k t' dr' where p: "p = (k, t', dr')" by (cases p)
    assume "fst p = l"
    with that assms(1) p have "(r, t') \<in> watched s"
      unfolding watched_def by simp blast
    then show False using assms(2) by force
  qed
  then have "mfind ?d l = None" by (auto simp: mfind_None_iff)
  then have "minsert l (t, dr) ?d = mput l (t, dr) ?d"
    by (simp add: minsert_def)
  moreover have "p \<in> set (mput l (t, dr) ?d) \<longleftrightarrow> p = (l, t, dr) \<or> p \<in> set ?d" for p
    using set_mput_iff [OF assms(3), of p l "(t, dr)"] fresh by blast
  ultimately have "set (minsert l (t, dr) ?d) = insert (l, t, dr) (set ?d)" by auto
  then show ?thesis using assms(1) by (auto simp: watched_def)
qed

lemma AddDeathRecipient_views:
  assumes inv: "inner_inv s" and r: "AsObject l = Some r"
    and ok: "AddDeathRecipient e t (Some l) s = (OK, s')"
  shows "registrations s' = registrations s"
    and "watched s' = (if r \<in> fst ` watched s then watched s else insert (r, t) (watched s))"
proof -
  have d: "recipients_ok (deathRecipientMap s)" "mwf (deathRecipientMap s)"
    using inv by (simp_all add: inner_inv_def recipients_ok_def)
  show "registrations s' = registrations s"
    using ok by (auto simp: AddDeathRecipient_def r split: option.splits if_splits)
  show "watched s' = (if r \<in> fst ` watched s then watched s else insert (r, t) (watched s))"
  proof (cases "r \<in> fst ` watched s")
    case True
    then have "List.find (FinderMap (Some r)) (deathRecipientMap s) \<noteq> None"
      by (simp add: find_watched [OF d(1)])
    with ok True show ?thesis by (auto simp: AddDeathRecipient_def r)
  next
    case False
    then have "List.find (FinderMap (Some r)) (deathRecipientMap s) = None"
      by (simp add: find_watched [OF d(1)])
    with ok have "s' = emit [DeathLink r] (s\<lparr>deathRecipientMap := minsert l (t, True) (deathRecipientMap s)\<rparr>)"
      by (auto simp: AddDeathRecipient_def r split: if_splits)
    with False show ?thesis by (simp add: watched_minsert [OF r False d(2)])
  qed
qed

lemma watched_merase:
  assumes "distinct (map (AsObject \<circ> fst) (deathRecipientMap s))"
    and "(l, t, dr) \<in> set (deathRecipientMap s)" and "AsObject l = Some r"
  shows "watched (s\<lparr>deathRecipientMap := merase l (deathRecipientMap s)\<rparr>) = watched s - {r} \<times> UNIV"
proof -
  have "inj_on (AsObject \<circ> fst) (set (deathRecipientMap s))"
    using assms(1) by (simp add: distinct_map)
  then have uniq: "fst p = l \<longleftrightarrow> AsObject (fst p) = Some r" if "p \<in> set (deathRecipientMap s)" for p
    using that assms(2,3) by (auto dest: inj_onD [of _ _ p "(l, t, dr)"])
  then have "set (merase l (deathRecipientMap s)) = {p \<in> set (deathRecipientMap s). AsObject (fst p) \<noteq> Some r}"
    by (auto simp: set_merase)
  then show ?thesis by (auto simp: watched_def)
qed

lemma RemoveDeathRecipient_views:
  assumes inv: "inner_inv s" and r: "AsObject l = Some r"
  shows "fst (RemoveDeathRecipient (Some l) s) = OK"
    and "registrations (snd (RemoveDeathRecipient (Some l) s)) = registrations s"
    and "watched (snd (RemoveDeathRecipient (Some l) s)) = watched s - {r} \<times> UNIV"
proof -
  have d: "recipients_ok (deathRecipientMap s)" using inv by (simp add: inner_inv_def)
  then have dist: "distinct (map (AsObject \<circ> fst) (deathRecipientMap s))" by (simp add: recipients_ok_def)
  have flag: "dr" if "List.find (FinderMap (Some r)) (deathRecipientMap s) = Some (k, t, dr)" for k t dr
    using find_FinderMap_Some [OF that] d by (auto simp: recipients_ok_def)
  then show "fst (RemoveDeathRecipient (Some l) s) = OK"
    by (auto simp: RemoveDeathRecipient_def r split: option.split)
  show "registrations (snd (RemoveDeathRecipient (Some l) s)) = registrations s"
    by (auto simp: RemoveDeathRecipient_def r split: option.split)
  show "watched (snd (RemoveDeathRecipient (Some l) s)) = watched s - {r} \<times> UNIV"
  proof (cases "List.find (FinderMap (Some r)) (deathRecipientMap s)")
    case None
    then have "r \<notin> fst ` watched s" by (simp add: find_watched [OF d])
    with None show ?thesis by (auto simp: RemoveDeathRecipient_def r image_iff)
  next
    case (Some p)
    obtain k t dr where p: "p = (k, t, dr)" by (cases p)
    have "(k, t, dr) \<in> set (deathRecipientMap s)" "AsObject k = Some r"
      using find_FinderMap_Some [OF Some] by (auto simp: p)
    with Some flag [of k t dr] show ?thesis
      by (simp add: RemoveDeathRecipient_def r p watched_merase [OF dist])
  qed
qed

section \<open>Registration, removal and death over the abstract views\<close>

text \<open>The abstract machine over pairs (registrations, watched objects).\<close>

type_synonym inner_view = "(int \<times> int \<times> nat) set \<times> (nat \<times> int) set"

definition inner_view :: "('p, 's) inner_state_scheme \<Rightarrow> inner_view" where
  "inner_view s = (registrations s, watched s)"

definition spec_register :: "int \<Rightarrow> int \<Rightarrow> nat \<Rightarrow> inner_view \<Rightarrow> inner_view" where
  "spec_register u t r v =
     (insert (t, u, r) (fst v), if r \<in> fst ` snd v then snd v else insert (r, t) (snd v))"

definition spec_unregister :: "int \<Rightarrow> nat \<Rightarrow> inner_view \<Rightarrow> inner_view" where
  "spec_unregister t r v = (fst v - least_entry t r (fst v), snd v - {r} \<times> UNIV)"

definition effective_user :: "'p env \<Rightarrow> int \<Rightarrow> int" where
  "effective_user e u = (if u = special_user_code USER_CURRENT then GetUserIdFromCallingUid e else u)"

lemma AddDeathRecipient_fail: "fst (AddDeathRecipient e t lo s) \<noteq> OK \<Longrightarrow> snd (AddDeathRecipient e t lo s) = s"
  by (auto simp: AddDeathRecipient_def split: option.splits)

lemma RegisterInnerListener_view:
  assumes inv: "inner_inv s" and r: "AsObject l = Some r"
    and ok: "fst (RegisterInnerListener e u t (Some l) s) = OK"
  shows "inner_view (snd (RegisterInnerListener e u t (Some l) s)) = spec_register (effective_user e u) t r (inner_view s)"
proof -
  obtain st s1 where a: "AddDeathRecipient e t (Some l) s = (st, s1)" by (cases "AddDeathRecipient e t (Some l) s")
  with ok have st: "st = OK"
    by (cases "st = OK") (auto simp: RegisterInnerListener_def)
  have "snd (RegisterInnerListener e u t (Some l) s) = snd (AddInnerListener (effective_user e u) t l s1)"
    by (simp add: RegisterInnerListener_def a st effective_user_def Let_def split_def)
  then show ?thesis
    using AddDeathRecipient_views [OF inv r a [unfolded st]] by (simp add: inner_view_def spec_register_def registrations_Add [OF r])
qed

lemma UnRegisterInnerListener_view:
  assumes inv: "inner_inv s" and r: "AsObject l = Some r"
  shows "fst (UnRegisterInnerListener t (Some l) s) = OK"
    and "inner_view (snd (UnRegisterInnerListener t (Some l) s)) = spec_unregister t r (inner_view s)"
proof -
  obtain st s1 where a: "RemoveDeathRecipient (Some l) s = (st, s1)" by (cases "RemoveDeathRecipient (Some l) s")
  note views = RemoveDeathRecipient_views [OF inv r, unfolded a]
  have inv1: "inner_inv s1" using RemoveDeathRecipient_inv [OF inv, of "Some l"] by (simp add: a)
  show "fst (UnRegisterInnerListener t (Some l) s) = OK"
    using views(1) by (simp add: UnRegisterInnerListener_def a Let_def split_def)
  show "inner_view (snd (UnRegisterInnerListener t (Some l) s)) = spec_unregister t r (inner_view s)"
    using views registrations_Remove [OF inv1 r, of t]
    by (simp add: UnRegisterInnerListener_def a Let_def split_def inner_view_def spec_unregister_def)
qed

lemma RegisterInnerListener_fail:
  assumes "fst (RegisterInnerListener e u t lo s) \<noteq> OK"
  shows "snd (RegisterInnerListener e u t lo s) = s"
proof (cases lo)
  case None
  then show ?thesis by (simp add: RegisterInnerListener_def)
next
  case (Some l)
  show ?thesis
  proof (cases "fst (AddDeathRecipient e t lo s) = OK")
    case True
    with assms Some show ?thesis by (auto simp: RegisterInnerListener_def Let_def split_def)
  next
    case False
    with Some AddDeathRecipient_fail [OF False] show ?thesis
      by (simp add: RegisterInnerListener_def split_def)
  qed
qed

text \<open>The death of a client: what it does to the views.\<close>

definition spec_died :: "nat \<Rightarrow> inner_view \<Rightarrow> inner_view" where
  "spec_died r v = (fst v - (\<Union>t \<in> {t. (r, t) \<in> snd v}. least_entry t r (fst v)), snd v - {r} \<times> UNIV)"

lemma unregister_dead_no_match: "\<forall>p \<in> set d. AsObject (fst p) \<noteq> Some r \<Longrightarrow> unregister_dead r d s = s"
  by (induction r d s rule: unregister_dead.induct) auto

lemma unregister_dead_match:
  assumes "distinct (map (AsObject \<circ> fst) d)" and "(l, t, dr) \<in> set d" and "AsObject l = Some r"
  shows "unregister_dead r d s = snd (UnRegisterInnerListener t (Some l) s)"
  using assms
proof (induction r d s rule: unregister_dead.induct)
  case (1 r s)
  then show ?case by simp
next
  case (2 r k t' dr' rest s)
  show ?case
  proof (cases "AsObject k = Some r")
    case True
    have rest: "\<forall>p \<in> set rest. AsObject (fst p) \<noteq> Some r"
      using "2.prems"(1) True by (force simp: image_iff)
    then have "(l, t, dr) \<notin> set rest" using "2.prems"(3) by force
    then have "l = k" "t = t'" using "2.prems"(2) by auto
    then show ?thesis using unregister_dead_no_match [OF rest] True by simp
  next
    case False
    then show ?thesis using 2 by auto
  qed
qed

lemma watched_type_unique:
  assumes "recipients_ok (deathRecipientMap s)" and "(r, t) \<in> watched s" and "(r, t') \<in> watched s"
  shows "t = t'"
proof -
  obtain l dr where 1: "(l, t, dr) \<in> set (deathRecipientMap s)" "AsObject l = Some r"
    using assms(2) by (auto simp: watched_def)
  obtain k dk where 2: "(k, t', dk) \<in> set (deathRecipientMap s)" "AsObject k = Some r"
    using assms(3) by (auto simp: watched_def)
  have "inj_on (AsObject \<circ> fst) (set (deathRecipientMap s))"
    using assms(1) by (simp add: recipients_ok_def distinct_map)
  from inj_onD [OF this, of "(l, t, dr)" "(k, t', dk)"] 1 2 show ?thesis by simp
qed

lemma OnRemoteDied_view:
  assumes inv: "inner_inv s"
  shows "inner_view (OnRemoteDied (Some r) s) = spec_died r (inner_view s)"
proof (cases "r \<in> fst ` watched s")
  case False
  have "AsObject (fst p) \<noteq> Some r" if p: "p \<in> set (deathRecipientMap s)" for p
  proof
    obtain l t dr where eq: "p = (l, t, dr)" by (cases p)
    assume "AsObject (fst p) = Some r"
    with p eq have "(r, t) \<in> watched s" unfolding watched_def by simp blast
    then have "fst (r, t) \<in> fst ` watched s" by (rule imageI)
    with False show False by simp
  qed
  then have "unregister_dead r (deathRecipientMap s) s = s"
    by (intro unregister_dead_no_match) blast
  moreover have "{t. (r, t) \<in> watched s} = {}" "watched s - {r} \<times> UNIV = watched s"
    using False by (auto simp: image_iff)
  ultimately show ?thesis by (simp add: OnRemoteDied_def spec_died_def inner_view_def)
next
  case True
  have d: "recipients_ok (deathRecipientMap s)" using inv by (simp add: inner_inv_def)
  from True obtain t where t: "(r, t) \<in> watched s" by auto
  then obtain l dr where l: "(l, t, dr) \<in> set (deathRecipientMap s)" "AsObject l = Some r"
    by (auto simp: watched_def)
  have "unregister_dead r (deathRecipientMap s) s = snd (UnRegisterInnerListener t (Some l) s)"
    using d l by (intro unregister_dead_match) (simp_all add: recipients_ok_def)
  then have "inner_view (OnRemoteDied (Some r) s) = spec_unregister t r (inner_view s)"
    by (simp only: OnRemoteDied_def option.case UnRegisterInnerListener_view(2) [OF inv l(2)])
  moreover have "{t'. (r, t') \<in> watched s} = {t}"
    using t watched_type_unique [OF d t] by blast
  ultimately show ?thesis
    by (simp add: spec_died_def spec_unregister_def inner_view_def)
qed

section \<open>Delivery of a state change\<close>

text \<open>The number of times the effects tell remote object \<open>r\<close> that the state of \<open>u\<close> is \<open>st\<close>.\<close>

fun tells :: "nat \<Rightarrow> int \<Rightarrow> int \<Rightarrow> effect \<Rightarrow> bool" where
  "tells r u st (InnerStateChanged l u' st') \<longleftrightarrow> AsObject l = Some r \<and> u' = u \<and> st' = st"
| "tells r u st _ \<longleftrightarrow> False"

definition deliveries :: "nat \<Rightarrow> int \<Rightarrow> int \<Rightarrow> effect list \<Rightarrow> nat" where
  "deliveries r u st es = length (filter (tells r u st) es)"

lemma deliveries_append [simp]: "deliveries r u st (es @ ds) = deliveries r u st es + deliveries r u st ds"
  by (simp add: deliveries_def)

lemma deliveries_listeners:
  assumes "listeners_ok ls"
  shows "deliveries r u st (map (\<lambda>l. InnerStateChanged l u st) ls) = of_bool (Some r \<in> AsObject ` set ls)"
proof -
  have "distinct (map AsObject ls)" using assms by (simp add: listeners_ok_def)
  then show ?thesis by (induction ls) (auto simp: deliveries_def)
qed

definition told :: "int \<Rightarrow> int \<Rightarrow> int \<Rightarrow> ('p, 's) inner_state_scheme \<Rightarrow> effect list" where
  "told u st t s = map (\<lambda>l. InnerStateChanged l u st)
     (getListenerSet u t s @ getListenerSet (special_user_code USER_ALL) t s)"

lemma getListenerSet_emit [simp]: "getListenerSet u t (emit es s) = getListenerSet u t s"
  by (simp add: getListenerSet_def emit_def)

lemma OnStateChanged_told: "OnStateChanged u st t s = emit (told u st t s) s"
  by (simp add: OnStateChanged_def told_def Let_def)

lemma deliveries_told:
  assumes "inner_inv s"
  shows "deliveries r u st (told u st t s)
       = of_bool ((t, u, r) \<in> registrations s) + of_bool ((t, special_user_code USER_ALL, r) \<in> registrations s)"
  using deliveries_listeners [OF getListenerSet_ok [OF assms]]
  by (simp add: told_def registrations_iff)

section \<open>The interface of notification\<close>

text \<open>
  A notifier only adds effects; which ones depends on the registrations of its listen type.  The
  strong-authentication and the lock-state components rely on these laws alone.
\<close>

locale notifier =
  fixes notify :: "int \<Rightarrow> int \<Rightarrow> ('p, 's) inner_state_scheme \<Rightarrow> ('p, 's) inner_state_scheme"
    and ltype :: int
  assumes notify_emits: "notify u st s = emit (told u st ltype s) s"
begin

lemma notify_inv: "inner_inv (notify u st s) \<longleftrightarrow> inner_inv s"
  by (simp add: notify_emits)

lemma notify_view: "inner_view (notify u st s) = inner_view s"
  by (simp add: notify_emits inner_view_def)

lemma notify_store: "store (notify u st s) = store s"
  by (simp add: notify_emits emit_def)

lemma notify_trace: "trace (notify u st s) = trace s @ told u st ltype s"
  by (simp add: notify_emits)

lemma notify_deliveries:
  assumes "inner_inv s"
  shows "deliveries r u st (trace (notify u st s)) = deliveries r u st (trace s)
       + of_bool ((ltype, u, r) \<in> registrations s) + of_bool ((ltype, - 1, r) \<in> registrations s)"
  by (simp add: notify_trace deliveries_told [OF assms])

end

interpretation strong_auth_notifier: notifier OnStrongAuthChanged "listen_type STRONG_AUTH"
  by unfold_locales (simp add: OnStrongAuthChanged_def OnStateChanged_told)

interpretation device_lock_notifier: notifier OnDeviceLockStateChanged "listen_type DEVICE_LOCK"
  by unfold_locales (simp add: OnDeviceLockStateChanged_def OnStateChanged_told)

section \<open>Properties\<close>

definition empty_inner :: "'p \<Rightarrow> 'p inner_state" where
  "empty_inner p = \<lparr>trace = [], store = p, deathRecipientMap = [], innerListenMap = []\<rparr>"

lemma inner_inv_empty [simp]: "inner_inv (empty_inner p)"
  by (simp add: inner_inv_def empty_inner_def recipients_ok_def)

subsection \<open>Reachable listener tables\<close>

text \<open>The requests that change the tables, in any order and with any environment.\<close>

inductive inner_step :: "'p inner_state \<Rightarrow> 'p inner_state \<Rightarrow> bool" where
  registers: "inner_step s (snd (RegisterInnerListener e u t lo s))"
| unregisters: "inner_step s (snd (UnRegisterInnerListener t lo s))"
| dies: "inner_step s (OnRemoteDied ro s)"
| strong_auth: "inner_step s (OnStrongAuthChanged u st s)"
| device_lock: "inner_step s (OnDeviceLockStateChanged u st s)"

inductive_cases inner_stepE: "inner_step s s'"

inductive inner_reachable :: "'p inner_state \<Rightarrow> bool" where
  start: "inner_reachable (empty_inner p)"
| step: "inner_reachable s \<Longrightarrow> inner_step s s' \<Longrightarrow> inner_reachable s'"

definition sample_inner :: "sample_store inner_state" where
  "sample_inner = empty_inner []"

lemma inner_inv_sample: "inner_inv sample_inner"
  by (simp add: sample_inner_def)

lemma start_sample: "inner_reachable sample_inner"
  by (simp add: sample_inner_def inner_reachable.start)

lemma inner_step_inv: "inner_step s s' \<Longrightarrow> inner_inv s \<Longrightarrow> inner_inv s'"
  by (erule inner_stepE)
    (simp_all add: RegisterInnerListener_inv UnRegisterInnerListener_inv OnRemoteDied_inv
      strong_auth_notifier.notify_inv device_lock_notifier.notify_inv)

text \<open>C18: in every state that registrations, removals, deaths and notifications can reach, the
  listener tables are ordered by key, no set holds two listeners of one remote object, no listener
  lacks a remote object, and each remote object has at most one death recipient.\<close>

theorem inner_reachable_inv: "inner_reachable s \<Longrightarrow> inner_inv s"
  by (induction rule: inner_reachable.induct) (simp_all add: inner_step_inv)

theorem inner_reachable_inv_witness:
  "inner_inv (snd (RegisterInnerListener sample_env 100 0 (Some (Listener 5 (Some 9))) sample_inner))"
  by (rule inner_reachable_inv) (rule inner_reachable.step [OF start_sample inner_step.registers])

text \<open>C24: a successful registration adds exactly the triple (listen type, effective user, remote
  object), puts the remote object under a death recipient only if it has none yet, and keeps the
  invariant; a failed one leaves the whole state unchanged.\<close>

theorem RegisterInnerListener_refines:
  assumes "inner_inv s" and "AsObject l = Some r"
  shows "if fst (RegisterInnerListener e u t (Some l) s) = OK
         then inner_view (snd (RegisterInnerListener e u t (Some l) s))
                = spec_register (effective_user e u) t r (inner_view s)
              \<and> inner_inv (snd (RegisterInnerListener e u t (Some l) s))
         else snd (RegisterInnerListener e u t (Some l) s) = s"
  by (simp add: RegisterInnerListener_view [OF assms] RegisterInnerListener_inv [OF assms(1)]
      RegisterInnerListener_fail)

theorem RegisterInnerListener_refines_witness:
  "inner_view (snd (RegisterInnerListener sample_env 100 0 (Some (Listener 5 (Some 9))) sample_inner))
     = spec_register (effective_user sample_env 100) 0 9 (inner_view sample_inner)"
proof -
  have ok: "fst (RegisterInnerListener sample_env 100 0 (Some (Listener 5 (Some 9))) sample_inner) = OK"
    by (simp add: RegisterInnerListener_def AddDeathRecipient_def sample_inner_def empty_inner_def sample_env_def emit_def
        Let_def split_def)
  show ?thesis
    using RegisterInnerListener_refines
      [of sample_inner "Listener 5 (Some 9)" 9 sample_env 100 0, OF inner_inv_sample] ok
    by simp
qed

text \<open>Unregistering a listener removes the registration of its remote object under the least
  user it is registered for with that listen type and lifts the death recipient of the object; the
  death of a client does the same for the one listen type its recipient was created with.\<close>

theorem client_removal_refines:
  assumes "inner_inv s"
  shows "inner_view (OnRemoteDied (Some r) s) = spec_died r (inner_view s)
    \<and> fst (UnRegisterInnerListener t (Some (Listener a (Some r))) s) = OK
    \<and> inner_view (snd (UnRegisterInnerListener t (Some (Listener a (Some r))) s))
        = spec_unregister t r (inner_view s)"
  using OnRemoteDied_view [OF assms] UnRegisterInnerListener_view [OF assms, of "Listener a (Some r)" r]
  by simp

theorem client_removal_refines_witness:
  "inner_view (OnRemoteDied (Some 9) sample_inner) = spec_died 9 (inner_view sample_inner)"
  using client_removal_refines [OF inner_inv_sample, of 9] by (rule conjunct1)

text \<open>A change of a user's strong-authentication state is delivered to a remote object once for
  its registration under that user and once for a registration under all users, and to nobody else.\<close>

theorem strong_auth_change_delivery:
  assumes "inner_inv s"
  shows "deliveries r u st (trace (OnStrongAuthChanged u st s)) = deliveries r u st (trace s)
       + of_bool ((listen_type STRONG_AUTH, u, r) \<in> registrations s)
       + of_bool ((listen_type STRONG_AUTH, - 1, r) \<in> registrations s)"
  by (rule strong_auth_notifier.notify_deliveries [OF assms])

theorem strong_auth_change_delivery_witness:
  "deliveries 9 100 1 (trace (OnStrongAuthChanged 100 1 sample_inner)) = 0"
  using strong_auth_change_delivery [OF inner_inv_sample, of 9 100 1]
  by (simp add: registrations_iff getListenerSet_def sample_inner_def empty_inner_def deliveries_def)


end
