(* ===== verification/System_Events.thy ===== *)
theory System_Events
  imports Inner_Listener_Props
begin

text \<open>
  The system events of \<open>services/src/screenlock_system_ability.cpp\<close>: the values the service keeps
  about the display and the current user (\<open>StateValue\<close>), the single listener of system events (the
  screen-lock application), and every handler that reports an event to it.  The lemmas show each
  handler as the effects it emits, so that the components above reason about effects only.
\<close>

record state_value =
  screenlockEnabled :: bool
  offReason :: int
  currentUser :: int
  screenState :: int
  interactiveState :: int

definition initial_state_value :: state_value where
  "initial_state_value =
     \<lparr>screenlockEnabled = False, offReason = 0, currentUser = 0, screenState = 0, interactiveState = 0\<rparr>"

record 'p event_state = "'p inner_state" +
  stateValue :: state_value
  systemEventListener :: "nat option"

definition StateValue_Reset :: "state_value \<Rightarrow> state_value" where
  "StateValue_Reset v = v\<lparr>screenlockEnabled := True, currentUser := USER_NULL\<rparr>"

text \<open>The setters of \<open>StateValue\<close>, applied to the member of the service.\<close>

definition SetScreenState :: "int \<Rightarrow> ('p, 's) event_state_scheme \<Rightarrow> ('p, 's) event_state_scheme" where
  "SetScreenState st s = s\<lparr>stateValue := (stateValue s)\<lparr>screenState := st\<rparr>\<rparr>"

definition SetInteractiveState :: "int \<Rightarrow> ('p, 's) event_state_scheme \<Rightarrow> ('p, 's) event_state_scheme" where
  "SetInteractiveState st s = s\<lparr>stateValue := (stateValue s)\<lparr>interactiveState := st\<rparr>\<rparr>"

definition SetCurrentUser :: "int \<Rightarrow> ('p, 's) event_state_scheme \<Rightarrow> ('p, 's) event_state_scheme" where
  "SetCurrentUser u s = s\<lparr>stateValue := (stateValue s)\<lparr>currentUser := u\<rparr>\<rparr>"

text \<open>Its getters.\<close>

definition GetScreenState :: "state_value \<Rightarrow> int" where
  [simp]: "GetScreenState v = screenState v"

definition GetOffReason :: "state_value \<Rightarrow> int" where
  [simp]: "GetOffReason v = offReason v"

definition GetCurrentUser :: "state_value \<Rightarrow> int" where
  [simp]: "GetCurrentUser v = currentUser v"

definition GetInteractiveState :: "state_value \<Rightarrow> int" where
  [simp]: "GetInteractiveState v = interactiveState v"

section \<open>Reporting an event\<close>

text \<open>The asynchronous trace marks around the callback are not modelled.\<close>

definition SystemEventCallBack ::
  "system_event \<Rightarrow> ('p, 's) event_state_scheme \<Rightarrow> ('p, 's) event_state_scheme"
where
  "SystemEventCallBack systemEvent s =
     (case systemEventListener s of
        None \<Rightarrow> s
      | Some listener \<Rightarrow> emit [SystemEventCallback listener systemEvent] s)"

datatype event_status = STATUS_BEGIN | STATUS_END | STATUS_OTHER

datatype display_power_event =
    WAKE_UP
  | SLEEP
  | DISPLAY_ON
  | DISPLAY_OFF
  | DESKTOP_READY
  | OTHER_POWER_EVENT

datatype screen_state =
    SCREEN_STATE_BEGIN_OFF
  | SCREEN_STATE_END_OFF
  | SCREEN_STATE_BEGIN_ON
  | SCREEN_STATE_END_ON

fun screen_state_code :: "screen_state \<Rightarrow> int" where
  "screen_state_code SCREEN_STATE_BEGIN_OFF = 0"
| "screen_state_code SCREEN_STATE_END_OFF = 1"
| "screen_state_code SCREEN_STATE_BEGIN_ON = 2"
| "screen_state_code SCREEN_STATE_END_ON = 3"

datatype interactive_state =
    INTERACTIVE_STATE_END_SLEEP
  | INTERACTIVE_STATE_BEGIN_WAKEUP
  | INTERACTIVE_STATE_END_WAKEUP
  | INTERACTIVE_STATE_BEGIN_SLEEP

fun interactive_state_code :: "interactive_state \<Rightarrow> int" where
  "interactive_state_code INTERACTIVE_STATE_END_SLEEP = 0"
| "interactive_state_code INTERACTIVE_STATE_BEGIN_WAKEUP = 1"
| "interactive_state_code INTERACTIVE_STATE_END_WAKEUP = 2"
| "interactive_state_code INTERACTIVE_STATE_BEGIN_SLEEP = 3"

section \<open>Display power\<close>

definition OnScreenOff :: "event_status \<Rightarrow> ('p, 's) event_state_scheme \<Rightarrow> ('p, 's) event_state_scheme" where
  "OnScreenOff status s =
     (if status = STATUS_BEGIN
      then SystemEventCallBack (SystemEvent BEGIN_SCREEN_OFF)
             (SetScreenState (screen_state_code SCREEN_STATE_BEGIN_OFF) s)
      else if status = STATUS_END
      then SystemEventCallBack ((SystemEvent BEGIN_SCREEN_OFF)\<lparr>eventType := END_SCREEN_OFF\<rparr>)
             (SetScreenState (screen_state_code SCREEN_STATE_END_OFF) s)
      else SystemEventCallBack (SystemEvent BEGIN_SCREEN_OFF) s)"

definition OnScreenOn :: "event_status \<Rightarrow> ('p, 's) event_state_scheme \<Rightarrow> ('p, 's) event_state_scheme" where
  "OnScreenOn status s =
     (if status = STATUS_BEGIN
      then SystemEventCallBack (SystemEvent BEGIN_SCREEN_ON)
             (SetScreenState (screen_state_code SCREEN_STATE_BEGIN_ON) s)
      else if status = STATUS_END
      then SystemEventCallBack ((SystemEvent BEGIN_SCREEN_ON)\<lparr>eventType := END_SCREEN_ON\<rparr>)
             (SetScreenState (screen_state_code SCREEN_STATE_END_ON) s)
      else SystemEventCallBack (SystemEvent BEGIN_SCREEN_ON) s)"

definition OnWakeUp :: "event_status \<Rightarrow> ('p, 's) event_state_scheme \<Rightarrow> ('p, 's) event_state_scheme" where
  "OnWakeUp status s =
     (if status = STATUS_BEGIN
      then SystemEventCallBack (SystemEvent BEGIN_WAKEUP)
             (SetInteractiveState (interactive_state_code INTERACTIVE_STATE_BEGIN_WAKEUP) s)
      else if status = STATUS_END
      then SystemEventCallBack ((SystemEvent BEGIN_WAKEUP)\<lparr>eventType := END_WAKEUP\<rparr>)
             (SetInteractiveState (interactive_state_code INTERACTIVE_STATE_END_WAKEUP) s)
      else SystemEventCallBack (SystemEvent BEGIN_WAKEUP) s)"

definition OnSleep :: "event_status \<Rightarrow> ('p, 's) event_state_scheme \<Rightarrow> ('p, 's) event_state_scheme" where
  "OnSleep status s =
     (if status = STATUS_BEGIN
      then SystemEventCallBack (SystemEvent BEGIN_SLEEP)
             (SetInteractiveState (interactive_state_code INTERACTIVE_STATE_BEGIN_SLEEP) s)
      else if status = STATUS_END
      then SystemEventCallBack ((SystemEvent BEGIN_SLEEP)\<lparr>eventType := END_SLEEP\<rparr>)
             (SetInteractiveState (interactive_state_code INTERACTIVE_STATE_END_SLEEP) s)
      else SystemEventCallBack (SystemEvent BEGIN_SLEEP) s)"

definition OnExitAnimation :: "('p, 's) event_state_scheme \<Rightarrow> ('p, 's) event_state_scheme" where
  "OnExitAnimation s = SystemEventCallBack (SystemEvent EXIT_ANIMATION) s"

text \<open>
  The display manager's callback; \<open>inst\<close> says whether the service instance exists.
\<close>

definition OnDisplayPowerEvent ::
  "bool \<Rightarrow> display_power_event \<Rightarrow> event_status \<Rightarrow> ('p, 's) event_state_scheme \<Rightarrow> ('p, 's) event_state_scheme"
where
  "OnDisplayPowerEvent inst event status s =
     (if \<not> inst then s
      else case event of
             WAKE_UP \<Rightarrow> OnWakeUp status s
           | SLEEP \<Rightarrow> OnSleep status s
           | DISPLAY_ON \<Rightarrow> OnScreenOn status s
           | DISPLAY_OFF \<Rightarrow> OnScreenOff status s
           | DESKTOP_READY \<Rightarrow> OnExitAnimation s
           | OTHER_POWER_EVENT \<Rightarrow> s)"

section \<open>Authentication and policy\<close>

definition StrongAuthChanged ::
  "int \<Rightarrow> int \<Rightarrow> ('p, 's) event_state_scheme \<Rightarrow> ('p, 's) event_state_scheme"
where
  "StrongAuthChanged userId reasonFlag s =
     (if GetCurrentUser (stateValue s) \<noteq> userId then s
      else SystemEventCallBack
             ((SystemEvent STRONG_AUTH_CHANGED)\<lparr>eventUserId := userId, params := to_string reasonFlag\<rparr>) s)"

definition UserIamReadyNotify :: "string \<Rightarrow> ('p, 's) event_state_scheme \<Rightarrow> ('p, 's) event_state_scheme" where
  "UserIamReadyNotify value s = SystemEventCallBack ((SystemEvent USERIAM_READY)\<lparr>params := value\<rparr>) s"

definition IAM_EVENT_KEY :: string where
  "IAM_EVENT_KEY = ''bootevent.useriam.fwkready''"

definition UserIamReadyCallback ::
  "string option \<Rightarrow> string option \<Rightarrow> ('p, 's) event_state_scheme \<Rightarrow> ('p, 's) event_state_scheme"
where
  "UserIamReadyCallback key value s =
     (case (key, value) of
        (Some k, Some v) \<Rightarrow> if k \<noteq> IAM_EVENT_KEY then s else UserIamReadyNotify v s
      | _ \<Rightarrow> s)"

definition PreAuthStateNotify ::
  "int \<Rightarrow> int \<Rightarrow> ('p, 's) event_state_scheme \<Rightarrow> ('p, 's) event_state_scheme"
where
  "PreAuthStateNotify userId authState s =
     (if userId \<noteq> GetCurrentUser (stateValue s) then s
      else if authState = auth_code PRE_AUTHED_RESULT_BY_CREDENTIAL
              \<or> authState = auth_code PRE_AUTHED_RESULT_BY_FINGERPRINT
      then SystemEventCallBack (SystemEvent PRE_AUTH_RESULT) s
      else s)"

text \<open>The parameter string of an unlock-policy event.\<close>

definition policy_params :: "int \<Rightarrow> int \<Rightarrow> string" where
  "policy_params userId policy =
     ''{ \"userId\": '' @ to_string userId @ '', \"policy\": '' @ to_string policy @ '' }''"

definition UnlockPolicyChanged ::
  "int \<Rightarrow> int \<Rightarrow> ('p, 's) event_state_scheme \<Rightarrow> ('p, 's) event_state_scheme"
where
  "UnlockPolicyChanged userId policy s =
     SystemEventCallBack ((SystemEvent UNLOCK_POLICY_CHANGE)\<lparr>params := policy_params userId policy\<rparr>) s"

section \<open>The part of the dump about the display\<close>

definition dump_bool :: "bool \<Rightarrow> string" where
  "dump_bool b = (if b then ''true'' else ''false'')"

definition nl :: string where "nl = [CHR 0x0A]"
definition tab :: string where "tab = [CHR 0x09]"
definition backslash :: string where "backslash = [CHR 0x5C]"

text \<open>
  The heading writes a backslash followed by \<open>t\<close>, as the source escapes it.  The screen state is
  read into a boolean: every state but \<open>SCREEN_STATE_BEGIN_OFF\<close> prints as true.
\<close>

definition AppendPrintOtherInfo :: "state_value \<Rightarrow> string \<Rightarrow> string" where
  "AppendPrintOtherInfo v output =
     (let on = (GetScreenState v \<noteq> 0)
      in output @ nl @ '' Screenlock system state'' @ backslash @ ''tValue'' @ backslash @ ''t''
           @ backslash @ ''tDescription'' @ nl
         @ '' * screenState  '' @ tab @ tab @ dump_bool on @ tab @ tab @ ''screen on / off status'' @ nl
         @ '' * offReason  '' @ tab @ tab @ tab @ to_string (GetOffReason v) @ tab @ tab
           @ ''screen failure reason'' @ nl
         @ '' * interactiveState '' @ tab @ tab @ to_string (GetInteractiveState v) @ tab @ tab
           @ ''screen interaction status'' @ nl)"

section \<open>Handlers as effects\<close>

text \<open>Reporting changes nothing but the trace.\<close>

lemma emit_selectors [simp]:
  "store (emit es s) = store s"
  "deathRecipientMap (emit es s') = deathRecipientMap s'"
  "innerListenMap (emit es s') = innerListenMap s'"
  "stateValue (emit es s'') = stateValue s''"
  "systemEventListener (emit es s'') = systemEventListener s''"
  by (simp_all add: emit_def)

definition reported :: "system_event \<Rightarrow> ('p, 's) event_state_scheme \<Rightarrow> effect list" where
  "reported ev s = (case systemEventListener s of None \<Rightarrow> [] | Some l \<Rightarrow> [SystemEventCallback l ev])"

lemma SystemEventCallBack_emit: "SystemEventCallBack ev s = emit (reported ev s) s"
  by (simp add: SystemEventCallBack_def reported_def split: option.split)

lemma reported_emit [simp]: "reported ev (emit es s) = reported ev s"
  by (simp add: reported_def)

definition strong_auth_event :: "int \<Rightarrow> int \<Rightarrow> system_event" where
  "strong_auth_event u r = \<lparr>eventType = STRONG_AUTH_CHANGED, params = to_string r, eventUserId = u\<rparr>"

lemma StrongAuthChanged_emit:
  "StrongAuthChanged u r s = emit (if currentUser (stateValue s) = u then reported (strong_auth_event u r) s else []) s"
  by (simp add: StrongAuthChanged_def SystemEventCallBack_emit strong_auth_event_def SystemEvent_def)

definition pre_auth_effects :: "int \<Rightarrow> int \<Rightarrow> ('p, 's) event_state_scheme \<Rightarrow> effect list" where
  "pre_auth_effects u a s =
     (if u = currentUser (stateValue s)
         \<and> a \<in> {auth_code PRE_AUTHED_RESULT_BY_CREDENTIAL, auth_code PRE_AUTHED_RESULT_BY_FINGERPRINT}
      then reported (SystemEvent PRE_AUTH_RESULT) s else [])"

lemma PreAuthStateNotify_emit: "PreAuthStateNotify u a s = emit (pre_auth_effects u a s) s"
  by (simp add: PreAuthStateNotify_def SystemEventCallBack_emit pre_auth_effects_def)

lemma UnlockPolicyChanged_emit:
  "UnlockPolicyChanged u p s
     = emit (reported \<lparr>eventType = UNLOCK_POLICY_CHANGE, params = policy_params u p, eventUserId = - 1\<rparr> s) s"
  by (simp add: UnlockPolicyChanged_def SystemEventCallBack_emit SystemEvent_def)

lemma UserIamReadyNotify_emit:
  "UserIamReadyNotify v s = emit (reported \<lparr>eventType = USERIAM_READY, params = v, eventUserId = - 1\<rparr> s) s"
  by (simp add: UserIamReadyNotify_def SystemEventCallBack_emit SystemEvent_def)

section \<open>What the application can reconstruct\<close>

text \<open>
  The screen-lock application learns the display state from the names of the events alone.
  \<open>app_view\<close> replays the events one listener was told over a pair (screen state, interactive
  state).
\<close>

definition screen_of_event :: "string \<Rightarrow> int option" where
  "screen_of_event n = map_of
     [(BEGIN_SCREEN_OFF, screen_state_code SCREEN_STATE_BEGIN_OFF),
      (END_SCREEN_OFF, screen_state_code SCREEN_STATE_END_OFF),
      (BEGIN_SCREEN_ON, screen_state_code SCREEN_STATE_BEGIN_ON),
      (END_SCREEN_ON, screen_state_code SCREEN_STATE_END_ON)] n"

definition interactive_of_event :: "string \<Rightarrow> int option" where
  "interactive_of_event n = map_of
     [(BEGIN_SLEEP, interactive_state_code INTERACTIVE_STATE_BEGIN_SLEEP),
      (END_SLEEP, interactive_state_code INTERACTIVE_STATE_END_SLEEP),
      (BEGIN_WAKEUP, interactive_state_code INTERACTIVE_STATE_BEGIN_WAKEUP),
      (END_WAKEUP, interactive_state_code INTERACTIVE_STATE_END_WAKEUP)] n"

definition opt_or :: "'a option \<Rightarrow> 'a \<Rightarrow> 'a" where
  "opt_or x d = (case x of None \<Rightarrow> d | Some v \<Rightarrow> v)"

fun replay :: "nat \<Rightarrow> effect \<Rightarrow> int \<times> int \<Rightarrow> int \<times> int" where
  "replay l (SystemEventCallback k ev) (sc, it) =
     (if k = l then (opt_or (screen_of_event (eventType ev)) sc, opt_or (interactive_of_event (eventType ev)) it)
      else (sc, it))"
| "replay l _ p = p"

definition app_view :: "nat \<Rightarrow> effect list \<Rightarrow> int \<times> int \<Rightarrow> int \<times> int" where
  "app_view l es p = fold (replay l) es p"

definition display_view :: "('p, 's) event_state_scheme \<Rightarrow> int \<times> int" where
  "display_view s = (screenState (stateValue s), interactiveState (stateValue s))"

definition power_event ::
  "display_power_event \<times> event_status \<Rightarrow> ('p, 's) event_state_scheme \<Rightarrow> ('p, 's) event_state_scheme"
where
  "power_event p s = OnDisplayPowerEvent True (fst p) (snd p) s"

lemmas power_handlers =
  OnWakeUp_def OnSleep_def OnScreenOn_def OnScreenOff_def OnExitAnimation_def SetScreenState_def
  SetInteractiveState_def

lemma power_event_listener: "systemEventListener (power_event p s) = systemEventListener s"
  by (cases "fst p"; cases "snd p")
    (simp_all add: power_event_def OnDisplayPowerEvent_def power_handlers SystemEventCallBack_emit)

lemma power_event_told:
  assumes "systemEventListener s = Some l" and "snd p \<noteq> STATUS_OTHER"
  shows "\<exists>es. trace (power_event p s) = trace s @ es
            \<and> display_view (power_event p s) = app_view l es (display_view s)"
  using assms
  by (cases "fst p"; cases "snd p")
    (simp_all add: power_event_def OnDisplayPowerEvent_def power_handlers SystemEventCallBack_emit
      reported_def app_view_def display_view_def SystemEvent_def screen_of_event_def
      interactive_of_event_def event_names opt_or_def)

text \<open>C25: as long as the display manager reports beginnings and ends only, an application that
  replays the events it was told, from the display state at its start, arrives at the screen state
  and interactive state the service holds, after any sequence of display power events.\<close>

theorem display_state_reconstructed:
  assumes "systemEventListener s = Some l" and "\<forall>p \<in> set ps. snd p \<noteq> STATUS_OTHER"
  shows "\<exists>es. trace (fold power_event ps s) = trace s @ es
            \<and> display_view (fold power_event ps s) = app_view l es (display_view s)"
  using assms
proof (induction ps arbitrary: s)
  case Nil
  then show ?case by (simp add: app_view_def)
next
  case (Cons p ps)
  obtain es where es: "trace (power_event p s) = trace s @ es"
    "display_view (power_event p s) = app_view l es (display_view s)"
    using power_event_told [of s l p] Cons.prems by auto
  obtain ds where ds: "trace (fold power_event ps (power_event p s)) = trace (power_event p s) @ ds"
    "display_view (fold power_event ps (power_event p s)) = app_view l ds (display_view (power_event p s))"
    using Cons.IH [of "power_event p s"] Cons.prems by (auto simp: power_event_listener)
  show ?case
    by (rule exI [of _ "es @ ds"]) (simp add: es ds app_view_def)
qed

definition sample_events :: "sample_store event_state" where
  "sample_events = \<lparr>trace = [], store = [], deathRecipientMap = [], innerListenMap = [],
     stateValue = initial_state_value, systemEventListener = Some 3\<rparr>"

theorem display_state_reconstructed_witness:
  "\<exists>es. trace (fold power_event [(DISPLAY_ON, STATUS_END), (SLEEP, STATUS_BEGIN)] sample_events) = [] @ es
     \<and> (3, 3) = app_view 3 es (0, 0)"
  using display_state_reconstructed [of sample_events 3 "[(DISPLAY_ON, STATUS_END), (SLEEP, STATUS_BEGIN)]"]
  by (simp add: sample_events_def power_event_def OnDisplayPowerEvent_def power_handlers display_view_def
      SystemEventCallBack_emit initial_state_value_def)

section \<open>The policy message\<close>

lemma to_string_chars: "c \<in> set (to_string i) \<Longrightarrow> c = CHR ''-'' \<or> 48 \<le> (of_char c :: nat) \<and> (of_char c :: nat) < 58"
  by (auto simp: to_string_def dest: dec_digits_char split: if_splits)

lemma append_stop_inject:
  assumes "xs @ c # ys = xs' @ c # ys'" and "c \<notin> set xs" and "c \<notin> set xs'"
  shows "xs = xs' \<and> ys = ys'"
proof -
  have "takeWhile (\<lambda>x. x \<noteq> c) (xs @ c # ys) = xs" "takeWhile (\<lambda>x. x \<noteq> c) (xs' @ c # ys') = xs'"
    using assms(2,3) by (simp_all add: takeWhile_tail takeWhile_append)
  with assms(1) show ?thesis by auto
qed

text \<open>The parameter string of an unlock-policy event determines the user and the policy it is
  about: no two changes are reported by the same message.\<close>

theorem policy_params_inject: "policy_params u p = policy_params u' p' \<longleftrightarrow> u = u' \<and> p = p'"
proof
  assume eq: "policy_params u p = policy_params u' p'"
  have no: "CHR '','' \<notin> set (to_string i)" for i
    using to_string_chars [of "CHR '',''" i] by auto
  from eq have "to_string u @ CHR '','' # '' \"policy\": '' @ to_string p @ '' }''
      = to_string u' @ CHR '','' # '' \"policy\": '' @ to_string p' @ '' }''"
    by (simp add: policy_params_def)
  from append_stop_inject [OF this no no] show "u = u' \<and> p = p'" by simp
qed simp

end
