(* ===== verification/Strong_Auth_Manager.thy ===== *)
theory Strong_Auth_Manager
  imports System_Events
begin

text \<open>
  \<open>services/src/strongauthmanager.cpp\<close>: when must a user authenticate with the credential
  again.  The state is the reason flag per user (\<open>strongAuthStateInfo\<close>) and the running timer per
  user (\<open>strongAuthTimerInfo\<close>); \<open>clockReads\<close> and \<open>timersCreated\<close> count the calls of the
  time service, whose n-th answers the environment holds.  The operations follow the order of the
  source; the theory \<open>Strong_Auth_Props\<close> has their properties.
\<close>

section \<open>Data\<close>

definition DEFAULT_STRONG_AUTH_TIMEOUT_MS :: int where
  "DEFAULT_STRONG_AUTH_TIMEOUT_MS = 3 * 24 * 60 * 60 * 1000"
definition CRED_CHANGE_FIRST_STRONG_AUTH_TIMEOUT_MS :: int where
  "CRED_CHANGE_FIRST_STRONG_AUTH_TIMEOUT_MS = 60 * 60 * 1000"
definition CRED_CHANGE_SECOND_STRONG_AUTH_TIMEOUT_MS :: int where
  "CRED_CHANGE_SECOND_STRONG_AUTH_TIMEOUT_MS = 3 * 60 * 60 * 1000"
definition CRED_CHANGE_THIRD_STRONG_AUTH_TIMEOUT_MS :: int where
  "CRED_CHANGE_THIRD_STRONG_AUTH_TIMEOUT_MS = 8 * 60 * 60 * 1000"
definition CRED_CHANGE_FOURTH_STRONG_AUTH_TIMEOUT_MS :: int where
  "CRED_CHANGE_FOURTH_STRONG_AUTH_TIMEOUT_MS = 24 * 60 * 60 * 1000"

lemmas timeouts =
  DEFAULT_STRONG_AUTH_TIMEOUT_MS_def CRED_CHANGE_FIRST_STRONG_AUTH_TIMEOUT_MS_def
  CRED_CHANGE_SECOND_STRONG_AUTH_TIMEOUT_MS_def CRED_CHANGE_THIRD_STRONG_AUTH_TIMEOUT_MS_def
  CRED_CHANGE_FOURTH_STRONG_AUTH_TIMEOUT_MS_def

record timer_info =
  timerId :: nat
  triggerPeriod :: int
  credChangeTimerStamp :: int

record 'p strong_state = "'p event_state" +
  strongAuthStateInfo :: "(int, int) stdmap"
  strongAuthTimerInfo :: "(int, timer_info) stdmap"
  authSuccessListener :: bool
  clockReads :: nat
  timersCreated :: nat

text \<open>The authentication types and credential events of the user-authentication framework.\<close>

datatype auth_type = PIN | FACE | FINGERPRINT | OTHER_AUTH_TYPE

datatype cred_change_event = ADD_CRED | UPDATE_CRED | DEL_USER | ENFORCE_DEL_USER | OTHER_CRED_EVENT

section \<open>The timer object\<close>

definition authTimer :: "'p env \<Rightarrow> bool \<Rightarrow> int \<Rightarrow> bool \<Rightarrow> bool \<Rightarrow> auth_timer" where
  "authTimer e rep interval isExact isIdle = \<lparr>
     timerRepeat = rep, timerInterval = interval,
     timerType = (if isIdle then TIMER_TYPE_IDLE e
                  else if isExact then TIMER_TYPE_WAKEUP e + TIMER_TYPE_REALTIME e
                  else TIMER_TYPE_WAKEUP e),
     timerUserId = 0, timerHasCallback = False\<rparr>"

definition SetType :: "int \<Rightarrow> auth_timer \<Rightarrow> auth_timer" where
  "SetType t timer = timer\<lparr>timerType := t\<rparr>"
definition SetRepeat :: "bool \<Rightarrow> auth_timer \<Rightarrow> auth_timer" where
  "SetRepeat r timer = timer\<lparr>timerRepeat := r\<rparr>"
definition SetInterval :: "int \<Rightarrow> auth_timer \<Rightarrow> auth_timer" where
  "SetInterval i timer = timer\<lparr>timerInterval := i\<rparr>"
definition SetCallbackInfo :: "bool \<Rightarrow> auth_timer \<Rightarrow> auth_timer" where
  "SetCallbackInfo cb timer = timer\<lparr>timerHasCallback := cb\<rparr>"
definition GetUserId :: "auth_timer \<Rightarrow> int" where
  "GetUserId timer = timerUserId timer"
definition SetUserId :: "int \<Rightarrow> auth_timer \<Rightarrow> auth_timer" where
  "SetUserId u timer = timer\<lparr>timerUserId := u\<rparr>"

section \<open>The time service\<close>

definition GetBootTimeMs :: "'p env \<Rightarrow> ('p, 's) strong_state_scheme \<Rightarrow> int \<times> ('p, 's) strong_state_scheme" where
  "GetBootTimeMs e s = (bootTimeMs e (clockReads s), s\<lparr>clockReads := Suc (clockReads s)\<rparr>)"

definition CreateTimer ::
  "'p env \<Rightarrow> auth_timer \<Rightarrow> ('p, 's) strong_state_scheme \<Rightarrow> nat \<times> ('p, 's) strong_state_scheme"
where
  "CreateTimer e timer s =
     (let n = createTimer e (timersCreated s)
      in (n, emit [TimerCreate n timer] (s\<lparr>timersCreated := Suc (timersCreated s)\<rparr>)))"

section \<open>Notification\<close>

text \<open>
  The system-event listener hears of the change first, then the inner listeners.  A reset to
  \<open>NONE\<close> is reported only when the account is unlocked.
\<close>

definition NotifyStrongAuthChange ::
  "'p env \<Rightarrow> int \<Rightarrow> int \<Rightarrow> ('p, 's) strong_state_scheme \<Rightarrow> ('p, 's) strong_state_scheme"
where
  "NotifyStrongAuthChange e userId reasonFlag s =
     (if reasonFlag = reason_code REASON_NONE
      then if IsOsAccountUnlocked e userId
           then OnStrongAuthChanged userId reasonFlag (StrongAuthChanged userId reasonFlag s)
           else s
      else OnStrongAuthChanged userId reasonFlag (StrongAuthChanged userId reasonFlag s))"

section \<open>The reason flags\<close>

definition SetStrongAuthStat ::
  "'p env \<Rightarrow> int \<Rightarrow> int \<Rightarrow> ('p, 's) strong_state_scheme \<Rightarrow> ('p, 's) strong_state_scheme"
where
  "SetStrongAuthStat e userId reasonFlag s =
     (case mfind (strongAuthStateInfo s) userId of
        None \<Rightarrow>
          NotifyStrongAuthChange e userId reasonFlag
            (s\<lparr>strongAuthStateInfo := minsert userId reasonFlag (strongAuthStateInfo s)\<rparr>)
      | Some oldFlag \<Rightarrow>
          if oldFlag = reason_code AFTER_BOOT \<and> reasonFlag \<noteq> reason_code REASON_NONE then s
          else NotifyStrongAuthChange e userId reasonFlag
                 (s\<lparr>strongAuthStateInfo := mput userId reasonFlag (strongAuthStateInfo s)\<rparr>))"

definition GetStrongAuthStat :: "'p env \<Rightarrow> int \<Rightarrow> ('p, 's) strong_state_scheme \<Rightarrow> int" where
  "GetStrongAuthStat e userId s =
     (if IsOsAccountUnlocked e userId
      then case mfind (strongAuthStateInfo s) userId of
             None \<Rightarrow> reason_code AFTER_BOOT
           | Some reasonFlag \<Rightarrow> reasonFlag
      else reason_code AFTER_BOOT)"

text \<open>The period is an \<open>int64_t\<close> returned as an \<open>int32_t\<close>.\<close>

definition GetStrongAuthTimeTrigger :: "int \<Rightarrow> ('p, 's) strong_state_scheme \<Rightarrow> int" where
  "GetStrongAuthTimeTrigger userId s =
     (case mfind (strongAuthTimerInfo s) userId of None \<Rightarrow> 0 | Some ti \<Rightarrow> to_int32 (triggerPeriod ti))"

definition AccountUnlocked ::
  "'p env \<Rightarrow> int \<Rightarrow> ('p, 's) strong_state_scheme \<Rightarrow> ('p, 's) strong_state_scheme"
where
  "AccountUnlocked e userId s = NotifyStrongAuthChange e userId (reason_code REASON_NONE) s"

definition DestroyStrongAuthStateInfo ::
  "int \<Rightarrow> ('p, 's) strong_state_scheme \<Rightarrow> ('p, 's) strong_state_scheme"
where
  "DestroyStrongAuthStateInfo userId s =
     (case mfind (strongAuthStateInfo s) userId of
        None \<Rightarrow> s
      | Some _ \<Rightarrow> s\<lparr>strongAuthStateInfo := merase userId (strongAuthStateInfo s)\<rparr>)"

definition InitStrongAuthStat ::
  "'p env \<Rightarrow> int \<Rightarrow> int \<Rightarrow> ('p, 's) strong_state_scheme \<Rightarrow> ('p, 's) strong_state_scheme"
where
  "InitStrongAuthStat e userId reasonFlag s =
     (case mfind (strongAuthStateInfo s) userId of
        None \<Rightarrow>
          NotifyStrongAuthChange e userId reasonFlag
            (s\<lparr>strongAuthStateInfo := minsert userId reasonFlag (strongAuthStateInfo s)\<rparr>)
      | Some _ \<Rightarrow> s)"

definition IsUserExitInStrongAuthInfo :: "int \<Rightarrow> ('p, 's) strong_state_scheme \<Rightarrow> bool" where
  "IsUserExitInStrongAuthInfo userId s = (mfind (strongAuthStateInfo s) userId \<noteq> None)"

definition IsUserHasStrongAuthTimer :: "int \<Rightarrow> ('p, 's) strong_state_scheme \<Rightarrow> bool" where
  "IsUserHasStrongAuthTimer userId s = (mfind (strongAuthTimerInfo s) userId \<noteq> None)"

section \<open>The timers\<close>

definition GetTimerId :: "int \<Rightarrow> ('p, 's) strong_state_scheme \<Rightarrow> nat" where
  "GetTimerId userId s =
     (case mfind (strongAuthTimerInfo s) userId of None \<Rightarrow> 0 | Some ti \<Rightarrow> timerId ti)"

text \<open>
  The two overloads of \<open>StartStrongAuthTimer\<close>.  The sum of clock and period becomes a
  \<open>uint64_t\<close>; the map keeps an entry that already exists.
\<close>

definition StartStrongAuthTimer_period ::
  "'p env \<Rightarrow> int \<Rightarrow> int \<Rightarrow> ('p, 's) strong_state_scheme \<Rightarrow> ('p, 's) strong_state_scheme"
where
  "StartStrongAuthTimer_period e userId period s =
     (if GetTimerId userId s \<noteq> 0 then s
      else let timer = SetUserId userId (SetCallbackInfo True
                         (authTimer e True DEFAULT_STRONG_AUTH_TIMEOUT_MS True False));
               (newId, s1) = CreateTimer e timer s;
               (currentTime, s2) = GetBootTimeMs e s1;
               s3 = emit [TimerStart newId (to_uint64 (currentTime + period))] s2
           in s3\<lparr>strongAuthTimerInfo :=
                minsert userId \<lparr>timerId = newId, triggerPeriod = period, credChangeTimerStamp = currentTime\<rparr>
                  (strongAuthTimerInfo s3)\<rparr>)"

definition StartStrongAuthTimer ::
  "'p env \<Rightarrow> int \<Rightarrow> ('p, 's) strong_state_scheme \<Rightarrow> ('p, 's) strong_state_scheme"
where
  "StartStrongAuthTimer e userId s = StartStrongAuthTimer_period e userId DEFAULT_STRONG_AUTH_TIMEOUT_MS s"

definition SetCredChangeTriggerPeriod ::
  "'p env \<Rightarrow> int \<Rightarrow> int \<Rightarrow> ('p, 's) strong_state_scheme \<Rightarrow> ('p, 's) strong_state_scheme"
where
  "SetCredChangeTriggerPeriod e userId period s =
     (case mfind (strongAuthTimerInfo s) userId of
        None \<Rightarrow> s
      | Some ti \<Rightarrow>
          let (t, s1) = GetBootTimeMs e s
          in s1\<lparr>strongAuthTimerInfo :=
               mput userId (ti\<lparr>triggerPeriod := period, credChangeTimerStamp := t\<rparr>) (strongAuthTimerInfo s1)\<rparr>)"

definition ResetStrongAuthTimer ::
  "'p env \<Rightarrow> int \<Rightarrow> int \<Rightarrow> ('p, 's) strong_state_scheme \<Rightarrow> ('p, 's) strong_state_scheme"
where
  "ResetStrongAuthTimer e userId period s =
     (let tid = GetTimerId userId s
      in if tid = 0 then StartStrongAuthTimer_period e userId period s
         else let (currentTime, s1) = GetBootTimeMs e s
              in SetCredChangeTriggerPeriod e userId period
                   (emit [TimerStop tid, TimerStart tid (to_uint64 (currentTime + period))] s1))"

text \<open>
  The stages of \<open>GetStrongAuthTriggerPeriod\<close>: the loop finds the stage of the current period and
  advances it when more than the period has passed since the time stamp.
\<close>

definition stages :: "(int \<times> int) list" where
  "stages =
     [(CRED_CHANGE_FIRST_STRONG_AUTH_TIMEOUT_MS, CRED_CHANGE_SECOND_STRONG_AUTH_TIMEOUT_MS),
      (CRED_CHANGE_SECOND_STRONG_AUTH_TIMEOUT_MS, CRED_CHANGE_THIRD_STRONG_AUTH_TIMEOUT_MS),
      (CRED_CHANGE_THIRD_STRONG_AUTH_TIMEOUT_MS, CRED_CHANGE_FOURTH_STRONG_AUTH_TIMEOUT_MS),
      (CRED_CHANGE_FOURTH_STRONG_AUTH_TIMEOUT_MS, DEFAULT_STRONG_AUTH_TIMEOUT_MS)]"

fun advance_stage :: "(int \<times> int) list \<Rightarrow> int \<Rightarrow> timer_info \<Rightarrow> timer_info" where
  "advance_stage [] currentTime ti = ti"
| "advance_stage ((current, nxt) # rest) currentTime ti =
     (if triggerPeriod ti \<noteq> current then advance_stage rest currentTime ti
      else if currentTime - credChangeTimerStamp ti > current
           then ti\<lparr>triggerPeriod := nxt, credChangeTimerStamp := currentTime\<rparr>
           else ti)"

definition GetStrongAuthTriggerPeriod ::
  "'p env \<Rightarrow> int \<Rightarrow> ('p, 's) strong_state_scheme \<Rightarrow> int \<times> ('p, 's) strong_state_scheme"
where
  "GetStrongAuthTriggerPeriod e userId s =
     (let (currentTime, s1) = GetBootTimeMs e s
      in case mfind (strongAuthTimerInfo s1) userId of
           None \<Rightarrow> (DEFAULT_STRONG_AUTH_TIMEOUT_MS, s1)
         | Some ti \<Rightarrow>
             let ti' = advance_stage stages currentTime ti
             in (triggerPeriod ti', s1\<lparr>strongAuthTimerInfo := mput userId ti' (strongAuthTimerInfo s1)\<rparr>))"

fun destroy_timers ::
  "(int, timer_info) stdmap \<Rightarrow> ('p, 's) strong_state_scheme \<Rightarrow> ('p, 's) strong_state_scheme"
where
  "destroy_timers [] s = s"
| "destroy_timers ((userId, _) # rest) s =
     (let tid = GetTimerId userId s
      in if tid \<noteq> 0
         then destroy_timers rest
                ((emit [TimerStop tid, TimerDestroy tid] s)
                   \<lparr>strongAuthTimerInfo := merase userId (strongAuthTimerInfo s)\<rparr>)
         else destroy_timers rest s)"

definition DestroyAllStrongAuthTimer :: "('p, 's) strong_state_scheme \<Rightarrow> ('p, 's) strong_state_scheme" where
  "DestroyAllStrongAuthTimer s = destroy_timers (strongAuthTimerInfo s) s"

definition DestroyStrongAuthTimer :: "int \<Rightarrow> ('p, 's) strong_state_scheme \<Rightarrow> ('p, 's) strong_state_scheme" where
  "DestroyStrongAuthTimer userId s =
     (let tid = GetTimerId userId s
      in if tid = 0 then s
         else (emit [TimerStop tid, TimerDestroy tid] s)
                \<lparr>strongAuthTimerInfo := merase userId (strongAuthTimerInfo s)\<rparr>)"

section \<open>Callbacks\<close>

definition StrongAuthTimerCallback ::
  "'p env \<Rightarrow> int \<Rightarrow> ('p, 's) strong_state_scheme \<Rightarrow> ('p, 's) strong_state_scheme"
where
  "StrongAuthTimerCallback e userId s =
     (let period = GetStrongAuthTimeTrigger userId s;
          reasonFlag = (if period > 0 \<and> period < DEFAULT_STRONG_AUTH_TIMEOUT_MS
                        then reason_code AFTER_CREDENTIAL_CHANGED else reason_code AFTER_TIMEOUT)
      in SetStrongAuthStat e userId reasonFlag s)"

definition OnTrigger ::
  "'p env \<Rightarrow> auth_timer \<Rightarrow> ('p, 's) strong_state_scheme \<Rightarrow> ('p, 's) strong_state_scheme"
where
  "OnTrigger e timer s =
     (if timerHasCallback timer then StrongAuthTimerCallback e (timerUserId timer) s else s)"

definition RegistAuthEventListener :: "('p, 's) strong_state_scheme \<Rightarrow> ('p, 's) strong_state_scheme" where
  "RegistAuthEventListener s =
     emit [ServiceCall ''RegistUserAuthSuccessEventListener''] (s\<lparr>authSuccessListener := True\<rparr>)"

definition UnRegistAuthEventListener :: "('p, 's) strong_state_scheme \<Rightarrow> ('p, 's) strong_state_scheme" where
  "UnRegistAuthEventListener s =
     (if authSuccessListener s
      then emit [ServiceCall ''UnRegistUserAuthSuccessEventListener''] (s\<lparr>authSuccessListener := False\<rparr>)
      else s)"

definition OnNotifyAuthSuccessEvent ::
  "'p env \<Rightarrow> int \<Rightarrow> auth_type \<Rightarrow> bool \<Rightarrow> ('p, 's) strong_state_scheme \<Rightarrow> ('p, 's) strong_state_scheme"
where
  "OnNotifyAuthSuccessEvent e userId authType isWidgetAuth s =
     (if authType = PIN \<and> \<not> isWidgetAuth
      then let s1 = SetStrongAuthStat e userId (reason_code REASON_NONE) s;
               (period, s2) = GetStrongAuthTriggerPeriod e userId s1
           in ResetStrongAuthTimer e userId period s2
      else s)"

definition OnNotifyCredChangeEvent ::
  "'p env \<Rightarrow> int \<Rightarrow> auth_type \<Rightarrow> cred_change_event \<Rightarrow> bool \<Rightarrow> ('p, 's) strong_state_scheme
     \<Rightarrow> ('p, 's) strong_state_scheme"
where
  "OnNotifyCredChangeEvent e userId authType credEvent isSilentCredChange s =
     (if deviceType e = ''2in1'' then s
      else if authType = PIN \<and> IsUserExitInStrongAuthInfo userId s
      then if credEvent = ADD_CRED \<or> (credEvent = UPDATE_CRED \<and> \<not> isSilentCredChange)
           then ResetStrongAuthTimer e userId CRED_CHANGE_FIRST_STRONG_AUTH_TIMEOUT_MS s
           else if credEvent = DEL_USER
           then DestroyStrongAuthTimer userId (SetStrongAuthStat e userId (reason_code REASON_NONE) s)
           else if credEvent = ENFORCE_DEL_USER
           then DestroyStrongAuthTimer userId (DestroyStrongAuthStateInfo userId s)
           else s
      else s)"

text \<open>
  \<open>GetCredInfo\<close> asks for the user's PIN credentials; the answer arrives later as
  \<open>OnCredentialInfo\<close>, with a result and the number of credentials.
\<close>

definition GetCredInfo ::
  "'p env \<Rightarrow> int \<Rightarrow> ('p, 's) strong_state_scheme \<Rightarrow> bool \<times> ('p, 's) strong_state_scheme"
where
  "GetCredInfo e userId s =
     (case mfind (strongAuthStateInfo s) userId of
        Some _ \<Rightarrow> (True, s)
      | None \<Rightarrow> (getCredentialInfo e userId = AUTH_SUCCESS, emit [CredentialRequest userId] s))"

definition OnCredentialInfo ::
  "'p env \<Rightarrow> int \<Rightarrow> auth_result \<Rightarrow> nat \<Rightarrow> ('p, 's) strong_state_scheme \<Rightarrow> ('p, 's) strong_state_scheme"
where
  "OnCredentialInfo e userId result infoCount s =
     (if infoCount > 0 \<or> (result \<noteq> AUTH_SUCCESS \<and> result \<noteq> AUTH_NOT_ENROLLED)
      then StartStrongAuthTimer e userId (InitStrongAuthStat e userId (reason_code AFTER_BOOT) s)
      else InitStrongAuthStat e userId (reason_code REASON_NONE) s)"

end
