(* ===== verification/Watch_App_Lock.thy ===== *)
theory Watch_App_Lock
  imports Strong_Auth_Manager "HOL-Library.List_Lexorder"
begin

text \<open>
  \<open>watch/\<close>: the application lock of the wearable build.  \<open>WatchAppLockManager\<close> remembers which
  payment applications were unlocked (\<open>unlockedRecord\<close>, a set of bundle names) and whether one
  unlock on the wrist counts for all (\<open>isWristUnlock\<close>); \<open>SettingManager\<close> reads the settings
  database, \<open>HiSysEventReport\<close> writes fault records, and the two wear observers feed the wearing
  state and the end of the screen's sleep.  Threads that retry a registration are separate steps
  (\<open>SensorRetryTask\<close>, \<open>WearDisplayRetryTask\<close>).  Allocating an observer object in the
  constructor always succeeds in the model.
\<close>

record 'p watch_state = "'p strong_state" +
  isWearOn :: bool
  isWristUnlock :: bool
  appStateObserver :: bool
  leaveWristSettingObserver :: bool
  unlockedRecord :: "string list"
  sensorRegistered :: bool
  wearDisplayRegistered :: bool

section \<open>Constants\<close>

definition SETTING_DEVICE_SHARED_URI :: string where
  "SETTING_DEVICE_SHARED_URI =
     ''datashare:///com.ohos.settingsdata/entry/settingsdata/SETTINGSDATA?Proxy=true''"
definition SETTING_USER_SECURE_URI :: string where
  "SETTING_USER_SECURE_URI =
     ''datashare:///com.ohos.settingsdata/entry/settingsdata/USER_SETTINGSDATA_SECURE_100?Proxy=true''"
definition AND_KEY :: string where "AND_KEY = ''&key=''"
definition SETTING_ENABLE_VALUE :: string where "SETTING_ENABLE_VALUE = ''1''"
definition SETTING_DISENABLE_VALUE :: string where "SETTING_DISENABLE_VALUE = ''0''"
definition PASSWORD_SCOPE :: string where "PASSWORD_SCOPE = ''password_scope''"
definition HW_LEAVE_WRIST :: string where "HW_LEAVE_WRIST = ''hw_leave_wrist''"
definition IS_PIN_ENROLLED :: string where "IS_PIN_ENROLLED = ''persist.useriam.isPinEnrolled''"
definition STATE_FALSE :: string where "STATE_FALSE = ''false''"
definition STATE_TRUE :: string where "STATE_TRUE = ''true''"
definition GET_PAYMENT_ERROR_CODE :: int where "GET_PAYMENT_ERROR_CODE = 1"
definition START_IAM_ERROR_CODE :: int where "START_IAM_ERROR_CODE = 2"
definition MAX_RETRIES :: nat where "MAX_RETRIES = 5"

section \<open>Settings\<close>

text \<open>\<open>SettingManager::Query\<close>: the result code, and the value where the code writes one.\<close>

definition Query :: "'p env \<Rightarrow> string \<Rightarrow> string \<Rightarrow> int \<times> string option" where
  "Query e uri key =
     (case dataShareQuery e uri key of
        NoSettingHelper \<Rightarrow> (- 1, None)
      | NoResultSet \<Rightarrow> (- 1, None)
      | NoFirstRow \<Rightarrow> (- 1, None)
      | NoColumn \<Rightarrow> (- 1, None)
      | NoString \<Rightarrow> (- 1, None)
      | StringThrows \<Rightarrow> (- 1, None)
      | StringValue v \<Rightarrow> (0, Some v))"

definition GetSettingsValue :: "'p env \<Rightarrow> string \<Rightarrow> string \<Rightarrow> string \<Rightarrow> string" where
  "GetSettingsValue e addressUrl key defaultValue =
     (let (code, value) = Query e addressUrl key
      in if code \<noteq> 0 then defaultValue else (case value of None \<Rightarrow> '''' | Some v \<Rightarrow> v))"

definition RegisterSettingObserver ::
  "'p env \<Rightarrow> string \<Rightarrow> ('p, 's) watch_state_scheme \<Rightarrow> bool \<times> ('p, 's) watch_state_scheme"
where
  "RegisterSettingObserver e uri s =
     (if \<not> settingHelper e then (False, s)
      else let s1 = emit [SettingObserverRegister uri] s
           in if \<not> settingObserverOk e then (False, s1) else (True, s1))"

definition UnRegisterSettingObserver ::
  "'p env \<Rightarrow> string \<Rightarrow> ('p, 's) watch_state_scheme \<Rightarrow> bool \<times> ('p, 's) watch_state_scheme"
where
  "UnRegisterSettingObserver e uri s =
     (if \<not> settingHelper e then (False, s)
      else let s1 = emit [SettingObserverUnregister uri] s
           in if \<not> settingObserverOk e then (False, s1) else (True, s1))"

definition IsDeviceScope :: "'p env \<Rightarrow> bool" where
  "IsDeviceScope e =
     (GetSettingsValue e SETTING_USER_SECURE_URI PASSWORD_SCOPE SETTING_DISENABLE_VALUE = SETTING_ENABLE_VALUE)"

definition IsLeaveWrist :: "'p env \<Rightarrow> bool" where
  "IsLeaveWrist e =
     (GetSettingsValue e SETTING_DEVICE_SHARED_URI HW_LEAVE_WRIST SETTING_DISENABLE_VALUE = SETTING_ENABLE_VALUE)"

definition HasPin :: "'p env \<Rightarrow> bool" where
  "HasPin e =
     ((case systemParameter e IS_PIN_ENROLLED of None \<Rightarrow> STATE_FALSE | Some v \<Rightarrow> v) = STATE_TRUE)"

section \<open>Fault records\<close>

text \<open>
  \<open>SendEvent\<close> copies each entry of the ordered map into a parameter record whose name field holds
  \<open>nameSize\<close> bytes, the terminator included.
\<close>

definition event_param :: "nat \<Rightarrow> string \<times> event_value \<Rightarrow> string \<times> event_value" where
  "event_param nameSize p =
     (let count = length (fst p);
          count' = (if count \<ge> nameSize then nameSize - 1 else count)
      in (take count' (fst p), snd p))"

definition SendEvent ::
  "'p env \<Rightarrow> string \<Rightarrow> (string, event_value) stdmap \<Rightarrow> ('p, 's) watch_state_scheme
     \<Rightarrow> ('p, 's) watch_state_scheme"
where
  "SendEvent e eventName eventMap s =
     emit [SysEventWrite ''WATCH_LOCKSCREEN'' eventName (map (event_param (sysEventNameSize e)) eventMap)] s"

definition ReportFaultCode ::
  "'p env \<Rightarrow> string \<Rightarrow> int \<Rightarrow> string \<Rightarrow> ('p, 's) watch_state_scheme \<Rightarrow> ('p, 's) watch_state_scheme"
where
  "ReportFaultCode e bundleName code reason s =
     (let eventMap = mput ''ERROR_REASON'' (StrValue reason)
                       (mput ''ERROR_CODE'' (IntValue code)
                         (mput ''BUNDLE_NAME'' (StrValue bundleName) []))
      in SendEvent e ''SCREEN_LOCK_ERROR'' eventMap s)"

section \<open>Who is calling\<close>

definition GetBundleNameByUid :: "'p env \<Rightarrow> int \<Rightarrow> string" where
  "GetBundleNameByUid e uid =
     (case bundleNameForUid e uid of
        NoSystemAbilityManager \<Rightarrow> ''''
      | NoRemoteObject \<Rightarrow> ''''
      | NoBundleManager \<Rightarrow> ''''
      | NameForUid callerBundleName \<Rightarrow> callerBundleName)"

definition GetPaymentServices ::
  "'p env \<Rightarrow> ('p, 's) watch_state_scheme \<Rightarrow> (bool \<times> string list) \<times> ('p, 's) watch_state_scheme"
where
  "GetPaymentServices e s =
     (let (errCode, infos) = paymentServices e
      in if errCode \<noteq> 0
         then ((False, infos), ReportFaultCode e (GetBundleNameByUid e (callingUid e)) GET_PAYMENT_ERROR_CODE
                                 (to_string errCode) s)
         else ((True, infos), s))"

definition IsPaymentApp :: "'p env \<Rightarrow> ('p, 's) watch_state_scheme \<Rightarrow> bool \<times> ('p, 's) watch_state_scheme" where
  "IsPaymentApp e s =
     (let bundleName = GetBundleNameByUid e (callingUid e)
      in if bundleName = '''' then (False, s)
         else let ((ok, infos), s1) = GetPaymentServices e s
              in if \<not> ok then (True, s1) else (List.find (\<lambda>b. b = bundleName) infos \<noteq> None, s1))"

definition GenerateRandom :: "(nat \<Rightarrow> nat) \<Rightarrow> nat \<Rightarrow> int list" where
  "GenerateRandom rd len = map (\<lambda>index. int (rd index mod 256)) [0..<len]"

text \<open>The copy of the helper this class has.\<close>

definition Watch_GetUserIdFromCallingUid :: "'p env \<Rightarrow> int" where
  "Watch_GetUserIdFromCallingUid e =
     (let userId = (case localIdFromUid e (callingUid e) of None \<Rightarrow> 0 | Some u \<Rightarrow> u)
      in if userId = 0 then (case foregroundLocalId e of None \<Rightarrow> userId | Some u \<Rightarrow> u)
         else userId)"

lemma Watch_GetUserIdFromCallingUid_eq [simp]: "Watch_GetUserIdFromCallingUid e = GetUserIdFromCallingUid e"
  by (simp add: Watch_GetUserIdFromCallingUid_def GetUserIdFromCallingUid_def)

definition BeginWidgetAuth ::
  "'p env \<Rightarrow> ('p, 's) watch_state_scheme \<Rightarrow> bool \<times> ('p, 's) watch_state_scheme"
where
  "BeginWidgetAuth e s =
     (let s1 = emit [WidgetAuth (Watch_GetUserIdFromCallingUid e) (GenerateRandom (randomWord e) 16)] s;
          resultCode = widgetAuthResult e;
          isStart = (resultCode = 0)
      in if \<not> isStart
         then (False, ReportFaultCode e (GetBundleNameByUid e (callingUid e)) START_IAM_ERROR_CODE
                        (to_string resultCode) s1)
         else (True, s1))"

section \<open>Observers\<close>

definition registerAppStateObserver ::
  "'p env \<Rightarrow> ('p, 's) watch_state_scheme \<Rightarrow> ('p, 's) watch_state_scheme"
where
  "registerAppStateObserver e s =
     (let s1 = s\<lparr>appStateObserver := makeAppObserver e\<rparr>
      in if \<not> makeAppObserver e then s1
         else if \<not> appMgrClient e then s1
         else emit [AppObserverRegister] s1)"

definition unregisterAppStateObserver ::
  "'p env \<Rightarrow> ('p, 's) watch_state_scheme \<Rightarrow> ('p, 's) watch_state_scheme"
where
  "unregisterAppStateObserver e s =
     (if \<not> appStateObserver s then s
      else if \<not> appMgrClient e then s
      else let s1 = emit [AppObserverUnregister] s
           in if \<not> unregisterAppObserverOk e then s1 else s1\<lparr>appStateObserver := False\<rparr>)"

definition registerLeaveWristSettingObserver ::
  "'p env \<Rightarrow> ('p, 's) watch_state_scheme \<Rightarrow> ('p, 's) watch_state_scheme"
where
  "registerLeaveWristSettingObserver e s =
     (let s1 = s\<lparr>leaveWristSettingObserver := makeSettingObserver e\<rparr>
      in if \<not> makeSettingObserver e then s1
         else snd (RegisterSettingObserver e (SETTING_DEVICE_SHARED_URI @ AND_KEY @ HW_LEAVE_WRIST) s1))"

definition unregisterLeaveWristSettingObserver ::
  "'p env \<Rightarrow> ('p, 's) watch_state_scheme \<Rightarrow> ('p, 's) watch_state_scheme"
where
  "unregisterLeaveWristSettingObserver e s =
     (if \<not> leaveWristSettingObserver s then s
      else (snd (UnRegisterSettingObserver e (SETTING_DEVICE_SHARED_URI @ AND_KEY @ HW_LEAVE_WRIST) s))
             \<lparr>leaveWristSettingObserver := False\<rparr>)"

section \<open>The record of unlocked applications\<close>

definition UnlockedRecord_add ::
  "'p env \<Rightarrow> string \<Rightarrow> ('p, 's) watch_state_scheme \<Rightarrow> bool \<times> ('p, 's) watch_state_scheme"
where
  "UnlockedRecord_add e element s =
     (let s1 = (if unlockedRecord s = []
                then registerLeaveWristSettingObserver e (registerAppStateObserver e s) else s)
      in (element \<notin> set (unlockedRecord s), s1\<lparr>unlockedRecord := insort_insert element (unlockedRecord s)\<rparr>))"

definition UnlockedRecord_remove ::
  "'p env \<Rightarrow> string \<Rightarrow> ('p, 's) watch_state_scheme \<Rightarrow> bool \<times> ('p, 's) watch_state_scheme"
where
  "UnlockedRecord_remove e element s =
     (let s1 = s\<lparr>unlockedRecord := remove1 element (unlockedRecord s)\<rparr>
      in (element \<in> set (unlockedRecord s),
          if unlockedRecord s1 = []
          then unregisterLeaveWristSettingObserver e (unregisterAppStateObserver e s1) else s1))"

definition UnlockedRecord_contains :: "string \<Rightarrow> ('p, 's) watch_state_scheme \<Rightarrow> bool" where
  "UnlockedRecord_contains element s \<longleftrightarrow> element \<in> set (unlockedRecord s)"

definition UnlockedRecord_clear ::
  "'p env \<Rightarrow> ('p, 's) watch_state_scheme \<Rightarrow> ('p, 's) watch_state_scheme"
where
  "UnlockedRecord_clear e s =
     unregisterLeaveWristSettingObserver e (unregisterAppStateObserver e (s\<lparr>unlockedRecord := []\<rparr>))"

section \<open>Retried registrations\<close>

text \<open>The retry loops of both observers: at most \<open>maxRetries\<close> attempts.\<close>

function retry_loop :: "(nat \<Rightarrow> bool) \<Rightarrow> nat \<Rightarrow> nat \<Rightarrow> nat \<times> bool" where
  "retry_loop ok maxRetries retryCount =
     (if retryCount < maxRetries
      then if \<not> ok retryCount then retry_loop ok maxRetries (Suc retryCount) else (retryCount, True)
      else (retryCount, False))"
  by pat_completeness auto
termination by (relation "measure (\<lambda>(ok, m, c). m - c)") auto

declare retry_loop.simps [simp del]

definition sensor_attempt_ok :: "'p env \<Rightarrow> nat \<Rightarrow> bool" where
  "sensor_attempt_ok e n =
     (let (subscribe, batch, activate) = sensorAttempt e n
      in if subscribe \<noteq> 0 then False else if batch \<noteq> 0 then False else activate = 0)"

definition RegisterSensorListener :: "('p, 's) watch_state_scheme \<Rightarrow> ('p, 's) watch_state_scheme" where
  "RegisterSensorListener s =
     (if \<not> sensorRegistered s
      then emit [ServiceCall ''WearDetectionObserver::RetryRegistration''] (s\<lparr>sensorRegistered := True\<rparr>)
      else s)"

definition SensorRetryTask :: "'p env \<Rightarrow> ('p, 's) watch_state_scheme \<Rightarrow> ('p, 's) watch_state_scheme" where
  "SensorRetryTask e s =
     (if snd (retry_loop (sensor_attempt_ok e) MAX_RETRIES 0) then s else s\<lparr>sensorRegistered := False\<rparr>)"

definition UnRegisterSensorListener :: "('p, 's) watch_state_scheme \<Rightarrow> ('p, 's) watch_state_scheme" where
  "UnRegisterSensorListener s =
     (if sensorRegistered s
      then emit [ServiceCall ''DeactivateSensor'', ServiceCall ''UnsubscribeSensor'']
             (s\<lparr>sensorRegistered := False\<rparr>)
      else s)"

definition WearDisplay_Register :: "('p, 's) watch_state_scheme \<Rightarrow> ('p, 's) watch_state_scheme" where
  "WearDisplay_Register s =
     (if \<not> wearDisplayRegistered s
      then emit [ServiceCall ''WearDisplayPowerEventObserver::RetryRegistration'']
             (s\<lparr>wearDisplayRegistered := True\<rparr>)
      else s)"

definition WearDisplayRetryTask :: "'p env \<Rightarrow> ('p, 's) watch_state_scheme \<Rightarrow> ('p, 's) watch_state_scheme" where
  "WearDisplayRetryTask e s =
     (if snd (retry_loop (wearDisplayAttempt e) MAX_RETRIES 0) then s
      else s\<lparr>wearDisplayRegistered := False\<rparr>)"

definition WearDisplay_UnRegister :: "('p, 's) watch_state_scheme \<Rightarrow> ('p, 's) watch_state_scheme" where
  "WearDisplay_UnRegister s =
     (if wearDisplayRegistered s
      then emit [ServiceCall ''UnregisterDisplayPowerEventListener''] (s\<lparr>wearDisplayRegistered := False\<rparr>)
      else s)"

section \<open>The manager\<close>

definition WatchAppLockManager_init :: "('p, 's) watch_state_scheme \<Rightarrow> ('p, 's) watch_state_scheme" where
  "WatchAppLockManager_init s = WearDisplay_Register (RegisterSensorListener s)"

definition WatchAppLockManager_destroy ::
  "'p env \<Rightarrow> ('p, 's) watch_state_scheme \<Rightarrow> ('p, 's) watch_state_scheme"
where
  "WatchAppLockManager_destroy e s =
     WearDisplay_UnRegister (UnRegisterSensorListener (UnlockedRecord_clear e s))"

definition isSecureMode :: "'p env \<Rightarrow> bool" where
  "isSecureMode e = HasPin e"

definition IsFinishUnlock :: "'p env \<Rightarrow> ('p, 's) watch_state_scheme \<Rightarrow> bool" where
  "IsFinishUnlock e s =
     (if isWristUnlock s then True
      else UnlockedRecord_contains (GetBundleNameByUid e (callingUid e)) s)"

definition Watch_IsScreenLocked :: "'p env \<Rightarrow> bool \<Rightarrow> ('p, 's) watch_state_scheme \<Rightarrow> bool" where
  "Watch_IsScreenLocked e isOHScreenLocked s =
     (if \<not> HasPin e then False
      else if IsLeaveWrist e
      then (if IsDeviceScope e then isOHScreenLocked else \<not> IsFinishUnlock e s)
      else \<not> IsFinishUnlock e s)"

definition Watch_unlockScreen ::
  "'p env \<Rightarrow> bool \<Rightarrow> ('p, 's) watch_state_scheme \<Rightarrow> status \<times> ('p, 's) watch_state_scheme"
where
  "Watch_unlockScreen e isScreenLocked s =
     (let s0 = WearDisplay_Register (RegisterSensorListener s)
      in if \<not> isScreenLocked \<or> \<not> HasPin e then (Code E_SCREENLOCK_NOT_FOCUS_APP, s0)
         else let bundleName = GetBundleNameByUid e (callingUid e);
                  (isStartIAM, s1) = BeginWidgetAuth e s0
              in if isStartIAM
                 then let s2 = snd (UnlockedRecord_add e bundleName s1);
                          s3 = (if IsLeaveWrist e \<and> isWearOn s2 then s2\<lparr>isWristUnlock := True\<rparr> else s2)
                      in (OK, s3)
                 else (Code E_SCREENLOCK_NOT_FOCUS_APP, s1))"

definition OnScreenOffEnd :: "'p env \<Rightarrow> ('p, 's) watch_state_scheme \<Rightarrow> ('p, 's) watch_state_scheme" where
  "OnScreenOffEnd e s = UnlockedRecord_clear e s"

definition WearStateChange ::
  "'p env \<Rightarrow> bool \<Rightarrow> ('p, 's) watch_state_scheme \<Rightarrow> ('p, 's) watch_state_scheme"
where
  "WearStateChange e wearOn s =
     (let s1 = s\<lparr>isWearOn := wearOn\<rparr>
      in if \<not> wearOn then (UnlockedRecord_clear e s1)\<lparr>isWristUnlock := False\<rparr> else s1)"

definition OnWindowHidden ::
  "'p env \<Rightarrow> string \<Rightarrow> ('p, 's) watch_state_scheme \<Rightarrow> ('p, 's) watch_state_scheme"
where
  "OnWindowHidden e bundleName s = snd (UnlockedRecord_remove e bundleName s)"

definition LeaveWrist_OnChange ::
  "'p env \<Rightarrow> ('p, 's) watch_state_scheme \<Rightarrow> ('p, 's) watch_state_scheme"
where
  "LeaveWrist_OnChange e s =
     (if \<not> IsLeaveWrist e then (UnlockedRecord_clear e s)\<lparr>isWristUnlock := False\<rparr> else s)"

text \<open>
  A sensor event carries its sensor type and, where the data pointer is not null, whether the value
  equals \<open>WEAR_ON\<close>.
\<close>

definition WearSensorCallback ::
  "'p env \<Rightarrow> (bool \<times> bool option) option \<Rightarrow> ('p, 's) watch_state_scheme \<Rightarrow> ('p, 's) watch_state_scheme"
where
  "WearSensorCallback e event s =
     (case event of
        None \<Rightarrow> s
      | Some (isWearDetection, data) \<Rightarrow>
          if isWearDetection
          then (case data of None \<Rightarrow> s | Some wearOn \<Rightarrow> WearStateChange e wearOn s)
          else s)"

definition WearDisplay_OnDisplayPowerEvent ::
  "'p env \<Rightarrow> display_power_event \<Rightarrow> event_status \<Rightarrow> ('p, 's) watch_state_scheme
     \<Rightarrow> ('p, 's) watch_state_scheme"
where
  "WearDisplay_OnDisplayPowerEvent e event status s =
     (if event = SLEEP \<and> status = STATUS_END then OnScreenOffEnd e s else s)"

end
