(* ===== verification/System_Ability.thy ===== *)
theory System_Ability
  imports Watch_App_Lock
begin

text \<open>
  \<open>services/src/screenlock_system_ability.cpp\<close>: the requests of the service.  The state adds
  the running state, the listeners that wait for the result of a lock or unlock, the authentication
  state and the screen-lock state per user, and the work submitted to the queues of the runtime
  (\<open>tasks\<close>), each piece of which runs later as a step of its own.  A request takes the environment
  of its caller and returns its status, the out parameter where it writes one, and the new state.
  The two overloads of \<open>Lock\<close> are \<open>Lock_listener\<close> and \<open>Lock_user\<close>; the service's functions
  that forward to the inner-listener manager carry the prefix \<open>Service_\<close>.  Start-up, accounts and
  the dump are in \<open>System_Lifecycle\<close>.
\<close>

section \<open>State\<close>

datatype service_running_state = STATE_NOT_START | STATE_RUNNING

text \<open>
  The lambdas the code submits, with what they capture: the retry of \<open>Init\<close>, of the registration of
  the display listener (with the count so far), one attempt of \<open>OnSystemReady\<close> (with the attempts
  left), the callbacks of the lock and unlock listeners, and a notification of the display manager.
\<close>

datatype task =
    InitTask
  | RegisterDisplayTask int
  | SystemReadyTask nat
  | LockCallbackTask int
  | UnlockCallbackTask int int
  | NotifyDisplayTask display_event

record command =
  cmd_format :: "string list"
  cmd_help :: string
  cmd_dumps_all :: bool

record 'p service_state = "'p watch_state" +
  runningState :: service_running_state
  instanceSet :: bool
  queueSet :: bool
  accountSubscribers :: "(account_event \<times> int) list"
  displayPowerEventListener :: bool
  systemReady :: bool
  unlockVecListeners :: "nat list"
  unlockVecUserIds :: "int list"
  lockVecListeners :: "nat list"
  authStateInfo :: "(int, int) stdmap"
  isScreenlockedMap :: "(int, bool) stdmap"
  credChangeListener :: bool
  eventSubscriber :: bool
  cmdHandler :: "(string, command) stdmap"
  tasks :: "task list"
  displayRegistrations :: nat
  publishCalls :: nat

definition submit :: "task \<Rightarrow> ('p, 's) service_state_scheme \<Rightarrow> ('p, 's) service_state_scheme" where
  "submit t s = s\<lparr>tasks := tasks s @ [t]\<rparr>"

text \<open>Submission to the service's own queue, which may be gone.\<close>

definition queue_submit :: "task \<Rightarrow> ('p, 's) service_state_scheme \<Rightarrow> ('p, 's) service_state_scheme" where
  "queue_submit t s = (if queueSet s then submit t s else s)"

section \<open>Screen-lock state\<close>

definition screen_locked_of :: "int \<Rightarrow> ('p, 's) service_state_scheme \<Rightarrow> bool" where
  "screen_locked_of userId s = (case mfind (isScreenlockedMap s) userId of None \<Rightarrow> True | Some b \<Rightarrow> b)"

definition SetScreenlocked :: "bool \<Rightarrow> int \<Rightarrow> ('p, 's) service_state_scheme \<Rightarrow> ('p, 's) service_state_scheme" where
  "SetScreenlocked isScreenlocked userId s =
     (case mfind (isScreenlockedMap s) userId of
        Some _ \<Rightarrow> s\<lparr>isScreenlockedMap := mput userId isScreenlocked (isScreenlockedMap s)\<rparr>
      | None \<Rightarrow> s\<lparr>isScreenlockedMap := minsert userId isScreenlocked (isScreenlockedMap s)\<rparr>)"

definition IsScreenLocked ::
  "'p env \<Rightarrow> ('p, 's) service_state_scheme \<Rightarrow> bool \<times> ('p, 's) service_state_scheme"
where
  "IsScreenLocked e s =
     (let cur = GetCurrentUser (stateValue s);
          userId = (if cur = USER_NULL \<or> cur = 0 then GetUserIdFromCallingUid e else cur)
      in if SUPPORT_WEAR_PAYMENT_APP e
         then let (payment, s1) = IsPaymentApp e s
              in if payment then (Watch_IsScreenLocked e (screen_locked_of userId s1) s1, s1)
                 else (screen_locked_of userId s1, s1)
         else (screen_locked_of userId s, s))"

text \<open>A request returns a status and, where it assigns its out parameter, the value.\<close>

datatype out_value = NoOut | BoolOut bool | IntOut int

definition IsLocked ::
  "'p env \<Rightarrow> ('p, 's) service_state_scheme \<Rightarrow> (status \<times> out_value) \<times> ('p, 's) service_state_scheme"
where
  "IsLocked e s =
     (if tokenTypeFlag e (callingTokenId e) = TOKEN_HAP \<and> \<not> IsSystemApp e
      then ((Code E_SCREENLOCK_NOT_SYSTEM_APP, NoOut), s)
      else let (isLocked, s1) = IsScreenLocked e s in ((OK, BoolOut isLocked), s1))"

definition IsLockedWithUserId ::
  "'p env \<Rightarrow> int \<Rightarrow> ('p, 's) service_state_scheme \<Rightarrow> (status \<times> out_value) \<times> ('p, 's) service_state_scheme"
where
  "IsLockedWithUserId e userId s =
     (if CheckSystemPermission e then ((Code E_SCREENLOCK_NOT_SYSTEM_APP, NoOut), s)
      else case mfind (isScreenlockedMap s) userId of
             Some b \<Rightarrow> ((OK, BoolOut b), s)
           | None \<Rightarrow> ((Code E_SCREENLOCK_USER_ID_INVALID, BoolOut True), s))"

definition GetSecure ::
  "'p env \<Rightarrow> ('p, 's) service_state_scheme \<Rightarrow> bool \<times> ('p, 's) service_state_scheme"
where
  "GetSecure e s =
     (let userId0 = (case localIdFromUid e (callingUid e) of None \<Rightarrow> 0 | Some u \<Rightarrow> u);
          userId = (if userId0 = 0 then (case foregroundLocalId e of None \<Rightarrow> userId0 | Some u \<Rightarrow> u) else userId0);
          stored = (let (result, count) = credentialInfoSync e userId in result = AUTH_SUCCESS \<and> count > 0)
      in if SUPPORT_WEAR_PAYMENT_APP e
         then let (payment, s1) = IsPaymentApp e s
              in if payment then (isSecureMode e, s1) else (stored, s1)
         else (stored, s))"

section \<open>Unlocking and locking\<close>

definition UnlockInner ::
  "'p env \<Rightarrow> nat \<Rightarrow> ('p, 's) service_state_scheme \<Rightarrow> status \<times> ('p, 's) service_state_scheme"
where
  "UnlockInner e listener s =
     (let hasPermission = CheckPermission e ACCESS_SCREEN_LOCK
      in if tokenTypeFlag e (callingTokenId e) \<noteq> TOKEN_NATIVE
            \<and> \<not> IsAppInForeground e (callingPid e) (callingTokenId e) \<and> \<not> hasPermission
         then (Code E_SCREENLOCK_NOT_FOCUS_APP, s)
         else
           let accept = (\<lambda>s'. (OK, SystemEventCallBack (SystemEvent UNLOCKSCREEN)
                  (s'\<lparr>unlockVecListeners := unlockVecListeners s' @ [listener],
                     unlockVecUserIds := unlockVecUserIds s' @ [GetUserIdFromCallingUid e]\<rparr>)))
           in if SUPPORT_WEAR_PAYMENT_APP e \<and> \<not> screen_locked_of (GetUserIdFromCallingUid e) s
              then let (payment, s1) = IsPaymentApp e s
                   in if payment
                      then let (locked, s2) = IsScreenLocked e s1;
                               (watchUnlockResult, s3) = Watch_unlockScreen e locked s2
                           in if watchUnlockResult \<noteq> OK then (watchUnlockResult, s3) else accept s3
                      else accept s1
              else accept s)"

definition UnlockScreen ::
  "'p env \<Rightarrow> nat \<Rightarrow> ('p, 's) service_state_scheme \<Rightarrow> status \<times> ('p, 's) service_state_scheme"
where
  "UnlockScreen e listener s = UnlockInner e listener s"

definition Unlock ::
  "'p env \<Rightarrow> nat \<Rightarrow> ('p, 's) service_state_scheme \<Rightarrow> status \<times> ('p, 's) service_state_scheme"
where
  "Unlock e listener s =
     (if \<not> IsSystemApp e then (Code E_SCREENLOCK_NOT_SYSTEM_APP, s) else UnlockInner e listener s)"

definition Lock_listener ::
  "'p env \<Rightarrow> nat \<Rightarrow> ('p, 's) service_state_scheme \<Rightarrow> status \<times> ('p, 's) service_state_scheme"
where
  "Lock_listener e listener s =
     (if \<not> IsSystemApp e then (Code E_SCREENLOCK_NOT_SYSTEM_APP, s)
      else if \<not> CheckPermission e ACCESS_SCREEN_LOCK_INNER then (Code E_SCREENLOCK_NO_PERMISSION, s)
      else let (_, s1) = IsScreenLocked e s
           in (OK, SystemEventCallBack (SystemEvent LOCKSCREEN)
                     (s1\<lparr>lockVecListeners := lockVecListeners s1 @ [listener]\<rparr>)))"

definition Lock_user ::
  "'p env \<Rightarrow> int \<Rightarrow> ('p, 's) service_state_scheme \<Rightarrow> status \<times> ('p, 's) service_state_scheme"
where
  "Lock_user e userId s =
     (if \<not> CheckPermission e ACCESS_SCREEN_LOCK_INNER then (Code E_SCREENLOCK_NO_PERMISSION, s)
      else let (_, s1) = IsScreenLocked e s in (OK, SystemEventCallBack (SystemEvent LOCKSCREEN) s1))"

definition IsLockedWatch ::
  "'p env \<Rightarrow> ('p, 's) service_state_scheme \<Rightarrow> (status \<times> out_value) \<times> ('p, 's) service_state_scheme"
where
  "IsLockedWatch e s =
     (if tokenTypeFlag e (callingTokenId e) = TOKEN_HAP \<and> \<not> IsSystemApp e
      then ((Code E_SCREENLOCK_NOT_SYSTEM_APP, NoOut), s)
      else let (isScreenLocked, s1) = IsScreenLocked e s
           in ((OK, BoolOut (isScreenLocked \<or> Watch_IsScreenLocked e isScreenLocked s1)), s1))"

definition UnlockWatch ::
  "'p env \<Rightarrow> nat \<Rightarrow> ('p, 's) service_state_scheme \<Rightarrow> status \<times> ('p, 's) service_state_scheme"
where
  "UnlockWatch e listener s =
     (if tokenTypeFlag e (callingTokenId e) = TOKEN_HAP \<and> \<not> IsSystemApp e
      then (Code E_SCREENLOCK_NOT_SYSTEM_APP, s)
      else let (isScreenLocked, s1) = IsScreenLocked e s
           in if isScreenLocked then (OK, snd (UnlockScreen e listener s1))
              else (OK, snd (Watch_unlockScreen e (Watch_IsScreenLocked e isScreenLocked s1) s1)))"

section \<open>Results from the application\<close>

definition COMMON_EVENT_SCREEN_LOCKED :: string where
  "COMMON_EVENT_SCREEN_LOCKED = ''COMMON_EVENT_SCREEN_LOCKED''"
definition COMMON_EVENT_SCREEN_UNLOCKED :: string where
  "COMMON_EVENT_SCREEN_UNLOCKED = ''COMMON_EVENT_SCREEN_UNLOCKED''"
definition COMMON_EVENT_SCREEN_LOCK_EXITING :: string where
  "COMMON_EVENT_SCREEN_LOCK_EXITING = ''COMMON_EVENT_SCREEN_LOCK_EXITING''"

text \<open>The three names stand for the constants of the common-event library.\<close>

definition PublishEvent :: "string \<Rightarrow> int \<Rightarrow> ('p, 's) service_state_scheme \<Rightarrow> ('p, 's) service_state_scheme" where
  "PublishEvent eventAction userId s = emit [CommonEvent eventAction userId] s"

definition NotifyDisplayEvent :: "display_event \<Rightarrow> ('p, 's) service_state_scheme \<Rightarrow> ('p, 's) service_state_scheme" where
  "NotifyDisplayEvent ev s = (if \<not> queueSet s then s else submit (NotifyDisplayTask ev) s)"

definition LockScreenEvent ::
  "'p env \<Rightarrow> int \<Rightarrow> ('p, 's) service_state_scheme \<Rightarrow> ('p, 's) service_state_scheme"
where
  "LockScreenEvent e stateResult s =
     (let succ = (stateResult = screen_change_code SCREEN_SUCC);
          userId = (if succ then GetUserIdFromCallingUid e else 0);
          s1 = (if succ then SetScreenlocked True userId s else s);
          s2 = (if lockVecListeners s1 \<noteq> [] then submit (LockCallbackTask stateResult) s1 else s1)
      in if succ then PublishEvent COMMON_EVENT_SCREEN_LOCKED userId s2 else s2)"

definition NotifyUnlockListener ::
  "'p env \<Rightarrow> int \<Rightarrow> ('p, 's) service_state_scheme \<Rightarrow> ('p, 's) service_state_scheme"
where
  "NotifyUnlockListener e screenLockResult s =
     (if unlockVecListeners s \<noteq> []
      then submit (UnlockCallbackTask screenLockResult (GetUserIdFromCallingUid e)) s else s)"

definition UnlockScreenEvent ::
  "'p env \<Rightarrow> int \<Rightarrow> ('p, 's) service_state_scheme \<Rightarrow> ('p, 's) service_state_scheme"
where
  "UnlockScreenEvent e stateResult s =
     (if stateResult = screen_change_code ALREADY_UNLOCKED
      then NotifyUnlockListener e (screen_change_code SCREEN_SUCC) s
      else if stateResult = screen_change_code EARLY_SUCCESS
      then let userId = GetUserIdFromCallingUid e
           in PublishEvent COMMON_EVENT_SCREEN_LOCK_EXITING userId (SetScreenlocked False userId s)
      else
        let s1 = (if stateResult = screen_change_code SCREEN_SUCC
                  then let userId = GetUserIdFromCallingUid e
                       in PublishEvent COMMON_EVENT_SCREEN_UNLOCKED userId
                            (NotifyDisplayEvent DISPLAY_UNLOCK (SetScreenlocked False userId s))
                  else s)
        in if stateResult \<noteq> screen_change_code SCREEN_FAIL then NotifyUnlockListener e stateResult s1 else s1)"

text \<open>
  The callback of an unlock listener: the result for listeners of the user who was current, the
  stored state for the others.  An access outside the vectors is \<open>None\<close>.
\<close>

definition vec_at :: "'a list \<Rightarrow> nat \<Rightarrow> 'a option" where
  "vec_at xs i = (if i < length xs then Some (xs ! i) else None)"

definition CallbackUnlockListener ::
  "nat \<Rightarrow> int \<Rightarrow> int \<Rightarrow> ('p, 's) service_state_scheme \<Rightarrow> ('p, 's) service_state_scheme option"
where
  "CallbackUnlockListener i screenLockResult curUserId s =
     (case (vec_at (unlockVecUserIds s) i, vec_at (unlockVecListeners s) i) of
        (Some u, Some l) \<Rightarrow>
          if u = curUserId then Some (emit [UnlockCallback l screenLockResult] s)
          else let result = (if screen_locked_of u s then screen_change_code SCREEN_FAIL
                             else screen_change_code SCREEN_SUCC)
               in Some (emit [UnlockCallback l result] s)
      | _ \<Rightarrow> None)"

fun unlock_callbacks ::
  "nat list \<Rightarrow> int \<Rightarrow> int \<Rightarrow> ('p, 's) service_state_scheme \<Rightarrow> ('p, 's) service_state_scheme option"
where
  "unlock_callbacks [] result cur s = Some s"
| "unlock_callbacks (i # is) result cur s =
     (case CallbackUnlockListener i result cur s of
        None \<Rightarrow> None
      | Some s' \<Rightarrow> unlock_callbacks is result cur s')"

definition UnlockCallback_run ::
  "int \<Rightarrow> int \<Rightarrow> ('p, 's) service_state_scheme \<Rightarrow> ('p, 's) service_state_scheme option"
where
  "UnlockCallback_run screenLockResult curUserId s =
     (case unlock_callbacks [0..<length (unlockVecListeners s)] screenLockResult curUserId s of
        None \<Rightarrow> None
      | Some s' \<Rightarrow> Some (s'\<lparr>unlockVecListeners := [], unlockVecUserIds := []\<rparr>))"

definition LockCallback_run :: "int \<Rightarrow> ('p, 's) service_state_scheme \<Rightarrow> ('p, 's) service_state_scheme" where
  "LockCallback_run stateResult s =
     (emit (map (\<lambda>l. LockCallback l stateResult) (lockVecListeners s)) s)\<lparr>lockVecListeners := []\<rparr>"

definition SendScreenLockEvent ::
  "'p env \<Rightarrow> string \<Rightarrow> int \<Rightarrow> ('p, 's) service_state_scheme \<Rightarrow> status \<times> ('p, 's) service_state_scheme"
where
  "SendScreenLockEvent e event param s =
     (if \<not> IsSystemApp e then (Code E_SCREENLOCK_NOT_SYSTEM_APP, s)
      else if \<not> CheckPermission e ACCESS_SCREEN_LOCK_INNER then (Code E_SCREENLOCK_NO_PERMISSION, s)
      else if event = UNLOCK_SCREEN_RESULT then (OK, UnlockScreenEvent e param s)
      else if event = SCREEN_DRAWDONE then (OK, NotifyDisplayEvent KEYGUARD_DRAWN s)
      else if event = LOCK_SCREEN_RESULT then (OK, LockScreenEvent e param s)
      else (OK, s))"

section \<open>The disabled flag\<close>

definition IsScreenLockDisabled ::
  "'p env \<Rightarrow> int \<Rightarrow> ('p, 's) service_state_scheme \<Rightarrow> (status \<times> out_value) \<times> ('p, 's) service_state_scheme"
where
  "IsScreenLockDisabled e userId s =
     (if \<not> preferencesUtil e then ((Code E_SCREENLOCK_NULLPTR, NoOut), s)
      else if \<not> CheckPermission e ACCESS_SCREEN_LOCK then ((Code E_SCREENLOCK_NO_PERMISSION, NoOut), s)
      else ((OK, BoolOut (ObtainBool (prefs e) (disabled_key userId) False s)), s))"

definition FreshDisabledState ::
  "'p env \<Rightarrow> bool \<Rightarrow> int \<Rightarrow> ('p, 's) service_state_scheme \<Rightarrow> status \<times> ('p, 's) service_state_scheme"
where
  "FreshDisabledState e disable userId s =
     (if \<not> preferencesUtil e then (Code E_SCREENLOCK_NULLPTR, s)
      else if disable \<noteq> ObtainBool (prefs e) (disabled_key userId) False s
      then (OK, Refresh (prefs e) (snd (SaveBool (prefs e) (disabled_key userId) disable s)))
      else (OK, s))"

definition SetScreenLockDisabled ::
  "'p env \<Rightarrow> bool \<Rightarrow> int \<Rightarrow> ('p, 's) service_state_scheme \<Rightarrow> status \<times> ('p, 's) service_state_scheme"
where
  "SetScreenLockDisabled e disable userId s =
     (if GetCurrentActiveOsAccountId e \<noteq> userId then (Change SCREEN_FAIL, s)
      else let (secure, s1) = (if disable then GetSecure e s else (False, s))
           in if disable \<and> secure then (Change SCREEN_FAIL, s1)
              else if \<not> CheckPermission e ACCESS_SCREEN_LOCK then (Code E_SCREENLOCK_NO_PERMISSION, s1)
              else FreshDisabledState e disable userId s1)"

section \<open>The authentication state\<close>

definition GetDeviceLockedStateByAuth :: "int \<Rightarrow> bool" where
  "GetDeviceLockedStateByAuth authState =
     (if authState = auth_code AUTHED_BY_CREDENTIAL \<or> authState = auth_code AUTHED_BY_FINGERPRINT
         \<or> authState = auth_code AUTHED_BY_FACE
      then False else True)"

definition bool_int :: "bool \<Rightarrow> int" where
  "bool_int b = (if b then 1 else 0)"

definition SetScreenLockAuthState ::
  "'p env \<Rightarrow> int \<Rightarrow> int \<Rightarrow> string \<Rightarrow> ('p, 's) service_state_scheme \<Rightarrow> status \<times> ('p, 's) service_state_scheme"
where
  "SetScreenLockAuthState e authState userId authToken s =
     (if CheckSystemPermission e then (Code E_SCREENLOCK_NOT_SYSTEM_APP, s)
      else if \<not> CheckPermission e ACCESS_SCREEN_LOCK_INNER then (Code E_SCREENLOCK_NO_PERMISSION, s)
      else case mfind (authStateInfo s) userId of
             Some old \<Rightarrow>
               let nextState = GetDeviceLockedStateByAuth authState;
                   curState = GetDeviceLockedStateByAuth old;
                   s1 = (if nextState \<noteq> curState then OnDeviceLockStateChanged userId (bool_int nextState) s else s);
                   s2 = s1\<lparr>authStateInfo := mput userId authState (authStateInfo s1)\<rparr>
               in (OK, PreAuthStateNotify userId authState s2)
           | None \<Rightarrow>
               (OK, PreAuthStateNotify userId authState
                      (s\<lparr>authStateInfo := minsert userId authState (authStateInfo s)\<rparr>)))"

definition GetScreenLockAuthState ::
  "'p env \<Rightarrow> int \<Rightarrow> ('p, 's) service_state_scheme \<Rightarrow> (status \<times> out_value) \<times> ('p, 's) service_state_scheme"
where
  "GetScreenLockAuthState e userId s =
     (if CheckSystemPermission e then ((Code E_SCREENLOCK_NOT_SYSTEM_APP, NoOut), s)
      else if \<not> CheckPermission e ACCESS_SCREEN_LOCK then ((Code E_SCREENLOCK_NO_PERMISSION, NoOut), s)
      else case mfind (authStateInfo s) userId of
             Some a \<Rightarrow> ((OK, IntOut a), s)
           | None \<Rightarrow> ((OK, IntOut (auth_code UNAUTH)), s))"

definition IsDeviceLocked ::
  "'p env \<Rightarrow> int \<Rightarrow> ('p, 's) service_state_scheme \<Rightarrow> (status \<times> out_value) \<times> ('p, 's) service_state_scheme"
where
  "IsDeviceLocked e userId s =
     (if CheckSystemPermission e then ((Code E_SCREENLOCK_NOT_SYSTEM_APP, NoOut), s)
      else case mfind (authStateInfo s) userId of
             Some a \<Rightarrow> ((OK, BoolOut (GetDeviceLockedStateByAuth a)), s)
           | None \<Rightarrow> ((Code E_SCREENLOCK_USER_ID_INVALID, BoolOut True), s))"

definition AuthStateInit :: "int \<Rightarrow> ('p, 's) service_state_scheme \<Rightarrow> ('p, 's) service_state_scheme" where
  "AuthStateInit userId s =
     (let s1 = (case mfind (authStateInfo s) userId of
                  None \<Rightarrow> s\<lparr>authStateInfo := minsert userId (auth_code UNAUTH) (authStateInfo s)\<rparr>
                | Some _ \<Rightarrow> s)
      in case mfind (isScreenlockedMap s1) userId of
           None \<Rightarrow> s1\<lparr>isScreenlockedMap := minsert userId True (isScreenlockedMap s1)\<rparr>
         | Some _ \<Rightarrow> s1)"

section \<open>Strong authentication and inner listeners\<close>

definition RequestStrongAuth ::
  "'p env \<Rightarrow> int \<Rightarrow> int \<Rightarrow> ('p, 's) service_state_scheme \<Rightarrow> status \<times> ('p, 's) service_state_scheme"
where
  "RequestStrongAuth e reasonFlag userId s =
     (if IS_SO_CROP_H e then (OK, s)
      else if CheckSystemPermission e then (Code E_SCREENLOCK_NOT_SYSTEM_APP, s)
      else if \<not> CheckPermission e ACCESS_SCREEN_LOCK then (Code E_SCREENLOCK_NO_PERMISSION, s)
      else (OK, SetStrongAuthStat e userId reasonFlag s))"

definition GetStrongAuth ::
  "'p env \<Rightarrow> int \<Rightarrow> ('p, 's) service_state_scheme \<Rightarrow> (status \<times> out_value) \<times> ('p, 's) service_state_scheme"
where
  "GetStrongAuth e userId s =
     (if IS_SO_CROP_H e then ((OK, IntOut 0), s)
      else if CheckSystemPermission e then ((Code E_SCREENLOCK_NOT_SYSTEM_APP, NoOut), s)
      else if \<not> CheckPermission e ACCESS_SCREEN_LOCK then ((Code E_SCREENLOCK_NO_PERMISSION, NoOut), s)
      else ((OK, IntOut (GetStrongAuthStat e userId s)), s))"

definition Service_RegisterInnerListener ::
  "'p env \<Rightarrow> int \<Rightarrow> int \<Rightarrow> listener option \<Rightarrow> ('p, 's) service_state_scheme
     \<Rightarrow> status \<times> ('p, 's) service_state_scheme"
where
  "Service_RegisterInnerListener e userId listenType listener s =
     (if CheckSystemPermission e then (Code E_SCREENLOCK_NOT_SYSTEM_APP, s)
      else if listenType = listen_type STRONG_AUTH \<and> \<not> CheckPermission e ACCESS_SCREEN_LOCK
      then (Code E_SCREENLOCK_NO_PERMISSION, s)
      else RegisterInnerListener e userId listenType listener s)"

definition Service_UnRegisterInnerListener ::
  "'p env \<Rightarrow> int \<Rightarrow> int \<Rightarrow> listener option \<Rightarrow> ('p, 's) service_state_scheme
     \<Rightarrow> status \<times> ('p, 's) service_state_scheme"
where
  "Service_UnRegisterInnerListener e userId listenType listener s =
     (if CheckSystemPermission e then (Code E_SCREENLOCK_NOT_SYSTEM_APP, s)
      else if listenType = listen_type STRONG_AUTH \<and> \<not> CheckPermission e ACCESS_SCREEN_LOCK
      then (Code E_SCREENLOCK_NO_PERMISSION, s)
      else UnRegisterInnerListener listenType listener s)"

section \<open>Unlock policy\<close>

definition SetUnlockPolicy ::
  "'p env \<Rightarrow> int \<Rightarrow> int \<Rightarrow> ('p, 's) service_state_scheme \<Rightarrow> status \<times> ('p, 's) service_state_scheme"
where
  "SetUnlockPolicy e userId policy s =
     (if \<not> CheckPermission e ACCESS_SCREEN_LOCK then (Code E_SCREENLOCK_NO_PERMISSION, s)
      else if \<not> IsNativeAccess e then (Code E_SCREENLOCK_NO_PERMISSION, s)
      else if \<not> preferencesUtil e then (Code E_SCREENLOCK_NULLPTR, s)
      else case mfind (authStateInfo s) userId of
             Some _ \<Rightarrow>
               let curPolicy = ObtainInt (prefs e) (preferKey userId) 0 s
               in if curPolicy = policy then (OK, s)
                  else (OK, UnlockPolicyChanged userId policy
                              (Refresh (prefs e) (snd (SaveInt (prefs e) (preferKey userId) policy s))))
           | None \<Rightarrow> (Code E_SCREENLOCK_USER_ID_INVALID, s))"

definition GetUnlockPolicy ::
  "'p env \<Rightarrow> int \<Rightarrow> ('p, 's) service_state_scheme \<Rightarrow> (status \<times> out_value) \<times> ('p, 's) service_state_scheme"
where
  "GetUnlockPolicy e userId s =
     (if CheckSystemPermission e then ((Code E_SCREENLOCK_NOT_SYSTEM_APP, NoOut), s)
      else if \<not> CheckPermission e ACCESS_SCREEN_LOCK then ((Code E_SCREENLOCK_NO_PERMISSION, NoOut), s)
      else if \<not> preferencesUtil e then ((Code E_SCREENLOCK_NULLPTR, NoOut), s)
      else case mfind (authStateInfo s) userId of
             Some _ \<Rightarrow> ((OK, IntOut (ObtainInt (prefs e) (preferKey userId) 0 s)), s)
           | None \<Rightarrow> ((Code E_SCREENLOCK_USER_ID_INVALID, IntOut 0), s))"

definition DeleteUnlockPolicyForUser ::
  "'p env \<Rightarrow> int \<Rightarrow> ('p, 's) service_state_scheme \<Rightarrow> ('p, 's) service_state_scheme"
where
  "DeleteUnlockPolicyForUser e userId s =
     (if \<not> preferencesUtil e then s else snd (RemoveKey (prefs e) (preferKey userId) s))"

section \<open>The system-event listener\<close>

definition OnSystemEvent ::
  "'p env \<Rightarrow> nat option \<Rightarrow> ('p, 's) service_state_scheme \<Rightarrow> status \<times> ('p, 's) service_state_scheme"
where
  "OnSystemEvent e listener s =
     (if \<not> IsSystemApp e then (Code E_SCREENLOCK_NOT_SYSTEM_APP, s)
      else if \<not> CheckPermission e ACCESS_SCREEN_LOCK_INNER then (Code E_SCREENLOCK_NO_PERMISSION, s)
      else let s1 = s\<lparr>systemEventListener := listener, stateValue := StateValue_Reset (stateValue s)\<rparr>;
               s2 = queue_submit (SystemReadyTask 50) s1
           in (OK, SetCurrentUser (GetUserIdFromCallingUid e) s2))"

text \<open>
  One turn of the loop of \<open>OnSystemReady\<close>, with \<open>tryTime\<close> turns left.  Between two turns the
  code sleeps without holding a lock and other operations run, so the next turn is a task of its own.
\<close>

definition OnSystemReady_turn :: "nat \<Rightarrow> ('p, 's) service_state_scheme \<Rightarrow> ('p, 's) service_state_scheme" where
  "OnSystemReady_turn tryTime s =
     (if tryTime > 0
      then case systemEventListener s of
             Some l \<Rightarrow>
               if systemReady s then emit [SystemEventCallback l (SystemEvent SYSTEM_READY)] s
               else if tryTime - 1 > 0 then submit (SystemReadyTask (tryTime - 1)) s else s
           | None \<Rightarrow> if tryTime - 1 > 0 then submit (SystemReadyTask (tryTime - 1)) s else s
      else s)"

end
