(* ===== verification/System_Lifecycle.thy ===== *)
theory System_Lifecycle
  imports System_Ability "HOL-Library.AList"
begin

text \<open>
  Start, stop and account handling of \<open>services/src/screenlock_system_ability.cpp\<close>, with
  \<open>commeventsubscriber.cpp\<close>, \<open>command.cpp\<close> and \<open>dump_helper.cpp\<close>; then the single
  dispatcher of requests (\<open>serve\<close>), of submitted work (\<open>run_task\<close>) and of everything that can
  happen to the service (\<open>service_step\<close>).  The model follows one service object from construction
  to its stop.
\<close>

section \<open>Initialisation\<close>

definition InitServiceHandler :: "('p, 's) service_state_scheme \<Rightarrow> ('p, 's) service_state_scheme" where
  "InitServiceHandler s = (if queueSet s then s else s\<lparr>queueSet := True\<rparr>)"

definition Init :: "'p env \<Rightarrow> ('p, 's) service_state_scheme \<Rightarrow> status \<times> ('p, 's) service_state_scheme" where
  "Init e s =
     (let s1 = s\<lparr>publishCalls := Suc (publishCalls s)\<rparr>
      in if \<not> publishService e (publishCalls s) then (Code E_SCREENLOCK_PUBLISH_FAIL, s1)
         else (OK, s1\<lparr>stateValue := StateValue_Reset (stateValue s1)\<rparr>))"

text \<open>The command \<open>-all\<close> and its registration; the map keeps a command that exists.\<close>

definition GetOption :: "command \<Rightarrow> string option" where
  "GetOption cmd = vec_at (cmd_format cmd) 0"

definition GetFormat :: "command \<Rightarrow> string" where
  "GetFormat cmd = foldl (\<lambda>acc seg. acc @ seg @ '' '') [] (cmd_format cmd)"

definition ShowHelp :: "command \<Rightarrow> string" where
  "ShowHelp cmd = cmd_help cmd"

definition RegisterCommand :: "command \<Rightarrow> ('p, 's) service_state_scheme \<Rightarrow> ('p, 's) service_state_scheme" where
  "RegisterCommand cmd s =
     (case GetOption cmd of
        None \<Rightarrow> s
      | Some opt \<Rightarrow> s\<lparr>cmdHandler := minsert opt cmd (cmdHandler s)\<rparr>)"

definition dump_all_command :: command where
  "dump_all_command =
     \<lparr>cmd_format = [''-all''], cmd_help = ''dump all screenlock information'', cmd_dumps_all = True\<rparr>"

definition RegisterDumpCommand :: "'p env \<Rightarrow> ('p, 's) service_state_scheme \<Rightarrow> ('p, 's) service_state_scheme" where
  "RegisterDumpCommand e s = (if IS_SO_CROP_H e then s else RegisterCommand dump_all_command s)"

definition OnStart :: "'p env \<Rightarrow> ('p, 's) service_state_scheme \<Rightarrow> ('p, 's) service_state_scheme" where
  "OnStart e s =
     (let s0 = s\<lparr>instanceSet := True\<rparr>
      in if runningState s0 = STATE_RUNNING then s0
         else let s1 = InitServiceHandler s0;
                  (r, s2) = Init e s1;
                  s3 = (if r \<noteq> OK then queue_submit InitTask s2 else s2);
                  s4 = emit [ServiceCall ''AddSystemAbilityListener:DISPLAY_MANAGER'',
                             ServiceCall ''AddSystemAbilityListener:ACCOUNT'',
                             ServiceCall ''AddSystemAbilityListener:USERIDM'',
                             ServiceCall ''AddSystemAbilityListener:USERAUTH''] s3
              in RegisterDumpCommand e s4)"

definition MAX_RETRY_TIMES :: int where "MAX_RETRY_TIMES = 20"

definition RegisterDisplayPowerEventListener ::
  "'p env \<Rightarrow> int \<Rightarrow> ('p, 's) service_state_scheme \<Rightarrow> ('p, 's) service_state_scheme"
where
  "RegisterDisplayPowerEventListener e tries s =
     (let tries' = tries + 1;
          ready = registerDisplayListener e (displayRegistrations s);
          s1 = s\<lparr>systemReady := ready, displayRegistrations := Suc (displayRegistrations s)\<rparr>
      in if \<not> ready \<and> tries' \<le> MAX_RETRY_TIMES then queue_submit (RegisterDisplayTask tries') s1
         else if ready then s1\<lparr>runningState := STATE_RUNNING\<rparr>
         else s1)"

section \<open>Accounts\<close>

text \<open>\<open>SubscribeAcccount\<close> returns a subscriber whatever the account service answers; its
  \<open>userId_\<close> starts at -1.\<close>

definition SubscribeAcccount ::
  "account_event \<Rightarrow> ('p, 's) service_state_scheme \<Rightarrow> ('p, 's) service_state_scheme"
where
  "SubscribeAcccount ev s =
     (emit [ServiceCall ''SubscribeOsAccount''] s)
       \<lparr>accountSubscribers := AList.update ev (- 1) (accountSubscribers s)\<rparr>"

definition SubscribeEvent :: "'p env \<Rightarrow> ('p, 's) service_state_scheme \<Rightarrow> ('p, 's) service_state_scheme" where
  "SubscribeEvent e s =
     (if eventSubscriber s then s
      else let s1 = emit [ServiceCall ''SubscribeCommonEvent''] (s\<lparr>eventSubscriber := True\<rparr>)
           in if \<not> subscribeCommonEvent e then s1\<lparr>eventSubscriber := False\<rparr> else s1)"

definition UnSubscribeEvent :: "('p, 's) service_state_scheme \<Rightarrow> ('p, 's) service_state_scheme" where
  "UnSubscribeEvent s =
     (if eventSubscriber s
      then emit [ServiceCall ''UnSubscribeCommonEvent''] (s\<lparr>eventSubscriber := False\<rparr>) else s)"

definition SubscribeUserIamReady :: "('p, 's) service_state_scheme \<Rightarrow> ('p, 's) service_state_scheme" where
  "SubscribeUserIamReady s = emit [ServiceCall ''WatchParameter''] s"

definition RemoveSubscribeUserIamReady :: "('p, 's) service_state_scheme \<Rightarrow> ('p, 's) service_state_scheme" where
  "RemoveSubscribeUserIamReady s = emit [ServiceCall ''RemoveParameterWatcher''] s"

text \<open>The common end of \<open>InitUserId\<close> and \<open>OnActiveUser\<close>.\<close>

definition init_disabled_flag :: "'p env \<Rightarrow> int \<Rightarrow> ('p, 's) service_state_scheme \<Rightarrow> ('p, 's) service_state_scheme" where
  "init_disabled_flag e userId s =
     (if \<not> preferencesUtil e then s
      else if ObtainBool (prefs e) (disabled_key userId) False s then s
      else Refresh (prefs e) (snd (SaveBool (prefs e) (disabled_key userId) False s)))"

definition InitUserId :: "'p env \<Rightarrow> ('p, 's) service_state_scheme \<Rightarrow> ('p, 's) service_state_scheme" where
  "InitUserId e s =
     (let s1 = SubscribeAcccount REMOVED (SubscribeAcccount ACTIVATED s);
          s2 = (if IS_SO_CROP_H e then s1 else SubscribeAcccount UNLOCKED s1);
          s3 = SubscribeUserIamReady (SubscribeEvent e s2);
          userId = GetCurrentActiveOsAccountId e
      in init_disabled_flag e userId s3)"

definition OnActiveUser ::
  "'p env \<Rightarrow> int \<Rightarrow> int \<Rightarrow> ('p, 's) service_state_scheme \<Rightarrow> ('p, 's) service_state_scheme"
where
  "OnActiveUser e lastUser targetUser s =
     (let s1 = (if IS_SO_CROP_H e then s else snd (GetCredInfo e targetUser s))
      in init_disabled_flag e targetUser (AuthStateInit targetUser s1))"

definition OnRemoveUser :: "'p env \<Rightarrow> int \<Rightarrow> ('p, 's) service_state_scheme \<Rightarrow> ('p, 's) service_state_scheme" where
  "OnRemoveUser e userId s =
     (let s1 = s\<lparr>authStateInfo := merase userId (authStateInfo s)\<rparr>;
          s2 = s1\<lparr>isScreenlockedMap := merase userId (isScreenlockedMap s1)\<rparr>
      in DeleteUnlockPolicyForUser e userId s2)"

definition Service_AccountUnlocked ::
  "'p env \<Rightarrow> int \<Rightarrow> int \<Rightarrow> ('p, 's) service_state_scheme \<Rightarrow> ('p, 's) service_state_scheme"
where
  "Service_AccountUnlocked e lastUser targetUser s =
     (if IS_SO_CROP_H e then s else AccountUnlocked e targetUser s)"

definition AccountActive ::
  "'p env \<Rightarrow> int \<Rightarrow> int \<Rightarrow> ('p, 's) service_state_scheme \<Rightarrow> ('p, 's) service_state_scheme"
where
  [simp]: "AccountActive e lastUser targetUser s = OnActiveUser e lastUser targetUser s"

definition AccountRemove ::
  "'p env \<Rightarrow> int \<Rightarrow> int \<Rightarrow> ('p, 's) service_state_scheme \<Rightarrow> ('p, 's) service_state_scheme"
where
  [simp]: "AccountRemove e lastUser targetUser s = OnRemoveUser e targetUser s"

text \<open>\<open>OnAccountsChanged\<close> of the subscriber for one kind of event: the callback, then the new last user.\<close>

definition OnAccountsChanged ::
  "'p env \<Rightarrow> account_event \<Rightarrow> int \<Rightarrow> ('p, 's) service_state_scheme \<Rightarrow> ('p, 's) service_state_scheme"
where
  "OnAccountsChanged e ev newId s =
     (case map_of (accountSubscribers s) ev of
        None \<Rightarrow> s
      | Some lastUser \<Rightarrow>
          let s1 = (case ev of
                      ACTIVATED \<Rightarrow> AccountActive e lastUser newId s
                    | REMOVED \<Rightarrow> AccountRemove e lastUser newId s
                    | UNLOCKED \<Rightarrow> Service_AccountUnlocked e lastUser newId s)
          in s1\<lparr>accountSubscribers := AList.update ev newId (accountSubscribers s1)\<rparr>)"

section \<open>Credentials and other services\<close>

definition IDM_UID :: int where "IDM_UID = 1088"

definition Service_OnNotifyCredChangeEvent ::
  "'p env \<Rightarrow> int \<Rightarrow> auth_type \<Rightarrow> cred_change_event \<Rightarrow> bool \<Rightarrow> ('p, 's) service_state_scheme
     \<Rightarrow> ('p, 's) service_state_scheme"
where
  "Service_OnNotifyCredChangeEvent e userId authType credEvent isSilent s =
     (if callingUid e \<noteq> IDM_UID then s
      else let s1 = (if GetCurrentActiveOsAccountId e = userId \<and> authType = PIN \<and> credEvent = ADD_CRED
                     then snd (FreshDisabledState e False userId s) else s)
           in if IS_SO_CROP_H e then s1 else OnNotifyCredChangeEvent e userId authType credEvent isSilent s1)"

definition RegistIamEventListener :: "('p, 's) service_state_scheme \<Rightarrow> ('p, 's) service_state_scheme" where
  "RegistIamEventListener s =
     emit [ServiceCall ''RegistCredChangeEventListener''] (s\<lparr>credChangeListener := True\<rparr>)"

definition UnRegistIamEventListener :: "('p, 's) service_state_scheme \<Rightarrow> ('p, 's) service_state_scheme" where
  "UnRegistIamEventListener s =
     (if credChangeListener s
      then emit [ServiceCall ''UnRegistCredChangeEventListener''] (s\<lparr>credChangeListener := False\<rparr>)
      else s)"

datatype system_ability_id = DISPLAY_MANAGER_SA | ACCOUNT_SA | USERIDM_SA | USERAUTH_SA | OTHER_SA

definition OnAddSystemAbility ::
  "'p env \<Rightarrow> system_ability_id \<Rightarrow> ('p, 's) service_state_scheme \<Rightarrow> ('p, 's) service_state_scheme"
where
  "OnAddSystemAbility e systemAbilityId s =
     (let s1 = (if systemAbilityId = DISPLAY_MANAGER_SA
                then RegisterDisplayPowerEventListener e 0 (s\<lparr>displayPowerEventListener := True\<rparr>) else s);
          s2 = (if systemAbilityId = ACCOUNT_SA then InitUserId e s1 else s1);
          s3 = (if systemAbilityId = USERIDM_SA then RegistIamEventListener s2 else s2)
      in if \<not> IS_SO_CROP_H e \<and> systemAbilityId = USERAUTH_SA then RegistAuthEventListener s3 else s3)"

definition OnRemoveSystemAbility ::
  "'p env \<Rightarrow> system_ability_id \<Rightarrow> ('p, 's) service_state_scheme \<Rightarrow> ('p, 's) service_state_scheme"
where
  "OnRemoveSystemAbility e systemAbilityId s =
     (let s1 = (if systemAbilityId = USERIDM_SA then UnRegistIamEventListener s else s)
      in if \<not> IS_SO_CROP_H e \<and> systemAbilityId = USERAUTH_SA then UnRegistAuthEventListener s1 else s1)"

definition USER_CREDENTIAL_UPDATED_EVENT :: string where
  "USER_CREDENTIAL_UPDATED_EVENT = ''USER_CREDENTIAL_UPDATED_EVENT''"
definition TAG_USERID :: string where "TAG_USERID = ''userId''"
definition TAG_AUTHTYPE :: string where "TAG_AUTHTYPE = ''authType''"
definition TAG_CREDENTIALCOUNT :: string where "TAG_CREDENTIALCOUNT = ''credentialCount''"
definition AUTH_PIN :: string where "AUTH_PIN = ''1''"
definition HAS_NO_CREDENTIAL :: string where "HAS_NO_CREDENTIAL = ''0''"

text \<open>A common event: its action and its string parameters (an absent one reads as empty).\<close>

definition OnReceiveEvent ::
  "'p env \<Rightarrow> string \<Rightarrow> (string \<Rightarrow> string) \<Rightarrow> ('p, 's) service_state_scheme \<Rightarrow> ('p, 's) service_state_scheme"
where
  "OnReceiveEvent e action getStringParam s =
     (if action = USER_CREDENTIAL_UPDATED_EVENT
      then let userId = getStringParam TAG_USERID;
               authType = getStringParam TAG_AUTHTYPE;
               credentialCount = getStringParam TAG_CREDENTIALCOUNT
           in if authType = AUTH_PIN \<and> credentialCount \<noteq> HAS_NO_CREDENTIAL
              then if \<not> preferencesUtil e then s
                   else Refresh (prefs e) (snd (RemoveKey (prefs e) userId s))
              else s
      else s)"

definition ResetFfrtQueue :: "('p, 's) service_state_scheme \<Rightarrow> ('p, 's) service_state_scheme" where
  "ResetFfrtQueue s = s\<lparr>queueSet := False\<rparr>"

section \<open>Stopping\<close>

text \<open>The subscribers stay in the map; the order of the calls to unsubscribe is the order of subscription.\<close>

definition OnStop :: "'p env \<Rightarrow> ('p, 's) service_state_scheme \<Rightarrow> ('p, 's) service_state_scheme" where
  "OnStop e s =
     (if runningState s \<noteq> STATE_RUNNING then s
      else let s1 = s\<lparr>runningState := STATE_NOT_START, queueSet := False, instanceSet := False\<rparr>;
               s2 = (if displayPowerEventListener s1
                     then emit [ServiceCall ''UnregisterDisplayPowerEventListener''] s1 else s1);
               s3 = UnRegistIamEventListener s2;
               s4 = (if IS_SO_CROP_H e then s3 else DestroyAllStrongAuthTimer s3);
               s5 = emit (map (\<lambda>p. AccountUnsubscribe (fst p)) (accountSubscribers s4)) s4
           in RemoveSubscribeUserIamReady s5)"

section \<open>The dump\<close>

definition dump_auth_line :: "int \<times> int \<Rightarrow> string" where
  "dump_auth_line p =
     '' * deviceLocked  '' @ tab @ tab @ dump_bool (GetDeviceLockedStateByAuth (snd p)) @ tab @ tab
       @ to_string (fst p) @ nl
     @ '' * authState  '' @ tab @ tab @ to_string (snd p) @ tab @ tab @ to_string (fst p) @ nl"

definition dump_lock_line :: "int \<times> bool \<Rightarrow> string" where
  "dump_lock_line p =
     '' * screenLocked  '' @ tab @ tab @ dump_bool (snd p) @ tab @ tab @ to_string (fst p) @ nl"

definition dump_strong_line :: "'p env \<Rightarrow> int \<Rightarrow> ('p, 's) service_state_scheme \<Rightarrow> string" where
  "dump_strong_line e userId s =
     '' * strongAuth  '' @ tab @ tab @ to_string userId @ tab @ tab
       @ to_string (GetStrongAuthStat e userId s) @ tab @ tab
       @ to_string (GetStrongAuthTimeTrigger userId s) @ nl"

text \<open>The action of the command: authentication states, then lock states, then strong authentication.\<close>

definition dump_all :: "'p env \<Rightarrow> ('p, 's) service_state_scheme \<Rightarrow> string \<Rightarrow> string" where
  "dump_all e s output =
     (let userIdArray = map fst (isScreenlockedMap s)
      in AppendPrintOtherInfo (stateValue s) output
         @ concat (map dump_auth_line (authStateInfo s))
         @ concat (map dump_lock_line (isScreenlockedMap s))
         @ concat (map (\<lambda>u. dump_strong_line e u s) userIdArray))"

definition DoAction :: "'p env \<Rightarrow> command \<Rightarrow> ('p, 's) service_state_scheme \<Rightarrow> string \<Rightarrow> string" where
  "DoAction e cmd s output = (if cmd_dumps_all cmd then dump_all e s output else output)"

definition pad_right :: "nat \<Rightarrow> string \<Rightarrow> string" where
  "pad_right n t = t @ replicate (n - length t) (CHR '' '')"

text \<open>What \<open>Dispatch\<close> writes to the file descriptor, and its result.\<close>

definition Dispatch :: "'p env \<Rightarrow> string list \<Rightarrow> ('p, 's) service_state_scheme \<Rightarrow> string \<times> bool" where
  "Dispatch e args s =
     (let rule = nl @ ''---------------------------------'' @ nl
      in if args = [] \<or> hd args = ''-h''
         then (rule @ nl @ pad_right 15 ''Option'' @ ''  '' @ pad_right 20 ''Description''
                 @ concat (map (\<lambda>p. nl @ pad_right 15 (GetFormat (snd p)) @ '': ''
                                      @ pad_right 20 (ShowHelp (snd p)) @ nl) (cmdHandler s)), False)
         else case mfind (cmdHandler s) (hd args) of
                Some handler \<Rightarrow> (rule @ DoAction e handler s '''' @ nl, True)
              | None \<Rightarrow> (rule, False))"

definition Dump :: "'p env \<Rightarrow> string list \<Rightarrow> ('p, 's) service_state_scheme \<Rightarrow> string" where
  "Dump e args s =
     (if IS_SO_CROP_H e then ''''
      else if callingUid e > 10000 then ''''
      else fst (Dispatch e args s))"

section \<open>Requests\<close>

datatype request =
    Req_IsLocked
  | Req_IsScreenLocked
  | Req_IsLockedWithUserId int
  | Req_GetSecure
  | Req_Unlock nat
  | Req_UnlockScreen nat
  | Req_Lock nat
  | Req_LockUser int
  | Req_OnSystemEvent "nat option"
  | Req_SendScreenLockEvent string int
  | Req_IsScreenLockDisabled int
  | Req_SetScreenLockDisabled bool int
  | Req_SetAuthState int int string
  | Req_GetAuthState int
  | Req_RequestStrongAuth int int
  | Req_GetStrongAuth int
  | Req_IsDeviceLocked int
  | Req_RegisterInnerListener int int "listener option"
  | Req_UnRegisterInnerListener int int "listener option"
  | Req_SetUnlockPolicy int int
  | Req_GetUnlockPolicy int
  | Req_IsLockedWatch
  | Req_UnlockWatch nat

definition no_out :: "status \<times> 's \<Rightarrow> (status \<times> out_value) \<times> 's" where
  "no_out p = ((fst p, NoOut), snd p)"

definition only_out :: "bool \<times> 's \<Rightarrow> (status \<times> out_value) \<times> 's" where
  "only_out p = ((OK, BoolOut (fst p)), snd p)"

text \<open>The virtual functions of the service by request; a function that returns a plain boolean is
  given the status OK.\<close>

fun serve ::
  "'p env \<Rightarrow> request \<Rightarrow> ('p, 's) service_state_scheme \<Rightarrow> (status \<times> out_value) \<times> ('p, 's) service_state_scheme"
where
  "serve e Req_IsLocked s = IsLocked e s"
| "serve e Req_IsScreenLocked s = only_out (IsScreenLocked e s)"
| "serve e (Req_IsLockedWithUserId u) s = IsLockedWithUserId e u s"
| "serve e Req_GetSecure s = only_out (GetSecure e s)"
| "serve e (Req_Unlock l) s = no_out (Unlock e l s)"
| "serve e (Req_UnlockScreen l) s = no_out (UnlockScreen e l s)"
| "serve e (Req_Lock l) s = no_out (Lock_listener e l s)"
| "serve e (Req_LockUser u) s = no_out (Lock_user e u s)"
| "serve e (Req_OnSystemEvent l) s = no_out (OnSystemEvent e l s)"
| "serve e (Req_SendScreenLockEvent ev p) s = no_out (SendScreenLockEvent e ev p s)"
| "serve e (Req_IsScreenLockDisabled u) s = IsScreenLockDisabled e u s"
| "serve e (Req_SetScreenLockDisabled b u) s = no_out (SetScreenLockDisabled e b u s)"
| "serve e (Req_SetAuthState a u t) s = no_out (SetScreenLockAuthState e a u t s)"
| "serve e (Req_GetAuthState u) s = GetScreenLockAuthState e u s"
| "serve e (Req_RequestStrongAuth r u) s = no_out (RequestStrongAuth e r u s)"
| "serve e (Req_GetStrongAuth u) s = GetStrongAuth e u s"
| "serve e (Req_IsDeviceLocked u) s = IsDeviceLocked e u s"
| "serve e (Req_RegisterInnerListener u t l) s = no_out (Service_RegisterInnerListener e u t l s)"
| "serve e (Req_UnRegisterInnerListener u t l) s = no_out (Service_UnRegisterInnerListener e u t l s)"
| "serve e (Req_SetUnlockPolicy u p) s = no_out (SetUnlockPolicy e u p s)"
| "serve e (Req_GetUnlockPolicy u) s = GetUnlockPolicy e u s"
| "serve e Req_IsLockedWatch s = IsLockedWatch e s"
| "serve e (Req_UnlockWatch l) s = no_out (UnlockWatch e l s)"

section \<open>Submitted work\<close>

fun run_task ::
  "'p env \<Rightarrow> task \<Rightarrow> ('p, 's) service_state_scheme \<Rightarrow> ('p, 's) service_state_scheme option"
where
  "run_task e InitTask s = Some (snd (Init e s))"
| "run_task e (RegisterDisplayTask n) s = Some (RegisterDisplayPowerEventListener e n s)"
| "run_task e (SystemReadyTask n) s = Some (OnSystemReady_turn n s)"
| "run_task e (LockCallbackTask r) s = Some (LockCallback_run r s)"
| "run_task e (UnlockCallbackTask r u) s = UnlockCallback_run r u s"
| "run_task e (NotifyDisplayTask ev) s = Some (emit [DisplayNotify ev] s)"

definition remove_at :: "nat \<Rightarrow> 'a list \<Rightarrow> 'a list" where
  "remove_at i xs = take i xs @ drop (Suc i) xs"

section \<open>Everything that can happen\<close>

text \<open>
  One step of the service in an environment: a request, the start of a pending task (in any order),
  or a callback of another service.
\<close>

inductive service_step :: "'p service_state \<Rightarrow> 'p service_state \<Rightarrow> bool" where
  request: "service_step s (snd (serve e req s))"
| task: "i < length (tasks s) \<Longrightarrow> run_task e (tasks s ! i) (s\<lparr>tasks := remove_at i (tasks s)\<rparr>) = Some s'
    \<Longrightarrow> service_step s s'"
| on_start: "service_step s (OnStart e s)"
| added: "service_step s (OnAddSystemAbility e sa s)"
| removed: "service_step s (OnRemoveSystemAbility e sa s)"
| account: "service_step s (OnAccountsChanged e ev u s)"
| power: "service_step s (OnDisplayPowerEvent (instanceSet s) pe st s)"
| iam_ready: "service_step s (UserIamReadyCallback k v s)"
| cred_change: "service_step s (Service_OnNotifyCredChangeEvent e u a c b s)"
| auth_success: "service_step s (OnNotifyAuthSuccessEvent e u a w s)"
| cred_info: "service_step s (OnCredentialInfo e u r n s)"
| timer: "service_step s (OnTrigger e t s)"
| common_event: "service_step s (OnReceiveEvent e act par s)"
| client_died: "service_step s (OnRemoteDied ro s)"
| hidden: "service_step s (OnWindowHidden e b s)"
| setting: "service_step s (LeaveWrist_OnChange e s)"
| sensor: "service_step s (WearSensorCallback e ev s)"
| wear_display: "service_step s (WearDisplay_OnDisplayPowerEvent e pe st s)"
| reset_queue: "service_step s (ResetFfrtQueue s)"

definition initial_service :: "'p \<Rightarrow> 'p service_state" where
  "initial_service p = \<lparr>trace = [], store = p, deathRecipientMap = [], innerListenMap = [],
     stateValue = initial_state_value, systemEventListener = None,
     strongAuthStateInfo = [], strongAuthTimerInfo = [], authSuccessListener = False,
     clockReads = 0, timersCreated = 0, isWearOn = False, isWristUnlock = False, appStateObserver = False,
     leaveWristSettingObserver = False, unlockedRecord = [], sensorRegistered = False,
     wearDisplayRegistered = False,
     runningState = STATE_NOT_START, instanceSet = False, queueSet = False, accountSubscribers = [],
     displayPowerEventListener = False, systemReady = False, unlockVecListeners = [],
     unlockVecUserIds = [], lockVecListeners = [], authStateInfo = [], isScreenlockedMap = [],
     credChangeListener = False, eventSubscriber = False, cmdHandler = [], tasks = [],
     displayRegistrations = 0, publishCalls = 0\<rparr>"

inductive service_reachable :: "'p service_state \<Rightarrow> bool" where
  initial: "service_reachable (initial_service p)"
| step: "service_reachable s \<Longrightarrow> service_step s s' \<Longrightarrow> service_reachable s'"

end
