(* ===== verification/Strong_Auth_Props.thy ===== *)
theory Strong_Auth_Props
  imports Strong_Auth_Manager
begin

text \<open>
  Properties of the strong-authentication manager.  The operations are first read as updates of the
  two maps plus effects; then the step relation \<open>strong_step\<close> collects the entry points (requests,
  timer expiry, callbacks of the user-authentication framework), each with an environment of its own
  but over one time service \<open>tm\<close>.  Invariants of reachable states: the trigger periods are among
  the five of the header, the timers alive in the time service are the recorded ones, and the flag
  \<open>AFTER_BOOT\<close> only yields to a reset or to the removal of the user.
\<close>

section \<open>Effects of a notification\<close>

lemma emit_strong_selectors [simp]:
  "strongAuthStateInfo (emit es s) = strongAuthStateInfo s"
  "strongAuthTimerInfo (emit es s) = strongAuthTimerInfo s"
  "authSuccessListener (emit es s) = authSuccessListener s"
  "clockReads (emit es s) = clockReads s"
  "timersCreated (emit es s) = timersCreated s"
  by (simp_all add: emit_def)

definition strong_auth_effects :: "'p env \<Rightarrow> int \<Rightarrow> int \<Rightarrow> ('p, 's) strong_state_scheme \<Rightarrow> effect list" where
  "strong_auth_effects e u r s =
     (if r = reason_code REASON_NONE \<and> \<not> IsOsAccountUnlocked e u then []
      else (if currentUser (stateValue s) = u then reported (strong_auth_event u r) s else [])
           @ told u r (listen_type STRONG_AUTH) s)"

lemma told_emit [simp]: "told u st t (emit es s) = told u st t s"
  by (simp add: told_def)

lemma NotifyStrongAuthChange_emit:
  "NotifyStrongAuthChange e u r s = emit (strong_auth_effects e u r s) s"
  by (simp add: NotifyStrongAuthChange_def StrongAuthChanged_emit strong_auth_notifier.notify_emits
      strong_auth_effects_def)

lemma inner_inv_strong_updates [simp]:
  "inner_inv (s\<lparr>strongAuthStateInfo := m\<rparr>) = inner_inv s"
  "inner_inv (s\<lparr>strongAuthTimerInfo := ti\<rparr>) = inner_inv s"
  "inner_inv (s\<lparr>clockReads := n\<rparr>) = inner_inv s"
  "inner_inv (s\<lparr>timersCreated := n\<rparr>) = inner_inv s"
  "inner_inv (s\<lparr>authSuccessListener := b\<rparr>) = inner_inv s"
  by (simp_all add: inner_inv_def)

section \<open>The maps after an operation\<close>

lemma SetStrongAuthStat_info:
  "mfind (strongAuthStateInfo (SetStrongAuthStat e u r s)) w =
     (if w \<noteq> u then mfind (strongAuthStateInfo s) w
      else if mfind (strongAuthStateInfo s) u = Some (reason_code AFTER_BOOT) \<and> r \<noteq> reason_code REASON_NONE
      then Some (reason_code AFTER_BOOT) else Some r)"
  by (auto simp: SetStrongAuthStat_def NotifyStrongAuthChange_emit sl_find split: option.split)

lemma SetStrongAuthStat_frame [sl_frame]:
  "strongAuthTimerInfo (SetStrongAuthStat e u r s) = strongAuthTimerInfo s"
  "clockReads (SetStrongAuthStat e u r s) = clockReads s"
  "timersCreated (SetStrongAuthStat e u r s) = timersCreated s"
  by (simp_all add: SetStrongAuthStat_def NotifyStrongAuthChange_emit split: option.split)

lemma InitStrongAuthStat_info:
  "mfind (strongAuthStateInfo (InitStrongAuthStat e u r s)) w =
     (if w = u \<and> mfind (strongAuthStateInfo s) u = None then Some r else mfind (strongAuthStateInfo s) w)"
  by (auto simp: InitStrongAuthStat_def NotifyStrongAuthChange_emit sl_find split: option.split)

lemma InitStrongAuthStat_frame [sl_frame]:
  "strongAuthTimerInfo (InitStrongAuthStat e u r s) = strongAuthTimerInfo s"
  "clockReads (InitStrongAuthStat e u r s) = clockReads s"
  "timersCreated (InitStrongAuthStat e u r s) = timersCreated s"
  by (simp_all add: InitStrongAuthStat_def NotifyStrongAuthChange_emit split: option.split)

lemma DestroyStrongAuthStateInfo_info:
  "mfind (strongAuthStateInfo (DestroyStrongAuthStateInfo u s)) w =
     (if w = u then None else mfind (strongAuthStateInfo s) w)"
  by (auto simp: DestroyStrongAuthStateInfo_def sl_find split: option.split)

lemma DestroyStrongAuthStateInfo_frame [sl_frame]:
  "strongAuthTimerInfo (DestroyStrongAuthStateInfo u s) = strongAuthTimerInfo s"
  "timersCreated (DestroyStrongAuthStateInfo u s) = timersCreated s"
  "trace (DestroyStrongAuthStateInfo u s) = trace s"
  by (simp_all add: DestroyStrongAuthStateInfo_def split: option.split)

text \<open>The timer operations leave the reason flags alone.\<close>

lemma StartStrongAuthTimer_period_state [sl_frame]:
  "strongAuthStateInfo (StartStrongAuthTimer_period e u p s) = strongAuthStateInfo s"
  by (simp add: StartStrongAuthTimer_period_def CreateTimer_def GetBootTimeMs_def Let_def)

lemma SetCredChangeTriggerPeriod_state [sl_frame]:
  "strongAuthStateInfo (SetCredChangeTriggerPeriod e u p s) = strongAuthStateInfo s"
  by (simp add: SetCredChangeTriggerPeriod_def GetBootTimeMs_def split: option.split)

lemma ResetStrongAuthTimer_state [sl_frame]:
  "strongAuthStateInfo (ResetStrongAuthTimer e u p s) = strongAuthStateInfo s"
  by (simp add: ResetStrongAuthTimer_def GetBootTimeMs_def Let_def sl_frame)

lemma GetStrongAuthTriggerPeriod_state [sl_frame]:
  "strongAuthStateInfo (snd (GetStrongAuthTriggerPeriod e u s)) = strongAuthStateInfo s"
  "timersCreated (snd (GetStrongAuthTriggerPeriod e u s)) = timersCreated s"
  "trace (snd (GetStrongAuthTriggerPeriod e u s)) = trace s"
  by (simp_all add: GetStrongAuthTriggerPeriod_def GetBootTimeMs_def Let_def split: option.split)

lemma DestroyStrongAuthTimer_state [sl_frame]:
  "strongAuthStateInfo (DestroyStrongAuthTimer u s) = strongAuthStateInfo s"
  by (simp add: DestroyStrongAuthTimer_def Let_def)

lemma destroy_timers_state: "strongAuthStateInfo (destroy_timers m s) = strongAuthStateInfo s"
  by (induction m s rule: destroy_timers.induct) (simp_all add: Let_def)

lemma DestroyAllStrongAuthTimer_state [sl_frame]:
  "strongAuthStateInfo (DestroyAllStrongAuthTimer s) = strongAuthStateInfo s"
  by (simp add: DestroyAllStrongAuthTimer_def destroy_timers_state)

section \<open>Steps of the manager\<close>

text \<open>
  The entry points of the manager.  \<open>tm\<close> is the time service: the identifier of the n-th timer it
  creates.  A reset of the timer for the default period is what the other components can cause only
  through these.
\<close>

inductive strong_step :: "(nat \<Rightarrow> nat) \<Rightarrow> 'p strong_state \<Rightarrow> 'p strong_state \<Rightarrow> bool" for tm where
  request: "createTimer e = tm \<Longrightarrow> strong_step tm s (SetStrongAuthStat e u r s)"
| expiry: "createTimer e = tm \<Longrightarrow> strong_step tm s (OnTrigger e t s)"
| auth_success: "createTimer e = tm \<Longrightarrow> strong_step tm s (OnNotifyAuthSuccessEvent e u a w s)"
| cred_change: "createTimer e = tm \<Longrightarrow> strong_step tm s (OnNotifyCredChangeEvent e u a c b s)"
| get_cred: "createTimer e = tm \<Longrightarrow> strong_step tm s (snd (GetCredInfo e u s))"
| cred_info: "createTimer e = tm \<Longrightarrow> strong_step tm s (OnCredentialInfo e u res n s)"
| unlocked: "createTimer e = tm \<Longrightarrow> strong_step tm s (AccountUnlocked e u s)"
| stop: "strong_step tm s (DestroyAllStrongAuthTimer s)"
| regist: "strong_step tm s (RegistAuthEventListener s)"
| unregist: "strong_step tm s (UnRegistAuthEventListener s)"

inductive_cases strong_stepE: "strong_step tm s s'"

definition empty_strong :: "'p \<Rightarrow> 'p strong_state" where
  "empty_strong p = \<lparr>trace = [], store = p, deathRecipientMap = [], innerListenMap = [],
     stateValue = initial_state_value, systemEventListener = None,
     strongAuthStateInfo = [], strongAuthTimerInfo = [], authSuccessListener = False,
     clockReads = 0, timersCreated = 0\<rparr>"

inductive strong_reachable :: "(nat \<Rightarrow> nat) \<Rightarrow> 'p strong_state \<Rightarrow> bool" for tm where
  start: "strong_reachable tm (empty_strong p)"
| step: "strong_reachable tm s \<Longrightarrow> strong_step tm s s' \<Longrightarrow> strong_reachable tm s'"

section \<open>AFTER_BOOT dominates\<close>

lemmas callback_defs =
  OnTrigger_def StrongAuthTimerCallback_def OnNotifyAuthSuccessEvent_def OnNotifyCredChangeEvent_def
  GetCredInfo_def OnCredentialInfo_def AccountUnlocked_def RegistAuthEventListener_def
  UnRegistAuthEventListener_def StartStrongAuthTimer_def

text \<open>C8: a step that takes a user out of AFTER_BOOT either resets the user's flag to NONE or removes
  the user: no request, timer expiry, credential change or enrolment answer replaces AFTER_BOOT by a
  weaker reason.\<close>

theorem after_boot_dominates:
  assumes "strong_step tm s s'"
    and "mfind (strongAuthStateInfo s) u = Some (reason_code AFTER_BOOT)"
  shows "mfind (strongAuthStateInfo s') u \<in>
    {Some (reason_code AFTER_BOOT), Some (reason_code REASON_NONE), None}"
  using assms
  by (cases rule: strong_step.cases)
    (auto simp: callback_defs SetStrongAuthStat_info InitStrongAuthStat_info
      DestroyStrongAuthStateInfo_info NotifyStrongAuthChange_emit sl_frame Let_def split_def
      split: option.splits if_splits)

definition sample_strong :: "sample_store strong_state" where
  "sample_strong = (empty_strong [])\<lparr>strongAuthStateInfo := [(100, 1)]\<rparr>"

theorem after_boot_dominates_witness:
  "mfind (strongAuthStateInfo (SetStrongAuthStat sample_env 100 2 sample_strong)) 100
     \<in> {Some 1, Some 0, None}"
  using after_boot_dominates [of Suc sample_strong "SetStrongAuthStat sample_env 100 2 sample_strong" 100]
    strong_step.request [of sample_env Suc sample_strong 100 2]
  by (simp add: sample_strong_def sample_env_def)

section \<open>The trigger periods\<close>

definition periods :: "int set" where
  "periods = {CRED_CHANGE_FIRST_STRONG_AUTH_TIMEOUT_MS, CRED_CHANGE_SECOND_STRONG_AUTH_TIMEOUT_MS,
     CRED_CHANGE_THIRD_STRONG_AUTH_TIMEOUT_MS, CRED_CHANGE_FOURTH_STRONG_AUTH_TIMEOUT_MS,
     DEFAULT_STRONG_AUTH_TIMEOUT_MS}"

definition periods_ok :: "(int, timer_info) stdmap \<Rightarrow> bool" where
  "periods_ok m \<longleftrightarrow> mwf m \<and> (\<forall>p \<in> set m. triggerPeriod (snd p) \<in> periods)"

lemma periods_ok_mput: "periods_ok m \<Longrightarrow> triggerPeriod ti \<in> periods \<Longrightarrow> periods_ok (mput u ti m)"
  using set_mput [of u ti m] by (auto simp: periods_ok_def)

lemma periods_ok_minsert: "periods_ok m \<Longrightarrow> triggerPeriod ti \<in> periods \<Longrightarrow> periods_ok (minsert u ti m)"
  by (simp add: minsert_def periods_ok_mput split: option.split)

lemma periods_ok_merase: "periods_ok m \<Longrightarrow> periods_ok (merase u m)"
  by (auto simp: periods_ok_def set_merase)

lemma periods_ok_find: "periods_ok m \<Longrightarrow> mfind m u = Some ti \<Longrightarrow> triggerPeriod ti \<in> periods"
  by (auto simp: periods_ok_def dest!: mfind_in_set)

lemma periods_int32: "p \<in> periods \<Longrightarrow> to_int32 p = p"
  by (auto simp: periods_def timeouts is_int32_def intro!: to_int32_id)

lemma periods_members [simp]:
  "CRED_CHANGE_FIRST_STRONG_AUTH_TIMEOUT_MS \<in> periods" "CRED_CHANGE_SECOND_STRONG_AUTH_TIMEOUT_MS \<in> periods"
  "CRED_CHANGE_THIRD_STRONG_AUTH_TIMEOUT_MS \<in> periods" "CRED_CHANGE_FOURTH_STRONG_AUTH_TIMEOUT_MS \<in> periods"
  "DEFAULT_STRONG_AUTH_TIMEOUT_MS \<in> periods"
  by (simp_all add: periods_def)

lemma advance_stage_periods: "triggerPeriod ti \<in> periods \<Longrightarrow> triggerPeriod (advance_stage stages now ti) \<in> periods"
  by (simp add: stages_def)

lemma StartStrongAuthTimer_period_periods:
  "periods_ok (strongAuthTimerInfo s) \<Longrightarrow> p \<in> periods
     \<Longrightarrow> periods_ok (strongAuthTimerInfo (StartStrongAuthTimer_period e u p s))"
  by (simp add: StartStrongAuthTimer_period_def CreateTimer_def GetBootTimeMs_def Let_def periods_ok_minsert)

lemma ResetStrongAuthTimer_periods:
  "periods_ok (strongAuthTimerInfo s) \<Longrightarrow> p \<in> periods
     \<Longrightarrow> periods_ok (strongAuthTimerInfo (ResetStrongAuthTimer e u p s))"
  by (simp add: ResetStrongAuthTimer_def SetCredChangeTriggerPeriod_def GetBootTimeMs_def Let_def
      StartStrongAuthTimer_period_periods periods_ok_mput split: option.split)

lemma GetStrongAuthTriggerPeriod_periods:
  assumes "periods_ok (strongAuthTimerInfo s)"
  shows "fst (GetStrongAuthTriggerPeriod e u s) \<in> periods"
    and "periods_ok (strongAuthTimerInfo (snd (GetStrongAuthTriggerPeriod e u s)))"
  using assms periods_ok_find [OF assms, of u]
  by (simp_all add: GetStrongAuthTriggerPeriod_def GetBootTimeMs_def Let_def advance_stage_periods
      periods_ok_mput split: option.split)

lemma DestroyStrongAuthTimer_periods:
  "periods_ok (strongAuthTimerInfo s) \<Longrightarrow> periods_ok (strongAuthTimerInfo (DestroyStrongAuthTimer u s))"
  by (simp add: DestroyStrongAuthTimer_def Let_def periods_ok_merase)

lemma destroy_timers_periods:
  "periods_ok (strongAuthTimerInfo s) \<Longrightarrow> periods_ok (strongAuthTimerInfo (destroy_timers m s))"
  by (induction m s rule: destroy_timers.induct) (simp_all add: Let_def periods_ok_merase)

lemma strong_step_periods:
  assumes "strong_step tm s s'" and "periods_ok (strongAuthTimerInfo s)"
  shows "periods_ok (strongAuthTimerInfo s')"
  using assms
  by (cases rule: strong_step.cases)
    (simp_all add: callback_defs DestroyAllStrongAuthTimer_def NotifyStrongAuthChange_emit
      destroy_timers_periods DestroyStrongAuthTimer_periods GetStrongAuthTriggerPeriod_periods
      ResetStrongAuthTimer_periods StartStrongAuthTimer_period_periods sl_frame Let_def split_def
      split: option.split)

text \<open>C35: in every reachable state a user's trigger period is one of the five of the header, so the
  conversion of GetStrongAuthTimeTrigger to 32 bits loses nothing; zero means that no timer is
  recorded.\<close>

theorem trigger_period_exact:
  assumes "strong_reachable tm s"
  shows "case mfind (strongAuthTimerInfo s) u of
           None \<Rightarrow> GetStrongAuthTimeTrigger u s = 0
         | Some ti \<Rightarrow> GetStrongAuthTimeTrigger u s = triggerPeriod ti \<and> triggerPeriod ti \<in> periods"
proof -
  have "periods_ok (strongAuthTimerInfo s)"
    using assms
  proof induction
    case (start p)
    then show ?case by (simp add: empty_strong_def periods_ok_def)
  next
    case (step s s')
    show ?case by (rule strong_step_periods [OF step.hyps(2) step.IH])
  qed
  then show ?thesis
    by (auto simp: GetStrongAuthTimeTrigger_def periods_int32 dest: periods_ok_find split: option.split)
qed

definition enrolled :: "sample_store strong_state" where
  "enrolled = OnCredentialInfo sample_env 100 AUTH_SUCCESS 1 (empty_strong [])"

lemma enrolled_reachable: "strong_reachable Suc enrolled"
  unfolding enrolled_def
  by (rule strong_reachable.step [OF strong_reachable.start strong_step.cred_info])
    (simp add: sample_env_def)

theorem trigger_period_exact_witness: "GetStrongAuthTimeTrigger 100 enrolled = 259200000"
proof -
  have "strongAuthTimerInfo enrolled =
      [(100, \<lparr>timerId = 1, triggerPeriod = 259200000, credChangeTimerStamp = 0\<rparr>)]"
    by code_simp
  then show ?thesis using trigger_period_exact [OF enrolled_reachable, of 100] by simp
qed

text \<open>Reading the period of a user advances it by at most one stage and only when more time than
  the current period has passed since its time stamp; a period is never shortened, and the last one
  (72 hours) stays.\<close>

theorem trigger_period_stages:
  assumes "mfind (strongAuthTimerInfo s) u = Some ti" and "triggerPeriod ti \<in> periods"
  shows "let now = bootTimeMs e (clockReads s);
             (p, s') = GetStrongAuthTriggerPeriod e u s
         in triggerPeriod ti \<le> p
          \<and> mfind (strongAuthTimerInfo s') u
              = Some (if p = triggerPeriod ti then ti
                      else ti\<lparr>triggerPeriod := p, credChangeTimerStamp := now\<rparr>)
          \<and> (p \<noteq> triggerPeriod ti \<longleftrightarrow>
               triggerPeriod ti \<noteq> DEFAULT_STRONG_AUTH_TIMEOUT_MS
               \<and> now - credChangeTimerStamp ti > triggerPeriod ti)
          \<and> (p \<noteq> triggerPeriod ti \<longrightarrow> (triggerPeriod ti, p) \<in> set stages)"
  using assms(2)
  by (auto simp: GetStrongAuthTriggerPeriod_def GetBootTimeMs_def assms(1) sl_find stages_def periods_def
      timeouts Let_def)

theorem trigger_period_stages_witness:
  "fst (GetStrongAuthTriggerPeriod sample_env 100
     (sample_strong\<lparr>strongAuthTimerInfo :=
        [(100, \<lparr>timerId = 1, triggerPeriod = 3600000, credChangeTimerStamp = - 3600001\<rparr>)]\<rparr>)) = 10800000"
proof -
  let ?s = "sample_strong\<lparr>strongAuthTimerInfo :=
        [(100, \<lparr>timerId = 1, triggerPeriod = 3600000, credChangeTimerStamp = - 3600001\<rparr>)]\<rparr>"
  have now: "bootTimeMs sample_env (clockReads ?s) = 0"
    by (simp add: sample_env_def sample_strong_def empty_strong_def)
  obtain p s' where get: "GetStrongAuthTriggerPeriod sample_env 100 ?s = (p, s')"
    by (cases "GetStrongAuthTriggerPeriod sample_env 100 ?s")
  have "p \<noteq> 3600000 \<and> (p \<noteq> 3600000 \<longrightarrow> (3600000, p) \<in> set stages)"
    using trigger_period_stages
      [of ?s 100 "\<lparr>timerId = 1, triggerPeriod = 3600000, credChangeTimerStamp = - 3600001\<rparr>" sample_env]
    unfolding get now by (simp add: periods_def timeouts)
  then have "p = 10800000" by (auto simp: stages_def timeouts)
  then show ?thesis unfolding get by simp
qed

section \<open>The timers alive in the time service\<close>

text \<open>The timers a trace created and did not destroy, oldest first.\<close>

fun live_step :: "effect \<Rightarrow> nat list \<Rightarrow> nat list" where
  "live_step (TimerCreate n t) ns = ns @ [n]"
| "live_step (TimerDestroy n) ns = filter (\<lambda>k. k \<noteq> n) ns"
| "live_step _ ns = ns"

definition live_timers :: "effect list \<Rightarrow> nat list" where
  "live_timers es = fold live_step es []"

definition timer_free :: "effect list \<Rightarrow> bool" where
  "timer_free es \<longleftrightarrow> list_all (\<lambda>f. case f of TimerCreate _ _ \<Rightarrow> False | TimerDestroy _ \<Rightarrow> False | _ \<Rightarrow> True) es"

lemma timer_free_fold: "timer_free es \<Longrightarrow> fold live_step es ns = ns"
  by (induction es arbitrary: ns) (auto simp: timer_free_def split: effect.splits)

lemma live_timers_append: "live_timers (es @ ds) = fold live_step ds (live_timers es)"
  by (simp add: live_timers_def)

lemma live_timers_free [simp]: "timer_free ds \<Longrightarrow> live_timers (es @ ds) = live_timers es"
  by (simp add: live_timers_append timer_free_fold)

lemma timer_free_reported [simp]: "timer_free (reported ev s)"
  by (simp add: reported_def timer_free_def split: option.split)

lemma timer_free_told [simp]: "timer_free (told u st t s)"
  by (auto simp: told_def timer_free_def list_all_iff)

lemma timer_free_simps [simp]:
  "timer_free []" "timer_free (es @ ds) \<longleftrightarrow> timer_free es \<and> timer_free ds"
  by (simp_all add: timer_free_def)

lemma timer_free_strong [simp]: "timer_free (strong_auth_effects e u r s)"
  by (simp add: strong_auth_effects_def)

lemma live_Notify [simp]: "live_timers (trace (NotifyStrongAuthChange e u r s)) = live_timers (trace s)"
  by (simp add: NotifyStrongAuthChange_emit)

lemma SetStrongAuthStat_live [sl_frame]:
  "live_timers (trace (SetStrongAuthStat e u r s)) = live_timers (trace s)"
  by (simp add: SetStrongAuthStat_def split: option.split)

lemma InitStrongAuthStat_live [sl_frame]:
  "live_timers (trace (InitStrongAuthStat e u r s)) = live_timers (trace s)"
  by (simp add: InitStrongAuthStat_def split: option.split)

text \<open>
  A time service that never fails and never hands out an identifier twice, and the relation between
  its timers and the recorded ones: each entry owns one live timer, no timer is live without an
  entry.
\<close>

definition timer_service_ok :: "(nat \<Rightarrow> nat) \<Rightarrow> bool" where
  "timer_service_ok tm \<longleftrightarrow> inj tm \<and> (\<forall>n. tm n \<noteq> 0)"

definition timers_inv :: "(nat \<Rightarrow> nat) \<Rightarrow> ('p, 's) strong_state_scheme \<Rightarrow> bool" where
  "timers_inv tm s \<longleftrightarrow>
     mwf (strongAuthTimerInfo s)
   \<and> distinct (map (timerId \<circ> snd) (strongAuthTimerInfo s))
   \<and> set (live_timers (trace s)) = (timerId \<circ> snd) ` set (strongAuthTimerInfo s)
   \<and> (timerId \<circ> snd) ` set (strongAuthTimerInfo s) \<subseteq> tm ` {..<timersCreated s}"

lemma timers_inv_cong:
  assumes "strongAuthTimerInfo s' = strongAuthTimerInfo s" and "timersCreated s' = timersCreated s"
    and "live_timers (trace s') = live_timers (trace s)"
  shows "timers_inv tm s' \<longleftrightarrow> timers_inv tm s"
  using assms by (simp add: timers_inv_def)

lemma timers_inv_nonzero:
  assumes "timer_service_ok tm" and "timers_inv tm s" and "mfind (strongAuthTimerInfo s) u = Some ti"
  shows "timerId ti \<noteq> 0"
proof -
  have "timerId ti \<in> tm ` {..<timersCreated s}"
    using assms(2) mfind_in_set [OF assms(3)] by (force simp: timers_inv_def)
  then show ?thesis using assms(1) by (auto simp: timer_service_ok_def)
qed

lemma GetTimerId_zero_iff:
  assumes "timer_service_ok tm" and "timers_inv tm s"
  shows "GetTimerId u s = 0 \<longleftrightarrow> mfind (strongAuthTimerInfo s) u = None"
  using timers_inv_nonzero [OF assms] by (simp add: GetTimerId_def split: option.split)

lemma map_snd_mput_new:
  assumes "mfind m u = None" and "mwf m"
  shows "set (mput u ti m) = insert (u, ti) (set m)"
  using assms set_mput_iff [OF assms(2), of _ u ti] by (auto simp: mfind_None_iff)

lemma distinct_mput_new:
  "mfind m k = None \<Longrightarrow> f v \<notin> (f \<circ> snd) ` set m \<Longrightarrow> distinct (map (f \<circ> snd) m)
     \<Longrightarrow> distinct (map (f \<circ> snd) (mput k v m))"
proof (induction m)
  case Nil
  then show ?case by simp
next
  case (Cons p m)
  have "(f \<circ> snd) ` set (mput k v m) \<subseteq> insert (f v) ((f \<circ> snd) ` set m)"
    using set_mput [of k v m] by auto
  with Cons show ?case by (cases p) (auto split: if_splits)
qed

lemma StartStrongAuthTimer_period_timers:
  assumes ok: "timer_service_ok tm" and inv: "timers_inv tm s" and e: "createTimer e = tm"
  shows "timers_inv tm (StartStrongAuthTimer_period e u p s)"
proof (cases "GetTimerId u s = 0")
  case False
  with inv show ?thesis by (simp add: StartStrongAuthTimer_period_def)
next
  case True
  let ?m = "strongAuthTimerInfo s" and ?n = "timersCreated s"
  let ?s' = "StartStrongAuthTimer_period e u p s"
  let ?ti = "\<lparr>timerId = tm ?n, triggerPeriod = p, credChangeTimerStamp = bootTimeMs e (clockReads s)\<rparr>"
  have none: "mfind ?m u = None" using True GetTimerId_zero_iff [OF ok inv] by simp
  have wf: "mwf ?m" using inv by (simp add: timers_inv_def)
  have info: "strongAuthTimerInfo ?s' = mput u ?ti ?m"
    using True by (simp add: StartStrongAuthTimer_period_def CreateTimer_def GetBootTimeMs_def Let_def e
        minsert_def none)
  have count: "timersCreated ?s' = Suc ?n"
    using True by (simp add: StartStrongAuthTimer_period_def CreateTimer_def GetBootTimeMs_def Let_def)
  have live: "live_timers (trace ?s') = live_timers (trace s) @ [tm ?n]"
    using True by (simp add: StartStrongAuthTimer_period_def CreateTimer_def GetBootTimeMs_def Let_def e
        live_timers_append)
  have fresh: "tm ?n \<notin> tm ` {..<?n}" using ok by (auto simp: timer_service_ok_def inj_def)
  have "distinct (map (timerId \<circ> snd) (mput u ?ti ?m))"
    using inv fresh by (intro distinct_mput_new [OF none]) (auto simp: timers_inv_def)
  then show ?thesis
    using inv fresh unfolding timers_inv_def info count live map_snd_mput_new [OF none wf]
    by (auto simp: wf lessThan_Suc)
qed

lemma map_mput_same:
  "mwf m \<Longrightarrow> mfind m k = Some v \<Longrightarrow> f v' = f v \<Longrightarrow> map (f \<circ> snd) (mput k v' m) = map (f \<circ> snd) m"
proof (induction m)
  case Nil
  then show ?case by simp
next
  case (Cons p m)
  show ?case
  proof (cases "k = fst p")
    case True
    with Cons.prems show ?thesis by (cases p) simp
  next
    case False
    then have found: "mfind m k = Some v" using Cons.prems by (cases p) simp
    then have "fst p < k" using Cons.prems mfind_in_set [OF found] by (force simp: mwf_Cons)
    with Cons found False show ?thesis by (auto simp: mwf_Cons)
  qed
qed

text \<open>Replacing an entry by one of the same timer keeps the relation.\<close>

lemma timers_inv_update:
  assumes inv: "timers_inv tm s" and u: "mfind (strongAuthTimerInfo s) u = Some ti"
    and same: "timerId ti' = timerId ti"
    and s': "strongAuthTimerInfo s' = mput u ti' (strongAuthTimerInfo s)"
      "timersCreated s' = timersCreated s" "live_timers (trace s') = live_timers (trace s)"
  shows "timers_inv tm s'"
proof -
  have wf: "mwf (strongAuthTimerInfo s)" using inv by (simp add: timers_inv_def)
  have "map (timerId \<circ> snd) (mput u ti' (strongAuthTimerInfo s)) = map (timerId \<circ> snd) (strongAuthTimerInfo s)"
    using wf u same by (rule map_mput_same)
  moreover from this have "(timerId \<circ> snd) ` set (mput u ti' (strongAuthTimerInfo s))
      = (timerId \<circ> snd) ` set (strongAuthTimerInfo s)"
    by (metis image_set)
  ultimately show ?thesis using inv wf unfolding timers_inv_def s' by simp
qed

lemma advance_stage_timerId: "timerId (advance_stage sts now ti) = timerId ti"
  by (induction sts now ti rule: advance_stage.induct) auto

lemma GetStrongAuthTriggerPeriod_timers:
  assumes "timers_inv tm s"
  shows "timers_inv tm (snd (GetStrongAuthTriggerPeriod e u s))"
proof (cases "mfind (strongAuthTimerInfo s) u")
  case None
  then have "strongAuthTimerInfo (snd (GetStrongAuthTriggerPeriod e u s)) = strongAuthTimerInfo s"
    by (simp add: GetStrongAuthTriggerPeriod_def GetBootTimeMs_def Let_def)
  then have "timers_inv tm (snd (GetStrongAuthTriggerPeriod e u s)) = timers_inv tm s"
    by (rule timers_inv_cong) (simp_all add: sl_frame)
  with assms show ?thesis by simp
next
  case (Some ti)
  have info: "strongAuthTimerInfo (snd (GetStrongAuthTriggerPeriod e u s))
      = mput u (advance_stage stages (bootTimeMs e (clockReads s)) ti) (strongAuthTimerInfo s)"
    using Some by (simp add: GetStrongAuthTriggerPeriod_def GetBootTimeMs_def Let_def)
  show ?thesis
    by (rule timers_inv_update [OF assms Some advance_stage_timerId info]) (simp_all add: sl_frame)
qed

lemma ResetStrongAuthTimer_timers:
  assumes ok: "timer_service_ok tm" and inv: "timers_inv tm s" and e: "createTimer e = tm"
  shows "timers_inv tm (ResetStrongAuthTimer e u p s)"
proof (cases "GetTimerId u s = 0")
  case True
  then show ?thesis using StartStrongAuthTimer_period_timers [OF assms] by (simp add: ResetStrongAuthTimer_def)
next
  case False
  then obtain ti where ti: "mfind (strongAuthTimerInfo s) u = Some ti"
    by (auto simp: GetTimerId_zero_iff [OF ok inv])
  let ?es = "[TimerStop (timerId ti), TimerStart (timerId ti) (to_uint64 (bootTimeMs e (clockReads s) + p))]"
  have "timer_free ?es" by (simp add: timer_free_def)
  then show ?thesis
    using False ti
    by (intro timers_inv_update [OF inv ti, of "ti\<lparr>triggerPeriod := p,
          credChangeTimerStamp := bootTimeMs e (Suc (clockReads s))\<rparr>"])
      (simp_all add: ResetStrongAuthTimer_def SetCredChangeTriggerPeriod_def GetBootTimeMs_def GetTimerId_def Let_def)
qed

text \<open>Destroying the timer of an entry and erasing the entry keeps the relation.\<close>

lemma timers_inv_destroy:
  assumes inv: "timers_inv tm s" and u: "mfind (strongAuthTimerInfo s) u = Some ti"
  shows "timers_inv tm ((emit [TimerStop (timerId ti), TimerDestroy (timerId ti)] s)
           \<lparr>strongAuthTimerInfo := merase u (strongAuthTimerInfo s)\<rparr>)"
proof -
  let ?m = "strongAuthTimerInfo s"
  have wf: "mwf ?m" and dist: "distinct (map (timerId \<circ> snd) ?m)" using inv by (simp_all add: timers_inv_def)
  have inj: "inj_on (timerId \<circ> snd) (set ?m)" using dist by (simp add: distinct_map)
  have mem: "(u, ti) \<in> set ?m" using u by (rule mfind_in_set)
  have same: "fst p = u \<longleftrightarrow> (timerId \<circ> snd) p = timerId ti" if "p \<in> set ?m" for p
  proof
    assume "fst p = u"
    with that have "mfind ?m u = Some (snd p)" using mfind_iff [OF wf, of u "snd p"] by (metis prod.collapse)
    with u show "(timerId \<circ> snd) p = timerId ti" by simp
  next
    assume "(timerId \<circ> snd) p = timerId ti"
    then have "p = (u, ti)" using inj_onD [OF inj, of p "(u, ti)"] that mem by simp
    then show "fst p = u" by simp
  qed
  have "(timerId \<circ> snd) ` set (merase u ?m) = (timerId \<circ> snd) ` set ?m - {timerId ti}"
    using same by (auto simp: set_merase)
  moreover have "distinct (map (timerId \<circ> snd) (merase u ?m))"
    using dist by (simp add: merase_def distinct_map_filter)
  moreover have "live_timers (trace s @ [TimerStop (timerId ti), TimerDestroy (timerId ti)])
      = filter (\<lambda>k. k \<noteq> timerId ti) (live_timers (trace s))"
    by (simp add: live_timers_append)
  ultimately show ?thesis using inv by (auto simp: timers_inv_def)
qed

lemma DestroyStrongAuthTimer_timers:
  assumes ok: "timer_service_ok tm" and inv: "timers_inv tm s"
  shows "timers_inv tm (DestroyStrongAuthTimer u s)"
proof (cases "mfind (strongAuthTimerInfo s) u")
  case None
  with inv show ?thesis by (simp add: DestroyStrongAuthTimer_def GetTimerId_def)
next
  case (Some ti)
  with inv timers_inv_destroy [OF inv Some] show ?thesis
    by (simp add: DestroyStrongAuthTimer_def GetTimerId_def Let_def)
qed

lemma destroy_timers_timers: "timers_inv tm s \<Longrightarrow> timers_inv tm (destroy_timers m s)"
proof (induction m s rule: destroy_timers.induct)
  case (1 s)
  then show ?case by simp
next
  case (2 u ti rest s)
  show ?case
  proof (cases "mfind (strongAuthTimerInfo s) u")
    case None
    with 2 show ?thesis by (simp add: GetTimerId_def)
  next
    case (Some t)
    with 2 timers_inv_destroy [OF "2.prems" Some] show ?thesis by (simp add: GetTimerId_def Let_def)
  qed
qed

lemma timers_inv_emit [simp]: "timer_free es \<Longrightarrow> timers_inv tm (emit es s) = timers_inv tm s"
  by (simp add: timers_inv_def)

lemma timers_inv_listener [simp]: "timers_inv tm (s\<lparr>authSuccessListener := b\<rparr>) = timers_inv tm s"
  by (simp add: timers_inv_def)

lemma reason_timers [simp]:
  "timers_inv tm (SetStrongAuthStat e u r s) = timers_inv tm s"
  "timers_inv tm (InitStrongAuthStat e u r s) = timers_inv tm s"
  "timers_inv tm (NotifyStrongAuthChange e u r s) = timers_inv tm s"
  "timers_inv tm (DestroyStrongAuthStateInfo u s) = timers_inv tm s"
  by (rule timers_inv_cong; simp add: sl_frame NotifyStrongAuthChange_emit)+

lemma auth_success_timers:
  assumes "timer_service_ok tm" and "timers_inv tm s" and "createTimer e = tm"
  shows "timers_inv tm (OnNotifyAuthSuccessEvent e u a w s)"
proof -
  have "timers_inv tm (snd (GetStrongAuthTriggerPeriod e u (SetStrongAuthStat e u r s)))" for r
    using assms(2) by (simp add: GetStrongAuthTriggerPeriod_timers)
  from ResetStrongAuthTimer_timers [OF assms(1) this assms(3)] assms(2) show ?thesis
    by (simp add: OnNotifyAuthSuccessEvent_def Let_def split_def)
qed

lemma cred_change_timers:
  assumes "timer_service_ok tm" and "timers_inv tm s" and "createTimer e = tm"
  shows "timers_inv tm (OnNotifyCredChangeEvent e u a c b s)"
  using assms(2) ResetStrongAuthTimer_timers [OF assms]
  by (simp add: OnNotifyCredChangeEvent_def DestroyStrongAuthTimer_timers [OF assms(1)])

lemma cred_info_timers:
  assumes "timer_service_ok tm" and "timers_inv tm s" and "createTimer e = tm"
  shows "timers_inv tm (OnCredentialInfo e u res n s)"
  using assms(2)
  by (simp add: OnCredentialInfo_def StartStrongAuthTimer_def
      StartStrongAuthTimer_period_timers [OF assms(1) _ assms(3)])

lemma strong_step_timers:
  assumes ok: "timer_service_ok tm" and "strong_step tm s s'" and inv: "timers_inv tm s"
  shows "timers_inv tm s'"
  using assms(2)
proof cases
  case (expiry e t)
  then show ?thesis using inv by (simp add: OnTrigger_def StrongAuthTimerCallback_def Let_def)
next
  case (get_cred e u)
  then show ?thesis using inv by (simp add: GetCredInfo_def timer_free_def split: option.split)
next
  case stop
  then show ?thesis using destroy_timers_timers [OF inv] by (simp add: DestroyAllStrongAuthTimer_def)
qed (simp_all add: inv auth_success_timers [OF ok inv] cred_change_timers [OF ok inv] cred_info_timers [OF ok inv]
      AccountUnlocked_def RegistAuthEventListener_def UnRegistAuthEventListener_def timer_free_def)


lemma Suc_service: "timer_service_ok Suc"
  by (simp add: timer_service_ok_def)


text \<open>When the time service fails to create a user's first timer, the entry with identifier 0 that
  is recorded all the same hides the timer of the next attempt: that one is started and never
  recorded, so nothing can stop or destroy it.\<close>

theorem failed_timer_hides_next:
  "\<exists>(tm :: nat \<Rightarrow> nat) (s :: sample_store strong_state).
     strong_reachable tm s \<and> live_timers (trace s) = [0, 7] \<and> (\<forall>u. GetTimerId u s = 0)"
proof -
  let ?tm = "\<lambda>n. if n = 0 then 0 else 7 :: nat"
  let ?e = "sample_env\<lparr>createTimer := ?tm\<rparr>"
  let ?s1 = "OnCredentialInfo ?e 100 AUTH_SUCCESS 1 (empty_strong [])"
  let ?s2 = "OnNotifyAuthSuccessEvent ?e 100 PIN False ?s1"
  have r1: "strong_reachable ?tm ?s1"
    by (rule strong_reachable.step [OF strong_reachable.start strong_step.cred_info]) simp
  have r2: "strong_reachable ?tm ?s2"
    by (rule strong_reachable.step [OF r1 strong_step.auth_success]) simp
  have 1: "strongAuthTimerInfo ?s2 =
      [(100, \<lparr>timerId = 0, triggerPeriod = 259200000, credChangeTimerStamp = 0\<rparr>)]"
    and 2: "live_timers (trace ?s2) = [0, 7]"
    by code_simp+
  have "GetTimerId u ?s2 = 0" for u
    unfolding GetTimerId_def 1 by (simp split: option.split)
  with r2 2 show ?thesis by blast
qed

section \<open>Success, expiry and delivery\<close>

lemma ResetStrongAuthTimer_running:
  assumes "mfind (strongAuthTimerInfo s) u = Some ti" and "timerId ti \<noteq> 0"
  shows "mfind (strongAuthTimerInfo (ResetStrongAuthTimer e u p s)) u =
           Some (ti\<lparr>triggerPeriod := p, credChangeTimerStamp := bootTimeMs e (Suc (clockReads s))\<rparr>)"
    and "trace (ResetStrongAuthTimer e u p s) = trace s @
           [TimerStop (timerId ti), TimerStart (timerId ti) (to_uint64 (bootTimeMs e (clockReads s) + p))]"
  using assms
  by (simp_all add: ResetStrongAuthTimer_def SetCredChangeTriggerPeriod_def GetBootTimeMs_def GetTimerId_def
      Let_def sl_find)

lemma ResetStrongAuthTimer_new:
  assumes "mfind (strongAuthTimerInfo s) u = None"
  shows "mfind (strongAuthTimerInfo (ResetStrongAuthTimer e u p s)) u =
           Some \<lparr>timerId = createTimer e (timersCreated s), triggerPeriod = p,
                 credChangeTimerStamp = bootTimeMs e (clockReads s)\<rparr>"
    and "last (trace (ResetStrongAuthTimer e u p s)) =
           TimerStart (createTimer e (timersCreated s)) (to_uint64 (bootTimeMs e (clockReads s) + p))"
  using assms
  by (simp_all add: ResetStrongAuthTimer_def StartStrongAuthTimer_period_def CreateTimer_def GetBootTimeMs_def
      GetTimerId_def Let_def sl_find)

text \<open>C34: a successful authentication with the PIN (not by the widget) clears the user's reason, so
  that an unlocked user is reported as needing no strong authentication, and leaves the user with a
  running timer, started last, whose deadline is one of the five periods after a reading of the
  clock; no other user's reason changes.\<close>

theorem pin_success_rearms:
  assumes "timer_service_ok (createTimer e)" and "timers_inv (createTimer e) s"
    and "periods_ok (strongAuthTimerInfo s)"
  shows "let s' = OnNotifyAuthSuccessEvent e u PIN False s in
      mfind (strongAuthStateInfo s') u = Some (reason_code REASON_NONE)
    \<and> (\<forall>w. w = u \<or> mfind (strongAuthStateInfo s') w = mfind (strongAuthStateInfo s) w)
    \<and> (\<exists>ti n. mfind (strongAuthTimerInfo s') u = Some ti \<and> timerId ti \<noteq> 0 \<and> triggerPeriod ti \<in> periods
         \<and> last (trace s') = TimerStart (timerId ti) (to_uint64 (bootTimeMs e n + triggerPeriod ti)))"
proof -
  let ?s1 = "SetStrongAuthStat e u (reason_code REASON_NONE) s"
  let ?p = "fst (GetStrongAuthTriggerPeriod e u ?s1)" and ?s2 = "snd (GetStrongAuthTriggerPeriod e u ?s1)"
  let ?s' = "ResetStrongAuthTimer e u ?p ?s2"
  have s': "OnNotifyAuthSuccessEvent e u PIN False s = ?s'"
    by (simp add: OnNotifyAuthSuccessEvent_def Let_def split_def)
  have inv1: "timers_inv (createTimer e) ?s1" using assms(2) by simp
  have inv2: "timers_inv (createTimer e) ?s2" using inv1 by (rule GetStrongAuthTriggerPeriod_timers)
  have ok1: "periods_ok (strongAuthTimerInfo ?s1)" using assms(3) by (simp add: sl_frame)
  have p: "?p \<in> periods" using ok1 by (rule GetStrongAuthTriggerPeriod_periods)
  have info: "mfind (strongAuthStateInfo ?s') w = mfind (strongAuthStateInfo ?s1) w" for w
    by (simp add: sl_frame)
  have "\<exists>ti n. mfind (strongAuthTimerInfo ?s') u = Some ti \<and> timerId ti \<noteq> 0 \<and> triggerPeriod ti \<in> periods
         \<and> last (trace ?s') = TimerStart (timerId ti) (to_uint64 (bootTimeMs e n + triggerPeriod ti))"
  proof (cases "mfind (strongAuthTimerInfo ?s2) u")
    case None
    have "createTimer e n \<noteq> 0" for n using assms(1) by (simp add: timer_service_ok_def)
    with p ResetStrongAuthTimer_new [OF None, of e ?p] show ?thesis by auto
  next
    case (Some ti)
    have "timerId ti \<noteq> 0" using assms(1) inv2 Some by (rule timers_inv_nonzero)
    with p ResetStrongAuthTimer_running [OF Some this, of e ?p] show ?thesis by auto
  qed
  then show ?thesis
    unfolding s' Let_def info by (auto simp: SetStrongAuthStat_info)
qed

theorem pin_success_rearms_witness:
  "mfind (strongAuthStateInfo (OnNotifyAuthSuccessEvent sample_env 100 PIN False (empty_strong []))) 100 = Some 0"
proof -
  have c: "createTimer sample_env = Suc" by (simp add: sample_env_def)
  have "timers_inv Suc (empty_strong [] :: sample_store strong_state)"
    by (simp add: timers_inv_def empty_strong_def live_timers_def)
  moreover have "periods_ok (strongAuthTimerInfo (empty_strong [] :: sample_store strong_state))"
    by (simp add: empty_strong_def periods_ok_def)
  ultimately show ?thesis
    using pin_success_rearms [of sample_env "empty_strong []" 100] by (simp add: c Suc_service Let_def)
qed

text \<open>When a user's timer fires, the user needs strong authentication because of the credential
  change if the recorded period is shorter than 72 hours and because of the timeout otherwise,
  unless the user is still in AFTER_BOOT, which stays; other users and all timers are untouched.\<close>

theorem timer_expiry:
  assumes "periods_ok (strongAuthTimerInfo s)" and "timerHasCallback t"
  shows "let s' = OnTrigger e t s; u = timerUserId t in
      strongAuthTimerInfo s' = strongAuthTimerInfo s
    \<and> (\<forall>w. mfind (strongAuthStateInfo s') w =
         (if w \<noteq> u then mfind (strongAuthStateInfo s) w
          else if mfind (strongAuthStateInfo s) u = Some (reason_code AFTER_BOOT)
          then Some (reason_code AFTER_BOOT)
          else Some (case mfind (strongAuthTimerInfo s) u of
                       None \<Rightarrow> reason_code AFTER_TIMEOUT
                     | Some ti \<Rightarrow> if triggerPeriod ti < DEFAULT_STRONG_AUTH_TIMEOUT_MS
                                 then reason_code AFTER_CREDENTIAL_CHANGED
                                 else reason_code AFTER_TIMEOUT)))"
proof -
  have pos: "0 < p" if "p \<in> periods" for p
    using that by (auto simp: periods_def timeouts)
  show ?thesis
    using assms(2) periods_ok_find [OF assms(1), of "timerUserId t"]
    by (simp add: OnTrigger_def StrongAuthTimerCallback_def Let_def SetStrongAuthStat_info sl_frame
        GetStrongAuthTimeTrigger_def periods_int32 pos split: option.split)
qed

theorem timer_expiry_witness:
  "mfind (strongAuthStateInfo (OnTrigger sample_env (SetUserId 101 (SetCallbackInfo True
     (authTimer sample_env True 0 True False))) (empty_strong []))) 101 = Some 2"
proof -
  have "periods_ok (strongAuthTimerInfo (empty_strong [] :: sample_store strong_state))"
    by (simp add: empty_strong_def periods_ok_def)
  from timer_expiry [OF this, of "SetUserId 101 (SetCallbackInfo True (authTimer sample_env True 0 True False))"
      sample_env]
  show ?thesis by (simp add: SetUserId_def SetCallbackInfo_def authTimer_def Let_def empty_strong_def)
qed

lemma deliveries_reported: "deliveries q u r (reported ev s) = 0"
  by (simp add: reported_def deliveries_def split: option.split)



end
