(* ===== verification/Watch_Props.thy ===== *)
theory Watch_Props
  imports Watch_App_Lock
begin

text \<open>
  Properties of the wearable build: the record of unlocked applications keeps the contract
  \<open>membership_record\<close>, steps of the manager keep the relation between wearing state, wrist unlock
  and observers, only a successful authentication unlocks, and taking the watch off locks.
\<close>

section \<open>The record\<close>

text \<open>What the lock decisions rely on about the record, whatever its representation.\<close>

locale membership_record =
  fixes contains :: "string \<Rightarrow> 's \<Rightarrow> bool"
    and add :: "'e \<Rightarrow> string \<Rightarrow> 's \<Rightarrow> 's"
    and remove :: "'e \<Rightarrow> string \<Rightarrow> 's \<Rightarrow> 's"
    and clear :: "'e \<Rightarrow> 's \<Rightarrow> 's"
    and ok :: "'s \<Rightarrow> bool"
  assumes contains_add: "ok s \<Longrightarrow> contains b (add e a s) \<longleftrightarrow> b = a \<or> contains b s"
    and contains_remove: "ok s \<Longrightarrow> contains b (remove e a s) \<longleftrightarrow> b \<noteq> a \<and> contains b s"
    and contains_clear: "\<not> contains b (clear e s)"
    and ok_add: "ok s \<Longrightarrow> ok (add e a s)"
    and ok_remove: "ok s \<Longrightarrow> ok (remove e a s)"
    and ok_clear: "ok (clear e s)"
begin

lemma added_until_removed:
  "ok s \<Longrightarrow> a \<notin> set bs \<Longrightarrow> contains a (fold (remove e) bs (add d a s))"
proof -
  have "ok s' \<Longrightarrow> contains a s' \<Longrightarrow> a \<notin> set bs \<Longrightarrow> contains a (fold (remove e) bs s')" for s'
    by (induction bs arbitrary: s') (simp_all add: contains_remove ok_remove)
  moreover assume "ok s" "a \<notin> set bs"
  ultimately show ?thesis by (simp add: contains_add ok_add)
qed

lemma cleared_then_added: "contains b (add e a (clear d s)) \<longleftrightarrow> b = a"
  by (simp add: contains_add ok_clear contains_clear)

end

lemmas observer_defs =
  registerAppStateObserver_def unregisterAppStateObserver_def registerLeaveWristSettingObserver_def
  unregisterLeaveWristSettingObserver_def RegisterSettingObserver_def UnRegisterSettingObserver_def

lemma emit_watch_selectors [simp]:
  "isWearOn (emit es s) = isWearOn s"
  "isWristUnlock (emit es s) = isWristUnlock s"
  "appStateObserver (emit es s) = appStateObserver s"
  "leaveWristSettingObserver (emit es s) = leaveWristSettingObserver s"
  "unlockedRecord (emit es s) = unlockedRecord s"
  "sensorRegistered (emit es s) = sensorRegistered s"
  "wearDisplayRegistered (emit es s) = wearDisplayRegistered s"
  by (simp_all add: emit_def)

lemma observer_frame [sl_frame]:
  "unlockedRecord (registerAppStateObserver e s) = unlockedRecord s"
  "unlockedRecord (unregisterAppStateObserver e s) = unlockedRecord s"
  "unlockedRecord (registerLeaveWristSettingObserver e s) = unlockedRecord s"
  "unlockedRecord (unregisterLeaveWristSettingObserver e s) = unlockedRecord s"
  "isWearOn (registerAppStateObserver e s) = isWearOn s"
  "isWearOn (unregisterAppStateObserver e s) = isWearOn s"
  "isWearOn (registerLeaveWristSettingObserver e s) = isWearOn s"
  "isWearOn (unregisterLeaveWristSettingObserver e s) = isWearOn s"
  "isWristUnlock (registerAppStateObserver e s) = isWristUnlock s"
  "isWristUnlock (unregisterAppStateObserver e s) = isWristUnlock s"
  "isWristUnlock (registerLeaveWristSettingObserver e s) = isWristUnlock s"
  "isWristUnlock (unregisterLeaveWristSettingObserver e s) = isWristUnlock s"
  by (simp_all add: observer_defs Let_def)

lemma record_frame [sl_frame]:
  "isWearOn (snd (UnlockedRecord_add e b s)) = isWearOn s"
  "isWearOn (snd (UnlockedRecord_remove e b s)) = isWearOn s"
  "isWearOn (UnlockedRecord_clear e s) = isWearOn s"
  "isWristUnlock (snd (UnlockedRecord_add e b s)) = isWristUnlock s"
  "isWristUnlock (snd (UnlockedRecord_remove e b s)) = isWristUnlock s"
  "isWristUnlock (UnlockedRecord_clear e s) = isWristUnlock s"
  "unlockedRecord (snd (UnlockedRecord_add e b s)) = insort_insert b (unlockedRecord s)"
  "unlockedRecord (snd (UnlockedRecord_remove e b s)) = remove1 b (unlockedRecord s)"
  "unlockedRecord (UnlockedRecord_clear e s) = []"
  by (simp_all add: UnlockedRecord_add_def UnlockedRecord_remove_def UnlockedRecord_clear_def sl_frame Let_def)

definition record_ok :: "('p, 's) watch_state_scheme \<Rightarrow> bool" where
  "record_ok s \<longleftrightarrow> sorted (unlockedRecord s) \<and> distinct (unlockedRecord s)"

interpretation unlocked_apps: membership_record UnlockedRecord_contains
  "\<lambda>e b s. snd (UnlockedRecord_add e b s)" "\<lambda>e b s. snd (UnlockedRecord_remove e b s)"
  UnlockedRecord_clear record_ok
  by unfold_locales
    (auto simp: UnlockedRecord_contains_def record_ok_def sl_frame set_insort_insert sorted_insort_insert
      distinct_insort_insert sorted_remove1)

section \<open>Steps\<close>

lemma ReportFaultCode_emit: "\<exists>es. ReportFaultCode e b c r s = emit es s"
  by (simp add: ReportFaultCode_def SendEvent_def Let_def) blast

lemma BeginWidgetAuth_frame [sl_frame]:
  "isWearOn (snd (BeginWidgetAuth e s)) = isWearOn s"
  "isWristUnlock (snd (BeginWidgetAuth e s)) = isWristUnlock s"
  "unlockedRecord (snd (BeginWidgetAuth e s)) = unlockedRecord s"
  "appStateObserver (snd (BeginWidgetAuth e s)) = appStateObserver s"
  "leaveWristSettingObserver (snd (BeginWidgetAuth e s)) = leaveWristSettingObserver s"
  "fst (BeginWidgetAuth e s) \<longleftrightarrow> widgetAuthResult e = 0"
  by (simp_all add: BeginWidgetAuth_def ReportFaultCode_def SendEvent_def Let_def)

lemma register_frame [sl_frame]:
  "isWearOn (RegisterSensorListener s) = isWearOn s" "isWearOn (WearDisplay_Register s) = isWearOn s"
  "isWristUnlock (RegisterSensorListener s) = isWristUnlock s"
  "isWristUnlock (WearDisplay_Register s) = isWristUnlock s"
  "unlockedRecord (RegisterSensorListener s) = unlockedRecord s"
  "unlockedRecord (WearDisplay_Register s) = unlockedRecord s"
  "appStateObserver (RegisterSensorListener s) = appStateObserver s"
  "appStateObserver (WearDisplay_Register s) = appStateObserver s"
  "leaveWristSettingObserver (RegisterSensorListener s) = leaveWristSettingObserver s"
  "leaveWristSettingObserver (WearDisplay_Register s) = leaveWristSettingObserver s"
  by (simp_all add: RegisterSensorListener_def WearDisplay_Register_def)

text \<open>The entry points of the watch manager; \<open>G\<close> restricts the environments.\<close>

inductive watch_step :: "('p env \<Rightarrow> bool) \<Rightarrow> 'p watch_state \<Rightarrow> 'p watch_state \<Rightarrow> bool" for G where
  init: "watch_step G s (WatchAppLockManager_init s)"
| unlock: "G e \<Longrightarrow> watch_step G s (snd (Watch_unlockScreen e locked s))"
| payment: "G e \<Longrightarrow> watch_step G s (snd (IsPaymentApp e s))"
| hidden: "G e \<Longrightarrow> watch_step G s (OnWindowHidden e b s)"
| setting: "G e \<Longrightarrow> watch_step G s (LeaveWrist_OnChange e s)"
| sensor: "G e \<Longrightarrow> watch_step G s (WearSensorCallback e ev s)"
| display: "G e \<Longrightarrow> watch_step G s (WearDisplay_OnDisplayPowerEvent e p st s)"
| sensor_retry: "G e \<Longrightarrow> watch_step G s (SensorRetryTask e s)"
| display_retry: "G e \<Longrightarrow> watch_step G s (WearDisplayRetryTask e s)"
| destroy: "G e \<Longrightarrow> watch_step G s (WatchAppLockManager_destroy e s)"

definition empty_watch :: "'p \<Rightarrow> 'p watch_state" where
  "empty_watch p = \<lparr>trace = [], store = p, deathRecipientMap = [], innerListenMap = [],
     stateValue = initial_state_value, systemEventListener = None,
     strongAuthStateInfo = [], strongAuthTimerInfo = [], authSuccessListener = False,
     clockReads = 0, timersCreated = 0, isWearOn = False, isWristUnlock = False, appStateObserver = False,
     leaveWristSettingObserver = False, unlockedRecord = [], sensorRegistered = False,
     wearDisplayRegistered = False\<rparr>"

inductive watch_reachable :: "('p env \<Rightarrow> bool) \<Rightarrow> 'p watch_state \<Rightarrow> bool" for G where
  start: "watch_reachable G (empty_watch p)"
| step: "watch_reachable G s \<Longrightarrow> watch_step G s s' \<Longrightarrow> watch_reachable G s'"

text \<open>What an operation does to wearing state, wrist unlock and record.\<close>

lemma IsPaymentApp_frame [sl_frame]:
  "isWearOn (snd (IsPaymentApp e s)) = isWearOn s"
  "isWristUnlock (snd (IsPaymentApp e s)) = isWristUnlock s"
  "unlockedRecord (snd (IsPaymentApp e s)) = unlockedRecord s"
  "appStateObserver (snd (IsPaymentApp e s)) = appStateObserver s"
  "leaveWristSettingObserver (snd (IsPaymentApp e s)) = leaveWristSettingObserver s"
  by (simp_all add: IsPaymentApp_def GetPaymentServices_def ReportFaultCode_def SendEvent_def Let_def split_def)

lemma Watch_unlockScreen_effect:
  assumes "s' = snd (Watch_unlockScreen e locked s)"
  defines "done \<equiv> locked \<and> HasPin e \<and> widgetAuthResult e = 0"
  shows "unlockedRecord s' = (if done then insort_insert (GetBundleNameByUid e (callingUid e)) (unlockedRecord s)
                              else unlockedRecord s)"
    and "isWristUnlock s' \<longleftrightarrow> isWristUnlock s \<or> done \<and> IsLeaveWrist e \<and> isWearOn s"
    and "isWearOn s' = isWearOn s"
  by (auto simp: assms(1) done_def Watch_unlockScreen_def Let_def split_def sl_frame)

lemma task_frame [sl_frame]:
  "isWearOn (SensorRetryTask e s) = isWearOn s" "isWearOn (WearDisplayRetryTask e s) = isWearOn s"
  "isWristUnlock (SensorRetryTask e s) = isWristUnlock s"
  "isWristUnlock (WearDisplayRetryTask e s) = isWristUnlock s"
  "unlockedRecord (SensorRetryTask e s) = unlockedRecord s"
  "unlockedRecord (WearDisplayRetryTask e s) = unlockedRecord s"
  by (simp_all add: SensorRetryTask_def WearDisplayRetryTask_def)

lemma unregister_frame [sl_frame]:
  "isWearOn (UnRegisterSensorListener s) = isWearOn s" "isWearOn (WearDisplay_UnRegister s) = isWearOn s"
  "isWristUnlock (UnRegisterSensorListener s) = isWristUnlock s"
  "isWristUnlock (WearDisplay_UnRegister s) = isWristUnlock s"
  "unlockedRecord (UnRegisterSensorListener s) = unlockedRecord s"
  "unlockedRecord (WearDisplay_UnRegister s) = unlockedRecord s"
  by (simp_all add: UnRegisterSensorListener_def WearDisplay_UnRegister_def)

lemmas watch_handlers =
  WatchAppLockManager_init_def WatchAppLockManager_destroy_def OnWindowHidden_def LeaveWrist_OnChange_def
  WearSensorCallback_def WearDisplay_OnDisplayPowerEvent_def OnScreenOffEnd_def WearStateChange_def

text \<open>C16: an application enters the record of unlocked applications, or the wrist unlock is set, only by
  an unlock request whose PIN dialog succeeded, made by that application (for the wrist unlock: while
  the watch is worn and the leave-wrist setting is on).\<close>

theorem only_authentication_unlocks:
  assumes "watch_step G s s'"
  shows "(b \<in> set (unlockedRecord s') \<and> b \<notin> set (unlockedRecord s) \<or> isWristUnlock s' \<and> \<not> isWristUnlock s)
    \<longrightarrow> (\<exists>e. G e \<and> HasPin e \<and> widgetAuthResult e = 0 \<and> s' = snd (Watch_unlockScreen e True s)
          \<and> (isWristUnlock s' \<and> \<not> isWristUnlock s \<longrightarrow> isWearOn s \<and> IsLeaveWrist e)
          \<and> (b \<in> set (unlockedRecord s') \<and> b \<notin> set (unlockedRecord s)
               \<longrightarrow> b = GetBundleNameByUid e (callingUid e)))"
  using assms
proof cases
  case (unlock e locked)
  note eff = Watch_unlockScreen_effect [OF unlock(1)]
  show ?thesis
  proof (cases "locked \<and> HasPin e \<and> widgetAuthResult e = 0")
    case True
    with unlock eff show ?thesis by (intro impI exI [of _ e]) (auto simp: set_insort_insert)
  next
    case False
    with eff show ?thesis by auto
  qed
qed (auto simp: watch_handlers sl_frame Let_def dest: notin_set_remove1 split: option.splits)

definition pin_env :: "sample_store env" where
  "pin_env = sample_env\<lparr>systemParameter := (\<lambda>_. Some ''true'')\<rparr>"

lemma pin_env_simps [simp]:
  "HasPin pin_env" "widgetAuthResult pin_env = 0" "GetBundleNameByUid pin_env u = ''app''"
  "\<not> IsLeaveWrist pin_env"
  by (simp_all add: pin_env_def sample_env_def HasPin_def STATE_TRUE_def GetBundleNameByUid_def IsLeaveWrist_def
      GetSettingsValue_def Query_def SETTING_DISENABLE_VALUE_def SETTING_ENABLE_VALUE_def)

theorem only_authentication_unlocks_witness:
  "\<exists>e. HasPin e \<and> widgetAuthResult e = 0 \<and> ''app'' = GetBundleNameByUid e (callingUid e)
     \<and> snd (Watch_unlockScreen pin_env True (empty_watch [])) = snd (Watch_unlockScreen e True (empty_watch []))"
proof -
  let ?s' = "snd (Watch_unlockScreen pin_env True (empty_watch []))"
  have "''app'' \<in> set (unlockedRecord ?s') \<and> ''app'' \<notin> set (unlockedRecord (empty_watch []))"
    by (simp add: Watch_unlockScreen_effect [OF refl] empty_watch_def set_insort_insert)
  moreover have "watch_step (\<lambda>_. True) (empty_watch []) ?s'" by (rule watch_step.unlock) simp
  ultimately show ?thesis using only_authentication_unlocks by blast
qed

section \<open>Invariants\<close>

definition watch_inv :: "('p, 's) watch_state_scheme \<Rightarrow> bool" where
  "watch_inv s \<longleftrightarrow> record_ok s \<and> (isWristUnlock s \<longrightarrow> isWearOn s)"

lemma watch_step_inv: "watch_step G s s' \<Longrightarrow> watch_inv s \<Longrightarrow> watch_inv s'"
  by (cases rule: watch_step.cases, assumption)
    (auto simp: watch_inv_def record_ok_def watch_handlers Watch_unlockScreen_effect [OF refl] sl_frame Let_def
      sorted_insort_insert distinct_insort_insert sorted_remove1 split: option.splits)

text \<open>In every reachable state a wrist unlock is in force only while the watch is worn, and the
  record of unlocked applications is a set.\<close>

theorem wrist_unlock_needs_wearing: "watch_reachable G s \<Longrightarrow> (isWristUnlock s \<longrightarrow> isWearOn s) \<and> record_ok s"
proof (induction rule: watch_reachable.induct)
  case (start p)
  then show ?case by (simp add: empty_watch_def record_ok_def)
next
  case (step s s')
  then show ?case using watch_step_inv [OF step.hyps(2)] by (simp add: watch_inv_def)
qed

theorem wrist_unlock_needs_wearing_witness:
  "record_ok (snd (Watch_unlockScreen pin_env True (empty_watch [])))"
  by (rule wrist_unlock_needs_wearing [THEN conjunct2,
        OF watch_reachable.step [OF watch_reachable.start watch_step.unlock, of "\<lambda>_. True"]]) simp

definition observers_work :: "'p env \<Rightarrow> bool" where
  "observers_work e \<longleftrightarrow>
     makeAppObserver e \<and> appMgrClient e \<and> unregisterAppObserverOk e \<and> makeSettingObserver e"

definition observers_inv :: "('p, 's) watch_state_scheme \<Rightarrow> bool" where
  "observers_inv s \<longleftrightarrow> (appStateObserver s \<longleftrightarrow> unlockedRecord s \<noteq> [])
     \<and> (leaveWristSettingObserver s \<longleftrightarrow> unlockedRecord s \<noteq> [])"

lemma insort_insert_nonempty [simp]: "insort_insert x xs \<noteq> []"
  using set_insort_insert [of x xs] by auto

lemma record_observers:
  assumes "observers_work e" and "observers_inv s"
  shows "observers_inv (snd (UnlockedRecord_add e b s))"
    and "observers_inv (snd (UnlockedRecord_remove e b s))"
    and "observers_inv (UnlockedRecord_clear e s)"
  using assms
  by (simp_all add: observers_inv_def observers_work_def UnlockedRecord_add_def UnlockedRecord_remove_def
      UnlockedRecord_clear_def observer_defs Let_def)

lemma observers_inv_simps [simp]:
  "observers_inv (emit es s) = observers_inv s"
  "observers_inv (s\<lparr>isWristUnlock := b\<rparr>) = observers_inv s"
  "observers_inv (s\<lparr>isWearOn := b\<rparr>) = observers_inv s"
  "observers_inv (s\<lparr>sensorRegistered := b\<rparr>) = observers_inv s"
  "observers_inv (s\<lparr>wearDisplayRegistered := b\<rparr>) = observers_inv s"
  by (simp_all add: observers_inv_def)

lemma quiet_observers [simp]:
  "observers_inv (RegisterSensorListener s) = observers_inv s"
  "observers_inv (WearDisplay_Register s) = observers_inv s"
  "observers_inv (UnRegisterSensorListener s) = observers_inv s"
  "observers_inv (WearDisplay_UnRegister s) = observers_inv s"
  "observers_inv (SensorRetryTask e s) = observers_inv s"
  "observers_inv (WearDisplayRetryTask e s) = observers_inv s"
  "observers_inv (snd (IsPaymentApp e s)) = observers_inv s"
  "observers_inv (snd (BeginWidgetAuth e s)) = observers_inv s"
  by (simp_all add: RegisterSensorListener_def WearDisplay_Register_def UnRegisterSensorListener_def
      WearDisplay_UnRegister_def SensorRetryTask_def WearDisplayRetryTask_def)
    (simp_all add: observers_inv_def sl_frame)

lemma watch_step_observers:
  assumes "watch_step observers_work s s'" and inv: "observers_inv s"
  shows "observers_inv s'"
  using assms(1)
proof cases
  case (unlock e locked)
  have "observers_inv (snd (UnlockedRecord_add e b (snd (BeginWidgetAuth e (WearDisplay_Register (RegisterSensorListener s))))))" for b
    using unlock(2) inv by (intro record_observers) simp_all
  with inv show ?thesis unfolding unlock(1) by (simp add: Watch_unlockScreen_def Let_def split_def)
qed (simp_all add: watch_handlers record_observers inv Let_def split: option.split)



section \<open>Lock decisions\<close>



text \<open>The retry loop of both observers stops after at most the given number of attempts, and reports
  success exactly when one of the attempts it may make succeeds, at the first such attempt.\<close>

theorem retry_loop_bounded:
  assumes "c \<le> m"
  shows "case retry_loop ok m c of
           (n, True) \<Rightarrow> c \<le> n \<and> n < m \<and> ok n \<and> (\<forall>k. c \<le> k \<and> k < n \<longrightarrow> \<not> ok k)
         | (n, False) \<Rightarrow> n = m \<and> (\<forall>k. c \<le> k \<and> k < m \<longrightarrow> \<not> ok k)"
  using assms
proof (induction ok m c rule: retry_loop.induct)
  case (1 ok m c)
  show ?case
  proof (cases "c < m \<and> \<not> ok c")
    case True
    then have "retry_loop ok m c = retry_loop ok m (Suc c)" by (subst retry_loop.simps) simp
    moreover have "c \<le> k \<longleftrightarrow> k = c \<or> Suc c \<le> k" for k by auto
    ultimately show ?thesis using True "1.IH"
      by (auto split: prod.splits bool.splits)
  next
    case False
    with "1.prems" show ?thesis by (subst retry_loop.simps) auto
  qed
qed

theorem retry_loop_bounded_witness: "snd (retry_loop (\<lambda>n. n = 4) 5 0)"
proof -
  have "case retry_loop (\<lambda>n. n = 4) 5 0 of
      (n, True) \<Rightarrow> 0 \<le> n \<and> n < 5 \<and> n = 4 \<and> (\<forall>k. 0 \<le> k \<and> k < n \<longrightarrow> k \<noteq> 4)
    | (n, False) \<Rightarrow> n = 5 \<and> (\<forall>k. 0 \<le> k \<and> k < 5 \<longrightarrow> k \<noteq> (4::nat))"
    by (rule retry_loop_bounded) simp
  then show ?thesis by (auto dest: spec [of _ "4::nat"] split: prod.splits bool.splits)
qed

text \<open>Applications whose bundle name cannot be resolved share one entry of the record, the empty
  name: after one of them authenticates, every other one is treated as unlocked.\<close>

theorem unresolved_names_share_unlock:
  assumes "HasPin e" and "widgetAuthResult e = 0" and "GetBundleNameByUid e (callingUid e) = ''''"
    and "GetBundleNameByUid d (callingUid d) = ''''"
  shows "IsFinishUnlock d (snd (Watch_unlockScreen e True s))"
  using assms
  by (simp add: IsFinishUnlock_def UnlockedRecord_contains_def Watch_unlockScreen_effect [OF refl] set_insort_insert)

theorem unresolved_names_share_unlock_witness:
  "IsFinishUnlock (pin_env\<lparr>callingUid := 5, bundleNameForUid := (\<lambda>_. NoBundleManager)\<rparr>)
     (snd (Watch_unlockScreen (pin_env\<lparr>bundleNameForUid := (\<lambda>_. NoBundleManager)\<rparr>) True (empty_watch [])))"
  by (rule unresolved_names_share_unlock)
    (simp_all add: GetBundleNameByUid_def HasPin_def pin_env_def STATE_TRUE_def sample_env_def)

end
