(* ===== verification/System_Frames.thy ===== *)
theory System_Frames
  imports System_Lifecycle Strong_Auth_Props Watch_Props
begin

text \<open>
  What the operations leave unchanged.  The state is seen through four views, one per component;
  an invariant of a component depends on its view only, and an operation of one component keeps the
  views of the others.  The lemmas are collected in \<open>sl_frame\<close> and carry the invariant of the
  whole service in \<open>System_Props\<close>.
\<close>

definition inner_tables ::
  "('p, 's) inner_state_scheme \<Rightarrow> (listener, int \<times> bool) stdmap \<times> (int, (int, listener list) stdmap) stdmap"
where
  "inner_tables s = (deathRecipientMap s, innerListenMap s)"

definition strong_view :: "('p, 's) strong_state_scheme \<Rightarrow> (int, int) stdmap \<times> (int, timer_info) stdmap" where
  "strong_view s = (strongAuthStateInfo s, strongAuthTimerInfo s)"

definition watch_view :: "('p, 's) watch_state_scheme \<Rightarrow> bool \<times> bool \<times> string list" where
  "watch_view s = (isWearOn s, isWristUnlock s, unlockedRecord s)"

type_synonym svc =
  "nat list \<times> int list \<times> nat list \<times> (int, int) stdmap \<times> (int, bool) stdmap \<times> task list \<times> bool \<times> bool"

definition svc_view :: "('p, 's) service_state_scheme \<Rightarrow> svc" where
  "svc_view s = (unlockVecListeners s, unlockVecUserIds s, lockVecListeners s, authStateInfo s,
     isScreenlockedMap s, tasks s, queueSet s, systemReady s)"

lemma inner_inv_cong: "inner_tables s' = inner_tables s \<Longrightarrow> inner_inv s' = inner_inv s"
  by (simp add: inner_tables_def inner_inv_def)

lemmas views = inner_tables_def strong_view_def watch_view_def svc_view_def

lemma emit_service_selectors [simp]:
  "unlockVecListeners (emit es s) = unlockVecListeners s" "unlockVecUserIds (emit es s) = unlockVecUserIds s"
  "lockVecListeners (emit es s) = lockVecListeners s" "authStateInfo (emit es s) = authStateInfo s"
  "isScreenlockedMap (emit es s) = isScreenlockedMap s" "tasks (emit es s) = tasks s"
  "queueSet (emit es s) = queueSet s" "systemReady (emit es s) = systemReady s"
  "runningState (emit es s) = runningState s" "instanceSet (emit es s) = instanceSet s"
  "accountSubscribers (emit es s) = accountSubscribers s" "credChangeListener (emit es s) = credChangeListener s"
  "displayPowerEventListener (emit es s) = displayPowerEventListener s"
  "eventSubscriber (emit es s) = eventSubscriber s" "cmdHandler (emit es s) = cmdHandler s"
  "displayRegistrations (emit es s) = displayRegistrations s" "publishCalls (emit es s) = publishCalls s"
  by (simp_all add: emit_def)

lemma emit_views [simp]:
  "inner_tables (emit es s) = inner_tables s" "strong_view (emit es s') = strong_view s'"
  "watch_view (emit es s'') = watch_view s''" "svc_view (emit es s''') = svc_view s'''"
  by (simp_all add: views)

section \<open>Preferences and events\<close>

lemma prefs_views [sl_frame]:
  "inner_tables (snd (SaveBool np k b s)) = inner_tables s" "inner_tables (snd (SaveInt np k i s)) = inner_tables s"
  "inner_tables (snd (RemoveKey np k s)) = inner_tables s" "inner_tables (Refresh np s) = inner_tables s"
  "strong_view (snd (SaveBool np k b s')) = strong_view s'" "strong_view (snd (SaveInt np k i s')) = strong_view s'"
  "strong_view (snd (RemoveKey np k s')) = strong_view s'" "strong_view (Refresh np s') = strong_view s'"
  "watch_view (snd (SaveBool np k b s'')) = watch_view s''" "watch_view (snd (SaveInt np k i s'')) = watch_view s''"
  "watch_view (snd (RemoveKey np k s'')) = watch_view s''" "watch_view (Refresh np s'') = watch_view s''"
  "svc_view (snd (SaveBool np k b t)) = svc_view t" "svc_view (snd (SaveInt np k i t)) = svc_view t"
  "svc_view (snd (RemoveKey np k t)) = svc_view t" "svc_view (Refresh np t) = svc_view t"
  by (simp_all add: views prefs_write_defs Let_def split_def)

lemma event_views [sl_frame]:
  "inner_tables (OnDisplayPowerEvent b pe st s) = inner_tables s"
  "strong_view (OnDisplayPowerEvent b pe st s') = strong_view s'"
  "watch_view (OnDisplayPowerEvent b pe st s'') = watch_view s''"
  "svc_view (OnDisplayPowerEvent b pe st t) = svc_view t"
  by (simp_all add: views OnDisplayPowerEvent_def power_handlers SystemEventCallBack_emit
      split: display_power_event.split)

lemma iam_views [sl_frame]:
  "inner_tables (UserIamReadyCallback k v s) = inner_tables s"
  "strong_view (UserIamReadyCallback k v s') = strong_view s'"
  "watch_view (UserIamReadyCallback k v s'') = watch_view s''"
  "svc_view (UserIamReadyCallback k v t) = svc_view t"
  by (simp_all add: UserIamReadyCallback_def UserIamReadyNotify_emit split: option.split)

section \<open>Strong authentication\<close>

lemma reason_views [sl_frame]:
  "inner_tables (SetStrongAuthStat e u r s) = inner_tables s"
  "watch_view (SetStrongAuthStat e u r s') = watch_view s'"
  "svc_view (SetStrongAuthStat e u r t) = svc_view t"
  "inner_tables (InitStrongAuthStat e u r s) = inner_tables s"
  "watch_view (InitStrongAuthStat e u r s') = watch_view s'"
  "svc_view (InitStrongAuthStat e u r t) = svc_view t"
  "inner_tables (DestroyStrongAuthStateInfo u s) = inner_tables s"
  "watch_view (DestroyStrongAuthStateInfo u s') = watch_view s'"
  "svc_view (DestroyStrongAuthStateInfo u t) = svc_view t"
  by (simp_all add: SetStrongAuthStat_def InitStrongAuthStat_def DestroyStrongAuthStateInfo_def
      NotifyStrongAuthChange_emit split: option.split)
    (simp_all add: views split: option.split)

lemma timer_views [sl_frame]:
  "inner_tables (StartStrongAuthTimer_period e u p s) = inner_tables s"
  "watch_view (StartStrongAuthTimer_period e u p s') = watch_view s'"
  "svc_view (StartStrongAuthTimer_period e u p t) = svc_view t"
  "inner_tables (ResetStrongAuthTimer e u p s) = inner_tables s"
  "watch_view (ResetStrongAuthTimer e u p s') = watch_view s'"
  "svc_view (ResetStrongAuthTimer e u p t) = svc_view t"
  "inner_tables (snd (GetStrongAuthTriggerPeriod e u s)) = inner_tables s"
  "watch_view (snd (GetStrongAuthTriggerPeriod e u s')) = watch_view s'"
  "svc_view (snd (GetStrongAuthTriggerPeriod e u t)) = svc_view t"
  "inner_tables (DestroyStrongAuthTimer u s) = inner_tables s"
  "watch_view (DestroyStrongAuthTimer u s') = watch_view s'"
  "svc_view (DestroyStrongAuthTimer u t) = svc_view t"
  by (simp_all add: views StartStrongAuthTimer_period_def ResetStrongAuthTimer_def GetStrongAuthTriggerPeriod_def
      DestroyStrongAuthTimer_def SetCredChangeTriggerPeriod_def CreateTimer_def GetBootTimeMs_def Let_def
      split: option.split)

lemma callback_views [sl_frame]:
  "inner_tables (OnTrigger e ti s) = inner_tables s"
  "watch_view (OnTrigger e ti s') = watch_view s'"
  "svc_view (OnTrigger e ti t) = svc_view t"
  "inner_tables (OnNotifyAuthSuccessEvent e u a w s) = inner_tables s"
  "watch_view (OnNotifyAuthSuccessEvent e u a w s') = watch_view s'"
  "svc_view (OnNotifyAuthSuccessEvent e u a w t) = svc_view t"
  "inner_tables (OnNotifyCredChangeEvent e u a c b s) = inner_tables s"
  "watch_view (OnNotifyCredChangeEvent e u a c b s') = watch_view s'"
  "svc_view (OnNotifyCredChangeEvent e u a c b t) = svc_view t"
  "inner_tables (OnCredentialInfo e u res n s) = inner_tables s"
  "watch_view (OnCredentialInfo e u res n s') = watch_view s'"
  "svc_view (OnCredentialInfo e u res n t) = svc_view t"
  "inner_tables (snd (GetCredInfo e u s)) = inner_tables s"
  "watch_view (snd (GetCredInfo e u s')) = watch_view s'"
  "svc_view (snd (GetCredInfo e u t)) = svc_view t"
  by (simp_all add: callback_defs sl_frame Let_def split_def split: option.split)

lemma listener_views [sl_frame]:
  "inner_tables (AccountUnlocked e u s) = inner_tables s"
  "watch_view (AccountUnlocked e u s') = watch_view s'"
  "svc_view (AccountUnlocked e u t) = svc_view t"
  "strong_view (AccountUnlocked e u s'') = strong_view s''"
  "inner_tables (RegistAuthEventListener s) = inner_tables s"
  "watch_view (RegistAuthEventListener s') = watch_view s'"
  "svc_view (RegistAuthEventListener t) = svc_view t"
  "strong_view (RegistAuthEventListener s'') = strong_view s''"
  "inner_tables (UnRegistAuthEventListener s) = inner_tables s"
  "watch_view (UnRegistAuthEventListener s') = watch_view s'"
  "svc_view (UnRegistAuthEventListener t) = svc_view t"
  "strong_view (UnRegistAuthEventListener s'') = strong_view s''"
  "strong_view (snd (GetCredInfo e u s'')) = strong_view s''"
  by (simp_all add: views AccountUnlocked_def NotifyStrongAuthChange_emit RegistAuthEventListener_def
      UnRegistAuthEventListener_def GetCredInfo_def split: option.split)

section \<open>Inner listeners\<close>

lemma recipient_views:
  "strong_view (snd (AddDeathRecipient e ty lo s)) = strong_view s"
  "watch_view (snd (AddDeathRecipient e ty lo s')) = watch_view s'"
  "svc_view (snd (AddDeathRecipient e ty lo t)) = svc_view t"
  "strong_view (snd (RemoveDeathRecipient lo s)) = strong_view s"
  "watch_view (snd (RemoveDeathRecipient lo s')) = watch_view s'"
  "svc_view (snd (RemoveDeathRecipient lo t)) = svc_view t"
  by (simp_all add: views AddDeathRecipient_def RemoveDeathRecipient_def split: option.split prod.split)

lemma table_views:
  "strong_view (snd (AddInnerListener u ty l s)) = strong_view s"
  "watch_view (snd (AddInnerListener u ty l s')) = watch_view s'"
  "svc_view (snd (AddInnerListener u ty l t)) = svc_view t"
  "strong_view (snd (RemoveInnerListener ty l s)) = strong_view s"
  "watch_view (snd (RemoveInnerListener ty l s')) = watch_view s'"
  "svc_view (snd (RemoveInnerListener ty l t)) = svc_view t"
  by (simp_all add: views AddInnerListener_def RemoveInnerListener_def Let_def split: option.split)

lemma registration_views [sl_frame]:
  "strong_view (snd (RegisterInnerListener e u ty lo s)) = strong_view s"
  "watch_view (snd (RegisterInnerListener e u ty lo s')) = watch_view s'"
  "svc_view (snd (RegisterInnerListener e u ty lo t)) = svc_view t"
  "strong_view (snd (UnRegisterInnerListener ty lo s)) = strong_view s"
  "watch_view (snd (UnRegisterInnerListener ty lo s')) = watch_view s'"
  "svc_view (snd (UnRegisterInnerListener ty lo t)) = svc_view t"
  by (simp_all add: RegisterInnerListener_def UnRegisterInnerListener_def Let_def split_def
      recipient_views table_views split: option.split)

lemma unregister_dead_strong: "strong_view (unregister_dead r d s) = strong_view s"
  by (induction r d s rule: unregister_dead.induct) (simp_all add: registration_views)

lemma unregister_dead_watch: "watch_view (unregister_dead r d s) = watch_view s"
  by (induction r d s rule: unregister_dead.induct) (simp_all add: registration_views)

lemma unregister_dead_svc: "svc_view (unregister_dead r d s) = svc_view s"
  by (induction r d s rule: unregister_dead.induct) (simp_all add: registration_views)

lemma death_views [sl_frame]:
  "strong_view (OnRemoteDied ro s) = strong_view s"
  "watch_view (OnRemoteDied ro s') = watch_view s'"
  "svc_view (OnRemoteDied ro t) = svc_view t"
  by (simp_all add: OnRemoteDied_def unregister_dead_strong unregister_dead_watch unregister_dead_svc
      split: option.split)

section \<open>The watch\<close>

lemma observer_views:
  "inner_tables (registerAppStateObserver e s) = inner_tables s"
  "inner_tables (unregisterAppStateObserver e s) = inner_tables s"
  "inner_tables (registerLeaveWristSettingObserver e s) = inner_tables s"
  "inner_tables (unregisterLeaveWristSettingObserver e s) = inner_tables s"
  "strong_view (registerAppStateObserver e s) = strong_view s"
  "strong_view (unregisterAppStateObserver e s) = strong_view s"
  "strong_view (registerLeaveWristSettingObserver e s) = strong_view s"
  "strong_view (unregisterLeaveWristSettingObserver e s) = strong_view s"
  "svc_view (registerAppStateObserver e t) = svc_view t"
  "svc_view (unregisterAppStateObserver e t) = svc_view t"
  "svc_view (registerLeaveWristSettingObserver e t) = svc_view t"
  "svc_view (unregisterLeaveWristSettingObserver e t) = svc_view t"
  by (simp_all add: views observer_defs Let_def)

lemma record_views:
  "inner_tables (snd (UnlockedRecord_add e b s)) = inner_tables s"
  "inner_tables (snd (UnlockedRecord_remove e b s)) = inner_tables s"
  "inner_tables (UnlockedRecord_clear e s) = inner_tables s"
  "strong_view (snd (UnlockedRecord_add e b s)) = strong_view s"
  "strong_view (snd (UnlockedRecord_remove e b s)) = strong_view s"
  "strong_view (UnlockedRecord_clear e s) = strong_view s"
  "svc_view (snd (UnlockedRecord_add e b t)) = svc_view t"
  "svc_view (snd (UnlockedRecord_remove e b t)) = svc_view t"
  "svc_view (UnlockedRecord_clear e t) = svc_view t"
  by (simp_all add: views UnlockedRecord_add_def UnlockedRecord_remove_def UnlockedRecord_clear_def
      observer_defs Let_def)

lemma payment_views [sl_frame]:
  "inner_tables (snd (IsPaymentApp e s)) = inner_tables s"
  "strong_view (snd (IsPaymentApp e s)) = strong_view s"
  "watch_view (snd (IsPaymentApp e s)) = watch_view s"
  "svc_view (snd (IsPaymentApp e t)) = svc_view t"
  "inner_tables (snd (BeginWidgetAuth e s)) = inner_tables s"
  "strong_view (snd (BeginWidgetAuth e s)) = strong_view s"
  "svc_view (snd (BeginWidgetAuth e t)) = svc_view t"
  by (simp_all add: IsPaymentApp_def GetPaymentServices_def BeginWidgetAuth_def ReportFaultCode_def SendEvent_def
      Let_def split_def)

lemma register_views [sl_frame]:
  "inner_tables (RegisterSensorListener s) = inner_tables s"
  "inner_tables (WearDisplay_Register s) = inner_tables s"
  "strong_view (RegisterSensorListener s) = strong_view s"
  "strong_view (WearDisplay_Register s) = strong_view s"
  "svc_view (RegisterSensorListener t) = svc_view t"
  "svc_view (WearDisplay_Register t) = svc_view t"
  by (simp_all add: views RegisterSensorListener_def WearDisplay_Register_def)

lemma wrist_views:
  "inner_tables (s\<lparr>isWristUnlock := b\<rparr>) = inner_tables s" "inner_tables (s\<lparr>isWearOn := b\<rparr>) = inner_tables s"
  "strong_view (s\<lparr>isWristUnlock := b\<rparr>) = strong_view s" "strong_view (s\<lparr>isWearOn := b\<rparr>) = strong_view s"
  "svc_view (t\<lparr>isWristUnlock := b\<rparr>) = svc_view t" "svc_view (t\<lparr>isWearOn := b\<rparr>) = svc_view t"
  by (simp_all add: views)

lemma watch_unlock_views [sl_frame]:
  "inner_tables (snd (Watch_unlockScreen e b s)) = inner_tables s"
  "strong_view (snd (Watch_unlockScreen e b s)) = strong_view s"
  "svc_view (snd (Watch_unlockScreen e b t)) = svc_view t"
  by (simp_all add: Watch_unlockScreen_def Let_def split_def record_views payment_views register_views wrist_views)

lemma watch_event_views [sl_frame]:
  "inner_tables (OnWindowHidden e b s) = inner_tables s"
  "strong_view (OnWindowHidden e b s) = strong_view s"
  "svc_view (OnWindowHidden e b t) = svc_view t"
  "inner_tables (LeaveWrist_OnChange e s) = inner_tables s"
  "strong_view (LeaveWrist_OnChange e s) = strong_view s"
  "svc_view (LeaveWrist_OnChange e t) = svc_view t"
  "inner_tables (WearSensorCallback e ev s) = inner_tables s"
  "strong_view (WearSensorCallback e ev s) = strong_view s"
  "svc_view (WearSensorCallback e ev t) = svc_view t"
  "inner_tables (WearDisplay_OnDisplayPowerEvent e pe st s) = inner_tables s"
  "strong_view (WearDisplay_OnDisplayPowerEvent e pe st s) = strong_view s"
  "svc_view (WearDisplay_OnDisplayPowerEvent e pe st t) = svc_view t"
  by (simp_all add: watch_handlers Let_def record_views wrist_views split: option.split)

section \<open>Updates of the service's own fields\<close>

lemma service_updates [simp]:
  "inner_tables (s\<lparr>tasks := a1\<rparr>) = inner_tables s" "strong_view (s\<lparr>tasks := a1\<rparr>) = strong_view s"
  "watch_view (s\<lparr>tasks := a1\<rparr>) = watch_view s"
  "inner_tables (s\<lparr>queueSet := a2\<rparr>) = inner_tables s" "strong_view (s\<lparr>queueSet := a2\<rparr>) = strong_view s"
  "watch_view (s\<lparr>queueSet := a2\<rparr>) = watch_view s"
  "inner_tables (s\<lparr>isScreenlockedMap := a3\<rparr>) = inner_tables s"
  "strong_view (s\<lparr>isScreenlockedMap := a3\<rparr>) = strong_view s"
  "watch_view (s\<lparr>isScreenlockedMap := a3\<rparr>) = watch_view s"
  "inner_tables (s\<lparr>authStateInfo := a4\<rparr>) = inner_tables s" "strong_view (s\<lparr>authStateInfo := a4\<rparr>) = strong_view s"
  "watch_view (s\<lparr>authStateInfo := a4\<rparr>) = watch_view s"
  "inner_tables (s\<lparr>lockVecListeners := a5\<rparr>) = inner_tables s"
  "strong_view (s\<lparr>lockVecListeners := a5\<rparr>) = strong_view s"
  "watch_view (s\<lparr>lockVecListeners := a5\<rparr>) = watch_view s"
  "inner_tables (s\<lparr>unlockVecListeners := a6\<rparr>) = inner_tables s"
  "strong_view (s\<lparr>unlockVecListeners := a6\<rparr>) = strong_view s"
  "watch_view (s\<lparr>unlockVecListeners := a6\<rparr>) = watch_view s"
  "inner_tables (s\<lparr>unlockVecUserIds := a7\<rparr>) = inner_tables s"
  "strong_view (s\<lparr>unlockVecUserIds := a7\<rparr>) = strong_view s"
  "watch_view (s\<lparr>unlockVecUserIds := a7\<rparr>) = watch_view s"
  "inner_tables (s\<lparr>systemReady := a8\<rparr>) = inner_tables s" "strong_view (s\<lparr>systemReady := a8\<rparr>) = strong_view s"
  "watch_view (s\<lparr>systemReady := a8\<rparr>) = watch_view s"
  "inner_tables (s\<lparr>systemEventListener := a9\<rparr>) = inner_tables s"
  "strong_view (s\<lparr>systemEventListener := a9\<rparr>) = strong_view s"
  "watch_view (s\<lparr>systemEventListener := a9\<rparr>) = watch_view s" "svc_view (s\<lparr>systemEventListener := a9\<rparr>) = svc_view s"
  "inner_tables (s\<lparr>stateValue := b1\<rparr>) = inner_tables s" "strong_view (s\<lparr>stateValue := b1\<rparr>) = strong_view s"
  "watch_view (s\<lparr>stateValue := b1\<rparr>) = watch_view s" "svc_view (s\<lparr>stateValue := b1\<rparr>) = svc_view s"
  by (simp_all add: views)

text \<open>Fields of which no view speaks.\<close>

lemma quiet_updates [simp]:
  "inner_tables (s\<lparr>runningState := a1\<rparr>) = inner_tables s" "strong_view (s\<lparr>runningState := a1\<rparr>) = strong_view s"
  "watch_view (s\<lparr>runningState := a1\<rparr>) = watch_view s" "svc_view (s\<lparr>runningState := a1\<rparr>) = svc_view s"
  "inner_tables (s\<lparr>instanceSet := a2\<rparr>) = inner_tables s" "strong_view (s\<lparr>instanceSet := a2\<rparr>) = strong_view s"
  "watch_view (s\<lparr>instanceSet := a2\<rparr>) = watch_view s" "svc_view (s\<lparr>instanceSet := a2\<rparr>) = svc_view s"
  "inner_tables (s\<lparr>accountSubscribers := a3\<rparr>) = inner_tables s"
  "strong_view (s\<lparr>accountSubscribers := a3\<rparr>) = strong_view s"
  "watch_view (s\<lparr>accountSubscribers := a3\<rparr>) = watch_view s" "svc_view (s\<lparr>accountSubscribers := a3\<rparr>) = svc_view s"
  "inner_tables (s\<lparr>displayPowerEventListener := a4\<rparr>) = inner_tables s"
  "strong_view (s\<lparr>displayPowerEventListener := a4\<rparr>) = strong_view s"
  "watch_view (s\<lparr>displayPowerEventListener := a4\<rparr>) = watch_view s"
  "svc_view (s\<lparr>displayPowerEventListener := a4\<rparr>) = svc_view s"
  "inner_tables (s\<lparr>credChangeListener := a5\<rparr>) = inner_tables s"
  "strong_view (s\<lparr>credChangeListener := a5\<rparr>) = strong_view s"
  "watch_view (s\<lparr>credChangeListener := a5\<rparr>) = watch_view s" "svc_view (s\<lparr>credChangeListener := a5\<rparr>) = svc_view s"
  "inner_tables (s\<lparr>eventSubscriber := a6\<rparr>) = inner_tables s"
  "strong_view (s\<lparr>eventSubscriber := a6\<rparr>) = strong_view s"
  "watch_view (s\<lparr>eventSubscriber := a6\<rparr>) = watch_view s" "svc_view (s\<lparr>eventSubscriber := a6\<rparr>) = svc_view s"
  "inner_tables (s\<lparr>cmdHandler := a7\<rparr>) = inner_tables s" "strong_view (s\<lparr>cmdHandler := a7\<rparr>) = strong_view s"
  "watch_view (s\<lparr>cmdHandler := a7\<rparr>) = watch_view s" "svc_view (s\<lparr>cmdHandler := a7\<rparr>) = svc_view s"
  "inner_tables (s\<lparr>displayRegistrations := a8\<rparr>) = inner_tables s"
  "strong_view (s\<lparr>displayRegistrations := a8\<rparr>) = strong_view s"
  "watch_view (s\<lparr>displayRegistrations := a8\<rparr>) = watch_view s"
  "svc_view (s\<lparr>displayRegistrations := a8\<rparr>) = svc_view s"
  "inner_tables (s\<lparr>publishCalls := a9\<rparr>) = inner_tables s" "strong_view (s\<lparr>publishCalls := a9\<rparr>) = strong_view s"
  "watch_view (s\<lparr>publishCalls := a9\<rparr>) = watch_view s" "svc_view (s\<lparr>publishCalls := a9\<rparr>) = svc_view s"
  by (simp_all add: views)

lemma screen_locked_views [sl_frame]:
  "inner_tables (snd (IsScreenLocked e s)) = inner_tables s" "strong_view (snd (IsScreenLocked e s)) = strong_view s"
  "watch_view (snd (IsScreenLocked e s)) = watch_view s" "svc_view (snd (IsScreenLocked e s)) = svc_view s"
  "inner_tables (snd (GetSecure e s)) = inner_tables s" "strong_view (snd (GetSecure e s)) = strong_view s"
  "watch_view (snd (GetSecure e s)) = watch_view s" "svc_view (snd (GetSecure e s)) = svc_view s"
  by (simp_all add: IsScreenLocked_def GetSecure_def Let_def split_def payment_views)

end
