(* ===== verification/System_Invariant.thy ===== *)
theory System_Invariant
  imports System_Frames
begin

text \<open>
  The invariant of the whole service and its preservation by every step: the conjunction of the
  components' invariants, each over its view, with the bounds of the pending retries.  Reachability
  is by rule induction over \<open>service_reachable\<close>.
\<close>

definition inner_ok ::
  "(listener, int \<times> bool) stdmap \<times> (int, (int, listener list) stdmap) stdmap \<Rightarrow> bool"
where
  "inner_ok v \<longleftrightarrow> mwf (snd v) \<and> (\<forall>p \<in> set (snd v). users_ok (snd p)) \<and> recipients_ok (fst v)"

lemma inner_inv_view: "inner_inv s \<longleftrightarrow> inner_ok (inner_tables s)"
  by (simp add: inner_inv_def inner_ok_def inner_tables_def)

definition strong_ok :: "(int, int) stdmap \<times> (int, timer_info) stdmap \<Rightarrow> bool" where
  "strong_ok v \<longleftrightarrow> mwf (fst v) \<and> periods_ok (snd v)"

definition watch_ok :: "bool \<times> bool \<times> string list \<Rightarrow> bool" where
  "watch_ok v \<longleftrightarrow> sorted (snd (snd v)) \<and> distinct (snd (snd v)) \<and> (fst (snd v) \<longrightarrow> fst v)"

fun task_ok :: "task \<Rightarrow> bool" where
  "task_ok (RegisterDisplayTask n) \<longleftrightarrow> 1 \<le> n \<and> n \<le> MAX_RETRY_TIMES"
| "task_ok (SystemReadyTask n) \<longleftrightarrow> 1 \<le> n \<and> n \<le> 50"
| "task_ok _ \<longleftrightarrow> True"

fun svc_ok :: "svc \<Rightarrow> bool" where
  "svc_ok (ul, uu, ll, a, m, ts, q, r) \<longleftrightarrow>
     length ul = length uu \<and> mwf a \<and> mwf m \<and> list_all task_ok ts"

definition service_inv :: "('p, 's) service_state_scheme \<Rightarrow> bool" where
  "service_inv s \<longleftrightarrow> inner_ok (inner_tables s) \<and> strong_ok (strong_view s) \<and> watch_ok (watch_view s)
     \<and> svc_ok (svc_view s)"

text \<open>An operation that keeps all views, or one that changes a single view well.\<close>

lemma service_inv_frame:
  assumes "service_inv s" and "inner_tables s' = inner_tables s" and "strong_view s' = strong_view s"
    and "watch_view s' = watch_view s" and "svc_view s' = svc_view s"
  shows "service_inv s'"
  using assms by (simp add: service_inv_def)

lemma service_inv_emit [simp]: "service_inv (emit es s) = service_inv s"
  by (simp add: service_inv_def)

lemma service_inv_SystemEventCallBack [simp]: "service_inv (SystemEventCallBack ev s) = service_inv s"
  by (simp add: SystemEventCallBack_emit)

lemma svc_ok_view:
  "svc_ok (svc_view s) \<longleftrightarrow> length (unlockVecListeners s) = length (unlockVecUserIds s)
     \<and> mwf (authStateInfo s) \<and> mwf (isScreenlockedMap s) \<and> list_all task_ok (tasks s)"
  by (simp add: svc_view_def)

section \<open>Strong authentication keeps its part\<close>

lemma strong_ok_view: "strong_ok (strong_view s) \<longleftrightarrow> mwf (strongAuthStateInfo s) \<and> periods_ok (strongAuthTimerInfo s)"
  by (simp add: strong_ok_def strong_view_def)

lemma SetStrongAuthStat_ok: "strong_ok (strong_view s) \<Longrightarrow> strong_ok (strong_view (SetStrongAuthStat e u r s))"
  by (simp add: strong_ok_view SetStrongAuthStat_def NotifyStrongAuthChange_emit split: option.split)

lemma InitStrongAuthStat_ok: "strong_ok (strong_view s) \<Longrightarrow> strong_ok (strong_view (InitStrongAuthStat e u r s))"
  by (simp add: strong_ok_view InitStrongAuthStat_def NotifyStrongAuthChange_emit split: option.split)

lemma DestroyStrongAuthStateInfo_ok:
  "strong_ok (strong_view s) \<Longrightarrow> strong_ok (strong_view (DestroyStrongAuthStateInfo u s))"
  by (simp add: strong_ok_view DestroyStrongAuthStateInfo_def split: option.split)

lemma strong_timers_ok:
  assumes "strong_ok (strong_view s)"
  shows "p \<in> periods \<Longrightarrow> strong_ok (strong_view (StartStrongAuthTimer_period e u p s))"
    and "p \<in> periods \<Longrightarrow> strong_ok (strong_view (ResetStrongAuthTimer e u p s))"
    and "strong_ok (strong_view (snd (GetStrongAuthTriggerPeriod e u s)))"
    and "strong_ok (strong_view (DestroyStrongAuthTimer u s))"
    and "strong_ok (strong_view (DestroyAllStrongAuthTimer s))"
  using assms
  by (simp_all add: strong_ok_view sl_frame StartStrongAuthTimer_period_periods ResetStrongAuthTimer_periods
      GetStrongAuthTriggerPeriod_periods DestroyStrongAuthTimer_periods DestroyAllStrongAuthTimer_def
      destroy_timers_periods destroy_timers_state)

lemma strong_callbacks_ok:
  assumes ok: "strong_ok (strong_view s)"
  shows "strong_ok (strong_view (OnTrigger e t s))"
    and "strong_ok (strong_view (OnNotifyAuthSuccessEvent e u a w s))"
    and "strong_ok (strong_view (OnNotifyCredChangeEvent e u a c b s))"
    and "strong_ok (strong_view (OnCredentialInfo e u res n s))"
proof -
  show "strong_ok (strong_view (OnTrigger e t s))"
    using ok by (simp add: OnTrigger_def StrongAuthTimerCallback_def SetStrongAuthStat_ok Let_def)
  have "strong_ok (strong_view (SetStrongAuthStat e u r s))" for r using ok by (rule SetStrongAuthStat_ok)
  moreover from this have "fst (GetStrongAuthTriggerPeriod e u (SetStrongAuthStat e u r s)) \<in> periods" for r
    by (intro GetStrongAuthTriggerPeriod_periods) (simp add: strong_ok_view)
  ultimately show "strong_ok (strong_view (OnNotifyAuthSuccessEvent e u a w s))"
    using ok by (simp add: OnNotifyAuthSuccessEvent_def Let_def split_def strong_timers_ok)
  show "strong_ok (strong_view (OnNotifyCredChangeEvent e u a c b s))"
    using ok by (simp add: OnNotifyCredChangeEvent_def strong_timers_ok SetStrongAuthStat_ok DestroyStrongAuthStateInfo_ok)
  show "strong_ok (strong_view (OnCredentialInfo e u res n s))"
    using ok by (simp add: OnCredentialInfo_def StartStrongAuthTimer_def strong_timers_ok InitStrongAuthStat_ok)
qed

section \<open>The watch keeps its part\<close>

lemma watch_ok_view:
  "watch_ok (watch_view s) \<longleftrightarrow> sorted (unlockedRecord s) \<and> distinct (unlockedRecord s) \<and> (isWristUnlock s \<longrightarrow> isWearOn s)"
  by (simp add: watch_ok_def watch_view_def)

lemma Watch_unlockScreen_ok: "watch_ok (watch_view s) \<Longrightarrow> watch_ok (watch_view (snd (Watch_unlockScreen e b s)))"
  by (auto simp: watch_ok_view Watch_unlockScreen_effect [OF refl] sorted_insort_insert distinct_insort_insert)

lemma watch_events_ok:
  assumes "watch_ok (watch_view s)"
  shows "watch_ok (watch_view (OnWindowHidden e b s))"
    and "watch_ok (watch_view (LeaveWrist_OnChange e s))"
    and "watch_ok (watch_view (WearSensorCallback e ev s))"
    and "watch_ok (watch_view (WearDisplay_OnDisplayPowerEvent e pe st s))"
  using assms
  by (auto simp: watch_ok_view watch_handlers sl_frame Let_def sorted_remove1 split: option.split)

section \<open>Operations of the service\<close>

lemma service_inv_parts:
  assumes "service_inv s"
  shows "inner_ok (inner_tables s)" "strong_ok (strong_view s)" "watch_ok (watch_view s)" "svc_ok (svc_view s)"
  using assms by (simp_all add: service_inv_def)

lemma inv_submit: "service_inv s \<Longrightarrow> task_ok t \<Longrightarrow> service_inv (submit t s)"
  by (simp add: service_inv_def submit_def svc_ok_view)

lemma inv_queue_submit: "service_inv s \<Longrightarrow> task_ok t \<Longrightarrow> service_inv (queue_submit t s)"
  by (simp add: queue_submit_def inv_submit)

lemma inv_SetScreenlocked: "service_inv s \<Longrightarrow> service_inv (SetScreenlocked b u s)"
  by (simp add: service_inv_def SetScreenlocked_def svc_ok_view split: option.split)

lemma inv_IsScreenLocked: "service_inv s \<Longrightarrow> service_inv (snd (IsScreenLocked e s))"
  by (simp add: service_inv_def sl_frame)

lemma inv_GetSecure: "service_inv s \<Longrightarrow> service_inv (snd (GetSecure e s))"
  by (simp add: service_inv_def sl_frame)

lemma inv_IsPaymentApp: "service_inv s \<Longrightarrow> service_inv (snd (IsPaymentApp e s))"
  by (simp add: service_inv_def sl_frame)

lemma inv_Watch_unlockScreen: "service_inv s \<Longrightarrow> service_inv (snd (Watch_unlockScreen e b s))"
  by (simp add: service_inv_def sl_frame Watch_unlockScreen_ok)

lemma inv_accept:
  "service_inv s \<Longrightarrow> service_inv (s\<lparr>unlockVecListeners := unlockVecListeners s @ [l],
     unlockVecUserIds := unlockVecUserIds s @ [u]\<rparr>)"
  by (simp add: service_inv_def svc_ok_view)

lemma inv_UnlockInner: "service_inv s \<Longrightarrow> service_inv (snd (UnlockInner e l s))"
  by (simp add: UnlockInner_def Let_def split_def inv_accept inv_IsPaymentApp inv_IsScreenLocked
      inv_Watch_unlockScreen)

lemma inv_Lock: "service_inv s \<Longrightarrow> service_inv (snd (Lock_listener e l s))"
proof -
  assume "service_inv s"
  then have "service_inv (snd (IsScreenLocked e s))" by (rule inv_IsScreenLocked)
  then have "service_inv ((snd (IsScreenLocked e s))\<lparr>lockVecListeners := ll\<rparr>)" for ll
    by (simp add: service_inv_def svc_ok_view)
  then show ?thesis using \<open>service_inv s\<close> by (simp add: Lock_listener_def split_def Let_def)
qed

lemma inv_NotifyDisplayEvent: "service_inv s \<Longrightarrow> service_inv (NotifyDisplayEvent ev s)"
  by (simp add: NotifyDisplayEvent_def inv_submit)

lemma inv_NotifyUnlockListener: "service_inv s \<Longrightarrow> service_inv (NotifyUnlockListener e r s)"
  by (simp add: NotifyUnlockListener_def inv_submit)

lemma inv_PublishEvent [simp]: "service_inv (PublishEvent a u s) = service_inv s"
  by (simp add: PublishEvent_def)

lemma inv_LockScreenEvent: "service_inv s \<Longrightarrow> service_inv (LockScreenEvent e r s)"
  by (simp add: LockScreenEvent_def Let_def inv_submit inv_SetScreenlocked)

lemma inv_UnlockScreenEvent: "service_inv s \<Longrightarrow> service_inv (UnlockScreenEvent e r s)"
  by (simp add: UnlockScreenEvent_def Let_def inv_NotifyUnlockListener inv_SetScreenlocked inv_NotifyDisplayEvent)

lemma inv_SendScreenLockEvent: "service_inv s \<Longrightarrow> service_inv (snd (SendScreenLockEvent e ev p s))"
  by (simp add: SendScreenLockEvent_def inv_LockScreenEvent inv_UnlockScreenEvent inv_NotifyDisplayEvent)

lemma inv_save:
  "service_inv s \<Longrightarrow> service_inv (Refresh np (snd (SaveBool np k b s)))"
  "service_inv s \<Longrightarrow> service_inv (Refresh np (snd (SaveInt np k i s)))"
  "service_inv s \<Longrightarrow> service_inv (snd (RemoveKey np k s))"
  "service_inv s \<Longrightarrow> service_inv (Refresh np s)"
  by (simp_all add: service_inv_def sl_frame)

lemma inv_FreshDisabledState: "service_inv s \<Longrightarrow> service_inv (snd (FreshDisabledState e b u s))"
  by (simp add: FreshDisabledState_def inv_save)

lemma inv_SetScreenLockDisabled: "service_inv s \<Longrightarrow> service_inv (snd (SetScreenLockDisabled e b u s))"
  by (simp add: SetScreenLockDisabled_def Let_def split_def inv_FreshDisabledState inv_GetSecure)

lemma inv_PreAuth [simp]: "service_inv (PreAuthStateNotify u a s) = service_inv s"
  by (simp add: PreAuthStateNotify_emit)

lemma inv_DeviceLock [simp]: "service_inv (OnDeviceLockStateChanged u b s) = service_inv s"
  by (simp add: device_lock_notifier.notify_emits)

lemma inv_auth_map: "service_inv s \<Longrightarrow> mwf m \<Longrightarrow> service_inv (s\<lparr>authStateInfo := m\<rparr>)"
  by (simp add: service_inv_def svc_ok_view)

lemma inv_auth_wf: "service_inv s \<Longrightarrow> mwf (authStateInfo s) \<and> mwf (isScreenlockedMap s)"
  by (simp add: service_inv_def svc_ok_view)

lemma inv_lock_map: "service_inv s \<Longrightarrow> mwf m \<Longrightarrow> service_inv (s\<lparr>isScreenlockedMap := m\<rparr>)"
  by (simp add: service_inv_def svc_ok_view)

lemma inv_SetScreenLockAuthState: "service_inv s \<Longrightarrow> service_inv (snd (SetScreenLockAuthState e a u t s))"
  by (auto simp: SetScreenLockAuthState_def Let_def inv_auth_map inv_auth_wf device_lock_notifier.notify_emits
      split: option.split)

lemma inv_AuthStateInit: "service_inv s \<Longrightarrow> service_inv (AuthStateInit u s)"
  by (auto simp: AuthStateInit_def Let_def inv_auth_map inv_lock_map inv_auth_wf split: option.split)

lemma inv_SetStrongAuthStat: "service_inv s \<Longrightarrow> service_inv (SetStrongAuthStat e u r s)"
  by (simp add: service_inv_def sl_frame SetStrongAuthStat_ok)

lemma inv_register: "service_inv s \<Longrightarrow> service_inv (snd (RegisterInnerListener e u t lo s))"
  using RegisterInnerListener_inv [of s e u t lo] by (simp add: service_inv_def sl_frame inner_inv_view)

lemma inv_unregister: "service_inv s \<Longrightarrow> service_inv (snd (UnRegisterInnerListener t lo s))"
  using UnRegisterInnerListener_inv [of s t lo] by (simp add: service_inv_def sl_frame inner_inv_view)

lemma inv_SetUnlockPolicy: "service_inv s \<Longrightarrow> service_inv (snd (SetUnlockPolicy e u p s))"
  by (simp add: SetUnlockPolicy_def UnlockPolicyChanged_emit inv_save Let_def split: option.split)

lemma inv_OnSystemEvent: "service_inv s \<Longrightarrow> service_inv (snd (OnSystemEvent e l s))"
proof -
  assume inv: "service_inv s"
  then have "service_inv (s\<lparr>systemEventListener := l, stateValue := v\<rparr>)" for v
    by (simp add: service_inv_def)
  then have "service_inv (queue_submit (SystemReadyTask 50) (s\<lparr>systemEventListener := l, stateValue := v\<rparr>))" for v
    by (simp add: inv_queue_submit)
  moreover have "service_inv s' \<Longrightarrow> service_inv (SetCurrentUser u s')" for u and s' :: "('a, 'b) service_state_scheme"
    by (simp add: SetCurrentUser_def service_inv_def)
  ultimately show ?thesis using inv by (simp add: OnSystemEvent_def)
qed

lemma service_inv_serve: "service_inv s \<Longrightarrow> service_inv (snd (serve e req s))"
  by (cases req)
    (simp_all add: no_out_def only_out_def IsLocked_def IsLockedWithUserId_def Unlock_def UnlockScreen_def Lock_user_def
      IsScreenLockDisabled_def GetScreenLockAuthState_def RequestStrongAuth_def GetStrongAuth_def IsDeviceLocked_def
      Service_RegisterInnerListener_def Service_UnRegisterInnerListener_def GetUnlockPolicy_def IsLockedWatch_def
      UnlockWatch_def split_def Let_def inv_IsScreenLocked inv_GetSecure inv_UnlockInner inv_Lock inv_OnSystemEvent
      inv_SendScreenLockEvent inv_SetScreenLockDisabled inv_SetScreenLockAuthState inv_SetStrongAuthStat
      inv_register inv_unregister inv_SetUnlockPolicy inv_Watch_unlockScreen split: option.split)

section \<open>Tasks\<close>

lemma inv_RegisterDisplay:
  assumes "service_inv s" and "0 \<le> n"
  shows "service_inv (RegisterDisplayPowerEventListener e n s)"
proof -
  have "service_inv (s\<lparr>systemReady := b, displayRegistrations := k\<rparr>)" for b k
    using assms(1) by (simp add: service_inv_def svc_ok_view)
  moreover have "service_inv s' \<Longrightarrow> service_inv (s'\<lparr>runningState := r\<rparr>)"
    for r and s' :: "('a, 'b) service_state_scheme" by (simp add: service_inv_def)
  ultimately show ?thesis
    using assms(2) by (simp add: RegisterDisplayPowerEventListener_def Let_def inv_queue_submit)
qed

lemma inv_Init: "service_inv s \<Longrightarrow> service_inv (snd (Init e s))"
  by (simp add: Init_def service_inv_def Let_def)

lemma inv_ready_turn: "service_inv s \<Longrightarrow> n \<le> 50 \<Longrightarrow> service_inv (OnSystemReady_turn n s)"
  by (auto simp: OnSystemReady_turn_def intro!: inv_submit split: option.split)

lemma inv_LockCallback: "service_inv s \<Longrightarrow> service_inv (LockCallback_run r s)"
  by (simp add: LockCallback_run_def service_inv_def svc_ok_view)

text \<open>The calls of the unlock listeners, as one list of effects.\<close>

definition unlock_result :: "int \<Rightarrow> int \<Rightarrow> ('p, 's) service_state_scheme \<Rightarrow> int \<Rightarrow> int" where
  "unlock_result result cur s u =
     (if u = cur then result
      else if screen_locked_of u s then screen_change_code SCREEN_FAIL else screen_change_code SCREEN_SUCC)"

definition unlock_effects :: "int \<Rightarrow> int \<Rightarrow> ('p, 's) service_state_scheme \<Rightarrow> effect list" where
  "unlock_effects result cur s =
     map (\<lambda>(l, u). UnlockCallback l (unlock_result result cur s u)) (zip (unlockVecListeners s) (unlockVecUserIds s))"

lemma unlock_result_emit [simp]: "unlock_result r c (emit es s) = unlock_result r c s"
  by (rule ext) (simp add: unlock_result_def screen_locked_of_def)

lemma CallbackUnlockListener_in_range:
  assumes "i < length (unlockVecListeners s)" and "length (unlockVecListeners s) = length (unlockVecUserIds s)"
  shows "CallbackUnlockListener i r c s =
    Some (emit [UnlockCallback (unlockVecListeners s ! i) (unlock_result r c s (unlockVecUserIds s ! i))] s)"
  using assms by (simp add: CallbackUnlockListener_def vec_at_def unlock_result_def)

lemma unlock_callbacks_in_range:
  assumes "length (unlockVecListeners s) = length (unlockVecUserIds s)"
    and "\<forall>i \<in> set is. i < length (unlockVecListeners s)"
  shows "unlock_callbacks is r c s =
    Some (emit (map (\<lambda>i. UnlockCallback (unlockVecListeners s ! i) (unlock_result r c s (unlockVecUserIds s ! i))) is) s)"
  using assms
  by (induction "is" arbitrary: s) (simp_all add: CallbackUnlockListener_in_range)

lemma UnlockCallback_run_effects:
  assumes "length (unlockVecListeners s) = length (unlockVecUserIds s)"
  shows "UnlockCallback_run r c s =
    Some ((emit (unlock_effects r c s) s)\<lparr>unlockVecListeners := [], unlockVecUserIds := []\<rparr>)"
proof -
  have "map (\<lambda>i. UnlockCallback (unlockVecListeners s ! i) (unlock_result r c s (unlockVecUserIds s ! i)))
          [0..<length (unlockVecListeners s)] = unlock_effects r c s"
    using assms by (intro nth_equalityI) (simp_all add: unlock_effects_def)
  then show ?thesis
    using unlock_callbacks_in_range [OF assms, of "[0..<length (unlockVecListeners s)]" r c]
    by (simp add: UnlockCallback_run_def)
qed

lemma run_task_inv:
  assumes "service_inv s" and "task_ok t" and "run_task e t s = Some s'"
  shows "service_inv s'"
proof -
  have len: "length (unlockVecListeners s) = length (unlockVecUserIds s)"
    using assms(1) by (simp add: service_inv_def svc_ok_view)
  have clear: "service_inv ((emit es s)\<lparr>unlockVecListeners := [], unlockVecUserIds := []\<rparr>)" for es
    using assms(1) by (simp add: service_inv_def svc_ok_view)
  show ?thesis
    using assms UnlockCallback_run_effects [OF len] clear
    by (cases t) (auto simp: inv_Init inv_RegisterDisplay inv_ready_turn inv_LockCallback)
qed

lemma inv_tasks: "service_inv s \<Longrightarrow> list_all task_ok ts \<Longrightarrow> service_inv (s\<lparr>tasks := ts\<rparr>)"
  by (simp add: service_inv_def svc_ok_view)

lemma task_ok_pending: "service_inv s \<Longrightarrow> i < length (tasks s) \<Longrightarrow> task_ok (tasks s ! i)"
  by (simp add: service_inv_def svc_ok_view list_all_length)

lemma list_all_remove_at: "list_all P xs \<Longrightarrow> list_all P (remove_at i xs)"
  by (auto simp: remove_at_def list_all_iff dest: in_set_takeD in_set_dropD)

section \<open>Life cycle\<close>

lemma inv_OnStart: "service_inv s \<Longrightarrow> service_inv (OnStart e s)"
proof -
  assume inv: "service_inv s"
  have 1: "service_inv (s\<lparr>instanceSet := b\<rparr>)" for b using inv by (simp add: service_inv_def)
  have 2: "service_inv s' \<Longrightarrow> service_inv (InitServiceHandler s')" for s' :: "('a, 'b) service_state_scheme"
    by (simp add: InitServiceHandler_def service_inv_def svc_ok_view)
  have 3: "service_inv s' \<Longrightarrow> service_inv (RegisterDumpCommand e s')" for s' :: "('a, 'b) service_state_scheme"
    by (simp add: RegisterDumpCommand_def RegisterCommand_def service_inv_def split: option.split)
  from 1 2 show ?thesis
    by (simp add: OnStart_def Let_def split_def inv_Init inv_queue_submit 3)
qed

lemma inv_disabled_flag: "service_inv s \<Longrightarrow> service_inv (init_disabled_flag e u s)"
  by (simp add: init_disabled_flag_def inv_save)

lemma inv_subscribe: "service_inv s \<Longrightarrow> service_inv (SubscribeAcccount ev s)"
  by (simp add: SubscribeAcccount_def service_inv_def)

lemma inv_SubscribeEvent: "service_inv s \<Longrightarrow> service_inv (SubscribeEvent e s)"
  by (simp add: SubscribeEvent_def service_inv_def Let_def)

lemma inv_InitUserId: "service_inv s \<Longrightarrow> service_inv (InitUserId e s)"
  by (simp add: InitUserId_def SubscribeUserIamReady_def Let_def inv_disabled_flag inv_subscribe inv_SubscribeEvent)

lemma inv_auth_listener:
  "service_inv s \<Longrightarrow> service_inv (RegistAuthEventListener s)" "service_inv s \<Longrightarrow> service_inv (UnRegistAuthEventListener s)"
  by (simp_all add: service_inv_def sl_frame)

lemma inv_iam_listener:
  "service_inv s \<Longrightarrow> service_inv (RegistIamEventListener s)" "service_inv s \<Longrightarrow> service_inv (UnRegistIamEventListener s)"
  by (simp_all add: RegistIamEventListener_def UnRegistIamEventListener_def service_inv_def)

lemma inv_OnAddSystemAbility: "service_inv s \<Longrightarrow> service_inv (OnAddSystemAbility e sa s)"
proof -
  assume inv: "service_inv s"
  then have "service_inv (s\<lparr>displayPowerEventListener := b\<rparr>)" for b by (simp add: service_inv_def)
  then show ?thesis
    using inv by (simp add: OnAddSystemAbility_def Let_def inv_RegisterDisplay inv_InitUserId inv_auth_listener inv_iam_listener)
qed

lemma inv_OnRemoveSystemAbility: "service_inv s \<Longrightarrow> service_inv (OnRemoveSystemAbility e sa s)"
  by (simp add: OnRemoveSystemAbility_def Let_def inv_auth_listener inv_iam_listener)

lemma inv_GetCredInfo: "service_inv s \<Longrightarrow> service_inv (snd (GetCredInfo e u s))"
  by (simp add: service_inv_def sl_frame)

lemma inv_OnActiveUser: "service_inv s \<Longrightarrow> service_inv (OnActiveUser e l u s)"
  by (simp add: OnActiveUser_def Let_def inv_disabled_flag inv_AuthStateInit inv_GetCredInfo)

lemma inv_OnRemoveUser: "service_inv s \<Longrightarrow> service_inv (OnRemoveUser e u s)"
  by (simp add: OnRemoveUser_def DeleteUnlockPolicyForUser_def Let_def inv_auth_map inv_lock_map inv_auth_wf inv_save)

lemma inv_AccountUnlocked: "service_inv s \<Longrightarrow> service_inv (Service_AccountUnlocked e l u s)"
  by (simp add: Service_AccountUnlocked_def service_inv_def sl_frame)

lemma inv_OnAccountsChanged: "service_inv s \<Longrightarrow> service_inv (OnAccountsChanged e ev u s)"
proof -
  assume inv: "service_inv s"
  have "service_inv s' \<Longrightarrow> service_inv (s'\<lparr>accountSubscribers := a\<rparr>)" for a and s' :: "('a, 'b) service_state_scheme"
    by (simp add: service_inv_def)
  with inv show ?thesis
    by (simp add: OnAccountsChanged_def Let_def inv_OnActiveUser inv_OnRemoveUser inv_AccountUnlocked
        split: option.split account_event.split)
qed

lemma inv_cred_change: "service_inv s \<Longrightarrow> service_inv (OnNotifyCredChangeEvent e u a c b s)"
  by (simp add: service_inv_def sl_frame strong_callbacks_ok)

lemma inv_Service_cred: "service_inv s \<Longrightarrow> service_inv (Service_OnNotifyCredChangeEvent e u a c b s)"
  by (simp add: Service_OnNotifyCredChangeEvent_def Let_def inv_FreshDisabledState inv_cred_change)

lemma inv_common_event: "service_inv s \<Longrightarrow> service_inv (OnReceiveEvent e a p s)"
  by (simp add: OnReceiveEvent_def Let_def inv_save)

lemma inv_client_died: "service_inv s \<Longrightarrow> service_inv (OnRemoteDied ro s)"
  using OnRemoteDied_inv [of s ro] by (simp add: service_inv_def sl_frame inner_inv_view)

lemma service_inv_others:
  assumes "service_inv s"
  shows "service_inv (OnDisplayPowerEvent b pe st s)" "service_inv (UserIamReadyCallback k v s)"
    "service_inv (OnNotifyAuthSuccessEvent e u a w s)" "service_inv (OnCredentialInfo e u r n s)"
    "service_inv (OnTrigger e t s)" "service_inv (OnWindowHidden e bn s)" "service_inv (LeaveWrist_OnChange e s)"
    "service_inv (WearSensorCallback e ev s)" "service_inv (WearDisplay_OnDisplayPowerEvent e pe st s)"
    "service_inv (ResetFfrtQueue s)"
  using assms
  by (simp_all add: service_inv_def sl_frame strong_callbacks_ok watch_events_ok ResetFfrtQueue_def)
    (simp add: svc_ok_view)

inductive_cases service_stepE: "service_step s s'"

lemma service_step_inv: "service_step s s' \<Longrightarrow> service_inv s \<Longrightarrow> service_inv s'"
proof (erule service_stepE)
  fix i e
  assume inv: "service_inv s" and i: "i < length (tasks s)"
    and run: "run_task e (tasks s ! i) (s\<lparr>tasks := remove_at i (tasks s)\<rparr>) = Some s'"
  have "service_inv (s\<lparr>tasks := remove_at i (tasks s)\<rparr>)"
    using inv by (intro inv_tasks list_all_remove_at) (simp_all add: service_inv_def svc_ok_view)
  then show "service_inv s'" using task_ok_pending [OF inv i] run by (rule run_task_inv)
qed (simp_all add: service_inv_serve inv_OnStart inv_OnAddSystemAbility inv_OnRemoveSystemAbility
      inv_OnAccountsChanged inv_Service_cred inv_common_event inv_client_died service_inv_others)

lemma service_inv_initial: "service_inv (initial_service p)"
  by (simp add: service_inv_def views initial_service_def inner_ok_def strong_ok_def watch_ok_def recipients_ok_def
      periods_ok_def)

lemma service_reachable_inv: "service_reachable s \<Longrightarrow> service_inv s"
  by (induction rule: service_reachable.induct) (simp_all add: service_inv_initial service_step_inv)

end
