(* ===== verification/System_Props.thy ===== *)
theory System_Props
  imports System_Invariant
begin

text \<open>
  What the service promises: refused requests are invisible, pending work never fails, waiting
  listeners are answered once, the stored states are read back, users are isolated, and the retries
  are bounded.
\<close>

section \<open>The invariant and pending work\<close>



text \<open>C23: when the result of an unlock is delivered, every listener that waits is called exactly once, in
  the order of arrival: with the reported result if it waits for the user the result is about, and
  with success or failure according to the stored lock state of its own user otherwise; then nobody
  waits any more and nothing else of the lock state has changed.\<close>

theorem unlock_listeners_answered_once:
  assumes "service_reachable s"
  shows "\<exists>s'. run_task e (UnlockCallbackTask r c) s = Some s'
    \<and> trace s' = trace s @ map (\<lambda>(l, u). UnlockCallback l
         (if u = c then r else if screen_locked_of u s then screen_change_code SCREEN_FAIL
          else screen_change_code SCREEN_SUCC)) (zip (unlockVecListeners s) (unlockVecUserIds s))
    \<and> unlockVecListeners s' = [] \<and> unlockVecUserIds s' = []
    \<and> isScreenlockedMap s' = isScreenlockedMap s \<and> lockVecListeners s' = lockVecListeners s"
proof -
  have "length (unlockVecListeners s) = length (unlockVecUserIds s)"
    using service_reachable_inv [OF assms] by (simp add: service_inv_def svc_ok_view)
  from UnlockCallback_run_effects [OF this] show ?thesis
    by (simp add: unlock_effects_def unlock_result_def)
qed

theorem unlock_listeners_answered_once_witness:
  "\<exists>s'. run_task sample_env (UnlockCallbackTask 0 100) (snd (serve sample_env (Req_Unlock 5) (initial_service []))) = Some s'
     \<and> trace s' = [UnlockCallback 5 0]"
proof -
  let ?s = "snd (serve sample_env (Req_Unlock 5) (initial_service []))"
  have r: "service_reachable ?s"
    by (rule service_reachable.step [OF service_reachable.initial service_step.request])
  have "trace ?s = []" "unlockVecListeners ?s = [5]" "unlockVecUserIds ?s = [100]" by code_simp+
  with unlock_listeners_answered_once [OF r, of sample_env 0 100] show ?thesis by auto
qed

section \<open>Refused requests\<close>

text \<open>
  The contract of an interface with access control: a refused request returns the reason, no value,
  and leaves the state alone.  From it, refused requests can be dropped from any history.
\<close>

locale gated_requests =
  fixes perform :: "'e \<Rightarrow> 'r \<Rightarrow> 's \<Rightarrow> ('c \<times> 'o) \<times> 's"
    and gate :: "'e \<Rightarrow> 'r \<Rightarrow> 'c option"
    and none :: 'o
  assumes refused: "gate e r = Some c \<Longrightarrow> perform e r s = ((c, none), s)"
begin

definition history :: "('e \<times> 'r) list \<Rightarrow> 's \<Rightarrow> 's" where
  "history rs s = fold (\<lambda>p s. snd (perform (fst p) (snd p) s)) rs s"

lemma refused_invisible: "history rs s = history (filter (\<lambda>p. gate (fst p) (snd p) = None) rs) s"
proof (induction rs arbitrary: s)
  case Nil
  then show ?case by (simp add: history_def)
next
  case (Cons p rs)
  then show ?case
    by (cases "gate (fst p) (snd p)") (simp_all add: history_def refused)
qed

lemma all_refused: "\<forall>p \<in> set rs. gate (fst p) (snd p) \<noteq> None \<Longrightarrow> history rs s = s"
  by (subst refused_invisible) (simp add: history_def filter_False)

end

definition system_gate :: "'p env \<Rightarrow> status option" where
  "system_gate e = (if CheckSystemPermission e then Some (Code E_SCREENLOCK_NOT_SYSTEM_APP) else None)"

definition app_gate :: "'p env \<Rightarrow> status option" where
  "app_gate e = (if \<not> IsSystemApp e then Some (Code E_SCREENLOCK_NOT_SYSTEM_APP) else None)"

definition hap_gate :: "'p env \<Rightarrow> status option" where
  "hap_gate e = (if tokenTypeFlag e (callingTokenId e) = TOKEN_HAP then app_gate e else None)"

definition perm_gate :: "'p env \<Rightarrow> string \<Rightarrow> status option" where
  "perm_gate e p = (if \<not> CheckPermission e p then Some (Code E_SCREENLOCK_NO_PERMISSION) else None)"

definition focus_gate :: "'p env \<Rightarrow> status option" where
  "focus_gate e =
     (if tokenTypeFlag e (callingTokenId e) \<noteq> TOKEN_NATIVE
         \<and> \<not> IsAppInForeground e (callingPid e) (callingTokenId e) \<and> \<not> CheckPermission e ACCESS_SCREEN_LOCK
      then Some (Code E_SCREENLOCK_NOT_FOCUS_APP) else None)"

definition or_else :: "'a option \<Rightarrow> 'a option \<Rightarrow> 'a option" where
  "or_else x y = (case x of None \<Rightarrow> y | Some a \<Rightarrow> Some a)"

text \<open>Who is refused what, as a table.\<close>

fun gate :: "'p env \<Rightarrow> request \<Rightarrow> status option" where
  "gate e Req_IsLocked = hap_gate e"
| "gate e (Req_IsLockedWithUserId u) = system_gate e"
| "gate e (Req_Unlock l) = or_else (app_gate e) (focus_gate e)"
| "gate e (Req_UnlockScreen l) = focus_gate e"
| "gate e (Req_Lock l) = or_else (app_gate e) (perm_gate e ACCESS_SCREEN_LOCK_INNER)"
| "gate e (Req_LockUser u) = perm_gate e ACCESS_SCREEN_LOCK_INNER"
| "gate e (Req_OnSystemEvent l) = or_else (app_gate e) (perm_gate e ACCESS_SCREEN_LOCK_INNER)"
| "gate e (Req_SendScreenLockEvent ev p) = or_else (app_gate e) (perm_gate e ACCESS_SCREEN_LOCK_INNER)"
| "gate e (Req_IsScreenLockDisabled u) =
     (if \<not> preferencesUtil e then Some (Code E_SCREENLOCK_NULLPTR) else perm_gate e ACCESS_SCREEN_LOCK)"
| "gate e (Req_SetAuthState a u t) = or_else (system_gate e) (perm_gate e ACCESS_SCREEN_LOCK_INNER)"
| "gate e (Req_GetAuthState u) = or_else (system_gate e) (perm_gate e ACCESS_SCREEN_LOCK)"
| "gate e (Req_RequestStrongAuth r u) =
     (if IS_SO_CROP_H e then None else or_else (system_gate e) (perm_gate e ACCESS_SCREEN_LOCK))"
| "gate e (Req_GetStrongAuth u) =
     (if IS_SO_CROP_H e then None else or_else (system_gate e) (perm_gate e ACCESS_SCREEN_LOCK))"
| "gate e (Req_IsDeviceLocked u) = system_gate e"
| "gate e (Req_RegisterInnerListener u t l) =
     or_else (system_gate e) (if t = listen_type STRONG_AUTH then perm_gate e ACCESS_SCREEN_LOCK else None)"
| "gate e (Req_UnRegisterInnerListener u t l) =
     or_else (system_gate e) (if t = listen_type STRONG_AUTH then perm_gate e ACCESS_SCREEN_LOCK else None)"
| "gate e (Req_SetUnlockPolicy u p) =
     (if \<not> IsNativeAccess e then Some (Code E_SCREENLOCK_NO_PERMISSION) else perm_gate e ACCESS_SCREEN_LOCK)"
| "gate e (Req_GetUnlockPolicy u) = or_else (system_gate e) (perm_gate e ACCESS_SCREEN_LOCK)"
| "gate e Req_IsLockedWatch = hap_gate e"
| "gate e (Req_UnlockWatch l) = hap_gate e"
| "gate e _ = None"

lemmas gate_defs = system_gate_def app_gate_def hap_gate_def perm_gate_def focus_gate_def or_else_def

lemma serve_refused: "gate e req = Some c \<Longrightarrow> serve e req s = ((c, NoOut), s)"
  by (cases req)
    (auto simp: gate_defs no_out_def IsLocked_def IsLockedWithUserId_def Unlock_def UnlockScreen_def UnlockInner_def
      Lock_listener_def Lock_user_def OnSystemEvent_def SendScreenLockEvent_def IsScreenLockDisabled_def
      SetScreenLockAuthState_def GetScreenLockAuthState_def RequestStrongAuth_def GetStrongAuth_def
      IsDeviceLocked_def Service_RegisterInnerListener_def Service_UnRegisterInnerListener_def SetUnlockPolicy_def
      GetUnlockPolicy_def IsLockedWatch_def UnlockWatch_def Let_def split: if_splits)

interpretation service_gates: gated_requests serve gate NoOut
  by unfold_locales (rule serve_refused)


section \<open>The screen-lock state\<close>

lemma SetScreenlocked_map:
  "mfind (isScreenlockedMap (SetScreenlocked b u s)) w = (if w = u then Some b else mfind (isScreenlockedMap s) w)"
  by (simp add: SetScreenlocked_def sl_find split: option.split)

lemma LockScreenEvent_map:
  "mfind (isScreenlockedMap (LockScreenEvent e 0 s)) w =
     (if w = GetUserIdFromCallingUid e then Some True else mfind (isScreenlockedMap s) w)"
  by (simp add: LockScreenEvent_def Let_def submit_def PublishEvent_def SetScreenlocked_map)

lemma NotifyUnlockListener_map [simp]: "isScreenlockedMap (NotifyUnlockListener e r s) = isScreenlockedMap s"
  by (simp add: NotifyUnlockListener_def submit_def)

lemma UnlockScreenEvent_map:
  "mfind (isScreenlockedMap (UnlockScreenEvent e r s)) w =
     (if w = GetUserIdFromCallingUid e \<and> r \<in> {screen_change_code SCREEN_SUCC, screen_change_code EARLY_SUCCESS}
      then Some False else mfind (isScreenlockedMap s) w)"
  by (simp add: UnlockScreenEvent_def Let_def PublishEvent_def NotifyDisplayEvent_def submit_def SetScreenlocked_map)

text \<open>C20: when the screen-lock application reports a successful lock or unlock (also an early one), every
  later query for its user, by any admitted caller, answers locked or unlocked accordingly, the
  change is published, and no other user's answer changes; a failed or cancelled unlock changes no
  user's answer.\<close>

theorem lock_state_read_back:
  assumes "gate e (Req_SendScreenLockEvent '''' 0) = None" and "gate d (Req_IsLockedWithUserId w) = None"
    and "ev = LOCK_SCREEN_RESULT \<and> r = screen_change_code SCREEN_SUCC
         \<or> ev = UNLOCK_SCREEN_RESULT"
  shows "let s' = snd (serve e (Req_SendScreenLockEvent ev r) s) in
      fst (serve d (Req_IsLockedWithUserId w) s') =
        (if w = GetUserIdFromCallingUid e \<and> r \<in> {screen_change_code SCREEN_SUCC, screen_change_code EARLY_SUCCESS}
         then (OK, BoolOut (ev = LOCK_SCREEN_RESULT))
         else fst (serve d (Req_IsLockedWithUserId w) s))
    \<and> (r \<in> {screen_change_code SCREEN_SUCC, screen_change_code EARLY_SUCCESS} \<longrightarrow>
         last (trace s') = CommonEvent
           (if ev = LOCK_SCREEN_RESULT then COMMON_EVENT_SCREEN_LOCKED
            else if r = screen_change_code SCREEN_SUCC then COMMON_EVENT_SCREEN_UNLOCKED
            else COMMON_EVENT_SCREEN_LOCK_EXITING) (GetUserIdFromCallingUid e))"
proof -
  have e: "IsSystemApp e" "CheckPermission e ACCESS_SCREEN_LOCK_INNER" and d: "\<not> CheckSystemPermission d"
    using assms(1,2) by (auto simp: gate_defs split: if_splits option.splits)
  have query: "fst (serve d (Req_IsLockedWithUserId w) s') =
      (case mfind (isScreenlockedMap s') w of Some b \<Rightarrow> (OK, BoolOut b)
       | None \<Rightarrow> (Code E_SCREENLOCK_USER_ID_INVALID, BoolOut True))" for s' :: "('a, 'b) service_state_scheme"
    by (simp add: IsLockedWithUserId_def d split: option.split)
  show ?thesis
    using assms(3)
  proof
    assume lock: "ev = LOCK_SCREEN_RESULT \<and> r = screen_change_code SCREEN_SUCC"
    then have s': "snd (serve e (Req_SendScreenLockEvent ev r) s) = LockScreenEvent e 0 s"
      by (simp add: no_out_def SendScreenLockEvent_def e event_names)
    show ?thesis unfolding Let_def s' query using lock
      by (simp add: LockScreenEvent_map) (simp add: LockScreenEvent_def PublishEvent_def Let_def)
  next
    assume unlock: "ev = UNLOCK_SCREEN_RESULT"
    then have s': "snd (serve e (Req_SendScreenLockEvent ev r) s) = UnlockScreenEvent e r s"
      by (simp add: no_out_def SendScreenLockEvent_def e)
    have "trace (NotifyUnlockListener e r t) = trace t" for t :: "('a, 'b) service_state_scheme"
      by (simp add: NotifyUnlockListener_def submit_def)
    then have last: "r \<in> {0, 3} \<Longrightarrow> last (trace (UnlockScreenEvent e r s)) = CommonEvent
        (if r = 0 then COMMON_EVENT_SCREEN_UNLOCKED else COMMON_EVENT_SCREEN_LOCK_EXITING) (GetUserIdFromCallingUid e)"
      by (auto simp: UnlockScreenEvent_def PublishEvent_def Let_def)
    show ?thesis unfolding Let_def s' query using unlock last
      by (auto simp: UnlockScreenEvent_map event_names)
  qed
qed

lemma sample_gates [simp]: "gate sample_env req = None"
  by (cases req)
    (simp_all add: gate_defs sample_env_def IsSystemApp_def CheckPermission_def CheckSystemPermission_def IsNativeAccess_def)

lemma sample_user [simp]: "GetUserIdFromCallingUid sample_env = 100"
  by (simp add: GetUserIdFromCallingUid_def sample_env_def)

theorem lock_state_read_back_witness:
  "fst (serve sample_env (Req_IsLockedWithUserId 100)
     (snd (serve sample_env (Req_SendScreenLockEvent LOCK_SCREEN_RESULT 0) (initial_service [])))) = (OK, BoolOut True)"
proof -
  have "LOCK_SCREEN_RESULT = LOCK_SCREEN_RESULT \<and> (0::int) = screen_change_code SCREEN_SUCC
      \<or> LOCK_SCREEN_RESULT = UNLOCK_SCREEN_RESULT" by simp
  from lock_state_read_back [OF sample_gates sample_gates this, of "initial_service []" 100]
  show ?thesis by (simp add: Let_def del: serve.simps)
qed

section \<open>The authentication state\<close>

lemma auth_report_deliveries:
  assumes "gate e (Req_SetAuthState a u t) = None" and "inner_inv s"
  shows "deliveries q u (bool_int (GetDeviceLockedStateByAuth a)) (trace (snd (serve e (Req_SetAuthState a u t) s)))
      = deliveries q u (bool_int (GetDeviceLockedStateByAuth a)) (trace s)
        + (case mfind (authStateInfo s) u of
             None \<Rightarrow> 0
           | Some old \<Rightarrow>
               if GetDeviceLockedStateByAuth old = GetDeviceLockedStateByAuth a then 0
               else of_bool ((listen_type DEVICE_LOCK, u, q) \<in> registrations s)
                  + of_bool ((listen_type DEVICE_LOCK, special_user_code USER_ALL, q) \<in> registrations s))"
proof -
  have e: "\<not> CheckSystemPermission e" "CheckPermission e ACCESS_SCREEN_LOCK_INNER"
    using assms(1) by (auto simp: gate_defs split: if_splits option.splits)
  have pre: "deliveries q u x (pre_auth_effects u a s'') = 0" for x and s'' :: "('a, 'b) service_state_scheme"
    by (simp add: pre_auth_effects_def deliveries_reported) (simp add: deliveries_def)
  show ?thesis
    using deliveries_told [OF assms(2), of q u "bool_int (GetDeviceLockedStateByAuth a)" "listen_type DEVICE_LOCK"]
    by (simp add: no_out_def SetScreenLockAuthState_def e PreAuthStateNotify_emit Let_def
        device_lock_notifier.notify_emits pre split: option.split)
qed



text \<open>The first report for a user the service does not know changes the user's device-lock answer
  from locked (with an invalid-user error) to unlocked without telling anyone who listens for
  device-lock changes.\<close>

theorem first_unlock_not_told:
  "\<exists>s :: sample_store service_state. service_reachable s
     \<and> (listen_type DEVICE_LOCK, 100, 9) \<in> registrations s
     \<and> fst (serve sample_env (Req_IsDeviceLocked 100) s) = (Code E_SCREENLOCK_USER_ID_INVALID, BoolOut True)
     \<and> fst (serve sample_env (Req_IsDeviceLocked 100)
          (snd (serve sample_env (Req_SetAuthState 4 100 '''') s))) = (OK, BoolOut False)
     \<and> trace (snd (serve sample_env (Req_SetAuthState 4 100 '''') s)) = trace s"
proof -
  let ?s = "snd (serve sample_env (Req_RegisterInnerListener 100 1 (Some (Listener 5 (Some 9)))) (initial_service []))"
  have r: "service_reachable ?s"
    by (rule service_reachable.step [OF service_reachable.initial service_step.request])
  have "innerListenMap ?s = [(1, [(100, [Listener 5 (Some 9)])])]" by code_simp
  then have reg: "(listen_type DEVICE_LOCK, 100, 9) \<in> registrations ?s"
    by (simp add: registrations_iff getListenerSet_def)
  have before: "fst (serve sample_env (Req_IsDeviceLocked 100) ?s) = (Code E_SCREENLOCK_USER_ID_INVALID, BoolOut True)"
    by code_simp
  have after: "fst (serve sample_env (Req_IsDeviceLocked 100) (snd (serve sample_env (Req_SetAuthState 4 100 '''') ?s)))
      = (OK, BoolOut False)"
    by code_simp
  have traces: "trace (snd (serve sample_env (Req_SetAuthState 4 100 '''') ?s)) = [DeathLink 9]" "trace ?s = [DeathLink 9]"
    by (code_simp, code_simp)
  show ?thesis by (rule exI [of _ ?s]) (simp only: r reg before after traces simp_thms)
qed

section \<open>Settings\<close>

lemma SetScreenLockDisabled_outcome:
  "fst (SetScreenLockDisabled e b u s) = OK \<Longrightarrow> preferencesUtil e
     \<and> (\<exists>s1. store s1 = store s \<and> snd (SetScreenLockDisabled e b u s) =
          (if b \<noteq> ObtainBool (prefs e) (disabled_key u) False s1
           then Refresh (prefs e) (snd (SaveBool (prefs e) (disabled_key u) b s1)) else s1))"
  "fst (SetScreenLockDisabled e b u s) \<noteq> OK \<Longrightarrow> store (snd (SetScreenLockDisabled e b u s)) = store s"
proof -
  have pay: "store (snd (IsPaymentApp e s')) = store s'" for s' :: "('a, 'b) service_state_scheme"
    by (simp add: IsPaymentApp_def GetPaymentServices_def ReportFaultCode_def SendEvent_def Let_def split_def)
  have sec: "store (snd (GetSecure e s)) = store s"
    by (simp add: GetSecure_def Let_def split_def pay)
  let ?s1 = "if b then snd (GetSecure e s) else s"
  have s1: "store ?s1 = store s" by (simp add: sec)
  have fresh: "fst (SetScreenLockDisabled e b u s) = OK
      \<Longrightarrow> SetScreenLockDisabled e b u s = FreshDisabledState e b u ?s1"
    by (simp add: SetScreenLockDisabled_def Let_def split_def split: if_splits)
  show "preferencesUtil e
     \<and> (\<exists>s1. store s1 = store s \<and> snd (SetScreenLockDisabled e b u s) =
          (if b \<noteq> ObtainBool (prefs e) (disabled_key u) False s1
           then Refresh (prefs e) (snd (SaveBool (prefs e) (disabled_key u) b s1)) else s1))"
    if ok: "fst (SetScreenLockDisabled e b u s) = OK"
  proof (intro conjI exI [of _ ?s1] s1)
    show prefs: "preferencesUtil e"
      using ok unfolding fresh [OF ok] by (simp add: FreshDisabledState_def split: if_splits)
    show "snd (SetScreenLockDisabled e b u s) =
          (if b \<noteq> ObtainBool (prefs e) (disabled_key u) False ?s1
           then Refresh (prefs e) (snd (SaveBool (prefs e) (disabled_key u) b ?s1)) else ?s1)"
      unfolding fresh [OF ok] using prefs by (simp add: FreshDisabledState_def Let_def split_def)
  qed
  show "fst (SetScreenLockDisabled e b u s) \<noteq> OK \<Longrightarrow> store (snd (SetScreenLockDisabled e b u s)) = store s"
    by (auto simp: SetScreenLockDisabled_def FreshDisabledState_def Let_def split_def sec split: if_splits)
qed

lemma ObtainBool_store: "store s = store s' \<Longrightarrow> ObtainBool np k d s = ObtainBool np k d s'"
  by (simp add: ObtainBool_def)

lemma ObtainInt_store: "store s = store s' \<Longrightarrow> ObtainInt np k d s = ObtainInt np k d s'"
  by (simp add: ObtainInt_def)

text \<open>With a store that keeps its documented promises, a successful change of the disabled flag is what
  any admitted query reads for that user from then on, and no other user's flag and no user's unlock
  policy changes; an unsuccessful change leaves the store alone; a user with a PIN cannot have the
  lock disabled.\<close>

theorem disabled_flag_read_back:
  assumes "prefs_laws (prefs e)" and "prefs d = prefs e" and "gate d (Req_IsScreenLockDisabled w) = None"
  shows "let (r, s') = SetScreenLockDisabled e b u s in
      fst (serve d (Req_IsScreenLockDisabled w) s') =
        (OK, BoolOut (if r = OK \<and> w = u then b else ObtainBool (prefs e) (disabled_key w) False s))
    \<and> ObtainInt (prefs e) (preferKey w) 0 s' = ObtainInt (prefs e) (preferKey w) 0 s
    \<and> (b \<and> fst (GetSecure e s) \<longrightarrow> r = Change SCREEN_FAIL)"
proof -
  obtain r s' where set: "SetScreenLockDisabled e b u s = (r, s')"
    by (cases "SetScreenLockDisabled e b u s")
  have d: "preferencesUtil d" "CheckPermission d ACCESS_SCREEN_LOCK"
    using assms(3) by (auto simp: gate_defs split: if_splits)
  have key: "preferKey w \<noteq> disabled_key u" using disabled_key_preferKey [of u w] by metis
  have "ObtainBool (prefs e) (disabled_key w) False s'
      = (if r = OK \<and> w = u then b else ObtainBool (prefs e) (disabled_key w) False s)
    \<and> ObtainInt (prefs e) (preferKey w) 0 s' = ObtainInt (prefs e) (preferKey w) 0 s"
  proof (cases "r = OK")
    case True
    then obtain s1 where s1: "store s1 = store s" "s' =
        (if b \<noteq> ObtainBool (prefs e) (disabled_key u) False s1
         then Refresh (prefs e) (snd (SaveBool (prefs e) (disabled_key u) b s1)) else s1)"
      using SetScreenLockDisabled_outcome(1) [of e b u s] by (auto simp: set)
    have "ObtainBool (prefs e) (disabled_key w) False s1 = ObtainBool (prefs e) (disabled_key w) False s"
      "ObtainInt (prefs e) (preferKey w) 0 s1 = ObtainInt (prefs e) (preferKey w) 0 s"
      by (rule ObtainBool_store [OF s1(1)], rule ObtainInt_store [OF s1(1)])
    moreover have "ObtainBool (prefs e) (disabled_key w) False s'
        = (if w = u then b else ObtainBool (prefs e) (disabled_key w) False s1)"
      unfolding s1(2)
      by (auto simp: disabled_flags.saved_and_refreshed [OF assms(1)] disabled_flags.other_user_save [OF assms(1)])
    moreover have "ObtainInt (prefs e) (preferKey w) 0 s' = ObtainInt (prefs e) (preferKey w) 0 s1"
      unfolding s1(2)
      by (simp add: ObtainInt_Refresh [OF assms(1)] ObtainInt_SaveBool [OF assms(1) key])
    ultimately show ?thesis using True by simp
  next
    case False
    then have "store s' = store s" using SetScreenLockDisabled_outcome(2) [of e b u s] by (simp add: set)
    with False show ?thesis by (simp add: ObtainBool_def ObtainInt_def)
  qed
  moreover have "b \<and> fst (GetSecure e s) \<longrightarrow> r = Change SCREEN_FAIL"
    using set by (auto simp: SetScreenLockDisabled_def split_def split: if_splits)
  ultimately show ?thesis
    by (simp add: set IsScreenLockDisabled_def d assms(2))
qed

lemma sample_prefs_env [simp]: "prefs sample_env = sample_prefs"
  by (simp add: sample_env_def)

theorem disabled_flag_read_back_witness:
  "fst (serve sample_env (Req_IsScreenLockDisabled 100)
     (snd (SetScreenLockDisabled sample_env True 100 (initial_service [])))) = (OK, BoolOut True)"
proof -
  have laws: "prefs_laws (prefs sample_env)" by (simp add: prefs_laws_sample)
  obtain r s' where set: "SetScreenLockDisabled sample_env True 100 (initial_service []) = (r, s')"
    by (cases "SetScreenLockDisabled sample_env True 100 (initial_service [])")
  have "fst (SetScreenLockDisabled sample_env True 100 (initial_service [])) = OK" by code_simp
  then have "r = OK" by (simp add: set)
  with disabled_flag_read_back [OF laws refl sample_gates, of True 100 "initial_service []" 100] show ?thesis
    by (simp add: set del: serve.simps)
qed

text \<open>A successful change of a user's unlock policy is what any admitted query reads for that user, the
  other users' policies and all disabled flags stay, and the screen-lock application is told the new
  policy exactly when it differs from the stored one.\<close>

theorem unlock_policy_read_back:
  assumes "prefs_laws (prefs e)" and "prefs d = prefs e" and "gate d (Req_GetUnlockPolicy w) = None"
    and "preferencesUtil d" and "fst (SetUnlockPolicy e u p s) = OK" and "systemEventListener s = Some l"
  shows "let s' = snd (SetUnlockPolicy e u p s); old = ObtainInt (prefs e) (preferKey u) 0 s in
      fst (serve d (Req_GetUnlockPolicy w) s') =
        (if w = u then (OK, IntOut p) else fst (serve d (Req_GetUnlockPolicy w) s))
    \<and> ObtainBool (prefs e) (disabled_key w) False s' = ObtainBool (prefs e) (disabled_key w) False s
    \<and> filter (\<lambda>f. f \<noteq> PrefsFlush) (trace s') = filter (\<lambda>f. f \<noteq> PrefsFlush) (trace s)
        @ (if p = old then []
           else [SystemEventCallback l
             \<lparr>eventType = UNLOCK_POLICY_CHANGE, params = policy_params u p, eventUserId = - 1\<rparr>])"
proof -
  let ?np = "prefs e" and ?s' = "snd (SetUnlockPolicy e u p s)"
  let ?saved = "Refresh ?np (snd (SaveInt ?np (preferKey u) p s))"
  have d: "\<not> CheckSystemPermission d" "CheckPermission d ACCESS_SCREEN_LOCK"
    using assms(3) by (auto simp: gate_defs split: if_splits option.splits)
  obtain a where a: "mfind (authStateInfo s) u = Some a"
    using assms(5) by (auto simp: SetUnlockPolicy_def split: if_splits option.splits)
  have s': "?s' = (if ObtainInt ?np (preferKey u) 0 s = p then s else UnlockPolicyChanged u p ?saved)"
    using assms(5) a by (auto simp: SetUnlockPolicy_def Let_def split: if_splits)
  have auth: "authStateInfo ?saved = authStateInfo s" and lis: "systemEventListener ?saved = Some l"
    using assms(6) by (simp_all add: prefs_write_defs Let_def split_def)
  have tr: "filter (\<lambda>f. f \<noteq> PrefsFlush) (trace ?saved) = filter (\<lambda>f. f \<noteq> PrefsFlush) (trace s)"
    by (simp add: prefs_write_defs Let_def split_def)
  have emits: "ObtainInt ?np k i (emit es s'') = ObtainInt ?np k i s''" "ObtainBool ?np k b (emit es s'') = ObtainBool ?np k b s''"
    for k i b es and s'' :: "('a, 'b) service_state_scheme" by (simp_all add: ObtainInt_def ObtainBool_def)
  have "ObtainInt ?np (preferKey w) 0 ?s' = (if w = u then p else ObtainInt ?np (preferKey w) 0 s)"
    by (auto simp: s' UnlockPolicyChanged_emit emits unlock_policies.saved_and_refreshed [OF assms(1)]
        unlock_policies.other_user_save [OF assms(1)])
  moreover have "ObtainBool ?np (disabled_key w) False ?s' = ObtainBool ?np (disabled_key w) False s"
    by (simp add: s' UnlockPolicyChanged_emit emits ObtainBool_Refresh [OF assms(1)] ObtainBool_SaveInt [OF assms(1)])
  moreover have "authStateInfo ?s' = authStateInfo s"
    by (simp add: s' UnlockPolicyChanged_emit auth)
  moreover have "filter (\<lambda>f. f \<noteq> PrefsFlush) (trace ?s') = filter (\<lambda>f. f \<noteq> PrefsFlush) (trace s)
        @ (if p = ObtainInt ?np (preferKey u) 0 s then []
           else [SystemEventCallback l
             \<lparr>eventType = UNLOCK_POLICY_CHANGE, params = policy_params u p, eventUserId = - 1\<rparr>])"
    by (auto simp: s' UnlockPolicyChanged_emit tr reported_def lis)
  ultimately show ?thesis
    unfolding Let_def
    by (cases "w = u") (simp_all add: GetUnlockPolicy_def d assms(2,4) a split: option.split)
qed

theorem unlock_policy_read_back_witness:
  "fst (serve sample_env (Req_GetUnlockPolicy 100)
     (snd (SetUnlockPolicy sample_env 100 7
        ((initial_service [])\<lparr>systemEventListener := Some 3, authStateInfo := [(100, 0)]\<rparr>)))) = (OK, IntOut 7)"
proof -
  let ?s = "(initial_service [])\<lparr>systemEventListener := Some 3, authStateInfo := [(100, 0)]\<rparr>"
  have laws: "prefs_laws (prefs sample_env)" by (simp add: prefs_laws_sample)
  have p: "preferencesUtil sample_env" by (simp add: sample_env_def)
  have ok: "fst (SetUnlockPolicy sample_env 100 7 ?s) = OK" by code_simp
  have l: "systemEventListener ?s = Some 3" by simp
  from unlock_policy_read_back [OF laws refl sample_gates p ok l, of 100] show ?thesis
    by (simp add: Let_def del: serve.simps)
qed

section \<open>Users come and go\<close>

lemma prefs_service_maps [simp]:
  "authStateInfo (Refresh np s) = authStateInfo s" "isScreenlockedMap (Refresh np s) = isScreenlockedMap s"
  "authStateInfo (snd (SaveBool np k b s)) = authStateInfo s"
  "isScreenlockedMap (snd (SaveBool np k b s)) = isScreenlockedMap s"
  "authStateInfo (snd (RemoveKey np k s)) = authStateInfo s"
  "isScreenlockedMap (snd (RemoveKey np k s)) = isScreenlockedMap s"
  by (simp_all add: prefs_write_defs Let_def split_def)

lemma OnRemoveUser_maps:
  "mfind (authStateInfo (OnRemoveUser e u s)) w = (if w = u then None else mfind (authStateInfo s) w)"
  "mfind (isScreenlockedMap (OnRemoveUser e u s)) w = (if w = u then None else mfind (isScreenlockedMap s) w)"
  by (simp_all add: OnRemoveUser_def DeleteUnlockPolicyForUser_def Let_def sl_find)

lemma GetCredInfo_maps [simp]:
  "authStateInfo (snd (GetCredInfo e u s)) = authStateInfo s"
  "isScreenlockedMap (snd (GetCredInfo e u s)) = isScreenlockedMap s"
  "store (snd (GetCredInfo e u s)) = store s"
  by (simp_all add: GetCredInfo_def split: option.split)

lemma AuthStateInit_maps:
  "mfind (authStateInfo (AuthStateInit u s)) w =
     (if w = u \<and> mfind (authStateInfo s) u = None then Some (auth_code UNAUTH) else mfind (authStateInfo s) w)"
  "mfind (isScreenlockedMap (AuthStateInit u s)) w =
     (if w = u \<and> mfind (isScreenlockedMap s) u = None then Some True else mfind (isScreenlockedMap s) w)"
  "store (AuthStateInit u s) = store s"
  by (auto simp: AuthStateInit_def Let_def sl_find split: option.split)

lemma OnActiveUser_maps:
  "mfind (authStateInfo (OnActiveUser e l u s)) w =
     (if w = u \<and> mfind (authStateInfo s) u = None then Some (auth_code UNAUTH) else mfind (authStateInfo s) w)"
  "mfind (isScreenlockedMap (OnActiveUser e l u s)) w =
     (if w = u \<and> mfind (isScreenlockedMap s) u = None then Some True else mfind (isScreenlockedMap s) w)"
  by (simp_all add: OnActiveUser_def init_disabled_flag_def Let_def AuthStateInit_maps)

lemma OnRemoveUser_store:
  assumes "prefs_laws (prefs e)" and "preferencesUtil e"
  shows "ObtainInt (prefs e) (preferKey w) 0 (OnRemoveUser e u s)
      = (if w = u then 0 else ObtainInt (prefs e) (preferKey w) 0 s)"
    and "ObtainBool (prefs e) (disabled_key w) False (OnRemoveUser e u s) = ObtainBool (prefs e) (disabled_key w) False s"
proof -
  have "ObtainInt (prefs e) k i (s\<lparr>authStateInfo := a, isScreenlockedMap := m\<rparr>) = ObtainInt (prefs e) k i s"
    "ObtainBool (prefs e) k b (s\<lparr>authStateInfo := a, isScreenlockedMap := m\<rparr>) = ObtainBool (prefs e) k b s" for k i b a m
    by (simp_all add: ObtainInt_def ObtainBool_def)
  then show "ObtainInt (prefs e) (preferKey w) 0 (OnRemoveUser e u s)
      = (if w = u then 0 else ObtainInt (prefs e) (preferKey w) 0 s)"
    and "ObtainBool (prefs e) (disabled_key w) False (OnRemoveUser e u s) = ObtainBool (prefs e) (disabled_key w) False s"
    using assms(2)
    by (simp_all add: OnRemoveUser_def DeleteUnlockPolicyForUser_def Let_def ObtainInt_RemoveKey [OF assms(1)]
        ObtainBool_RemoveKey [OF assms(1)])
qed

lemma OnActiveUser_store:
  assumes "prefs_laws (prefs e)"
  shows "ObtainInt (prefs e) (preferKey w) 0 (OnActiveUser e l u s) = ObtainInt (prefs e) (preferKey w) 0 s"
    and "ObtainBool (prefs e) (disabled_key w) False (OnActiveUser e l u s) = ObtainBool (prefs e) (disabled_key w) False s"
proof -
  let ?s1 = "AuthStateInit u (if IS_SO_CROP_H e then s else snd (GetCredInfo e u s))"
  have st: "store ?s1 = store s" by (simp add: AuthStateInit_maps)
  have I: "ObtainInt (prefs e) (preferKey w) 0 ?s1 = ObtainInt (prefs e) (preferKey w) 0 s"
    and B: "ObtainBool (prefs e) k False ?s1 = ObtainBool (prefs e) k False s" for k
    by (rule ObtainInt_store [OF st], rule ObtainBool_store [OF st])
  have key: "preferKey w \<noteq> disabled_key u" using disabled_key_preferKey [of u w] by metis
  have act: "OnActiveUser e l u s = init_disabled_flag e u ?s1" by (simp add: OnActiveUser_def Let_def)
  show "ObtainInt (prefs e) (preferKey w) 0 (OnActiveUser e l u s) = ObtainInt (prefs e) (preferKey w) 0 s"
    unfolding act init_disabled_flag_def
    by (simp add: I ObtainInt_Refresh [OF assms] ObtainInt_SaveBool [OF assms key])
  show "ObtainBool (prefs e) (disabled_key w) False (OnActiveUser e l u s) = ObtainBool (prefs e) (disabled_key w) False s"
    unfolding act init_disabled_flag_def
    by (simp add: B ObtainBool_Refresh [OF assms] ObtainBool_SaveBool [OF assms])
qed

text \<open>A user who is removed and whose number is activated again starts unauthenticated, with a locked
  screen and unlock policy 0, and the other users keep everything; but the disabled flag of the number
  survives: if the removed user had the lock disabled, so has the new one.\<close>

theorem removed_user_reborn:
  assumes "prefs_laws (prefs e)" and "preferencesUtil e" and "gate e (Req_GetUnlockPolicy w) = None"
  shows "let s' = OnActiveUser e l u (OnRemoveUser e u s) in
      fst (serve e (Req_GetAuthState w) s') = (if w = u then (OK, IntOut (auth_code UNAUTH)) else fst (serve e (Req_GetAuthState w) s))
    \<and> fst (serve e (Req_IsLockedWithUserId w) s') = (if w = u then (OK, BoolOut True) else fst (serve e (Req_IsLockedWithUserId w) s))
    \<and> fst (serve e (Req_GetUnlockPolicy w) s') = (if w = u then (OK, IntOut 0) else fst (serve e (Req_GetUnlockPolicy w) s))
    \<and> fst (serve e (Req_IsScreenLockDisabled w) s') = fst (serve e (Req_IsScreenLockDisabled w) s)"
proof -
  have e: "\<not> CheckSystemPermission e" "CheckPermission e ACCESS_SCREEN_LOCK"
    using assms(3) by (auto simp: gate_defs split: if_splits option.splits)
  show ?thesis
    unfolding Let_def
    by (simp add: GetScreenLockAuthState_def IsLockedWithUserId_def GetUnlockPolicy_def IsScreenLockDisabled_def e
        assms(2) OnActiveUser_maps OnRemoveUser_maps OnActiveUser_store [OF assms(1)]
        OnRemoveUser_store [OF assms(1,2)] split: option.split)
qed

theorem removed_user_reborn_witness:
  "fst (serve sample_env (Req_IsScreenLockDisabled 100) (OnActiveUser sample_env 100 100 (OnRemoveUser sample_env 100
     (snd (SetScreenLockDisabled sample_env True 100 (initial_service [])))))) = (OK, BoolOut True)"
proof -
  let ?s = "snd (SetScreenLockDisabled sample_env True 100 (initial_service []))"
  have laws: "prefs_laws (prefs sample_env)" by (simp add: prefs_laws_sample)
  have p: "preferencesUtil sample_env" by (simp add: sample_env_def)
  have "fst (serve sample_env (Req_IsScreenLockDisabled 100) ?s) = (OK, BoolOut True)" by code_simp
  with removed_user_reborn [OF laws p sample_gates, where s = ?s and u = 100 and l = 100] show ?thesis
    by (simp add: Let_def del: serve.simps)
qed

section \<open>A new PIN\<close>

lemma strong_store [simp]:
  "store (SetStrongAuthStat e u r s) = store s" "store (InitStrongAuthStat e u r s) = store s"
  "store (DestroyStrongAuthStateInfo u s) = store s" "store (DestroyStrongAuthTimer u s) = store s"
  "store (ResetStrongAuthTimer e u p s) = store s"
  by (simp_all add: SetStrongAuthStat_def InitStrongAuthStat_def DestroyStrongAuthStateInfo_def
      NotifyStrongAuthChange_emit DestroyStrongAuthTimer_def ResetStrongAuthTimer_def StartStrongAuthTimer_period_def
      SetCredChangeTriggerPeriod_def CreateTimer_def GetBootTimeMs_def Let_def split: option.split)

text \<open>When the credential manager reports that the active user enrolled a PIN, the screen lock of that
  user is enabled from then on, whatever the flag was; the same notice from any other process changes
  nothing.\<close>

theorem new_pin_enables_lock:
  assumes "prefs_laws (prefs e)" and "preferencesUtil e"
  shows "let s' = Service_OnNotifyCredChangeEvent e u PIN ADD_CRED b s in
      (callingUid e = IDM_UID \<and> GetCurrentActiveOsAccountId e = u \<longrightarrow>
         ObtainBool (prefs e) (disabled_key u) False s' = False)
    \<and> (callingUid e \<noteq> IDM_UID \<longrightarrow> s' = s)"
proof -
  have cred: "store (OnNotifyCredChangeEvent e u PIN ADD_CRED b s') = store s'" for s' :: "('a, 'b) service_state_scheme"
    by (simp add: OnNotifyCredChangeEvent_def)
  let ?s1 = "snd (FreshDisabledState e False u s)"
  have "ObtainBool (prefs e) (disabled_key u) False ?s1 = False"
    using assms(2) by (simp add: FreshDisabledState_def disabled_flags.saved_and_refreshed [OF assms(1)])
  moreover have "ObtainBool (prefs e) (disabled_key u) False (OnNotifyCredChangeEvent e u PIN ADD_CRED b ?s1)
      = ObtainBool (prefs e) (disabled_key u) False ?s1"
    by (rule ObtainBool_store [OF cred])
  ultimately show ?thesis by (simp add: Service_OnNotifyCredChangeEvent_def Let_def)
qed

theorem new_pin_enables_lock_witness:
  "ObtainBool sample_prefs (disabled_key 100) False
     (Service_OnNotifyCredChangeEvent (sample_env\<lparr>callingUid := 1088\<rparr>) 100 PIN ADD_CRED False
        ((initial_service [(disabled_key 100, SBool True)]))) = False"
proof -
  let ?e = "sample_env\<lparr>callingUid := 1088\<rparr>"
  have "prefs_laws (prefs ?e)" "preferencesUtil ?e" by (simp_all add: prefs_laws_sample sample_env_def)
  from new_pin_enables_lock [OF this, of 100 False "initial_service [(disabled_key 100, SBool True)]"] show ?thesis
    by (simp add: Let_def IDM_UID_def GetCurrentActiveOsAccountId_def sample_env_def)
qed

section \<open>Retries\<close>

text \<open>Runs the first pending task, \<open>n\<close> times.\<close>

fun run_first :: "nat \<Rightarrow> 'p env \<Rightarrow> ('p, 's) service_state_scheme \<Rightarrow> ('p, 's) service_state_scheme option" where
  "run_first 0 e s = Some s"
| "run_first (Suc n) e s =
     (case tasks s of
        [] \<Rightarrow> Some s
      | t # ts \<Rightarrow> (case run_task e t (s\<lparr>tasks := ts\<rparr>) of None \<Rightarrow> None | Some s' \<Rightarrow> run_first n e s'))"

lemma display_chain:
  assumes "\<forall>k. \<not> registerDisplayListener e k" and "queueSet s" and "0 \<le> n" and "n \<le> MAX_RETRY_TIMES"
    and "tasks s = []"
  shows "\<exists>s'. run_first (nat (MAX_RETRY_TIMES - n)) e (RegisterDisplayPowerEventListener e n s) = Some s'
    \<and> tasks s' = [] \<and> \<not> systemReady s' \<and> runningState s' = runningState s
    \<and> displayRegistrations s' = displayRegistrations s + nat (MAX_RETRY_TIMES - n) + 1"
  using assms(2-)
proof (induction "nat (MAX_RETRY_TIMES - n)" arbitrary: n s)
  case 0
  then have "n = MAX_RETRY_TIMES" by simp
  with 0 assms(1) show ?case
    by (simp add: RegisterDisplayPowerEventListener_def Let_def)
next
  case (Suc k)
  let ?s1 = "s\<lparr>systemReady := False, displayRegistrations := Suc (displayRegistrations s)\<rparr>"
  have less: "n + 1 \<le> MAX_RETRY_TIMES" using Suc.hyps(2) by linarith
  have step: "RegisterDisplayPowerEventListener e n s = ?s1\<lparr>tasks := [RegisterDisplayTask (n + 1)]\<rparr>"
    using assms(1) less Suc.prems by (simp add: RegisterDisplayPowerEventListener_def queue_submit_def submit_def Let_def)
  have k: "k = nat (MAX_RETRY_TIMES - (n + 1))" using Suc.hyps(2) by linarith
  have s1: "queueSet (?s1\<lparr>tasks := []\<rparr>)" "0 \<le> n + 1" "tasks (?s1\<lparr>tasks := []\<rparr>) = []"
    using Suc.prems by simp_all
  obtain s' where "run_first k e (RegisterDisplayPowerEventListener e (n + 1) (?s1\<lparr>tasks := []\<rparr>)) = Some s'"
    "tasks s' = [] \<and> \<not> systemReady s' \<and> runningState s' = runningState s"
    "displayRegistrations s' = Suc (displayRegistrations s) + k + 1"
    using Suc.hyps(1) [OF k s1(1,2) less s1(3)] k by auto
  then show ?case using step Suc.hyps(2) [symmetric] by simp
qed

text \<open>C37: when the display manager refuses every registration, the service gives up after exactly 21
  attempts: the retries it submits end, no work is left over, and the service is neither ready nor
  running; the first successful attempt makes it ready and running and ends the retries.\<close>

theorem display_registration_ends:
  assumes "queueSet s" and "tasks s = []"
  shows "if \<forall>k. \<not> registerDisplayListener e k
    then \<exists>s'. run_first 20 e (RegisterDisplayPowerEventListener e 0 s) = Some s'
      \<and> tasks s' = [] \<and> \<not> systemReady s' \<and> runningState s' = runningState s
      \<and> displayRegistrations s' = displayRegistrations s + 21
    else registerDisplayListener e (displayRegistrations s) = systemReady (RegisterDisplayPowerEventListener e 0 s)
      \<and> (registerDisplayListener e (displayRegistrations s) \<longrightarrow>
           tasks (RegisterDisplayPowerEventListener e 0 s) = []
         \<and> runningState (RegisterDisplayPowerEventListener e 0 s) = STATE_RUNNING)"
proof (cases "\<forall>k. \<not> registerDisplayListener e k")
  case True
  from display_chain [OF True assms(1) _ _ assms(2), of 0] show ?thesis
    using True by (simp add: MAX_RETRY_TIMES_def add.commute)
next
  case False
  then show ?thesis
    using assms by (auto simp: RegisterDisplayPowerEventListener_def queue_submit_def submit_def Let_def)
qed

theorem display_registration_ends_witness:
  "\<exists>s'. run_first 20 (sample_env\<lparr>registerDisplayListener := (\<lambda>_. False)\<rparr>)
      (RegisterDisplayPowerEventListener (sample_env\<lparr>registerDisplayListener := (\<lambda>_. False)\<rparr>) 0
        ((initial_service [])\<lparr>queueSet := True\<rparr>)) = Some s' \<and> displayRegistrations s' = 21"
proof -
  have "queueSet ((initial_service [])\<lparr>queueSet := True\<rparr>)" "tasks ((initial_service [] :: sample_store service_state)\<lparr>queueSet := True\<rparr>) = []"
    by (simp_all add: initial_service_def)
  from display_registration_ends [of "(initial_service [])\<lparr>queueSet := True\<rparr>" "sample_env\<lparr>registerDisplayListener := (\<lambda>_. False)\<rparr>"]
  show ?thesis by (auto simp: initial_service_def)
qed

section \<open>The watch request\<close>

text \<open>On a locked watch, a request to unlock it that the focus check refuses is nevertheless answered
  with success: the caller's listener is not recorded and will never be called.\<close>

theorem watch_unlock_hides_refusal:
  assumes "gate e (Req_UnlockWatch l) = None" and "fst (IsScreenLocked e s)"
    and "gate e (Req_UnlockScreen l) = Some c"
  shows "fst (serve e (Req_UnlockWatch l) s) = (OK, NoOut)
    \<and> unlockVecListeners (snd (serve e (Req_UnlockWatch l) s)) = unlockVecListeners (snd (IsScreenLocked e s))"
proof -
  have hap: "\<not> (tokenTypeFlag e (callingTokenId e) = TOKEN_HAP \<and> \<not> IsSystemApp e)"
    using assms(1) by (auto simp: gate_defs split: if_splits)
  have "serve e (Req_UnlockScreen l) (snd (IsScreenLocked e s)) = ((c, NoOut), snd (IsScreenLocked e s))"
    by (rule serve_refused [OF assms(3)])
  then have "snd (UnlockScreen e l (snd (IsScreenLocked e s))) = snd (IsScreenLocked e s)"
    by (simp add: no_out_def)
  with assms(2) hap show ?thesis by (auto simp: no_out_def UnlockWatch_def split_def Let_def)
qed

definition unfocused_env :: "sample_store env" where
  "unfocused_env = sample_env\<lparr>tokenTypeFlag := (\<lambda>_. TOKEN_HAP), permissionGranted := (\<lambda>_ _. False), focusPids := []\<rparr>"

theorem watch_unlock_hides_refusal_witness:
  "fst (serve unfocused_env (Req_UnlockWatch 5) (initial_service [])) = (OK, NoOut)"
proof -
  have 1: "gate unfocused_env (Req_UnlockWatch 5) = None"
    by (simp add: gate_defs unfocused_env_def sample_env_def IsSystemApp_def)
  have 2: "fst (IsScreenLocked unfocused_env (initial_service []))" by code_simp
  have 3: "gate unfocused_env (Req_UnlockScreen 5) = Some (Code E_SCREENLOCK_NOT_FOCUS_APP)"
    by (simp add: gate_defs unfocused_env_def sample_env_def CheckPermission_def IsAppInForeground_def)
  show ?thesis using watch_unlock_hides_refusal [OF 1 2 3] by (rule conjunct1)
qed

end
