(* ===== verification/Quiet_Frames.thy ===== *)
theory Quiet_Frames
  imports System_Props
begin

text \<open>
  What the operations of the service leave alone, once for three views at a time: the users' data
  (\<open>accounts\<close>), the listeners who wait and the answers given (\<open>answers\<close>), and the tables of inner
  listeners.  The lemmas are simplification rules; the theories on histories of the whole service rest
  on them.
\<close>

section \<open>The store and the answers given\<close>

fun is_answer :: "effect \<Rightarrow> bool" where
  "is_answer (LockCallback l r) = True"
| "is_answer (UnlockCallback l r) = True"
| "is_answer _ = False"

definition answered :: "('s base_state_scheme) \<Rightarrow> effect list" where
  "answered s = filter is_answer (trace s)"

definition ledger :: "('p, 's) prefs_state_scheme \<Rightarrow> 'p \<times> effect list" where
  "ledger s = (store s, answered s)"

lemma answered_emit: "answered (emit es s) = answered s @ filter is_answer es"
  by (simp add: answered_def)

lemma ledger_emit [simp]: "filter is_answer es = [] \<Longrightarrow> ledger (emit es s) = ledger s"
  by (simp add: ledger_def answered_def)

lemma answer_free [simp]:
  "filter is_answer (reported ev s) = []" "filter is_answer (told u st t s') = []"
  "filter is_answer (pre_auth_effects u a s) = []" "filter is_answer (strong_auth_effects e u r s'') = []"
proof -
  show r: "filter is_answer (reported ev s) = []" for ev by (simp add: reported_def split: option.split)
  show "filter is_answer (told u st t s') = []" by (simp add: told_def filter_empty_conv)
  show "filter is_answer (pre_auth_effects u a s) = []" by (simp add: pre_auth_effects_def r)
  have "filter is_answer (told u st t x) = []" for u st t and x :: "('e, 'f) strong_state_scheme"
    by (simp add: told_def filter_empty_conv)
  moreover have "filter is_answer (reported ev x) = []" for ev and x :: "('e, 'f) strong_state_scheme"
    by (simp add: reported_def split: option.split)
  ultimately show "filter is_answer (strong_auth_effects e u r s'') = []"
    by (simp add: strong_auth_effects_def)
qed

lemma ledger_quiet_events [simp]:
  "ledger (OnDisplayPowerEvent b pe st s) = ledger s" "ledger (UserIamReadyCallback k v s) = ledger s"
  "ledger (SystemEventCallBack ev s) = ledger s"
proof -
  have "ledger (s\<lparr>stateValue := v\<rparr>) = ledger s" for v by (simp add: ledger_def answered_def)
  then show "ledger (OnDisplayPowerEvent b pe st s) = ledger s" "ledger (UserIamReadyCallback k v s) = ledger s"
    "ledger (SystemEventCallBack ev s) = ledger s"
    by (simp_all add: OnDisplayPowerEvent_def power_handlers SystemEventCallBack_emit UserIamReadyCallback_def
        UserIamReadyNotify_emit split: display_power_event.split option.split)
qed

lemma ledger_strong_updates [simp]:
  "ledger (s\<lparr>strongAuthStateInfo := m\<rparr>) = ledger s" "ledger (s\<lparr>strongAuthTimerInfo := n\<rparr>) = ledger s"
  "ledger (s\<lparr>clockReads := c\<rparr>) = ledger s" "ledger (s\<lparr>timersCreated := c\<rparr>) = ledger s"
  "ledger (s\<lparr>authSuccessListener := b\<rparr>) = ledger s"
  by (simp_all add: ledger_def answered_def)

lemma ledger_reasons [simp]:
  "ledger (SetStrongAuthStat e u r s) = ledger s" "ledger (InitStrongAuthStat e u r s) = ledger s"
  "ledger (DestroyStrongAuthStateInfo u s) = ledger s" "ledger (DestroyStrongAuthTimer u s) = ledger s"
  "ledger (ResetStrongAuthTimer e u p s) = ledger s" "ledger (StartStrongAuthTimer_period e u p s) = ledger s"
  "ledger (snd (GetStrongAuthTriggerPeriod e u s)) = ledger s"
  by (simp_all add: SetStrongAuthStat_def InitStrongAuthStat_def DestroyStrongAuthStateInfo_def
      NotifyStrongAuthChange_emit DestroyStrongAuthTimer_def ResetStrongAuthTimer_def StartStrongAuthTimer_period_def
      SetCredChangeTriggerPeriod_def CreateTimer_def GetBootTimeMs_def GetStrongAuthTriggerPeriod_def Let_def
      split: option.split)

lemma ledger_strong [simp]:
  "ledger (OnTrigger e ti s) = ledger s" "ledger (OnNotifyAuthSuccessEvent e u a w s) = ledger s"
  "ledger (OnNotifyCredChangeEvent e u a c b s) = ledger s" "ledger (OnCredentialInfo e u res n s) = ledger s"
  "ledger (AccountUnlocked e u s) = ledger s" "ledger (RegistAuthEventListener s) = ledger s"
  "ledger (UnRegistAuthEventListener s) = ledger s" "ledger (snd (GetCredInfo e u s)) = ledger s"
  by (simp_all add: callback_defs NotifyStrongAuthChange_emit Let_def split_def split: option.split)

lemma ledger_recipients:
  "ledger (snd (AddDeathRecipient e ty lo s)) = ledger s" "ledger (snd (RemoveDeathRecipient lo s)) = ledger s"
  "ledger (snd (AddInnerListener u ty l s)) = ledger s" "ledger (snd (RemoveInnerListener ty l s)) = ledger s"
proof -
  have "ledger (s\<lparr>deathRecipientMap := m\<rparr>) = ledger s" "ledger (s\<lparr>innerListenMap := n\<rparr>) = ledger s" for m n
    and s :: "('a, 'b) inner_state_scheme" by (simp_all add: ledger_def answered_def)
  then show "ledger (snd (AddDeathRecipient e ty lo s)) = ledger s" "ledger (snd (RemoveDeathRecipient lo s)) = ledger s"
    "ledger (snd (AddInnerListener u ty l s)) = ledger s" "ledger (snd (RemoveInnerListener ty l s)) = ledger s"
    by (simp_all add: AddDeathRecipient_def RemoveDeathRecipient_def AddInnerListener_def RemoveInnerListener_def Let_def
        split: option.split prod.split)
qed

lemma ledger_registration [simp]:
  "ledger (snd (RegisterInnerListener e u ty lo s)) = ledger s"
  "ledger (snd (UnRegisterInnerListener ty lo s)) = ledger s"
  by (simp_all add: RegisterInnerListener_def UnRegisterInnerListener_def Let_def split_def ledger_recipients
      split: option.split)

lemma ledger_unregister_dead [simp]: "ledger (unregister_dead r d s) = ledger s"
  by (induction r d s rule: unregister_dead.induct) simp_all

lemma ledger_death [simp]: "ledger (OnRemoteDied ro s) = ledger s"
  by (simp add: OnRemoteDied_def split: option.split)

lemma ledger_watch_updates [simp]:
  "ledger (s\<lparr>isWearOn := b\<rparr>) = ledger s" "ledger (s\<lparr>isWristUnlock := b\<rparr>) = ledger s"
  "ledger (s\<lparr>appStateObserver := b\<rparr>) = ledger s" "ledger (s\<lparr>leaveWristSettingObserver := b\<rparr>) = ledger s"
  "ledger (s\<lparr>unlockedRecord := r\<rparr>) = ledger s" "ledger (s\<lparr>sensorRegistered := b\<rparr>) = ledger s"
  "ledger (s\<lparr>wearDisplayRegistered := b\<rparr>) = ledger s"
  by (simp_all add: ledger_def answered_def)

lemma ledger_watch_parts [simp]:
  "ledger (snd (IsPaymentApp e s)) = ledger s" "ledger (snd (BeginWidgetAuth e s)) = ledger s"
  "ledger (registerAppStateObserver e s') = ledger s'" "ledger (unregisterAppStateObserver e s') = ledger s'"
  "ledger (registerLeaveWristSettingObserver e s') = ledger s'"
  "ledger (unregisterLeaveWristSettingObserver e s') = ledger s'"
  "ledger (RegisterSensorListener s') = ledger s'" "ledger (WearDisplay_Register s') = ledger s'"
  by (simp_all add: IsPaymentApp_def GetPaymentServices_def BeginWidgetAuth_def ReportFaultCode_def SendEvent_def
      observer_defs RegisterSensorListener_def WearDisplay_Register_def Let_def split_def)

lemma ledger_records [simp]:
  "ledger (snd (UnlockedRecord_add e b s)) = ledger s" "ledger (snd (UnlockedRecord_remove e b s)) = ledger s"
  "ledger (UnlockedRecord_clear e s) = ledger s"
  by (simp_all add: UnlockedRecord_add_def UnlockedRecord_remove_def UnlockedRecord_clear_def Let_def)

lemma ledger_watch [simp]:
  "ledger (snd (Watch_unlockScreen e b s)) = ledger s" "ledger (OnWindowHidden e h s) = ledger s"
  "ledger (LeaveWrist_OnChange e s) = ledger s" "ledger (WearSensorCallback e ev s) = ledger s"
  "ledger (WearDisplay_OnDisplayPowerEvent e pe st s) = ledger s"
  by (simp_all add: Watch_unlockScreen_def watch_handlers Let_def split_def split: option.split)

section \<open>What the operations of the service leave alone\<close>

definition accounts :: "('p, 's) service_state_scheme \<Rightarrow> (int, int) stdmap \<times> (int, bool) stdmap \<times> 'p" where
  "accounts s = (authStateInfo s, isScreenlockedMap s, store s)"

definition answers :: "('p, 's) service_state_scheme \<Rightarrow> effect list \<times> nat list \<times> nat list" where
  "answers s = (answered s, unlockVecListeners s, lockVecListeners s)"

type_synonym listener_tables =
  "(listener, int \<times> bool) stdmap \<times> (int, (int, listener list) stdmap) stdmap"

definition quiet_view ::
  "('p, 's) service_state_scheme
     \<Rightarrow> ((int, int) stdmap \<times> (int, bool) stdmap \<times> 'p) \<times> (effect list \<times> nat list \<times> nat list) \<times> listener_tables"
where
  "quiet_view s = (accounts s, answers s, inner_tables s)"

lemma views_frame:
  assumes "svc_view s' = svc_view s" and "ledger s' = ledger s"
  shows "accounts s' = accounts s" and "answers s' = answers s"
  using assms by (simp_all add: accounts_def answers_def svc_view_def ledger_def)

lemma quiet_frame:
  "svc_view s' = svc_view s \<Longrightarrow> ledger s' = ledger s \<Longrightarrow> inner_tables s' = inner_tables s
     \<Longrightarrow> quiet_view s' = quiet_view s"
  using views_frame [of s' s] by (simp add: quiet_view_def)

lemma quietD:
  assumes "quiet_view s' = quiet_view s"
  shows "accounts s' = accounts s" and "answers s' = answers s" and "inner_tables s' = inner_tables s"
  using assms by (simp_all add: quiet_view_def)

lemma quiet_updates_service:
  "quiet_view (s\<lparr>tasks := a1\<rparr>) = quiet_view s" "quiet_view (s\<lparr>queueSet := a2\<rparr>) = quiet_view s"
  "quiet_view (s\<lparr>systemReady := a3\<rparr>) = quiet_view s" "quiet_view (s\<lparr>systemEventListener := a4\<rparr>) = quiet_view s"
  "quiet_view (s\<lparr>stateValue := a5\<rparr>) = quiet_view s" "quiet_view (s\<lparr>runningState := a6\<rparr>) = quiet_view s"
  "quiet_view (s\<lparr>instanceSet := a7\<rparr>) = quiet_view s" "quiet_view (s\<lparr>accountSubscribers := a8\<rparr>) = quiet_view s"
  "quiet_view (s\<lparr>displayPowerEventListener := a9\<rparr>) = quiet_view s"
  "quiet_view (s\<lparr>credChangeListener := b1\<rparr>) = quiet_view s" "quiet_view (s\<lparr>eventSubscriber := b2\<rparr>) = quiet_view s"
  "quiet_view (s\<lparr>cmdHandler := b3\<rparr>) = quiet_view s" "quiet_view (s\<lparr>displayRegistrations := b4\<rparr>) = quiet_view s"
  "quiet_view (s\<lparr>publishCalls := b5\<rparr>) = quiet_view s" "quiet_view (s\<lparr>unlockVecUserIds := b6\<rparr>) = quiet_view s"
  by (simp_all add: quiet_view_def accounts_def answers_def answered_def)

lemma quiet_emit: "filter is_answer es = [] \<Longrightarrow> quiet_view (emit es s) = quiet_view s"
  by (simp add: quiet_view_def accounts_def answers_def answered_emit)

lemma quiet_components:
  "quiet_view (OnDisplayPowerEvent b pe st s) = quiet_view s" "quiet_view (UserIamReadyCallback k v s) = quiet_view s"
  "quiet_view (SystemEventCallBack ev s) = quiet_view s" "quiet_view (SetStrongAuthStat e u r s) = quiet_view s"
  "quiet_view (OnTrigger e ti s) = quiet_view s" "quiet_view (OnNotifyAuthSuccessEvent e u a w s) = quiet_view s"
  "quiet_view (OnNotifyCredChangeEvent e u a c b s) = quiet_view s"
  "quiet_view (OnCredentialInfo e u res n s) = quiet_view s" "quiet_view (AccountUnlocked e u s) = quiet_view s"
  "quiet_view (RegistAuthEventListener s) = quiet_view s" "quiet_view (UnRegistAuthEventListener s) = quiet_view s"
  "quiet_view (snd (GetCredInfo e u s)) = quiet_view s"
  "quiet_view (snd (Watch_unlockScreen e b s)) = quiet_view s" "quiet_view (OnWindowHidden e h s) = quiet_view s"
  "quiet_view (LeaveWrist_OnChange e s) = quiet_view s" "quiet_view (WearSensorCallback e sv s) = quiet_view s"
  "quiet_view (WearDisplay_OnDisplayPowerEvent e pe st s) = quiet_view s"
  "quiet_view (snd (IsPaymentApp e s)) = quiet_view s"
  by (rule quiet_frame; simp add: sl_frame SystemEventCallBack_emit)+

lemmas quiet_parts = quiet_updates_service quiet_emit quiet_components

lemma quiet_requests:
  "quiet_view (submit t s) = quiet_view s" "quiet_view (queue_submit t s) = quiet_view s"
  "quiet_view (snd (IsScreenLocked e s)) = quiet_view s" "quiet_view (snd (GetSecure e s)) = quiet_view s"
  "quiet_view (NotifyDisplayEvent d s) = quiet_view s" "quiet_view (NotifyUnlockListener e r s) = quiet_view s"
  "quiet_view (PublishEvent a u s) = quiet_view s" "quiet_view (PreAuthStateNotify u a' s) = quiet_view s"
  "quiet_view (OnDeviceLockStateChanged u i s) = quiet_view s" "quiet_view (UnlockPolicyChanged u p s) = quiet_view s"
  "quiet_view (RegisterDisplayPowerEventListener e m s) = quiet_view s" "quiet_view (snd (Init e s)) = quiet_view s"
  "quiet_view (OnSystemReady_turn n s) = quiet_view s" "quiet_view (snd (OnSystemEvent e lo s)) = quiet_view s"
  "quiet_view (OnStart e s) = quiet_view s" "quiet_view (OnRemoveSystemAbility e sa s) = quiet_view s"
  "quiet_view (RegistIamEventListener s) = quiet_view s" "quiet_view (SubscribeAcccount ae s) = quiet_view s"
  "quiet_view (SubscribeEvent e s) = quiet_view s" "quiet_view (SubscribeUserIamReady s) = quiet_view s"
  "quiet_view (ResetFfrtQueue s) = quiet_view s"
proof -
  show submit: "quiet_view (submit t s) = quiet_view s" "quiet_view (queue_submit t s) = quiet_view s"
    for t and s :: "('a, 'b) service_state_scheme" by (simp_all add: submit_def queue_submit_def quiet_parts)
  show "quiet_view (snd (IsScreenLocked e s)) = quiet_view s" "quiet_view (snd (GetSecure e s)) = quiet_view s"
    "quiet_view (NotifyDisplayEvent d s) = quiet_view s" "quiet_view (NotifyUnlockListener e r s) = quiet_view s"
    "quiet_view (PublishEvent a u s) = quiet_view s" "quiet_view (PreAuthStateNotify u a' s) = quiet_view s"
    "quiet_view (OnDeviceLockStateChanged u i s) = quiet_view s" "quiet_view (UnlockPolicyChanged u p s) = quiet_view s"
    by (simp_all add: submit quiet_parts IsScreenLocked_def GetSecure_def NotifyDisplayEvent_def NotifyUnlockListener_def
        PublishEvent_def PreAuthStateNotify_emit UnlockPolicyChanged_emit device_lock_notifier.notify_emits
        Let_def split_def)
  show init: "quiet_view (snd (Init e s)) = quiet_view s" for s :: "('a, 'b) service_state_scheme"
    by (simp add: Init_def quiet_parts Let_def)
  show "quiet_view (RegisterDisplayPowerEventListener e m s) = quiet_view s"
    "quiet_view (OnSystemReady_turn n s) = quiet_view s" "quiet_view (snd (OnSystemEvent e lo s)) = quiet_view s"
    "quiet_view (OnStart e s) = quiet_view s" "quiet_view (OnRemoveSystemAbility e sa s) = quiet_view s"
    "quiet_view (RegistIamEventListener s) = quiet_view s" "quiet_view (SubscribeAcccount ae s) = quiet_view s"
    "quiet_view (SubscribeEvent e s) = quiet_view s" "quiet_view (SubscribeUserIamReady s) = quiet_view s"
    "quiet_view (ResetFfrtQueue s) = quiet_view s"
    by (simp_all add: submit init quiet_parts RegisterDisplayPowerEventListener_def OnSystemReady_turn_def OnSystemEvent_def
        SetCurrentUser_def OnStart_def InitServiceHandler_def RegisterDumpCommand_def RegisterCommand_def
        OnRemoveSystemAbility_def UnRegistIamEventListener_def RegistIamEventListener_def SubscribeAcccount_def
        SubscribeEvent_def SubscribeUserIamReady_def ResetFfrtQueue_def Let_def split_def split: option.split)
qed

lemmas quiet_operations = quiet_parts quiet_requests

lemmas accounts_frames [simp] = quiet_operations [THEN quietD(1)]
lemmas answers_frames [simp] = quiet_operations [THEN quietD(2)]

lemmas tables_frames [simp] = quiet_operations [THEN quietD(3)]

text \<open>Operations that leave some of the three alone.\<close>

lemma registration_frames [simp]:
  "accounts (snd (RegisterInnerListener e u ty lo s)) = accounts s"
  "accounts (snd (UnRegisterInnerListener ty lo s)) = accounts s" "accounts (OnRemoteDied ro s) = accounts s"
  "answers (snd (RegisterInnerListener e u ty lo s)) = answers s"
  "answers (snd (UnRegisterInnerListener ty lo s)) = answers s" "answers (OnRemoteDied ro s) = answers s"
  by (rule views_frame; simp add: sl_frame)+

lemma accounts_listeners [simp]:
  "accounts (s\<lparr>lockVecListeners := a\<rparr>) = accounts s" "accounts (s\<lparr>unlockVecListeners := b\<rparr>) = accounts s"
  "accounts (emit es s) = accounts s"
  by (simp_all add: accounts_def)

lemma answers_accounts [simp]:
  "answers (s\<lparr>authStateInfo := a\<rparr>) = answers s" "answers (s\<lparr>isScreenlockedMap := m\<rparr>) = answers s"
  "answers (SetScreenlocked b u s) = answers s" "answers (AuthStateInit u s) = answers s"
  by (simp_all add: answers_def answered_def SetScreenlocked_def AuthStateInit_def Let_def split: option.split)

lemma tables_accounts [simp]:
  "inner_tables (SetScreenlocked b u s) = inner_tables s" "inner_tables (AuthStateInit u s) = inner_tables s"
  by (simp_all add: SetScreenlocked_def AuthStateInit_def Let_def split: option.split)

lemma answers_prefs [simp]:
  "answers (snd (SaveBool np k b s)) = answers s" "answers (snd (SaveInt np k i s)) = answers s"
  "answers (snd (RemoveKey np k s)) = answers s" "answers (Refresh np s) = answers s"
  by (simp_all add: answers_def answered_def prefs_write_defs Let_def split_def)

end
