(* ===== verification/Service_Spec.thy ===== *)
theory Service_Spec
  imports Quiet_Frames
begin

text \<open>
  The abstract specification of the service's data about users, and the simulation of one step: every
  operation of \<open>screenlock_system_ability.cpp\<close>, every callback and every pending task changes what
  the service knows about a user exactly as the changes say that the step means (\<open>view_step\<close>).
  \<open>happen\<close> names the steps of \<open>service_step\<close> and computes them, so that a history is a list.
\<close>

section \<open>Requests and tasks that change no user's data\<close>

lemma accounts_UnlockInner [simp]: "accounts (snd (UnlockInner e l s)) = accounts s"
  by (simp add: UnlockInner_def Let_def split_def)

lemma accounts_task: "run_task e t s = Some s' \<Longrightarrow> accounts s' = accounts s"
proof (cases t)
  case (UnlockCallbackTask r u)
  assume run: "run_task e t s = Some s'"
  have "unlock_callbacks is r u s = Some s'' \<Longrightarrow> accounts s'' = accounts s" for "is" s s''
    by (induction "is" arbitrary: s) (auto simp: CallbackUnlockListener_def Let_def split: option.splits if_splits)
  with run UnlockCallbackTask show ?thesis by (auto simp: UnlockCallback_run_def split: option.splits)
qed (auto simp: Init_def RegisterDisplayPowerEventListener_def OnSystemReady_turn_def LockCallback_run_def Let_def
    split: option.splits if_splits)

section \<open>The specification\<close>

text \<open>
  What the service promises about one user: the state of the screen, the authentication state (both
  absent for a user it does not know), the disabled flag and the unlock policy; and the changes the
  user's data can go through.
\<close>

record user_view =
  screenLock :: "bool option"
  authState :: "int option"
  lockDisabled :: bool
  unlockPolicy :: int

datatype account_change =
    ScreenReported int bool
  | AuthReported int int
  | DisabledSet int bool
  | PolicySet int int
  | Activated int
  | Forgotten int
  | KeyErased string

definition some_or :: "'a \<Rightarrow> 'a option \<Rightarrow> 'a option" where
  "some_or d x = (case x of None \<Rightarrow> Some d | Some v \<Rightarrow> Some v)"

fun apply_change :: "int \<Rightarrow> account_change \<Rightarrow> user_view \<Rightarrow> user_view" where
  "apply_change u (ScreenReported w b) v = (if w = u then v\<lparr>screenLock := Some b\<rparr> else v)"
| "apply_change u (AuthReported w a) v = (if w = u then v\<lparr>authState := Some a\<rparr> else v)"
| "apply_change u (DisabledSet w b) v = (if w = u then v\<lparr>lockDisabled := b\<rparr> else v)"
| "apply_change u (PolicySet w p) v = (if w = u then v\<lparr>unlockPolicy := p\<rparr> else v)"
| "apply_change u (Activated w) v =
     (if w = u then v\<lparr>screenLock := some_or True (screenLock v),
                      authState := some_or (auth_code UNAUTH) (authState v)\<rparr> else v)"
| "apply_change u (Forgotten w) v = (if w = u then v\<lparr>screenLock := None, authState := None\<rparr> else v)"
| "apply_change u (KeyErased k) v =
     (if k = disabled_key u then v\<lparr>lockDisabled := False\<rparr>
      else if k = preferKey u then v\<lparr>unlockPolicy := 0\<rparr> else v)"

fun concerns :: "int \<Rightarrow> account_change \<Rightarrow> bool" where
  "concerns u (ScreenReported w b) \<longleftrightarrow> w = u"
| "concerns u (AuthReported w a) \<longleftrightarrow> w = u"
| "concerns u (DisabledSet w b) \<longleftrightarrow> w = u"
| "concerns u (PolicySet w p) \<longleftrightarrow> w = u"
| "concerns u (Activated w) \<longleftrightarrow> w = u"
| "concerns u (Forgotten w) \<longleftrightarrow> w = u"
| "concerns u (KeyErased k) \<longleftrightarrow> k = disabled_key u \<or> k = preferKey u"

lemma unconcerned: "\<not> concerns u c \<Longrightarrow> apply_change u c v = v"
  by (cases c) auto

lemma fold_concerned: "fold (apply_change u) (filter (concerns u) cs) v = fold (apply_change u) cs v"
  by (induction cs arbitrary: v) (simp_all add: unconcerned)

text \<open>What the queries about a user answer, by the specification.\<close>

fun promised :: "request \<Rightarrow> (int \<times> (user_view \<Rightarrow> status \<times> out_value)) option" where
  "promised (Req_IsLockedWithUserId u) = Some (u, \<lambda>v. case screenLock v of
       Some b \<Rightarrow> (OK, BoolOut b) | None \<Rightarrow> (Code E_SCREENLOCK_USER_ID_INVALID, BoolOut True))"
| "promised (Req_GetAuthState u) = Some (u, \<lambda>v. case authState v of
       Some a \<Rightarrow> (OK, IntOut a) | None \<Rightarrow> (OK, IntOut (auth_code UNAUTH)))"
| "promised (Req_IsDeviceLocked u) = Some (u, \<lambda>v. case authState v of
       Some a \<Rightarrow> (OK, BoolOut (GetDeviceLockedStateByAuth a))
     | None \<Rightarrow> (Code E_SCREENLOCK_USER_ID_INVALID, BoolOut True))"
| "promised (Req_IsScreenLockDisabled u) = Some (u, \<lambda>v. (OK, BoolOut (lockDisabled v)))"
| "promised (Req_GetUnlockPolicy u) = Some (u, \<lambda>v. case authState v of
       Some _ \<Rightarrow> (OK, IntOut (unlockPolicy v)) | None \<Rightarrow> (Code E_SCREENLOCK_USER_ID_INVALID, IntOut 0))"
| "promised _ = None"

definition user_view_of :: "'p native_prefs \<Rightarrow> int \<Rightarrow> ('p, 's) service_state_scheme \<Rightarrow> user_view" where
  "user_view_of np u s = \<lparr>screenLock = mfind (isScreenlockedMap s) u, authState = mfind (authStateInfo s) u,
     lockDisabled = ObtainBool np (disabled_key u) False s, unlockPolicy = ObtainInt np (preferKey u) 0 s\<rparr>"

lemma user_view_frame: "accounts s' = accounts s \<Longrightarrow> user_view_of np u s' = user_view_of np u s"
  by (simp add: accounts_def user_view_of_def ObtainBool_def ObtainInt_def)

lemmas view_frames [simp] = accounts_frames [THEN user_view_frame] accounts_listeners [THEN user_view_frame]
  registration_frames(1-3) [THEN user_view_frame]

lemma query_promised:
  assumes "promised req = Some (u, f)" and "gate d req = None" and "preferencesUtil d" and "prefs d = np"
  shows "fst (serve d req s) = f (user_view_of np u s)"
  using assms
  by (cases req)
    (auto simp: user_view_of_def IsLockedWithUserId_def GetScreenLockAuthState_def IsDeviceLocked_def
      IsScreenLockDisabled_def GetUnlockPolicy_def gate_defs split: if_splits option.splits)

section \<open>What happens to the service\<close>

text \<open>
  The steps of \<open>service_step\<close> by name, so that a history is a list: the environment of the step
  and what happened in it.
\<close>

datatype happening =
    Request request
  | PendingTask nat
  | Started
  | AbilityAdded system_ability_id
  | AbilityRemoved system_ability_id
  | AccountChanged account_event int
  | DisplayPower display_power_event event_status
  | IamReady "string option" "string option"
  | CredChanged int auth_type cred_change_event bool
  | AuthSucceeded int auth_type bool
  | CredReported int auth_result nat
  | TimerFired auth_timer
  | CommonEventReceived string "string \<Rightarrow> string"
  | ClientDied "nat option"
  | WindowHidden string
  | SettingChanged
  | SensorReported "(bool \<times> bool option) option"
  | WearDisplay display_power_event event_status
  | QueueReset

fun happen :: "'p env \<Rightarrow> happening \<Rightarrow> 'p service_state \<Rightarrow> 'p service_state option" where
  "happen e (Request req) s = Some (snd (serve e req s))"
| "happen e (PendingTask i) s =
     (if i < length (tasks s) then run_task e (tasks s ! i) (s\<lparr>tasks := remove_at i (tasks s)\<rparr>) else None)"
| "happen e Started s = Some (OnStart e s)"
| "happen e (AbilityAdded sa) s = Some (OnAddSystemAbility e sa s)"
| "happen e (AbilityRemoved sa) s = Some (OnRemoveSystemAbility e sa s)"
| "happen e (AccountChanged ev u) s = Some (OnAccountsChanged e ev u s)"
| "happen e (DisplayPower pe st) s = Some (OnDisplayPowerEvent (instanceSet s) pe st s)"
| "happen e (IamReady k v) s = Some (UserIamReadyCallback k v s)"
| "happen e (CredChanged u a c b) s = Some (Service_OnNotifyCredChangeEvent e u a c b s)"
| "happen e (AuthSucceeded u a w) s = Some (OnNotifyAuthSuccessEvent e u a w s)"
| "happen e (CredReported u r n) s = Some (OnCredentialInfo e u r n s)"
| "happen e (TimerFired t) s = Some (OnTrigger e t s)"
| "happen e (CommonEventReceived act par) s = Some (OnReceiveEvent e act par s)"
| "happen e (ClientDied ro) s = Some (OnRemoteDied ro s)"
| "happen e (WindowHidden b) s = Some (OnWindowHidden e b s)"
| "happen e SettingChanged s = Some (LeaveWrist_OnChange e s)"
| "happen e (SensorReported ev) s = Some (WearSensorCallback e ev s)"
| "happen e (WearDisplay pe st) s = Some (WearDisplay_OnDisplayPowerEvent e pe st s)"
| "happen e QueueReset s = Some (ResetFfrtQueue s)"

lemma service_step_happen: "service_step s s' \<longleftrightarrow> (\<exists>e h. happen e h s = Some s')"
proof
  show "service_step s s' \<Longrightarrow> \<exists>e h. happen e h s = Some s'"
    by (cases rule: service_step.cases, assumption) (metis happen.simps)+
  assume "\<exists>e h. happen e h s = Some s'"
  then obtain e h where "happen e h s = Some s'" by blast
  then show "service_step s s'" by (cases h) (auto intro: service_step.intros split: if_splits)
qed

text \<open>The changes of users' data one step means: from the request and its status, or from the event.\<close>

fun request_means :: "'p env \<Rightarrow> request \<Rightarrow> status \<Rightarrow> account_change list" where
  "request_means e (Req_SendScreenLockEvent ev r) st =
     (if st \<noteq> OK then []
      else if ev = LOCK_SCREEN_RESULT \<and> r = screen_change_code SCREEN_SUCC
      then [ScreenReported (GetUserIdFromCallingUid e) True]
      else if ev = UNLOCK_SCREEN_RESULT \<and> r \<in> {screen_change_code SCREEN_SUCC, screen_change_code EARLY_SUCCESS}
      then [ScreenReported (GetUserIdFromCallingUid e) False] else [])"
| "request_means e (Req_SetAuthState a u t) st = (if st = OK then [AuthReported u a] else [])"
| "request_means e (Req_SetScreenLockDisabled b u) st = (if st = OK then [DisabledSet u b] else [])"
| "request_means e (Req_SetUnlockPolicy u p) st = (if st = OK then [PolicySet u p] else [])"
| "request_means e _ st = []"

fun means :: "'p env \<Rightarrow> happening \<Rightarrow> 'p service_state \<Rightarrow> account_change list" where
  "means e (Request req) s = request_means e req (fst (fst (serve e req s)))"
| "means e (AccountChanged ev u) s =
     (if map_of (accountSubscribers s) ev = None then []
      else case ev of ACTIVATED \<Rightarrow> [Activated u]
         | REMOVED \<Rightarrow> Forgotten u # (if preferencesUtil e then [PolicySet u 0] else [])
         | UNLOCKED \<Rightarrow> [])"
| "means e (CredChanged u a c b) s =
     (if callingUid e = IDM_UID \<and> GetCurrentActiveOsAccountId e = u \<and> a = PIN \<and> c = ADD_CRED \<and> preferencesUtil e
      then [DisabledSet u False] else [])"
| "means e (CommonEventReceived act par) s =
     (if act = USER_CREDENTIAL_UPDATED_EVENT \<and> par TAG_AUTHTYPE = AUTH_PIN
         \<and> par TAG_CREDENTIALCOUNT \<noteq> HAS_NO_CREDENTIAL \<and> preferencesUtil e
      then [KeyErased (par TAG_USERID)] else [])"
| "means e _ s = []"

section \<open>One step\<close>

lemma view_maps:
  "user_view_of np u (SetScreenlocked b w s) = apply_change u (ScreenReported w b) (user_view_of np u s)"
  "user_view_of np u (AuthStateInit w s) = apply_change u (Activated w) (user_view_of np u s)"
proof -
  have "store (SetScreenlocked b w s) = store s" "authStateInfo (SetScreenlocked b w s) = authStateInfo s"
    by (simp_all add: SetScreenlocked_def split: option.split)
  then show "user_view_of np u (SetScreenlocked b w s) = apply_change u (ScreenReported w b) (user_view_of np u s)"
    by (simp add: user_view_of_def SetScreenlocked_map ObtainBool_def ObtainInt_def)
  show "user_view_of np u (AuthStateInit w s) = apply_change u (Activated w) (user_view_of np u s)"
    by (auto simp: user_view_of_def AuthStateInit_maps ObtainBool_def ObtainInt_def some_or_def split: option.split)
qed

lemma view_store:
  assumes "prefs_laws np"
  shows "user_view_of np u (Refresh np s) = user_view_of np u s"
    and "user_view_of np u (snd (SaveBool np (disabled_key w) b s)) = apply_change u (DisabledSet w b) (user_view_of np u s)"
    and "user_view_of np u (snd (SaveInt np (preferKey w) p s)) = apply_change u (PolicySet w p) (user_view_of np u s)"
    and "user_view_of np u (snd (RemoveKey np k s)) = apply_change u (KeyErased k) (user_view_of np u s)"
proof -
  have key: "preferKey w \<noteq> disabled_key u" for u w using disabled_key_preferKey [of u w] by metis
  have maps: "authStateInfo (snd (SaveInt np k p s)) = authStateInfo s"
    "isScreenlockedMap (snd (SaveInt np k p s)) = isScreenlockedMap s" for k
    by (simp_all add: prefs_write_defs Let_def split_def)
  note reads = ObtainBool_Refresh [OF assms] ObtainInt_Refresh [OF assms]
    ObtainBool_SaveBool [OF assms] ObtainInt_SaveInt [OF assms] ObtainInt_SaveBool [OF assms]
    ObtainBool_SaveInt [OF assms] ObtainBool_RemoveKey [OF assms] ObtainInt_RemoveKey [OF assms]
  show "user_view_of np u (Refresh np s) = user_view_of np u s"
    by (simp add: user_view_of_def reads)
  show "user_view_of np u (snd (SaveBool np (disabled_key w) b s)) = apply_change u (DisabledSet w b) (user_view_of np u s)"
    by (auto simp: user_view_of_def reads key)
  show "user_view_of np u (snd (SaveInt np (preferKey w) p s)) = apply_change u (PolicySet w p) (user_view_of np u s)"
    by (auto simp: user_view_of_def reads key maps)
  show "user_view_of np u (snd (RemoveKey np k s)) = apply_change u (KeyErased k) (user_view_of np u s)"
    using key [of u u] by (auto simp: user_view_of_def reads)
qed

lemma view_writes:
  assumes "prefs_laws (prefs e)"
  shows "user_view_of (prefs e) u (snd (FreshDisabledState e b w s)) =
      (if preferencesUtil e then apply_change u (DisabledSet w b) (user_view_of (prefs e) u s) else user_view_of (prefs e) u s)"
    and "user_view_of (prefs e) u (init_disabled_flag e w s) = user_view_of (prefs e) u s"
    and "user_view_of (prefs e) u (OnRemoveUser e w s) =
      fold (apply_change u) (Forgotten w # (if preferencesUtil e then [PolicySet w 0] else [])) (user_view_of (prefs e) u s)"
    and "user_view_of (prefs e) u (OnReceiveEvent e act par s) =
      fold (apply_change u) (means e (CommonEventReceived act par) undefined) (user_view_of (prefs e) u s)"
proof -
  note writes = view_store [OF assms]
  have flag: "(user_view_of (prefs e) u s)\<lparr>lockDisabled := ObtainBool (prefs e) (disabled_key u) False s\<rparr>
      = user_view_of (prefs e) u s" by (simp add: user_view_of_def)
  show "user_view_of (prefs e) u (snd (FreshDisabledState e b w s)) =
      (if preferencesUtil e then apply_change u (DisabledSet w b) (user_view_of (prefs e) u s) else user_view_of (prefs e) u s)"
    using flag by (auto simp: FreshDisabledState_def writes)
  show "user_view_of (prefs e) u (init_disabled_flag e w s) = user_view_of (prefs e) u s"
    using flag by (auto simp: init_disabled_flag_def writes)
  have "user_view_of (prefs e) u (s\<lparr>authStateInfo := merase w (authStateInfo s), isScreenlockedMap := merase w (isScreenlockedMap s)\<rparr>)
      = apply_change u (Forgotten w) (user_view_of (prefs e) u s)"
    by (auto simp: user_view_of_def sl_find ObtainBool_def ObtainInt_def)
  moreover have "apply_change u (KeyErased (preferKey w)) v = apply_change u (PolicySet w 0) v" for v
    using disabled_key_preferKey [of u w] by (auto simp del: disabled_key_preferKey)
  ultimately show "user_view_of (prefs e) u (OnRemoveUser e w s) =
      fold (apply_change u) (Forgotten w # (if preferencesUtil e then [PolicySet w 0] else [])) (user_view_of (prefs e) u s)"
    by (simp add: OnRemoveUser_def DeleteUnlockPolicyForUser_def Let_def writes del: apply_change.simps)
  show "user_view_of (prefs e) u (OnReceiveEvent e act par s) =
      fold (apply_change u) (means e (CommonEventReceived act par) undefined) (user_view_of (prefs e) u s)"
    by (simp add: OnReceiveEvent_def Let_def writes del: apply_change.simps)
qed

fun may_write :: "request \<Rightarrow> bool" where
  "may_write (Req_SendScreenLockEvent ev r) = True"
| "may_write (Req_SetAuthState a u t) = True"
| "may_write (Req_SetScreenLockDisabled b u) = True"
| "may_write (Req_SetUnlockPolicy u p) = True"
| "may_write _ = False"

lemma accounts_quiet_request:
  assumes "\<not> may_write req"
  shows "accounts (snd (serve e req s)) = accounts s"
  using assms
  by (cases req)
    (simp_all add: no_out_def only_out_def IsLocked_def IsLockedWithUserId_def Unlock_def UnlockScreen_def Lock_user_def
      Lock_listener_def IsScreenLockDisabled_def GetScreenLockAuthState_def RequestStrongAuth_def GetStrongAuth_def
      IsDeviceLocked_def Service_RegisterInnerListener_def Service_UnRegisterInnerListener_def GetUnlockPolicy_def
      IsLockedWatch_def UnlockWatch_def OnSystemEvent_def SetCurrentUser_def split_def Let_def split: option.split)

lemma view_report:
  "user_view_of np u (LockScreenEvent e r s) =
     (if r = screen_change_code SCREEN_SUCC
      then apply_change u (ScreenReported (GetUserIdFromCallingUid e) True) (user_view_of np u s)
      else user_view_of np u s)"
  "user_view_of np u (UnlockScreenEvent e r s) =
     (if r \<in> {screen_change_code SCREEN_SUCC, screen_change_code EARLY_SUCCESS}
      then apply_change u (ScreenReported (GetUserIdFromCallingUid e) False) (user_view_of np u s)
      else user_view_of np u s)"
  by (simp_all add: LockScreenEvent_def UnlockScreenEvent_def Let_def view_maps del: apply_change.simps)

lemma view_request:
  assumes "prefs_laws (prefs e)"
  shows "user_view_of (prefs e) u (snd (serve e req s))
    = fold (apply_change u) (request_means e req (fst (fst (serve e req s)))) (user_view_of (prefs e) u s)"
proof (cases req)
  case (Req_SendScreenLockEvent ev r)
  then show ?thesis
    by (auto simp: no_out_def SendScreenLockEvent_def event_names view_report
        simp del: apply_change.simps)
next
  case (Req_SetAuthState a w t)
  have "user_view_of np u (s'\<lparr>authStateInfo := m\<rparr>) = (user_view_of np u s')\<lparr>authState := mfind m u\<rparr>"
    for np m and s' :: "('a, 'b) service_state_scheme"
    by (simp add: user_view_of_def ObtainBool_def ObtainInt_def)
  moreover have "(user_view_of np u s)\<lparr>authState := mfind (authStateInfo s) u\<rparr> = user_view_of np u s" for np
    by (simp add: user_view_of_def)
  ultimately show ?thesis using Req_SetAuthState
    by (auto simp: no_out_def SetScreenLockAuthState_def Let_def PreAuthStateNotify_emit device_lock_notifier.notify_emits
        sl_find split: option.split)
next
  case (Req_SetScreenLockDisabled b w)
  have fresh: "fst (FreshDisabledState e b w s') = (if preferencesUtil e then OK else Code E_SCREENLOCK_NULLPTR)"
    for s' :: "('a, 'b) service_state_scheme" by (simp add: FreshDisabledState_def)
  have "user_view_of (prefs e) u (snd (SetScreenLockDisabled e b w s)) =
      (if fst (SetScreenLockDisabled e b w s) = OK
       then apply_change u (DisabledSet w b) (user_view_of (prefs e) u s) else user_view_of (prefs e) u s)"
    by (auto simp: SetScreenLockDisabled_def Let_def split_def view_writes [OF assms]
        fresh simp del: apply_change.simps)
  with Req_SetScreenLockDisabled show ?thesis by (simp add: no_out_def del: apply_change.simps)
next
  case (Req_SetUnlockPolicy w p)
  have same: "ObtainInt (prefs e) (preferKey w) 0 s = p
      \<Longrightarrow> apply_change u (PolicySet w p) (user_view_of (prefs e) u s) = user_view_of (prefs e) u s"
    by (auto simp: user_view_of_def)
  show ?thesis using Req_SetUnlockPolicy same
    by (auto simp: no_out_def SetUnlockPolicy_def Let_def UnlockPolicyChanged_emit view_store [OF assms]
        split: option.split simp del: apply_change.simps)
qed (rule trans [OF user_view_frame [OF accounts_quiet_request]]; simp)+

lemma accounts_quiet_step:
  assumes "happen e h s = Some s'"
    and "\<forall>req. h \<noteq> Request req" and "\<forall>sa. h \<noteq> AbilityAdded sa" and "\<forall>ev u. h \<noteq> AccountChanged ev u"
    and "\<forall>u a c b. h \<noteq> CredChanged u a c b" and "\<forall>act par. h \<noteq> CommonEventReceived act par"
  shows "accounts s' = accounts s"
proof (cases h)
  case (PendingTask i)
  with assms(1) show ?thesis by (auto dest: accounts_task split: if_splits)
next
  case Started
  have "accounts (RegisterDumpCommand e s) = accounts s" for s :: "'a service_state"
    by (simp add: RegisterDumpCommand_def RegisterCommand_def split: option.split)
  moreover have "accounts (snd (Init e s)) = accounts s" for s :: "'a service_state" by (simp add: Init_def Let_def)
  ultimately show ?thesis using assms(1) Started
    by (auto simp: OnStart_def InitServiceHandler_def Let_def split_def)
qed (use assms in \<open>auto simp: OnRemoveSystemAbility_def UnRegistIamEventListener_def ResetFfrtQueue_def Let_def\<close>)

lemma view_step:
  assumes "prefs_laws (prefs e)" and "happen e h s = Some s'"
  shows "user_view_of (prefs e) u s' = fold (apply_change u) (means e h s) (user_view_of (prefs e) u s)"
proof (cases h)
  case (Request req)
  with assms show ?thesis by (auto simp: view_request)
next
  case (AbilityAdded sa)
  have init: "user_view_of (prefs e) u (InitUserId e s) = user_view_of (prefs e) u s" for s :: "'a service_state"
    by (simp add: InitUserId_def Let_def view_writes [OF assms(1)] SubscribeAcccount_def SubscribeEvent_def
        SubscribeUserIamReady_def)
  with assms(2) AbilityAdded show ?thesis
    by (auto simp: OnAddSystemAbility_def RegistIamEventListener_def RegisterDisplayPowerEventListener_def Let_def
       )
next
  case (AccountChanged ev w)
  have "user_view_of (prefs e) u (OnActiveUser e l w s) = apply_change u (Activated w) (user_view_of (prefs e) u s)"
    for l
    by (simp add: OnActiveUser_def Let_def view_writes [OF assms(1)] view_maps del: apply_change.simps)
  with assms AccountChanged show ?thesis
    by (auto simp: OnAccountsChanged_def Let_def view_writes [OF assms(1)] Service_AccountUnlocked_def
        split: option.splits account_event.split simp del: apply_change.simps)
next
  case (CredChanged w a c b)
  with assms show ?thesis
    by (auto simp: Service_OnNotifyCredChangeEvent_def Let_def view_writes [OF assms(1)]
        simp del: apply_change.simps)
next
  case (CommonEventReceived act par)
  with assms show ?thesis by (auto simp: view_writes [OF assms(1)] simp del: apply_change.simps)
qed (use assms(2) user_view_frame [OF accounts_quiet_step [OF assms(2)]] in simp_all)

end
