(* ===== verification/Service_History.thy ===== *)
theory Service_History
  imports Service_Spec
begin

text \<open>
  Histories of the whole service: any steps, in any order, each in its own environment.  The locale
  \<open>changes_refined\<close> lifts a simulation of steps to histories; it is interpreted here for the users'
  data, in \<open>Answer_Order\<close> for the waiting listeners and in \<open>Listener_History\<close> for the registered ones.
\<close>

section \<open>Histories\<close>

text \<open>
  A history carried out step by step, with the changes it meant; it has no result when a step is not
  possible (a task that is not pending).
\<close>

fun execute :: "('x \<Rightarrow> 's \<Rightarrow> 's option) \<Rightarrow> ('x \<Rightarrow> 's \<Rightarrow> 'c list) \<Rightarrow> 'x list \<Rightarrow> 's \<Rightarrow> ('c list \<times> 's) option" where
  "execute stp mns [] s = Some ([], s)"
| "execute stp mns (x # xs) s =
     (case stp x s of
        None \<Rightarrow> None
      | Some s' \<Rightarrow> (case execute stp mns xs s' of None \<Rightarrow> None | Some (cs, t) \<Rightarrow> Some (mns x s @ cs, t)))"

lemma execute_append:
  "execute stp mns (xs @ ys) s = (case execute stp mns xs s of
     None \<Rightarrow> None
   | Some (cs, s') \<Rightarrow> (case execute stp mns ys s' of None \<Rightarrow> None | Some (ds, t) \<Rightarrow> Some (cs @ ds, t)))"
  by (induction xs arbitrary: s) (simp_all split: option.split)

lemma execute_same_end: "execute stp m1 xs s = Some (cs, t) \<Longrightarrow> execute stp m2 xs s = Some (ds, r) \<Longrightarrow> t = r"
  by (induction xs arbitrary: s cs ds) (auto split: option.splits)

text \<open>
  A detailed system that refines an abstract one: every good step changes the abstract view by the
  changes the step means.  The view after a history is then a function of the changes, and whatever
  holds of the view now, and did not hold at first, was brought about by one step and has held ever
  since.
\<close>

locale changes_refined =
  fixes stp :: "'x \<Rightarrow> 's \<Rightarrow> 's option" and mns :: "'x \<Rightarrow> 's \<Rightarrow> 'c list"
    and good :: "'x \<Rightarrow> bool" and inv :: "'s \<Rightarrow> bool"
    and view :: "'s \<Rightarrow> 'v" and change :: "'c \<Rightarrow> 'v \<Rightarrow> 'v"
  assumes keeps: "inv s \<Longrightarrow> good x \<Longrightarrow> stp x s = Some s' \<Longrightarrow> inv s'"
    and simulates: "inv s \<Longrightarrow> good x \<Longrightarrow> stp x s = Some s' \<Longrightarrow> view s' = fold change (mns x s) (view s)"
begin

lemma view_after:
  "inv s \<Longrightarrow> \<forall>x \<in> set xs. good x \<Longrightarrow> execute stp mns xs s = Some (cs, t) \<Longrightarrow> view t = fold change cs (view s)"
proof (induction xs arbitrary: s cs)
  case (Cons x xs)
  then obtain s' ds where s': "stp x s = Some s'" "execute stp mns xs s' = Some (ds, t)" "cs = mns x s @ ds"
    by (auto split: option.splits)
  with Cons.prems(1,2) have "inv s'" "view s' = fold change (mns x s) (view s)"
    by (simp_all add: keeps [of s x] simulates [of s x])
  with Cons.IH [of s' ds] s' Cons.prems(2) show ?case by simp
qed simp

lemma brought_about:
  assumes "execute stp mns xs s = Some (cs, t)" and "\<not> P (view s)" and "P (view t)"
  shows "\<exists>before x since s1 s2. xs = before @ x # since
    \<and> (\<exists>ds. execute stp mns before s = Some (ds, s1)) \<and> stp x s1 = Some s2 \<and> \<not> P (view s1) \<and> P (view s2)
    \<and> (\<forall>ys zs. since = ys @ zs \<longrightarrow>
         (\<exists>ds s3. execute stp mns (before @ x # ys) s = Some (ds, s3) \<and> P (view s3)))"
  using assms(1,3)
proof (induction xs arbitrary: cs t rule: rev_induct)
  case Nil
  with assms(2) show ?case by simp
next
  case (snoc x xs)
  then obtain ds s1 where s1: "execute stp mns xs s = Some (ds, s1)" "stp x s1 = Some t"
    by (auto simp: execute_append split: option.splits)
  show ?case
  proof (cases "P (view s1)")
    case True
    then obtain before y since s3 s4 where ih: "xs = before @ y # since"
      "\<exists>ds. execute stp mns before s = Some (ds, s3)" "stp y s3 = Some s4" "\<not> P (view s3)" "P (view s4)"
      "\<forall>ys zs. since = ys @ zs \<longrightarrow>
         (\<exists>ds s3. execute stp mns (before @ y # ys) s = Some (ds, s3) \<and> P (view s3))"
      using snoc.IH [OF s1(1)] by blast
    have "\<exists>ds s3. execute stp mns (before @ y # ys) s = Some (ds, s3) \<and> P (view s3)"
      if "since @ [x] = ys @ zs" for ys zs
    proof (cases zs rule: rev_cases)
      case Nil
      then have "before @ y # ys = xs @ [x]" using that ih(1) by simp
      then show ?thesis using snoc.prems by simp
    next
      case (snoc ws w)
      then show ?thesis using that ih(6) by simp
    qed
    then show ?thesis using ih(1-5)
      by (intro exI [of _ before] exI [of _ y] exI [of _ "since @ [x]"] exI [of _ s3] exI [of _ s4]) simp
  next
    case False
    then show ?thesis using s1 snoc.prems
      by (intro exI [of _ xs] exI [of _ x] exI [of _ "[]"] exI [of _ s1] exI [of _ t]) auto
  qed
qed

end

definition run ::
  "('p env \<times> happening) list \<Rightarrow> 'p service_state \<Rightarrow> (account_change list \<times> 'p service_state) option"
where
  "run hs s = execute (\<lambda>(e, h). happen e h) (\<lambda>(e, h). means e h) hs s"

lemma run_reachable: "service_reachable s \<Longrightarrow> run hs s = Some (cs, t) \<Longrightarrow> service_reachable t"
proof (induction hs arbitrary: s cs)
  case Nil
  then show ?case by (simp add: run_def)
next
  case (Cons x hs)
  then obtain s' ds where s': "happen (fst x) (snd x) s = Some s'" "run hs s' = Some (ds, t)"
    by (auto simp: run_def split_def split: option.splits)
  then have "service_step s s'" using service_step_happen by blast
  then show ?case using Cons.IH [OF _ s'(2)] Cons.prems(1) service_reachable.step by blast
qed

definition stores_in :: "'p native_prefs \<Rightarrow> 'p env \<times> happening \<Rightarrow> bool" where
  "stores_in np x \<longleftrightarrow> prefs_laws np \<and> prefs (fst x) = np"

interpretation account: changes_refined
  "\<lambda>(e, h). happen e h" "\<lambda>(e, h). means e h" "stores_in np" "\<lambda>_. True" "user_view_of np u" "apply_change u"
  for np :: "'p native_prefs" and u
proof (unfold_locales, rule TrueI)
  fix x :: "'p env \<times> happening" and s s' :: "'p service_state"
  assume "stores_in np x" and "(case x of (e, h) \<Rightarrow> happen e h) s = Some s'"
  then show "user_view_of np u s' = fold (apply_change u) ((case x of (e, h) \<Rightarrow> means e h) s) (user_view_of np u s)"
    by (cases x) (auto simp: stores_in_def view_step)
qed

text \<open>What the store holds about a user when the service starts: the rest is unknown.\<close>

definition stored_view :: "'p native_prefs \<Rightarrow> int \<Rightarrow> 'p \<Rightarrow> user_view" where
  "stored_view np u p = \<lparr>screenLock = None, authState = None,
     lockDisabled = getBool np (disabled_key u) False p, unlockPolicy = getInt np (preferKey u) 0 p\<rparr>"

lemma view_initial: "prefs_laws np \<Longrightarrow> user_view_of np u (initial_service p) = stored_view np u p"
  by (simp add: user_view_of_def stored_view_def initial_service_def ObtainBool_def ObtainInt_def prefs_lawsD)

lemma run_view:
  assumes "run hs (initial_service p) = Some (cs, s)" and "prefs_laws np" and "\<forall>x \<in> set hs. prefs (fst x) = np"
  shows "user_view_of np u s = fold (apply_change u) (filter (concerns u) cs) (stored_view np u p)"
proof -
  have "\<forall>x \<in> set hs. stores_in np x" using assms(2,3) by (simp add: stores_in_def)
  from account.view_after [OF TrueI this assms(1) [unfolded run_def]]
  show ?thesis by (simp add: fold_concerned view_initial [OF assms(2)])
qed

text \<open>C2: whatever happens to the service, in any order and from the first state on (requests, pending work,
  account, credential, sensor and display events), it refines a specification of each user's data in
  seven kinds of change: every query about a user that is admitted answers what the specification
  computes from the changes that concern this user alone.  No event of another user, and nothing that
  means no change, can influence the answer.\<close>

theorem account_refinement:
  assumes "run hs (initial_service p) = Some (cs, s)" and "prefs_laws np" and "\<forall>x \<in> set hs. prefs (fst x) = np"
    and "promised req = Some (u, f)" and "gate d req = None" and "preferencesUtil d" and "prefs d = np"
  shows "fst (serve d req s) = f (fold (apply_change u) (filter (concerns u) cs) (stored_view np u p))"
  using run_view [OF assms(1-3)] query_promised [OF assms(4-7), of s] by simp

definition sample_history :: "(sample_store env \<times> happening) list" where
  "sample_history = map (Pair sample_env)
     [Started, AbilityAdded ACCOUNT_SA, AccountChanged ACTIVATED 100,
      Request (Req_SendScreenLockEvent UNLOCK_SCREEN_RESULT 0), Request (Req_SetAuthState 4 100 ''token''),
      Request (Req_SetScreenLockDisabled True 100), AccountChanged ACTIVATED 101, AccountChanged REMOVED 101]"

lemma sample_history_run: "\<exists>s. run sample_history (initial_service []) = Some
    ([Activated 100, ScreenReported 100 False, AuthReported 100 4, DisabledSet 100 True, Activated 101,
      Forgotten 101, PolicySet 101 0], s)"
proof -
  have "map_option fst (run sample_history (initial_service [])) = Some
    [Activated 100, ScreenReported 100 False, AuthReported 100 4, DisabledSet 100 True, Activated 101,
     Forgotten 101, PolicySet 101 0]"
    by code_simp
  then show ?thesis by auto
qed

lemma sample_history_prefs: "\<forall>x \<in> set sample_history. prefs (fst x) = sample_prefs"
  by (simp add: sample_history_def)

theorem account_refinement_witness:
  "\<exists>cs s. run sample_history (initial_service []) = Some (cs, s)
     \<and> fst (serve sample_env (Req_IsLockedWithUserId 100) s) = (OK, BoolOut False)"
proof -
  obtain s where s: "run sample_history (initial_service []) = Some
    ([Activated 100, ScreenReported 100 False, AuthReported 100 4, DisabledSet 100 True, Activated 101,
      Forgotten 101, PolicySet 101 0], s)" using sample_history_run by blast
  have "preferencesUtil sample_env" by (simp add: sample_env_def)
  from account_refinement [OF s prefs_laws_sample sample_history_prefs _ sample_gates this sample_prefs_env,
      of "Req_IsLockedWithUserId 100"]
  have "fst (serve sample_env (Req_IsLockedWithUserId 100) s) = (OK, BoolOut False)"
    by (simp add: del: serve.simps)
  with s show ?thesis by blast
qed

section \<open>Who unlocks\<close>

lemma screen_unlocked_change:
  assumes "screenLock (fold (apply_change u) cs v) = Some False" and "screenLock v \<noteq> Some False"
  shows "ScreenReported u False \<in> set cs"
  using assms
proof (induction cs arbitrary: v)
  case (Cons c cs)
  then show ?case
    by (cases "screenLock (apply_change u c v) = Some False"; cases c)
      (auto simp: some_or_def split: if_splits option.splits)
qed simp

lemma authenticated_change:
  assumes "authState (fold (apply_change u) cs v) = Some a" and "a \<noteq> auth_code UNAUTH" and "authState v \<noteq> Some a"
  shows "AuthReported u a \<in> set cs"
  using assms
proof (induction cs arbitrary: v)
  case (Cons c cs)
  then show ?case
    by (cases "authState (apply_change u c v) = Some a"; cases c)
      (auto simp: some_or_def split: if_splits option.splits)
qed simp

lemma unlock_report_means:
  assumes "ScreenReported u False \<in> set (means e h s)"
  shows "\<exists>r. h = Request (Req_SendScreenLockEvent UNLOCK_SCREEN_RESULT r) \<and> GetUserIdFromCallingUid e = u
    \<and> r \<in> {screen_change_code SCREEN_SUCC, screen_change_code EARLY_SUCCESS}
    \<and> gate e (Req_SendScreenLockEvent UNLOCK_SCREEN_RESULT r) = None"
proof -
  obtain req where req: "h = Request req" using assms by (cases h) (auto split: if_splits account_event.splits)
  then obtain r where r: "req = Req_SendScreenLockEvent UNLOCK_SCREEN_RESULT r" "GetUserIdFromCallingUid e = u"
    "r \<in> {screen_change_code SCREEN_SUCC, screen_change_code EARLY_SUCCESS}" "fst (fst (serve e req s)) = OK"
    using assms by (cases req) (auto split: if_splits simp del: serve.simps)
  have "gate e req = None"
    using r by (auto simp: gate_defs no_out_def SendScreenLockEvent_def split: if_splits)
  with req r show ?thesis by blast
qed

lemma auth_report_means:
  assumes "AuthReported u a \<in> set (means e h s)"
  shows "\<exists>t. h = Request (Req_SetAuthState a u t) \<and> gate e (Req_SetAuthState a u t) = None"
proof -
  obtain req where req: "h = Request req" using assms by (cases h) (auto split: if_splits account_event.splits)
  then obtain t where r: "req = Req_SetAuthState a u t" "fst (fst (serve e req s)) = OK"
    using assms by (cases req) (auto split: if_splits simp del: serve.simps)
  have "gate e req = None"
    using r by (auto simp: gate_defs no_out_def SetScreenLockAuthState_def split: if_splits)
  with req r show ?thesis by blast
qed

text \<open>The step that brought about what the queries see now.\<close>

lemma view_cause:
  assumes "run hs (initial_service p) = Some (cs, s)" and "prefs_laws np" and "\<forall>x \<in> set hs. prefs (fst x) = np"
    and "\<not> P (stored_view np u p)" and "P (user_view_of np u s)"
  obtains before e h since s1 where "hs = before @ (e, h) # since" "\<not> P (user_view_of np u s1)"
    "P (fold (apply_change u) (means e h s1) (user_view_of np u s1))"
    "\<forall>ys zs. since = ys @ zs \<longrightarrow> (\<exists>ds t. run (before @ (e, h) # ys) (initial_service p) = Some (ds, t)
        \<and> P (user_view_of np u t))"
proof -
  have start: "\<not> P (user_view_of np u (initial_service p))" using assms(4) by (simp add: view_initial [OF assms(2)])
  obtain before x since s1 s2 where b: "hs = before @ x # since"
    "(case x of (e, h) \<Rightarrow> happen e h) s1 = Some s2" "\<not> P (user_view_of np u s1)" "P (user_view_of np u s2)"
    "\<forall>ys zs. since = ys @ zs \<longrightarrow> (\<exists>ds t. run (before @ x # ys) (initial_service p) = Some (ds, t) \<and> P (user_view_of np u t))"
    using account.brought_about [OF assms(1) [unfolded run_def] start assms(5), folded run_def] by blast
  obtain e h where x: "x = (e, h)" by (cases x)
  have "prefs e = np" using b(1) assms(3) x by simp
  then have "user_view_of np u s2 = fold (apply_change u) (means e h s1) (user_view_of np u s1)"
    using view_step [of e h s1 s2 u] b(2) x assms(2) by simp
  with that b x show ?thesis by auto
qed

text \<open>C6: a user's screen is answered as unlocked only because the screen-lock application said so: in
  whatever history, if an admitted query is told that the user's screen is unlocked, then there was a
  report of a successful or early unlock by a caller of that very user who passed the identity and
  permission checks, and at every moment since then the answer has been unlocked.\<close>

theorem unlocked_screen_was_reported:
  assumes "run hs (initial_service p) = Some (cs, s)" and "prefs_laws np" and "\<forall>x \<in> set hs. prefs (fst x) = np"
    and "fst (serve d (Req_IsLockedWithUserId u) s) = (OK, BoolOut False)"
  shows "\<exists>before e r since.
      hs = before @ (e, Request (Req_SendScreenLockEvent UNLOCK_SCREEN_RESULT r)) # since
    \<and> gate e (Req_SendScreenLockEvent UNLOCK_SCREEN_RESULT r) = None \<and> GetUserIdFromCallingUid e = u
    \<and> r \<in> {screen_change_code SCREEN_SUCC, screen_change_code EARLY_SUCCESS}
    \<and> (\<forall>ys zs. since = ys @ zs \<longrightarrow> (\<exists>ds t.
         run (before @ (e, Request (Req_SendScreenLockEvent UNLOCK_SCREEN_RESULT r)) # ys) (initial_service p) = Some (ds, t)
         \<and> fst (serve d (Req_IsLockedWithUserId u) t) = (OK, BoolOut False)))"
proof -
  have d: "\<not> CheckSystemPermission d" using assms(4) by (auto simp: IsLockedWithUserId_def)
  have iff: "fst (serve d (Req_IsLockedWithUserId u) t) = (OK, BoolOut False) \<longleftrightarrow> screenLock (user_view_of np u t) = Some False"
    for t :: "'a service_state" by (simp add: d IsLockedWithUserId_def user_view_of_def split: option.split)
  have now: "screenLock (user_view_of np u s) = Some False" using assms(4) by (simp only: iff)
  have start: "screenLock (stored_view np u p) \<noteq> Some False" by (simp add: stored_view_def)
  obtain before e h since s1 where b: "hs = before @ (e, h) # since"
    "ScreenReported u False \<in> set (means e h s1)"
    "\<forall>ys zs. since = ys @ zs \<longrightarrow> (\<exists>ds t. run (before @ (e, h) # ys) (initial_service p) = Some (ds, t)
        \<and> screenLock (user_view_of np u t) = Some False)"
    by (rule view_cause [OF assms(1-3) start now]) (blast intro: screen_unlocked_change)
  then show ?thesis using unlock_report_means [OF b(2)] unfolding iff by blast
qed

theorem unlocked_screen_was_reported_witness:
  "\<exists>before e r since.
     sample_history = before @ (e, Request (Req_SendScreenLockEvent UNLOCK_SCREEN_RESULT r)) # since
     \<and> GetUserIdFromCallingUid e = 100"
proof -
  have r: "map_option (\<lambda>(cs, s). fst (serve sample_env (Req_IsLockedWithUserId 100) s)) (run sample_history (initial_service []))
      = Some (OK, BoolOut False)" by code_simp
  then obtain cs s where "run sample_history (initial_service []) = Some (cs, s)"
    "fst (serve sample_env (Req_IsLockedWithUserId 100) s) = (OK, BoolOut False)" by (auto simp del: serve.simps)
  from unlocked_screen_was_reported [OF this(1) prefs_laws_sample sample_history_prefs this(2)] show ?thesis by blast
qed

text \<open>C10: a user's device is answered as unlocked only because an authentication was completed: in whatever
  history, if a query is told that the user's device is unlocked, then an admitted caller reported, for
  this user, one of the three completed authentications (by credential, fingerprint or face), and at
  every moment since then the answer has been unlocked.\<close>

theorem unlocked_device_was_authenticated:
  assumes "run hs (initial_service p) = Some (cs, s)" and "prefs_laws np" and "\<forall>x \<in> set hs. prefs (fst x) = np"
    and "fst (serve d (Req_IsDeviceLocked u) s) = (OK, BoolOut False)"
  shows "\<exists>before e a tok since.
      hs = before @ (e, Request (Req_SetAuthState a u tok)) # since \<and> gate e (Req_SetAuthState a u tok) = None
    \<and> a \<in> auth_code ` {AUTHED_BY_CREDENTIAL, AUTHED_BY_FINGERPRINT, AUTHED_BY_FACE}
    \<and> (\<forall>ys zs. since = ys @ zs \<longrightarrow> (\<exists>ds t.
         run (before @ (e, Request (Req_SetAuthState a u tok)) # ys) (initial_service p) = Some (ds, t)
         \<and> fst (serve d (Req_IsDeviceLocked u) t) = (OK, BoolOut False)))"
proof -
  let ?P = "\<lambda>v. \<exists>a. authState v = Some a \<and> \<not> GetDeviceLockedStateByAuth a"
  have d: "\<not> CheckSystemPermission d" using assms(4) by (auto simp: IsDeviceLocked_def)
  have iff: "fst (serve d (Req_IsDeviceLocked u) t) = (OK, BoolOut False) \<longleftrightarrow> ?P (user_view_of np u t)"
    for t :: "'a service_state" by (simp add: d IsDeviceLocked_def user_view_of_def split: option.split)
  have now: "?P (user_view_of np u s)" using assms(4) by (simp only: iff)
  have start: "\<not> ?P (stored_view np u p)" by (simp add: stored_view_def)
  have reported: "\<exists>a. AuthReported u a \<in> set ms \<and> \<not> GetDeviceLockedStateByAuth a"
    if after: "?P (fold (apply_change u) ms v)" and first: "\<not> ?P v" for ms v
  proof -
    obtain a where a: "authState (fold (apply_change u) ms v) = Some a" "\<not> GetDeviceLockedStateByAuth a"
      using after by blast
    moreover have "a \<noteq> auth_code UNAUTH" using a(2) by (auto simp: GetDeviceLockedStateByAuth_def)
    ultimately show ?thesis using authenticated_change [of u ms v a] first by blast
  qed
  obtain before e h since s1 where b: "hs = before @ (e, h) # since"
    "\<exists>a. AuthReported u a \<in> set (means e h s1) \<and> \<not> GetDeviceLockedStateByAuth a"
    "\<forall>ys zs. since = ys @ zs \<longrightarrow> (\<exists>ds t. run (before @ (e, h) # ys) (initial_service p) = Some (ds, t)
        \<and> ?P (user_view_of np u t))"
    by (rule view_cause [OF assms(1-3) start now]) (rule that [OF _ reported])
  from b(2) obtain a where a: "AuthReported u a \<in> set (means e h s1)" "\<not> GetDeviceLockedStateByAuth a" by blast
  have "a \<in> auth_code ` {AUTHED_BY_CREDENTIAL, AUTHED_BY_FINGERPRINT, AUTHED_BY_FACE}"
    using a(2) by (simp add: GetDeviceLockedStateByAuth_def split: if_splits)
  moreover obtain tok where tok: "h = Request (Req_SetAuthState a u tok)" "gate e (Req_SetAuthState a u tok) = None"
    using auth_report_means [OF a(1)] by blast
  ultimately show ?thesis
    using b(1,3) unfolding tok(1) iff
    by (intro exI [of _ before] exI [of _ e] exI [of _ a] exI [of _ tok] exI [of _ since]) (simp only: tok(2) simp_thms)
qed

theorem unlocked_device_was_authenticated_witness:
  "\<exists>before e a tok since. sample_history = before @ (e, Request (Req_SetAuthState a 100 tok)) # since
     \<and> a \<in> auth_code ` {AUTHED_BY_CREDENTIAL, AUTHED_BY_FINGERPRINT, AUTHED_BY_FACE}"
proof -
  have r: "map_option (\<lambda>(cs, s). fst (serve sample_env (Req_IsDeviceLocked 100) s)) (run sample_history (initial_service []))
      = Some (OK, BoolOut False)" by code_simp
  then obtain cs s where "run sample_history (initial_service []) = Some (cs, s)"
    "fst (serve sample_env (Req_IsDeviceLocked 100) s) = (OK, BoolOut False)" by (auto simp del: serve.simps)
  from unlocked_device_was_authenticated [OF this(1) prefs_laws_sample sample_history_prefs this(2)] show ?thesis by blast
qed

end
