(* ===== verification/Answer_Order.thy ===== *)
theory Answer_Order
  imports Service_History
begin

text \<open>
  The listeners of lock and unlock requests over whole histories: who asked, who was called and who
  waits.
\<close>

section \<open>Who asked, who was answered\<close>

datatype ask = AskUnlock nat | AskLock nat

text \<open>The requests that put a listener among those waiting: the accepted ones.\<close>

fun request_asks :: "'p env \<Rightarrow> request \<Rightarrow> ('p, 's) service_state_scheme \<Rightarrow> ask list" where
  "request_asks e (Req_Unlock l) s = (if fst (Unlock e l s) = OK then [AskUnlock l] else [])"
| "request_asks e (Req_UnlockScreen l) s = (if fst (UnlockScreen e l s) = OK then [AskUnlock l] else [])"
| "request_asks e (Req_UnlockWatch l) s =
     (if gate e (Req_UnlockWatch l) = None \<and> fst (IsScreenLocked e s)
         \<and> fst (UnlockScreen e l (snd (IsScreenLocked e s))) = OK then [AskUnlock l] else [])"
| "request_asks e (Req_Lock l) s = (if fst (Lock_listener e l s) = OK then [AskLock l] else [])"
| "request_asks e _ s = []"

fun asks :: "'p env \<times> happening \<Rightarrow> 'p service_state \<Rightarrow> ask list" where
  "asks (e, Request req) s = request_asks e req s"
| "asks x s = []"

fun unlock_ask :: "ask \<Rightarrow> nat list" where
  "unlock_ask (AskUnlock l) = [l]"
| "unlock_ask (AskLock l) = []"

fun lock_ask :: "ask \<Rightarrow> nat list" where
  "lock_ask (AskLock l) = [l]"
| "lock_ask (AskUnlock l) = []"

fun unlock_answer :: "effect \<Rightarrow> nat list" where
  "unlock_answer (UnlockCallback l r) = [l]"
| "unlock_answer _ = []"

fun lock_answer :: "effect \<Rightarrow> nat list" where
  "lock_answer (LockCallback l r) = [l]"
| "lock_answer _ = []"

lemma no_answer: "\<not> is_answer f \<Longrightarrow> unlock_answer f = [] \<and> lock_answer f = []"
  by (cases f) simp_all

lemma answer_maps_filter:
  "concat (map unlock_answer (filter is_answer es)) = concat (map unlock_answer es)"
  "concat (map lock_answer (filter is_answer es)) = concat (map lock_answer es)"
  by (induction es) (auto simp: no_answer)

text \<open>The two lines: the listeners called so far, followed by those who wait.\<close>

definition lines :: "('p, 's) service_state_scheme \<Rightarrow> nat list \<times> nat list" where
  "lines s = (concat (map unlock_answer (trace s)) @ unlockVecListeners s,
              concat (map lock_answer (trace s)) @ lockVecListeners s)"

definition join_line :: "ask \<Rightarrow> nat list \<times> nat list \<Rightarrow> nat list \<times> nat list" where
  "join_line a ls = (fst ls @ unlock_ask a, snd ls @ lock_ask a)"

lemma lines_answers: "answers s' = answers s \<Longrightarrow> lines s' = lines s"
  by (simp add: answers_def answered_def lines_def) (metis answer_maps_filter)

lemmas lines_frames [simp] = answers_frames [THEN lines_answers] answers_accounts [THEN lines_answers]
  answers_prefs [THEN lines_answers] registration_frames(4-6) [THEN lines_answers]

lemma lines_UnlockInner:
  "lines (snd (UnlockInner e l s))
     = (if fst (UnlockInner e l s) = OK then join_line (AskUnlock l) (lines s) else lines s)"
proof -
  have accept: "lines (s'\<lparr>unlockVecListeners := unlockVecListeners s' @ [l]\<rparr>)
      = join_line (AskUnlock l) (lines s')" for s' :: "('a, 'b) service_state_scheme"
    by (simp add: lines_def join_line_def)
  show ?thesis by (simp add: UnlockInner_def Let_def split_def accept)
qed

lemma lines_Lock:
  "lines (snd (Lock_listener e l s))
     = (if fst (Lock_listener e l s) = OK then join_line (AskLock l) (lines s) else lines s)"
proof -
  have "lines (s'\<lparr>lockVecListeners := lockVecListeners s' @ [l]\<rparr>) = join_line (AskLock l) (lines s')"
    for s' :: "('a, 'b) service_state_scheme" by (simp add: lines_def join_line_def)
  then show ?thesis by (simp add: Lock_listener_def Let_def split_def)
qed

lemma lines_request: "lines (snd (serve e req s)) = fold join_line (request_asks e req s) (lines s)"
proof (cases req)
  case (Req_UnlockWatch l)
  then show ?thesis
    by (auto simp: no_out_def UnlockWatch_def UnlockScreen_def Let_def split_def lines_UnlockInner gate_defs)
next
  case (Req_SendScreenLockEvent ev r)
  have "lines (LockScreenEvent e r s) = lines s" "lines (UnlockScreenEvent e r s) = lines s"
    by (simp_all add: LockScreenEvent_def UnlockScreenEvent_def Let_def)
  with Req_SendScreenLockEvent show ?thesis by (simp add: no_out_def SendScreenLockEvent_def)
qed (simp_all add: no_out_def only_out_def Unlock_def UnlockScreen_def lines_UnlockInner lines_Lock Lock_user_def
    IsLocked_def IsLockedWithUserId_def IsScreenLockDisabled_def GetScreenLockAuthState_def RequestStrongAuth_def
    GetStrongAuth_def IsDeviceLocked_def Service_RegisterInnerListener_def Service_UnRegisterInnerListener_def
    GetUnlockPolicy_def IsLockedWatch_def SetScreenLockDisabled_def FreshDisabledState_def SetScreenLockAuthState_def
    SetUnlockPolicy_def split_def Let_def split: option.split)

lemma unlock_callbacks_lines:
  "unlock_callbacks is r c s = Some s' \<Longrightarrow>
     concat (map unlock_answer (trace s')) = concat (map unlock_answer (trace s)) @ map ((!) (unlockVecListeners s)) is
   \<and> concat (map lock_answer (trace s')) = concat (map lock_answer (trace s))
   \<and> unlockVecListeners s' = unlockVecListeners s \<and> lockVecListeners s' = lockVecListeners s"
proof (induction "is" arbitrary: s)
  case (Cons i "is")
  then obtain l r' where "unlock_callbacks is r c (emit [UnlockCallback l r'] s) = Some s'"
    "l = unlockVecListeners s ! i"
    by (auto simp: CallbackUnlockListener_def vec_at_def Let_def split: option.splits if_splits)
  with Cons.IH [of "emit [UnlockCallback l r'] s"] show ?case by simp
qed simp

lemma lines_task: "run_task e t s = Some s' \<Longrightarrow> lines s' = lines s"
proof (cases t)
  case (UnlockCallbackTask r u)
  assume "run_task e t s = Some s'"
  with UnlockCallbackTask show ?thesis
    by (auto simp: UnlockCallback_run_def lines_def map_nth split: option.splits dest!: unlock_callbacks_lines)
next
  case (LockCallbackTask r)
  assume "run_task e t s = Some s'"
  with LockCallbackTask show ?thesis by (auto simp: LockCallback_run_def lines_def comp_def)
qed auto

lemma lines_step:
  assumes "happen e h s = Some s'"
  shows "lines s' = fold join_line (asks (e, h) s) (lines s)"
proof (cases h)
  case (Request req)
  with assms show ?thesis using lines_request by auto
next
  case (PendingTask i)
  with assms show ?thesis by (auto dest: lines_task split: if_splits)
next
  case (AbilityAdded sa)
  have "lines (init_disabled_flag e u s) = lines s" for u and s :: "'a service_state"
    by (simp add: init_disabled_flag_def)
  with assms AbilityAdded show ?thesis by (auto simp: OnAddSystemAbility_def InitUserId_def Let_def)
next
  case (AccountChanged ev u)
  have "lines (OnActiveUser e l u s) = lines s" "lines (OnRemoveUser e u s) = lines s" for l
    by (simp_all add: OnActiveUser_def init_disabled_flag_def OnRemoveUser_def DeleteUnlockPolicyForUser_def Let_def)
  with assms AccountChanged show ?thesis
    by (auto simp: OnAccountsChanged_def Service_AccountUnlocked_def Let_def split: option.splits account_event.splits)
qed (use assms in \<open>auto simp: Service_OnNotifyCredChangeEvent_def FreshDisabledState_def OnReceiveEvent_def Let_def\<close>)

interpretation waiting_lines: changes_refined "\<lambda>(e, h). happen e h" asks "\<lambda>_. True" "\<lambda>_. True" lines join_line
  by unfold_locales (auto simp: lines_step)

lemma fold_join_line:
  "fold join_line as ls = (fst ls @ concat (map unlock_ask as), snd ls @ concat (map lock_ask as))"
  by (induction as arbitrary: ls) (simp_all add: join_line_def)

text \<open>C5: in any history, the unlock listeners the service has called so far, in the order of the calls,
  followed by those that still wait, are exactly the listeners of the unlock requests it accepted, in
  the order of the requests; the same holds for lock requests.  So nobody is called without having
  asked, nobody is called twice for one request, no accepted request is lost, and nobody overtakes.\<close>

theorem answered_in_order:
  assumes "execute (\<lambda>(e, h). happen e h) asks hs (initial_service p) = Some (as, s)"
  shows "concat (map unlock_answer (trace s)) @ unlockVecListeners s = concat (map unlock_ask as)
    \<and> concat (map lock_answer (trace s)) @ lockVecListeners s = concat (map lock_ask as)"
proof -
  have "lines s = fold join_line as (lines (initial_service p))"
    by (rule waiting_lines.view_after [OF _ _ assms]) simp_all
  then show ?thesis by (simp add: fold_join_line) (simp add: lines_def initial_service_def)
qed

definition waiting_history :: "(sample_store env \<times> happening) list" where
  "waiting_history = map (Pair sample_env)
     [Started, Request (Req_Unlock 5), Request (Req_Lock 6), Request (Req_UnlockScreen 7),
      Request (Req_SendScreenLockEvent UNLOCK_SCREEN_RESULT 2), PendingTask 0, Request (Req_Unlock 5)]"

theorem answered_in_order_witness:
  "\<exists>as s. execute (\<lambda>(e, h). happen e h) asks waiting_history (initial_service []) = Some (as, s)
     \<and> concat (map unlock_answer (trace s)) @ unlockVecListeners s = [5, 7, 5]
     \<and> unlockVecListeners s = [5] \<and> lockVecListeners s = [6]"
proof -
  have "map_option (\<lambda>(as, s). (as, unlockVecListeners s, lockVecListeners s))
      (execute (\<lambda>(e, h). happen e h) asks waiting_history (initial_service []))
    = Some ([AskUnlock 5, AskLock 6, AskUnlock 7, AskUnlock 5], [5], [6])"
    by code_simp
  then obtain as s where r: "execute (\<lambda>(e, h). happen e h) asks waiting_history (initial_service []) = Some (as, s)"
    "as = [AskUnlock 5, AskLock 6, AskUnlock 7, AskUnlock 5]" "unlockVecListeners s = [5]" "lockVecListeners s = [6]"
    by auto
  with answered_in_order [OF r(1)] show ?thesis by simp
qed

end
