(* ===== verification/Listener_History.thy ===== *)
theory Listener_History
  imports Service_History
begin

text \<open>
  The registered inner listeners over whole histories, and the composition with the users' data: who is
  told of a device-lock change.
\<close>

lemma inner_view_frame: "inner_tables s' = inner_tables s \<Longrightarrow> inner_view s' = inner_view s"
  by (simp add: inner_tables_def inner_view_def registrations_def watched_def getListenerSet_def)

section \<open>The registrations of a history\<close>

datatype listener_change = Registered int int nat | Unregistered int nat | Died nat

fun apply_listener :: "listener_change \<Rightarrow> inner_view \<Rightarrow> inner_view" where
  "apply_listener (Registered u t r) = spec_register u t r"
| "apply_listener (Unregistered t r) = spec_unregister t r"
| "apply_listener (Died r) = spec_died r"

fun remote_object :: "listener option \<Rightarrow> nat option" where
  "remote_object None = None"
| "remote_object (Some l) = AsObject l"

fun request_listens :: "'p env \<Rightarrow> request \<Rightarrow> status \<Rightarrow> listener_change list" where
  "request_listens e (Req_RegisterInnerListener u t lo) st =
     (case remote_object lo of Some r \<Rightarrow> if st = OK then [Registered (effective_user e u) t r] else [] | None \<Rightarrow> [])"
| "request_listens e (Req_UnRegisterInnerListener u t lo) st =
     (case remote_object lo of Some r \<Rightarrow> if st = OK then [Unregistered t r] else [] | None \<Rightarrow> [])"
| "request_listens e _ st = []"

fun listens :: "'p env \<times> happening \<Rightarrow> 'p service_state \<Rightarrow> listener_change list" where
  "listens (e, Request req) s = request_listens e req (fst (fst (serve e req s)))"
| "listens (e, ClientDied (Some r)) s = [Died r]"
| "listens x s = []"

lemma tables_request:
  assumes "\<forall>u t lo. req \<noteq> Req_RegisterInnerListener u t lo" and "\<forall>u t lo. req \<noteq> Req_UnRegisterInnerListener u t lo"
  shows "inner_tables (snd (serve e req s)) = inner_tables s"
proof -
  have reports: "inner_tables (LockScreenEvent e r s) = inner_tables s" "inner_tables (UnlockScreenEvent e r s) = inner_tables s"
    for r by (simp_all add: LockScreenEvent_def UnlockScreenEvent_def Let_def)
  have unlock: "inner_tables (snd (UnlockInner e l s)) = inner_tables s" for l and s :: "('a, 'b) service_state_scheme"
    by (simp add: UnlockInner_def Let_def split_def)
  show ?thesis using assms
    by (cases req)
      (simp_all add: reports unlock no_out_def only_out_def Unlock_def UnlockScreen_def Lock_user_def Lock_listener_def
      IsLocked_def IsLockedWithUserId_def IsScreenLockDisabled_def GetScreenLockAuthState_def RequestStrongAuth_def
      GetStrongAuth_def IsDeviceLocked_def UnlockWatch_def SendScreenLockEvent_def sl_frame
      GetUnlockPolicy_def IsLockedWatch_def SetScreenLockDisabled_def FreshDisabledState_def SetScreenLockAuthState_def
      SetUnlockPolicy_def split_def Let_def split: option.split)
qed

lemma listens_request:
  assumes "inner_inv s"
  shows "inner_view (snd (serve e req s)) = fold apply_listener (request_listens e req (fst (fst (serve e req s)))) (inner_view s)"
proof (cases req)
  case (Req_RegisterInnerListener u t lo)
  show ?thesis
  proof (cases "remote_object lo")
    case None
    then have "fst (RegisterInnerListener e u t lo s) \<noteq> OK"
      by (cases lo) (auto simp: RegisterInnerListener_def AddDeathRecipient_def)
    from RegisterInnerListener_fail [OF this] None Req_RegisterInnerListener show ?thesis
      by (simp add: no_out_def Service_RegisterInnerListener_def)
  next
    case (Some r)
    then obtain l where l: "lo = Some l" "AsObject l = Some r" by (cases lo) auto
    show ?thesis
      using RegisterInnerListener_view [OF assms l(2), of e u t] RegisterInnerListener_fail [of e u t lo s] Some
        Req_RegisterInnerListener l(1)
      by (cases "fst (RegisterInnerListener e u t lo s) = OK") (auto simp: no_out_def Service_RegisterInnerListener_def)
  qed
next
  case (Req_UnRegisterInnerListener u t lo)
  show ?thesis
  proof (cases "remote_object lo")
    case None
    then have "snd (UnRegisterInnerListener t lo s) = s"
      by (cases lo) (auto simp: UnRegisterInnerListener_def RemoveDeathRecipient_def)
    with None Req_UnRegisterInnerListener show ?thesis by (simp add: no_out_def Service_UnRegisterInnerListener_def)
  next
    case (Some r)
    then obtain l where l: "lo = Some l" "AsObject l = Some r" by (cases lo) auto
    show ?thesis
      using UnRegisterInnerListener_view [OF assms l(2), of t] Some Req_UnRegisterInnerListener l(1)
      by (auto simp: no_out_def Service_UnRegisterInnerListener_def)
  qed
qed (rule trans [OF inner_view_frame [OF tables_request]]; simp)+

lemma listens_step:
  assumes "inner_inv s" and "happen e h s = Some s'"
  shows "inner_view s' = fold apply_listener (listens (e, h) s) (inner_view s)"
proof (cases h)
  case (Request req)
  with assms listens_request [OF assms(1)] show ?thesis by auto
next
  case (PendingTask i)
  have callbacks: "unlock_callbacks is r u s = Some s'' \<Longrightarrow> inner_tables s'' = inner_tables s" for "is" r u s and s'' :: "'a service_state"
    by (induction "is" arbitrary: s) (auto simp: CallbackUnlockListener_def Let_def split: option.splits if_splits)
  have "run_task e t s = Some s'' \<Longrightarrow> inner_tables s'' = inner_tables s" for t s and s'' :: "'a service_state"
    by (cases t) (auto simp: UnlockCallback_run_def LockCallback_run_def split: option.splits dest: callbacks)
  with assms PendingTask show ?thesis by (auto intro!: inner_view_frame split: if_splits)
next
  case (ClientDied ro)
  then show ?thesis using assms OnRemoteDied_view [OF assms(1)] by (cases ro) (auto simp: OnRemoteDied_def)
next
  case (AbilityAdded sa)
  have "inner_tables (init_disabled_flag e u s) = inner_tables s" for u and s :: "'a service_state"
    by (simp add: init_disabled_flag_def sl_frame)
  with assms(2) AbilityAdded show ?thesis
    by (auto simp: OnAddSystemAbility_def InitUserId_def Let_def intro!: inner_view_frame)
next
  case (AccountChanged ev u)
  have "inner_tables (OnActiveUser e l u s) = inner_tables s" "inner_tables (OnRemoveUser e u s) = inner_tables s" for l
    by (simp_all add: OnActiveUser_def init_disabled_flag_def OnRemoveUser_def DeleteUnlockPolicyForUser_def Let_def sl_frame)
  with assms(2) AccountChanged show ?thesis
    by (auto simp: OnAccountsChanged_def Service_AccountUnlocked_def Let_def intro!: inner_view_frame
        split: option.splits account_event.splits)
qed (use assms(2) in \<open>auto simp: Service_OnNotifyCredChangeEvent_def FreshDisabledState_def OnReceiveEvent_def Let_def
    sl_frame intro!: inner_view_frame\<close>)

interpretation registered: changes_refined "\<lambda>(e, h). happen e h" listens "\<lambda>_. True" service_inv inner_view apply_listener
proof unfold_locales
  fix s :: "'p service_state" and x :: "'p env \<times> happening" and s'
  assume inv: "service_inv s" and step: "(case x of (e, h) \<Rightarrow> happen e h) s = Some s'"
  obtain e h where x: "x = (e, h)" by (cases x)
  show "service_inv s'" using service_step_inv [OF _ inv] step x service_step_happen [of s s'] by auto
  have "inner_inv s" using inv by (simp add: service_inv_def inner_inv_view)
  from listens_step [OF this] step x
  show "inner_view s' = fold apply_listener (listens x s) (inner_view s)" by simp
qed

lemma inner_view_initial: "inner_view (initial_service p) = ({}, {})"
  by (simp add: inner_view_def registrations_def watched_def getListenerSet_def initial_service_def)

lemma tables_after:
  assumes "execute (\<lambda>(e, h). happen e h) listens hs (initial_service p) = Some (ls, s)"
  shows "fold apply_listener ls ({}, {}) = (registrations s, watched s)"
  using registered.view_after [OF service_inv_initial _ assms] by (simp add: inner_view_initial) (simp add: inner_view_def)

text \<open>C11: after any history of the whole service, the registered triples (listen type, user, remote object)
  and the watched remote objects are what an abstract table computes from the accepted registrations,
  the accepted removals and the deaths of clients alone, in their order.\<close>

theorem listeners_follow_history:
  assumes "execute (\<lambda>(e, h). happen e h) listens hs (initial_service p) = Some (ls, s)"
  shows "(registrations s, watched s) = fold apply_listener ls ({}, {})"
  by (simp add: tables_after [OF assms])

definition listener_history :: "(sample_store env \<times> happening) list" where
  "listener_history = map (Pair sample_env)
     [Started, AbilityAdded ACCOUNT_SA, AccountChanged ACTIVATED 100,
      Request (Req_RegisterInnerListener 100 1 (Some (Listener 5 (Some 9)))),
      Request (Req_RegisterInnerListener 100 1 (Some (Listener 6 (Some 8)))), ClientDied (Some 8)]"

lemma listener_history_runs:
  "\<exists>s. execute (\<lambda>(e, h). happen e h) listens listener_history (initial_service [])
       = Some ([Registered 100 1 9, Registered 100 1 8, Died 8], s)
     \<and> run listener_history (initial_service []) = Some ([Activated 100], s)"
proof -
  have "map_option fst (execute (\<lambda>(e, h). happen e h) listens listener_history (initial_service []))
      = Some [Registered 100 1 9, Registered 100 1 8, Died 8]" by code_simp
  then obtain s where s: "execute (\<lambda>(e, h). happen e h) listens listener_history (initial_service [])
      = Some ([Registered 100 1 9, Registered 100 1 8, Died 8], s)" by auto
  have "map_option fst (run listener_history (initial_service [])) = Some [Activated 100]" by code_simp
  then obtain t where t: "run listener_history (initial_service []) = Some ([Activated 100], t)" by auto
  have "s = t" using execute_same_end [OF s t [unfolded run_def]] .
  with s t show ?thesis by blast
qed

lemma history_registrations:
  "fold apply_listener [Registered 100 1 9, Registered 100 1 8, Died 8] ({}, {}) = ({(1, 100, 9)}, {(9, 1)})"
proof -
  have "{t. t = (1::int)} = {1}" by auto
  moreover have "least_entry 1 8 {(1, 100, 8), (1, 100, 9)} = {(1, 100, 8)}" by (auto simp: least_entry_def)
  ultimately show ?thesis by (auto simp: spec_register_def spec_died_def)
qed

theorem listeners_follow_history_witness:
  "\<exists>ls s. execute (\<lambda>(e, h). happen e h) listens listener_history (initial_service []) = Some (ls, s)
     \<and> registrations s = {(1, 100, 9)}"
proof -
  obtain s where s: "execute (\<lambda>(e, h). happen e h) listens listener_history (initial_service [])
       = Some ([Registered 100 1 9, Registered 100 1 8, Died 8], s)" using listener_history_runs by blast
  from listeners_follow_history [OF s] have "registrations s = {(1, 100, 9)}" by (simp only: history_registrations prod.inject)
  with s show ?thesis by blast
qed

text \<open>C7: who hears of a device-lock change is decided by the history alone: when an admitted caller reports
  an authentication state for a user, each remote object is told the new answer once for its
  registration under that user and once for one under all users (as the registrations, removals and
  deaths of the history leave them), exactly if the user was known and the device-lock answer that the
  changes of the user's data had led to is another one.\<close>

theorem device_lock_told_by_history:
  assumes "run hs (initial_service p) = Some (cs, s)" and "prefs_laws np" and "\<forall>x \<in> set hs. prefs (fst x) = np"
    and "execute (\<lambda>(e, h). happen e h) listens hs (initial_service p) = Some (ls, s)"
    and "gate e (Req_SetAuthState a u tok) = None"
  shows "let locked = GetDeviceLockedStateByAuth a; regs = fst (fold apply_listener ls ({}, {}));
      old = authState (fold (apply_change u) (filter (concerns u) cs) (stored_view np u p)) in
      deliveries q u (bool_int locked) (trace (snd (serve e (Req_SetAuthState a u tok) s)))
        = deliveries q u (bool_int locked) (trace s)
        + (case old of
             None \<Rightarrow> 0
           | Some b \<Rightarrow>
               if GetDeviceLockedStateByAuth b = locked then 0
               else of_bool ((listen_type DEVICE_LOCK, u, q) \<in> regs)
                  + of_bool ((listen_type DEVICE_LOCK, special_user_code USER_ALL, q) \<in> regs))"
proof -
  have "authState (fold (apply_change u) (filter (concerns u) cs) (stored_view np u p)) = mfind (authStateInfo s) u"
    by (simp add: run_view [OF assms(1-3), symmetric]) (simp add: user_view_of_def)
  moreover have "fst (fold apply_listener ls ({}, {})) = registrations s" by (simp add: tables_after [OF assms(4)])
  moreover have "inner_inv s"
    using service_reachable_inv [OF run_reachable [OF service_reachable.initial assms(1)]]
    by (simp add: service_inv_def inner_inv_view)
  ultimately show ?thesis using auth_report_deliveries [OF assms(5)] by (simp only: Let_def)
qed

theorem device_lock_told_by_history_witness:
  "\<exists>s. run listener_history (initial_service []) = Some ([Activated 100], s)
     \<and> deliveries 9 100 0 (trace (snd (serve sample_env (Req_SetAuthState 4 100 ''token'') s)))
         = deliveries 9 100 0 (trace s) + 1"
proof -
  obtain s where s: "execute (\<lambda>(e, h). happen e h) listens listener_history (initial_service [])
       = Some ([Registered 100 1 9, Registered 100 1 8, Died 8], s)"
     "run listener_history (initial_service []) = Some ([Activated 100], s)" using listener_history_runs by blast
  have p: "\<forall>x \<in> set listener_history. prefs (fst x) = sample_prefs" by (simp add: listener_history_def)
  from device_lock_told_by_history [OF s(2) prefs_laws_sample p s(1) sample_gates, where a = 4 and u = 100 and tok = "''token''" and q = 9] s(2)
  show ?thesis
    unfolding history_registrations
    by (simp add: GetDeviceLockedStateByAuth_def bool_int_def stored_view_def some_or_def Let_def del: serve.simps)
qed

end
