(* ===== verification/Ipc_Parcel.thy ===== *)
theory Ipc_Parcel
  imports System_Invariant
begin

text \<open>
  What the clients and the service use of the IPC framework, which is not part of the repository: a
  record of operations (\<open>ipc\<close>) that is a parameter of every definition, and the documented laws of a
  parcel (\<open>ipc_laws\<close>): it is a queue of typed items, a read of the kind written returns the oldest
  item, a read of an empty parcel fails.  \<open>sample_ipc\<close> is a library that satisfies the laws.  The
  interface descriptors and request codes of the repository are here too.
\<close>

section \<open>Parcels\<close>

datatype parcel_item = TokenItem string | Int32Item int | BoolItem bool | StringItem string | RemoteItem nat

datatype item_kind = TokenKind | Int32Kind | BoolKind | StringKind | RemoteKind

fun kind_of :: "parcel_item \<Rightarrow> item_kind" where
  "kind_of (TokenItem _) = TokenKind"
| "kind_of (Int32Item _) = Int32Kind"
| "kind_of (BoolItem _) = BoolKind"
| "kind_of (StringItem _) = StringKind"
| "kind_of (RemoteItem _) = RemoteKind"

text \<open>
  \<open>writeItem\<close> and \<open>readItem\<close> are the write and read functions of a parcel by item type;
  \<open>castCallback\<close>, \<open>castSystemAbility\<close> and \<open>castInner\<close> are \<open>iface_cast\<close> at the three
  listener interfaces, \<open>None\<close> for null; \<open>defaultRequest\<close> is \<open>IPCObjectStub::OnRemoteRequest\<close>; \<open>unknownTransaction\<close> is the
  framework's code \<open>UNKNOWN_TRANSACTION\<close>;
  \<open>errOffset\<close> is the error offset of the error-code scheme.
\<close>

record 'm ipc =
  freshParcel :: 'm
  writeItem :: "parcel_item \<Rightarrow> 'm \<Rightarrow> bool \<times> 'm"
  readItem :: "item_kind \<Rightarrow> 'm \<Rightarrow> parcel_item option \<times> 'm"
  castCallback :: "nat \<Rightarrow> nat option"
  castSystemAbility :: "nat \<Rightarrow> nat option"
  castInner :: "nat \<Rightarrow> listener option"
  defaultRequest :: "int \<Rightarrow> 'm \<Rightarrow> 'm \<Rightarrow> int \<times> 'm"
  unknownTransaction :: int
  errOffset :: int

definition ipc_laws :: "'m ipc \<Rightarrow> ('m \<Rightarrow> parcel_item list) \<Rightarrow> bool" where
  "ipc_laws L content \<longleftrightarrow>
     content (freshParcel L) = []
     \<and> (\<forall>i m. fst (writeItem L i m) \<and> content (snd (writeItem L i m)) = content m @ [i])
     \<and> (\<forall>i r m. content m = i # r \<longrightarrow>
          fst (readItem L (kind_of i) m) = Some i \<and> content (snd (readItem L (kind_of i) m)) = r)
     \<and> (\<forall>k m. content m = [] \<longrightarrow> fst (readItem L k m) = None \<and> content (snd (readItem L k m)) = [])"

definition WriteInterfaceToken :: "'m ipc \<Rightarrow> string \<Rightarrow> 'm \<Rightarrow> bool \<times> 'm" where
  "WriteInterfaceToken L v = writeItem L (TokenItem v)"
definition WriteInt32 :: "'m ipc \<Rightarrow> int \<Rightarrow> 'm \<Rightarrow> bool \<times> 'm" where
  "WriteInt32 L v = writeItem L (Int32Item v)"
definition WriteBool :: "'m ipc \<Rightarrow> bool \<Rightarrow> 'm \<Rightarrow> bool \<times> 'm" where
  "WriteBool L v = writeItem L (BoolItem v)"
definition WriteString :: "'m ipc \<Rightarrow> string \<Rightarrow> 'm \<Rightarrow> bool \<times> 'm" where
  "WriteString L v = writeItem L (StringItem v)"
definition WriteRemoteObject :: "'m ipc \<Rightarrow> nat \<Rightarrow> 'm \<Rightarrow> bool \<times> 'm" where
  "WriteRemoteObject L v = writeItem L (RemoteItem v)"

text \<open>
  Reads come in two forms: one that reports failure (\<open>Try\<close>) and one that returns a default.
\<close>

fun token_of :: "parcel_item option \<Rightarrow> string" where
  "token_of (Some (TokenItem v)) = v" | "token_of _ = ''''"
fun int_of :: "parcel_item option \<Rightarrow> int option" where
  "int_of (Some (Int32Item v)) = Some v" | "int_of _ = None"
fun bool_of :: "parcel_item option \<Rightarrow> bool" where
  "bool_of (Some (BoolItem v)) = v" | "bool_of _ = False"
fun string_of :: "parcel_item option \<Rightarrow> string option" where
  "string_of (Some (StringItem v)) = Some v" | "string_of _ = None"
fun remote_of :: "parcel_item option \<Rightarrow> nat option" where
  "remote_of (Some (RemoteItem v)) = Some v" | "remote_of _ = None"

definition ReadInterfaceToken :: "'m ipc \<Rightarrow> 'm \<Rightarrow> string \<times> 'm" where
  "ReadInterfaceToken L m = apfst token_of (readItem L TokenKind m)"
definition TryReadInt32 :: "'m ipc \<Rightarrow> 'm \<Rightarrow> int option \<times> 'm" where
  "TryReadInt32 L m = apfst int_of (readItem L Int32Kind m)"
definition ReadInt32 :: "'m ipc \<Rightarrow> 'm \<Rightarrow> int \<times> 'm" where
  "ReadInt32 L m = apfst (case_option 0 (\<lambda>v. v)) (TryReadInt32 L m)"
definition ReadBool :: "'m ipc \<Rightarrow> 'm \<Rightarrow> bool \<times> 'm" where
  "ReadBool L m = apfst bool_of (readItem L BoolKind m)"
definition TryReadString :: "'m ipc \<Rightarrow> 'm \<Rightarrow> string option \<times> 'm" where
  "TryReadString L m = apfst string_of (readItem L StringKind m)"
definition ReadString :: "'m ipc \<Rightarrow> 'm \<Rightarrow> string \<times> 'm" where
  "ReadString L m = apfst (case_option '''' (\<lambda>v. v)) (TryReadString L m)"
definition ReadRemoteObject :: "'m ipc \<Rightarrow> 'm \<Rightarrow> nat option \<times> 'm" where
  "ReadRemoteObject L m = apfst remote_of (readItem L RemoteKind m)"

named_theorems parcel_ops

lemmas [parcel_ops] = WriteInterfaceToken_def WriteInt32_def WriteBool_def WriteString_def WriteRemoteObject_def
  ReadInterfaceToken_def TryReadInt32_def ReadInt32_def ReadBool_def TryReadString_def ReadString_def
  ReadRemoteObject_def

lemma content_fresh: "ipc_laws L content \<Longrightarrow> content (freshParcel L) = []"
  by (simp add: ipc_laws_def)

lemma write_content:
  "ipc_laws L content \<Longrightarrow> fst (writeItem L i m)"
  "ipc_laws L content \<Longrightarrow> content (snd (writeItem L i m)) = content m @ [i]"
  by (simp_all add: ipc_laws_def)

lemma read_content:
  "ipc_laws L content \<Longrightarrow> content m = i # r \<Longrightarrow> kind_of i = k \<Longrightarrow> fst (readItem L k m) = Some i"
  "ipc_laws L content \<Longrightarrow> content m = i # r \<Longrightarrow> kind_of i = k \<Longrightarrow> content (snd (readItem L k m)) = r"
  by (auto simp: ipc_laws_def)

lemma read_empty:
  "ipc_laws L content \<Longrightarrow> content m = [] \<Longrightarrow> fst (readItem L k m) = None"
  "ipc_laws L content \<Longrightarrow> content m = [] \<Longrightarrow> content (snd (readItem L k m)) = []"
  by (auto simp: ipc_laws_def)

text \<open>The same laws without free variables in the premises, for the simplifier.\<close>

lemma read_hd:
  "ipc_laws L content \<Longrightarrow> content m \<noteq> [] \<Longrightarrow> kind_of (hd (content m)) = k
     \<Longrightarrow> fst (readItem L k m) = Some (hd (content m))"
  "ipc_laws L content \<Longrightarrow> content m \<noteq> [] \<Longrightarrow> kind_of (hd (content m)) = k
     \<Longrightarrow> content (snd (readItem L k m)) = tl (content m)"
  by (cases "content m"; auto simp: ipc_laws_def)+

lemmas parcel_content = content_fresh write_content read_content read_empty

section \<open>A library that satisfies the laws\<close>

definition sample_ipc :: "parcel_item list ipc" where
  "sample_ipc = \<lparr>freshParcel = [],
     writeItem = (\<lambda>i m. (True, m @ [i])),
     readItem = (\<lambda>k m. case m of [] \<Rightarrow> (None, []) | i # r \<Rightarrow> if kind_of i = k then (Some i, r) else (None, m)),
     castCallback = Some, castSystemAbility = Some, castInner = (\<lambda>r. Some (Listener r (Some r))),
     defaultRequest = (\<lambda>c d r. (305, r)), unknownTransaction = 305, errOffset = 13000\<rparr>"

lemma ipc_laws_sample [simp]: "ipc_laws sample_ipc (\<lambda>m. m)"
  by (auto simp: ipc_laws_def sample_ipc_def)

section \<open>Descriptors and request codes\<close>

definition MANAGER_DESCRIPTOR :: string where
  "MANAGER_DESCRIPTOR = ''ohos.screenlock.ScreenLockManagerInterface''"
definition SYSTEM_ABILITY_DESCRIPTOR :: string where
  "SYSTEM_ABILITY_DESCRIPTOR = ''OHOS.ScreenLock.ScreenLockSystemAbilityInterface''"
definition CALLBACK_DESCRIPTOR :: string where
  "CALLBACK_DESCRIPTOR = ''OHOS.ScreenLock.ScreenLockCallbackInterface''"
definition INNER_DESCRIPTOR :: string where
  "INNER_DESCRIPTOR = ''OHOS.ScreenLock.InnerListenerIf''"

datatype ipc_code =
    IS_SCREEN_LOCKED | IS_SECURE_MODE | UNLOCK_SCREEN | ONSYSTEMEVENT | LOCK | SEND_SCREENLOCK_EVENT
  | IS_LOCKED | UNLOCK | LOCK_SCREEN | IS_SCREENLOCK_DISABLED | SET_SCREENLOCK_DISABLED
  | SET_SCREENLOCK_AUTHSTATE | GET_SCREENLOCK_AUTHSTATE | REQUEST_STRONG_AUTHSTATE | GET_STRONG_AUTHSTATE
  | IS_DEVICE_LOCKED | REGISTER_INNER_LISTENER | UNREGISTER_INNER_LISTENER | IS_USER_SCREEN_LOCKED
  | SET_UNLOCK_POLICY | GET_UNLOCK_POLICY | IS_LOCKED_WATCH | UNLOCK_WATCH

fun code_value :: "ipc_code \<Rightarrow> int" where
  "code_value IS_SCREEN_LOCKED = 0"
| "code_value IS_SECURE_MODE = 1"
| "code_value UNLOCK_SCREEN = 2"
| "code_value ONSYSTEMEVENT = 3"
| "code_value LOCK = 4"
| "code_value SEND_SCREENLOCK_EVENT = 5"
| "code_value IS_LOCKED = 6"
| "code_value UNLOCK = 7"
| "code_value LOCK_SCREEN = 8"
| "code_value IS_SCREENLOCK_DISABLED = 9"
| "code_value SET_SCREENLOCK_DISABLED = 10"
| "code_value SET_SCREENLOCK_AUTHSTATE = 11"
| "code_value GET_SCREENLOCK_AUTHSTATE = 12"
| "code_value REQUEST_STRONG_AUTHSTATE = 13"
| "code_value GET_STRONG_AUTHSTATE = 14"
| "code_value IS_DEVICE_LOCKED = 15"
| "code_value REGISTER_INNER_LISTENER = 16"
| "code_value UNREGISTER_INNER_LISTENER = 17"
| "code_value IS_USER_SCREEN_LOCKED = 18"
| "code_value SET_UNLOCK_POLICY = 19"
| "code_value GET_UNLOCK_POLICY = 20"
| "code_value IS_LOCKED_WATCH = 21"
| "code_value UNLOCK_WATCH = 22"

lemma code_value_inject [simp]: "code_value c = code_value d \<longleftrightarrow> c = d"
  by (cases c; cases d) simp_all

fun out_bool :: "bool \<Rightarrow> out_value \<Rightarrow> bool" where
  "out_bool d (BoolOut b) = b" | "out_bool d _ = d"

fun out_int :: "int \<Rightarrow> out_value \<Rightarrow> int" where
  "out_int d (IntOut i) = i" | "out_int d _ = d"

end
