(* ===== verification/Manager_Stub.thy ===== *)
theory Manager_Stub
  imports Ipc_Parcel
begin

text \<open>
  \<open>services/src/screenlock_manager_stub.cpp\<close>: the server side of the IPC interface.  Each handler
  reads its arguments from the parcel, calls the service, and writes the reply; the dispatcher checks
  the interface token and looks the request code up in the table of handlers.
\<close>

section \<open>Handlers\<close>

text \<open>The return value of a handler, which the dispatcher ignores.\<close>

datatype handler_result = ERR_NONE | ERR_INVALID_DATA

text \<open>Writing a status as the integer it is.\<close>

definition WriteStatus :: "'m ipc \<Rightarrow> status \<Rightarrow> 'm \<Rightarrow> 'm" where
  "WriteStatus L ret reply = snd (WriteInt32 L (status_code (errOffset L) ret) reply)"

definition status_ok :: "'m ipc \<Rightarrow> status \<Rightarrow> bool" where
  "status_ok L ret \<longleftrightarrow> status_code (errOffset L) ret = status_code (errOffset L) OK"

type_synonym ('m, 's) handled = "handler_result \<times> 'm \<times> 's"

definition OnIsLocked ::
  "'p env \<Rightarrow> 'm ipc \<Rightarrow> 'm \<Rightarrow> 'm \<Rightarrow> ('p, 's) service_state_scheme \<Rightarrow> ('m, ('p, 's) service_state_scheme) handled"
where
  "OnIsLocked e L data reply s =
     (let ((ret, out), s1) = IsLocked e s;
          reply1 = WriteStatus L ret reply;
          reply2 = (if status_ok L ret then snd (WriteBool L (out_bool False out) reply1) else reply1)
      in (ERR_NONE, reply2, s1))"

definition OnIsScreenLocked ::
  "'p env \<Rightarrow> 'm ipc \<Rightarrow> 'm \<Rightarrow> 'm \<Rightarrow> ('p, 's) service_state_scheme \<Rightarrow> ('m, ('p, 's) service_state_scheme) handled"
where
  "OnIsScreenLocked e L data reply s =
     (let (isScreenLocked, s1) = IsScreenLocked e s
      in (ERR_NONE, snd (WriteBool L isScreenLocked reply), s1))"

definition OnGetSecure ::
  "'p env \<Rightarrow> 'm ipc \<Rightarrow> 'm \<Rightarrow> 'm \<Rightarrow> ('p, 's) service_state_scheme \<Rightarrow> ('m, ('p, 's) service_state_scheme) handled"
where
  "OnGetSecure e L data reply s =
     (let (result, s1) = GetSecure e s in (ERR_NONE, snd (WriteBool L result reply), s1))"

definition OnUnlock ::
  "'p env \<Rightarrow> 'm ipc \<Rightarrow> 'm \<Rightarrow> 'm \<Rightarrow> ('p, 's) service_state_scheme \<Rightarrow> ('m, ('p, 's) service_state_scheme) handled"
where
  "OnUnlock e L data reply s =
     (case fst (ReadRemoteObject L data) of
        None \<Rightarrow> (ERR_INVALID_DATA, reply, s)
      | Some remote \<Rightarrow>
          (case castCallback L remote of
             None \<Rightarrow> (ERR_INVALID_DATA, reply, s)
           | Some listener \<Rightarrow>
               let (ret, s1) = Unlock e listener s in (ERR_NONE, WriteStatus L ret reply, s1)))"

definition OnUnlockScreen ::
  "'p env \<Rightarrow> 'm ipc \<Rightarrow> 'm \<Rightarrow> 'm \<Rightarrow> ('p, 's) service_state_scheme \<Rightarrow> ('m, ('p, 's) service_state_scheme) handled"
where
  "OnUnlockScreen e L data reply s =
     (case fst (ReadRemoteObject L data) of
        None \<Rightarrow> (ERR_INVALID_DATA, reply, s)
      | Some remote \<Rightarrow>
          (case castCallback L remote of
             None \<Rightarrow> (ERR_INVALID_DATA, reply, s)
           | Some listener \<Rightarrow>
               let (ret, s1) = UnlockScreen e listener s in (ERR_NONE, WriteStatus L ret reply, s1)))"

definition OnLock ::
  "'p env \<Rightarrow> 'm ipc \<Rightarrow> 'm \<Rightarrow> 'm \<Rightarrow> ('p, 's) service_state_scheme \<Rightarrow> ('m, ('p, 's) service_state_scheme) handled"
where
  "OnLock e L data reply s =
     (case fst (ReadRemoteObject L data) of
        None \<Rightarrow> (ERR_INVALID_DATA, reply, s)
      | Some remote \<Rightarrow>
          (case castCallback L remote of
             None \<Rightarrow> (ERR_INVALID_DATA, reply, s)
           | Some listener \<Rightarrow>
               let (status, s1) = Lock_listener e listener s in (ERR_NONE, WriteStatus L status reply, s1)))"

definition OnScreenLockOn ::
  "'p env \<Rightarrow> 'm ipc \<Rightarrow> 'm \<Rightarrow> 'm \<Rightarrow> ('p, 's) service_state_scheme \<Rightarrow> ('m, ('p, 's) service_state_scheme) handled"
where
  "OnScreenLockOn e L data reply s =
     (case fst (ReadRemoteObject L data) of
        None \<Rightarrow> (ERR_INVALID_DATA, reply, s)
      | Some remote \<Rightarrow>
          (case castSystemAbility L remote of
             None \<Rightarrow> (ERR_INVALID_DATA, reply, s)
           | Some listener \<Rightarrow>
               let (ret, s1) = OnSystemEvent e (Some listener) s in (ERR_NONE, WriteStatus L ret reply, s1)))"

definition OnSendScreenLockEvent ::
  "'p env \<Rightarrow> 'm ipc \<Rightarrow> 'm \<Rightarrow> 'm \<Rightarrow> ('p, 's) service_state_scheme \<Rightarrow> ('m, ('p, 's) service_state_scheme) handled"
where
  "OnSendScreenLockEvent e L data reply s =
     (let (ev, data1) = ReadString L data;
          read = (if ev = UNLOCK_SCREEN_RESULT \<or> ev = LOCK_SCREEN_RESULT \<or> ev = SCREEN_DRAWDONE
                  then fst (TryReadInt32 L data1) else Some 0)
      in case read of
           None \<Rightarrow> (ERR_INVALID_DATA, WriteStatus L (Code E_SCREENLOCK_READ_PARCEL_ERROR) reply, s)
         | Some param \<Rightarrow>
             let (retCode, s1) = SendScreenLockEvent e ev param s in (ERR_NONE, WriteStatus L retCode reply, s1))"

definition OnIsScreenLockDisabled ::
  "'p env \<Rightarrow> 'm ipc \<Rightarrow> 'm \<Rightarrow> 'm \<Rightarrow> ('p, 's) service_state_scheme \<Rightarrow> ('m, ('p, 's) service_state_scheme) handled"
where
  "OnIsScreenLockDisabled e L data reply s =
     (let userId = fst (ReadInt32 L data);
          ((retCode, out), s1) = IsScreenLockDisabled e userId s;
          reply1 = WriteStatus L retCode reply;
          reply2 = (if status_ok L retCode then snd (WriteBool L (out_bool False out) reply1) else reply1)
      in (ERR_NONE, reply2, s1))"

definition OnSetScreenLockDisabled ::
  "'p env \<Rightarrow> 'm ipc \<Rightarrow> 'm \<Rightarrow> 'm \<Rightarrow> ('p, 's) service_state_scheme \<Rightarrow> ('m, ('p, 's) service_state_scheme) handled"
where
  "OnSetScreenLockDisabled e L data reply s =
     (let (disable, data1) = ReadBool L data;
          userId = fst (ReadInt32 L data1);
          (retCode, s1) = SetScreenLockDisabled e disable userId s
      in (ERR_NONE, WriteStatus L retCode reply, s1))"

definition OnSetScreenLockAuthState ::
  "'p env \<Rightarrow> 'm ipc \<Rightarrow> 'm \<Rightarrow> 'm \<Rightarrow> ('p, 's) service_state_scheme \<Rightarrow> ('m, ('p, 's) service_state_scheme) handled"
where
  "OnSetScreenLockAuthState e L data reply s =
     (let failed = (ERR_INVALID_DATA, WriteStatus L (Code E_SCREENLOCK_READ_PARCEL_ERROR) reply, s);
          (authState, data1) = TryReadInt32 L data;
          (userId, data2) = TryReadInt32 L data1;
          authToken = fst (TryReadString L data2)
      in case (authState, userId, authToken) of
           (Some a, Some u, Some t) \<Rightarrow>
             let (retCode, s1) = SetScreenLockAuthState e a u t s in (ERR_NONE, WriteStatus L retCode reply, s1)
         | _ \<Rightarrow> failed)"

definition OnGetScreenLockAuthState ::
  "'p env \<Rightarrow> 'm ipc \<Rightarrow> 'm \<Rightarrow> 'm \<Rightarrow> ('p, 's) service_state_scheme \<Rightarrow> ('m, ('p, 's) service_state_scheme) handled"
where
  "OnGetScreenLockAuthState e L data reply s =
     (let userId = fst (ReadInt32 L data);
          ((retCode, out), s1) = GetScreenLockAuthState e userId s
      in (ERR_NONE, snd (WriteInt32 L (out_int (- 1) out) (WriteStatus L retCode reply)), s1))"

definition OnRequestStrongAuth ::
  "'p env \<Rightarrow> 'm ipc \<Rightarrow> 'm \<Rightarrow> 'm \<Rightarrow> ('p, 's) service_state_scheme \<Rightarrow> ('m, ('p, 's) service_state_scheme) handled"
where
  "OnRequestStrongAuth e L data reply s =
     (let (reasonFlag, data1) = ReadInt32 L data;
          userId = fst (ReadInt32 L data1);
          (retCode, s1) = RequestStrongAuth e reasonFlag userId s
      in (ERR_NONE, WriteStatus L retCode reply, s1))"

definition OnGetStrongAuth ::
  "'p env \<Rightarrow> 'm ipc \<Rightarrow> 'm \<Rightarrow> 'm \<Rightarrow> ('p, 's) service_state_scheme \<Rightarrow> ('m, ('p, 's) service_state_scheme) handled"
where
  "OnGetStrongAuth e L data reply s =
     (let userId = fst (ReadInt32 L data);
          ((retCode, out), s1) = GetStrongAuth e userId s
      in (ERR_NONE, snd (WriteInt32 L (out_int (- 1) out) (WriteStatus L retCode reply)), s1))"

definition OnRegistInnerListener ::
  "'p env \<Rightarrow> 'm ipc \<Rightarrow> 'm \<Rightarrow> 'm \<Rightarrow> ('p, 's) service_state_scheme \<Rightarrow> ('m, ('p, 's) service_state_scheme) handled"
where
  "OnRegistInnerListener e L data reply s =
     (let (userId, data1) = ReadInt32 L data;
          (listenType, data2) = ReadInt32 L data1
      in case fst (ReadRemoteObject L data2) of
           None \<Rightarrow> (ERR_INVALID_DATA, reply, s)
         | Some remote \<Rightarrow>
             (case castInner L remote of
                None \<Rightarrow> (ERR_INVALID_DATA, reply, s)
              | Some listener \<Rightarrow>
                  let (retCode, s1) = Service_RegisterInnerListener e userId listenType (Some listener) s
                  in (ERR_NONE, WriteStatus L retCode reply, s1)))"

definition OnUnRegistInnerListener ::
  "'p env \<Rightarrow> 'm ipc \<Rightarrow> 'm \<Rightarrow> 'm \<Rightarrow> ('p, 's) service_state_scheme \<Rightarrow> ('m, ('p, 's) service_state_scheme) handled"
where
  "OnUnRegistInnerListener e L data reply s =
     (let (userId, data1) = ReadInt32 L data;
          (listenType, data2) = ReadInt32 L data1
      in case fst (ReadRemoteObject L data2) of
           None \<Rightarrow> (ERR_INVALID_DATA, reply, s)
         | Some remote \<Rightarrow>
             (case castInner L remote of
                None \<Rightarrow> (ERR_INVALID_DATA, reply, s)
              | Some listener \<Rightarrow>
                  let (retCode, s1) = Service_UnRegisterInnerListener e userId listenType (Some listener) s
                  in (ERR_NONE, WriteStatus L retCode reply, s1)))"

definition OnLockScreen ::
  "'p env \<Rightarrow> 'm ipc \<Rightarrow> 'm \<Rightarrow> 'm \<Rightarrow> ('p, 's) service_state_scheme \<Rightarrow> ('m, ('p, 's) service_state_scheme) handled"
where
  "OnLockScreen e L data reply s =
     (let userId = fst (ReadInt32 L data);
          (retCode, s1) = Lock_user e userId s
      in (ERR_NONE, WriteStatus L retCode reply, s1))"

definition OnIsDeviceLocked ::
  "'p env \<Rightarrow> 'm ipc \<Rightarrow> 'm \<Rightarrow> 'm \<Rightarrow> ('p, 's) service_state_scheme \<Rightarrow> ('m, ('p, 's) service_state_scheme) handled"
where
  "OnIsDeviceLocked e L data reply s =
     (let userId = fst (ReadInt32 L data);
          ((retCode, out), s1) = IsDeviceLocked e userId s
      in (ERR_NONE, snd (WriteBool L (out_bool True out) (WriteStatus L retCode reply)), s1))"

definition OnIsLockedWithUserId ::
  "'p env \<Rightarrow> 'm ipc \<Rightarrow> 'm \<Rightarrow> 'm \<Rightarrow> ('p, 's) service_state_scheme \<Rightarrow> ('m, ('p, 's) service_state_scheme) handled"
where
  "OnIsLockedWithUserId e L data reply s =
     (let userId = fst (ReadInt32 L data);
          ((retCode, out), s1) = IsLockedWithUserId e userId s
      in (ERR_NONE, snd (WriteBool L (out_bool True out) (WriteStatus L retCode reply)), s1))"

definition OnSetUnlockPolicy ::
  "'p env \<Rightarrow> 'm ipc \<Rightarrow> 'm \<Rightarrow> 'm \<Rightarrow> ('p, 's) service_state_scheme \<Rightarrow> ('m, ('p, 's) service_state_scheme) handled"
where
  "OnSetUnlockPolicy e L data reply s =
     (let (userId, data1) = ReadInt32 L data;
          policy = fst (ReadInt32 L data1);
          (retCode, s1) = SetUnlockPolicy e userId policy s
      in (ERR_NONE, WriteStatus L retCode reply, s1))"

definition OnGetUnlockPolicy ::
  "'p env \<Rightarrow> 'm ipc \<Rightarrow> 'm \<Rightarrow> 'm \<Rightarrow> ('p, 's) service_state_scheme \<Rightarrow> ('m, ('p, 's) service_state_scheme) handled"
where
  "OnGetUnlockPolicy e L data reply s =
     (let userId = fst (ReadInt32 L data);
          ((retCode, out), s1) = GetUnlockPolicy e userId s
      in (ERR_NONE, snd (WriteInt32 L (out_int 0 out) (WriteStatus L retCode reply)), s1))"

definition OnIsLockedWatch ::
  "'p env \<Rightarrow> 'm ipc \<Rightarrow> 'm \<Rightarrow> 'm \<Rightarrow> ('p, 's) service_state_scheme \<Rightarrow> ('m, ('p, 's) service_state_scheme) handled"
where
  "OnIsLockedWatch e L data reply s =
     (let ((ret, out), s1) = IsLockedWatch e s;
          reply1 = WriteStatus L ret reply;
          reply2 = (if status_ok L ret then snd (WriteBool L (out_bool False out) reply1) else reply1)
      in (ERR_NONE, reply2, s1))"

definition OnUnlockWatch ::
  "'p env \<Rightarrow> 'm ipc \<Rightarrow> 'm \<Rightarrow> 'm \<Rightarrow> ('p, 's) service_state_scheme \<Rightarrow> ('m, ('p, 's) service_state_scheme) handled"
where
  "OnUnlockWatch e L data reply s =
     (case fst (ReadRemoteObject L data) of
        None \<Rightarrow> (ERR_INVALID_DATA, reply, s)
      | Some remote \<Rightarrow>
          (case castCallback L remote of
             None \<Rightarrow> (ERR_INVALID_DATA, reply, s)
           | Some listener \<Rightarrow>
               let (ret, s1) = UnlockWatch e listener s in (ERR_NONE, WriteStatus L ret reply, s1)))"

section \<open>The table of handlers and the dispatcher\<close>

type_synonym ('p, 's, 'm) handler =
  "'p env \<Rightarrow> 'm ipc \<Rightarrow> 'm \<Rightarrow> 'm \<Rightarrow> ('p, 's) service_state_scheme \<Rightarrow> ('m, ('p, 's) service_state_scheme) handled"

definition InitHandleMap :: "'p env \<Rightarrow> (int, ('p, 's, 'm) handler) stdmap" where
  "InitHandleMap e = fold (\<lambda>(c, f). mput (code_value c) f)
     ([(IS_LOCKED, OnIsLocked),
       (IS_SCREEN_LOCKED, OnIsScreenLocked),
       (IS_SECURE_MODE, OnGetSecure),
       (UNLOCK, OnUnlock),
       (UNLOCK_SCREEN, OnUnlockScreen),
       (LOCK, OnLock),
       (SEND_SCREENLOCK_EVENT, OnSendScreenLockEvent),
       (ONSYSTEMEVENT, OnScreenLockOn),
       (LOCK_SCREEN, OnLockScreen),
       (IS_SCREENLOCK_DISABLED, OnIsScreenLockDisabled),
       (SET_SCREENLOCK_DISABLED, OnSetScreenLockDisabled),
       (SET_SCREENLOCK_AUTHSTATE, OnSetScreenLockAuthState),
       (GET_SCREENLOCK_AUTHSTATE, OnGetScreenLockAuthState),
       (REQUEST_STRONG_AUTHSTATE, OnRequestStrongAuth),
       (GET_STRONG_AUTHSTATE, OnGetStrongAuth),
       (IS_DEVICE_LOCKED, OnIsDeviceLocked),
       (REGISTER_INNER_LISTENER, OnRegistInnerListener),
       (UNREGISTER_INNER_LISTENER, OnUnRegistInnerListener),
       (IS_USER_SCREEN_LOCKED, OnIsLockedWithUserId),
       (SET_UNLOCK_POLICY, OnSetUnlockPolicy),
       (GET_UNLOCK_POLICY, OnGetUnlockPolicy)]
      @ (if SUPPORT_WEAR_PAYMENT_APP e then [(IS_LOCKED_WATCH, OnIsLockedWatch), (UNLOCK_WATCH, OnUnlockWatch)]
         else [])) []"

definition OnRemoteRequest ::
  "'p env \<Rightarrow> 'm ipc \<Rightarrow> int \<Rightarrow> 'm \<Rightarrow> 'm \<Rightarrow> ('p, 's) service_state_scheme \<Rightarrow> int \<times> 'm \<times> ('p, 's) service_state_scheme"
where
  "OnRemoteRequest e L code data reply s =
     (let (descriptorToken, data1) = ReadInterfaceToken L data;
          (unknown, reply0) = defaultRequest L code data1 reply
      in if descriptorToken \<noteq> MANAGER_DESCRIPTOR then (unknown, reply0, s)
         else case mfind (InitHandleMap e) code of
                Some requestFunc \<Rightarrow> let (_, reply1, s1) = requestFunc e L data1 reply s in (0, reply1, s1)
              | None \<Rightarrow> (unknown, reply0, s))"

section \<open>Which handler serves a code\<close>

fun handler_for :: "ipc_code \<Rightarrow> ('p, 's, 'm) handler" where
  "handler_for IS_LOCKED = OnIsLocked"
| "handler_for IS_SCREEN_LOCKED = OnIsScreenLocked"
| "handler_for IS_SECURE_MODE = OnGetSecure"
| "handler_for UNLOCK = OnUnlock"
| "handler_for UNLOCK_SCREEN = OnUnlockScreen"
| "handler_for LOCK = OnLock"
| "handler_for SEND_SCREENLOCK_EVENT = OnSendScreenLockEvent"
| "handler_for ONSYSTEMEVENT = OnScreenLockOn"
| "handler_for LOCK_SCREEN = OnLockScreen"
| "handler_for IS_SCREENLOCK_DISABLED = OnIsScreenLockDisabled"
| "handler_for SET_SCREENLOCK_DISABLED = OnSetScreenLockDisabled"
| "handler_for SET_SCREENLOCK_AUTHSTATE = OnSetScreenLockAuthState"
| "handler_for GET_SCREENLOCK_AUTHSTATE = OnGetScreenLockAuthState"
| "handler_for REQUEST_STRONG_AUTHSTATE = OnRequestStrongAuth"
| "handler_for GET_STRONG_AUTHSTATE = OnGetStrongAuth"
| "handler_for IS_DEVICE_LOCKED = OnIsDeviceLocked"
| "handler_for REGISTER_INNER_LISTENER = OnRegistInnerListener"
| "handler_for UNREGISTER_INNER_LISTENER = OnUnRegistInnerListener"
| "handler_for IS_USER_SCREEN_LOCKED = OnIsLockedWithUserId"
| "handler_for SET_UNLOCK_POLICY = OnSetUnlockPolicy"
| "handler_for GET_UNLOCK_POLICY = OnGetUnlockPolicy"
| "handler_for IS_LOCKED_WATCH = OnIsLockedWatch"
| "handler_for UNLOCK_WATCH = OnUnlockWatch"

definition code_supported :: "'p env \<Rightarrow> ipc_code \<Rightarrow> bool" where
  "code_supported e c \<longleftrightarrow> SUPPORT_WEAR_PAYMENT_APP e \<or> c \<noteq> IS_LOCKED_WATCH \<and> c \<noteq> UNLOCK_WATCH"

lemma InitHandleMap_lookup:
  "mfind (InitHandleMap e) (code_value c) = (if code_supported e c then Some (handler_for c) else None)"
  by (cases c) (simp_all add: InitHandleMap_def mfind_mput code_supported_def del: code_value.simps)

lemma InitHandleMap_other:
  "(\<forall>c. code \<noteq> code_value c) \<Longrightarrow> mfind (InitHandleMap e) code = None"
  by (simp add: InitHandleMap_def mfind_mput del: code_value.simps)

section \<open>Every message is a request or nothing\<close>

lemma handler_plain:
  "snd (snd (OnIsLocked e L data reply s)) = snd (serve e Req_IsLocked s)"
  "snd (snd (OnIsScreenLocked e L data reply s)) = snd (serve e Req_IsScreenLocked s)"
  "snd (snd (OnGetSecure e L data reply s)) = snd (serve e Req_GetSecure s)"
  "snd (snd (OnIsLockedWatch e L data reply s)) = snd (serve e Req_IsLockedWatch s)"
  by (simp_all add: OnIsLocked_def OnIsScreenLocked_def OnGetSecure_def OnIsLockedWatch_def only_out_def
      Let_def split: prod.split)

lemma handler_ints:
  "snd (snd (OnIsScreenLockDisabled e L data reply s)) = snd (serve e (Req_IsScreenLockDisabled (fst (ReadInt32 L data))) s)"
  "snd (snd (OnGetScreenLockAuthState e L data reply s)) = snd (serve e (Req_GetAuthState (fst (ReadInt32 L data))) s)"
  "snd (snd (OnGetStrongAuth e L data reply s)) = snd (serve e (Req_GetStrongAuth (fst (ReadInt32 L data))) s)"
  "snd (snd (OnLockScreen e L data reply s)) = snd (serve e (Req_LockUser (fst (ReadInt32 L data))) s)"
  "snd (snd (OnIsDeviceLocked e L data reply s)) = snd (serve e (Req_IsDeviceLocked (fst (ReadInt32 L data))) s)"
  "snd (snd (OnIsLockedWithUserId e L data reply s)) = snd (serve e (Req_IsLockedWithUserId (fst (ReadInt32 L data))) s)"
  "snd (snd (OnGetUnlockPolicy e L data reply s)) = snd (serve e (Req_GetUnlockPolicy (fst (ReadInt32 L data))) s)"
  by (simp_all add: OnIsScreenLockDisabled_def OnGetScreenLockAuthState_def OnGetStrongAuth_def OnLockScreen_def
      OnIsDeviceLocked_def OnIsLockedWithUserId_def OnGetUnlockPolicy_def no_out_def Let_def split_beta)

lemma handler_two:
  "snd (snd (OnSetScreenLockDisabled e L data reply s))
     = snd (serve e (Req_SetScreenLockDisabled (fst (ReadBool L data)) (fst (ReadInt32 L (snd (ReadBool L data))))) s)"
  "snd (snd (OnRequestStrongAuth e L data reply s))
     = snd (serve e (Req_RequestStrongAuth (fst (ReadInt32 L data)) (fst (ReadInt32 L (snd (ReadInt32 L data))))) s)"
  "snd (snd (OnSetUnlockPolicy e L data reply s))
     = snd (serve e (Req_SetUnlockPolicy (fst (ReadInt32 L data)) (fst (ReadInt32 L (snd (ReadInt32 L data))))) s)"
  by (simp_all add: OnSetScreenLockDisabled_def OnRequestStrongAuth_def OnSetUnlockPolicy_def no_out_def Let_def split_beta)

lemma handler_remote:
  "snd (snd (OnUnlock e L data reply s)) = s \<or> (\<exists>l. snd (snd (OnUnlock e L data reply s)) = snd (serve e (Req_Unlock l) s))"
  "snd (snd (OnUnlockScreen e L data reply s)) = s \<or> (\<exists>l. snd (snd (OnUnlockScreen e L data reply s)) = snd (serve e (Req_UnlockScreen l) s))"
  "snd (snd (OnLock e L data reply s)) = s \<or> (\<exists>l. snd (snd (OnLock e L data reply s)) = snd (serve e (Req_Lock l) s))"
  "snd (snd (OnScreenLockOn e L data reply s)) = s \<or> (\<exists>l. snd (snd (OnScreenLockOn e L data reply s)) = snd (serve e (Req_OnSystemEvent l) s))"
  "snd (snd (OnUnlockWatch e L data reply s)) = s \<or> (\<exists>l. snd (snd (OnUnlockWatch e L data reply s)) = snd (serve e (Req_UnlockWatch l) s))"
  by (auto simp: OnUnlock_def OnUnlockScreen_def OnLock_def OnScreenLockOn_def OnUnlockWatch_def no_out_def
      Let_def split_beta split: option.split)

lemma handler_inner:
  "snd (snd (OnRegistInnerListener e L data reply s)) = s
     \<or> (\<exists>u t l. snd (snd (OnRegistInnerListener e L data reply s)) = snd (serve e (Req_RegisterInnerListener u t l) s))"
  "snd (snd (OnUnRegistInnerListener e L data reply s)) = s
     \<or> (\<exists>u t l. snd (snd (OnUnRegistInnerListener e L data reply s)) = snd (serve e (Req_UnRegisterInnerListener u t l) s))"
  by (auto simp: OnRegistInnerListener_def OnUnRegistInnerListener_def no_out_def Let_def split_beta
      split: option.split)

lemma handler_events:
  "snd (snd (OnSendScreenLockEvent e L data reply s)) = s
     \<or> (\<exists>ev p. snd (snd (OnSendScreenLockEvent e L data reply s)) = snd (serve e (Req_SendScreenLockEvent ev p) s))"
  "snd (snd (OnSetScreenLockAuthState e L data reply s)) = s
     \<or> (\<exists>a u t. snd (snd (OnSetScreenLockAuthState e L data reply s)) = snd (serve e (Req_SetAuthState a u t) s))"
  by (auto simp: OnSendScreenLockEvent_def OnSetScreenLockAuthState_def no_out_def Let_def split_beta
      split: option.split)

lemma handler_for_serves:
  "snd (snd (handler_for c e L data reply s)) = s
     \<or> (\<exists>rq. snd (snd (handler_for c e L data reply s)) = snd (serve e rq s))"
proof -
  note facts = handler_plain [of e L data reply s] handler_ints [of e L data reply s]
    handler_two [of e L data reply s] handler_remote [of e L data reply s]
    handler_inner [of e L data reply s] handler_events [of e L data reply s]
  show ?thesis by (cases c; simp only: handler_for.simps; insert facts; blast)
qed

text \<open>C12: whatever message arrives, with whatever code and content and over whatever parcel library, the
  service either performs exactly one of its requests or changes nothing, so its invariant survives; a
  message with a foreign interface token or with a code outside the table (the two watch codes, in a build
  without them, included) changes nothing and is answered by the framework's default.\<close>

theorem any_message_is_a_request:
  fixes s :: "'p service_state"
  assumes "service_reachable s"
  shows "let (r, reply', s') = OnRemoteRequest e L code data reply s;
             (token, data1) = ReadInterfaceToken L data
    in service_inv s' \<and> (s' = s \<or> (\<exists>rq. s' = snd (serve e rq s)))
     \<and> (token \<noteq> MANAGER_DESCRIPTOR \<or> (\<forall>c. code_supported e c \<longrightarrow> code \<noteq> code_value c)
          \<longrightarrow> s' = s \<and> (r, reply') = defaultRequest L code data1 reply)
     \<and> (token = MANAGER_DESCRIPTOR \<and> (\<exists>c. code_supported e c \<and> code = code_value c) \<longrightarrow> r = 0)"
proof -
  let ?t = "fst (ReadInterfaceToken L data)" and ?d = "snd (ReadInterfaceToken L data)"
  have one: "snd (snd (OnRemoteRequest e L code data reply s)) = s
      \<or> (\<exists>rq. snd (snd (OnRemoteRequest e L code data reply s)) = snd (serve e rq s))"
  proof (cases "\<exists>c. code = code_value c")
    case True
    then obtain c where "code = code_value c" by blast
    moreover have "snd (snd (handler_for c e L ?d reply s)) = s
        \<or> (\<exists>rq. snd (snd (handler_for c e L ?d reply s)) = snd (serve e rq s))"
      by (rule handler_for_serves)
    ultimately show ?thesis
      by (cases "?t = MANAGER_DESCRIPTOR \<and> code_supported e c")
        (auto simp: OnRemoteRequest_def InitHandleMap_lookup Let_def split_beta simp del: serve.simps)
  next
    case False
    then show ?thesis by (simp add: OnRemoteRequest_def InitHandleMap_other Let_def split_beta)
  qed
  have inv: "service_inv s" by (rule service_reachable_inv [OF assms])
  with one service_step_inv [OF service_step.request] have "service_inv (snd (snd (OnRemoteRequest e L code data reply s)))"
    by metis
  moreover have "?t \<noteq> MANAGER_DESCRIPTOR \<or> (\<forall>c. code_supported e c \<longrightarrow> code \<noteq> code_value c)
      \<Longrightarrow> OnRemoteRequest e L code data reply s
        = (fst (defaultRequest L code ?d reply), snd (defaultRequest L code ?d reply), s)"
    by (cases "\<exists>c. code = code_value c")
      (auto simp: OnRemoteRequest_def InitHandleMap_lookup InitHandleMap_other Let_def split_beta)
  moreover have "?t = MANAGER_DESCRIPTOR \<Longrightarrow> \<exists>c. code_supported e c \<and> code = code_value c
      \<Longrightarrow> fst (OnRemoteRequest e L code data reply s) = 0"
    by (auto simp: OnRemoteRequest_def InitHandleMap_lookup Let_def split_beta)
  ultimately show ?thesis
    using one by (auto simp: Let_def split_beta)
qed

theorem any_message_is_a_request_witness:
  "let e = sample_env; s = initial_service []; data = [TokenItem MANAGER_DESCRIPTOR, Int32Item 100]
   in service_inv (snd (snd (OnRemoteRequest e sample_ipc 8 data [] s)))"
  using any_message_is_a_request [OF service_reachable.initial [of "[] :: sample_store"],
      of sample_env sample_ipc 8 "[TokenItem MANAGER_DESCRIPTOR, Int32Item 100]" "[]"]
  by (auto simp: Let_def split_beta)

text \<open>A message that ends after its interface token: a request that takes an object or a complete
  authentication state is refused without touching the service, the first without any status in the reply,
  the second with a read error; but a request that takes a user or a flag is served, for user 0 and with a
  false flag.\<close>

theorem truncated_messages:
  assumes "ipc_laws L content" and "content data = [TokenItem MANAGER_DESCRIPTOR]" and "content reply = []"
  shows "(c \<in> {UNLOCK, UNLOCK_SCREEN, LOCK, ONSYSTEMEVENT, REGISTER_INNER_LISTENER, UNREGISTER_INNER_LISTENER} \<longrightarrow>
      OnRemoteRequest e L (code_value c) data reply s = (0, reply, s))
    \<and> snd (snd (OnRemoteRequest e L (code_value SET_SCREENLOCK_AUTHSTATE) data reply s)) = s
    \<and> content (fst (snd (OnRemoteRequest e L (code_value SET_SCREENLOCK_AUTHSTATE) data reply s)))
        = [Int32Item (status_code (errOffset L) (Code E_SCREENLOCK_READ_PARCEL_ERROR))]
    \<and> snd (snd (OnRemoteRequest e L (code_value LOCK_SCREEN) data reply s)) = snd (serve e (Req_LockUser 0) s)
    \<and> snd (snd (OnRemoteRequest e L (code_value SET_SCREENLOCK_DISABLED) data reply s))
        = snd (serve e (Req_SetScreenLockDisabled False 0) s)
    \<and> snd (snd (OnRemoteRequest e L (code_value SET_UNLOCK_POLICY) data reply s))
        = snd (serve e (Req_SetUnlockPolicy 0 0) s)"
proof -
  let ?d = "snd (ReadInterfaceToken L data)"
  note laws = assms(1)
  have t: "fst (ReadInterfaceToken L data) = MANAGER_DESCRIPTOR" and d: "content ?d = []"
    using assms(2) by (simp_all add: parcel_ops read_content [OF laws])
  have request: "OnRemoteRequest e L (code_value c) data reply s
      = (0, snd (handler_for c e L ?d reply s))" if "code_supported e c" for c
    using that t by (simp add: OnRemoteRequest_def InitHandleMap_lookup Let_def split_beta)
  have int: "fst (ReadInt32 L m) = 0" "fst (TryReadInt32 L m) = None" "fst (ReadRemoteObject L m) = None"
      "fst (ReadBool L m) = False" if "content m = []" for m
    using read_empty [OF laws that] by (simp_all add: parcel_ops)
  have rest: "content (snd (ReadInt32 L ?d)) = []" "content (snd (ReadBool L ?d)) = []"
      "content (snd (ReadInt32 L (snd (ReadInt32 L ?d)))) = []"
    using d read_empty [OF laws] by (simp_all add: parcel_ops)
  have s: "code_supported e c" if "c \<noteq> IS_LOCKED_WATCH" "c \<noteq> UNLOCK_WATCH" for c
    using that by (simp add: code_supported_def)
  show ?thesis
    using handler_ints(4) [of e L ?d reply s] handler_two(1,3) [of e L ?d reply s] rest
    by (auto simp: request s OnUnlock_def OnUnlockScreen_def OnLock_def OnScreenLockOn_def OnRegistInnerListener_def
        OnUnRegistInnerListener_def OnSetScreenLockAuthState_def Let_def split_beta int d WriteStatus_def
        WriteInt32_def write_content [OF laws] assms(3) simp del: serve.simps code_value.simps)
qed

theorem truncated_messages_witness:
  "snd (snd (OnRemoteRequest sample_env sample_ipc 8 [TokenItem MANAGER_DESCRIPTOR] [] (initial_service [])))
     = snd (serve sample_env (Req_LockUser 0) (initial_service []))"
  using truncated_messages [OF ipc_laws_sample refl refl, of LOCK sample_env "initial_service []"] by simp

end
