(* ===== verification/Manager_Proxy.thy ===== *)
theory Manager_Proxy
  imports Manager_Stub
begin

text \<open>
  \<open>frameworks/native/src/screenlock_manager_proxy.cpp\<close>: the client side of the IPC interface.
  \<open>Remote()->SendRequest\<close> is the argument \<open>send\<close>: it takes the code, the message and the reply
  parcel and the state behind the link, and returns its error code (0 for none), the reply and the new
  state.  A proxy function returns its status as the integer the caller sees, the out parameter where it
  is assigned (\<open>NoOut\<close> when the caller's variable keeps its value), and the state behind the link.  A
  listener argument is \<open>None\<close> for a null pointer and otherwise the remote object that its
  \<open>AsObject()\<close> returns; the overloads of \<open>Lock\<close> are \<open>Proxy_Lock\<close> and \<open>Proxy_Lock_user\<close>.
\<close>

section \<open>Sending\<close>

type_synonym ('m, 's) link = "int \<Rightarrow> 'm \<Rightarrow> 'm \<Rightarrow> 's \<Rightarrow> int \<times> 'm \<times> 's"

definition error_code :: "'m ipc \<Rightarrow> sl_error \<Rightarrow> int" where
  "error_code L x = status_code (errOffset L) (Code x)"

text \<open>A message that starts with the interface token, written without a check.\<close>

definition token_message :: "'m ipc \<Rightarrow> 'm" where
  "token_message L = snd (WriteInterfaceToken L MANAGER_DESCRIPTOR (freshParcel L))"

definition IsScreenLockedInner :: "'m ipc \<Rightarrow> ('m, 's) link \<Rightarrow> ipc_code \<Rightarrow> 's \<Rightarrow> int \<times> 'm \<times> 's" where
  "IsScreenLockedInner L send command s =
     (let (written, data) = WriteInterfaceToken L MANAGER_DESCRIPTOR (freshParcel L)
      in if \<not> written then (error_code L E_SCREENLOCK_WRITE_PARCEL_ERROR, freshParcel L, s)
         else let (ret, reply, s1) = send (code_value command) data (freshParcel L) s
              in (if ret \<noteq> 0 then error_code L E_SCREENLOCK_SENDREQUEST_FAILED
                  else error_code L E_SCREENLOCK_OK, reply, s1))"

definition Proxy_IsLocked :: "'m ipc \<Rightarrow> ('m, 's) link \<Rightarrow> 's \<Rightarrow> (int \<times> out_value) \<times> 's" where
  "Proxy_IsLocked L send s =
     (let (ret, reply, s1) = IsScreenLockedInner L send IS_LOCKED s
      in if ret \<noteq> error_code L E_SCREENLOCK_OK then ((ret, NoOut), s1)
         else let (errCode, reply1) = ReadInt32 L reply
              in if errCode \<noteq> error_code L E_SCREENLOCK_OK then ((errCode, NoOut), s1)
                 else ((error_code L E_SCREENLOCK_OK, BoolOut (fst (ReadBool L reply1))), s1))"

definition Proxy_IsScreenLocked :: "'m ipc \<Rightarrow> ('m, 's) link \<Rightarrow> 's \<Rightarrow> bool \<times> 's" where
  "Proxy_IsScreenLocked L send s =
     (let (ret, reply, s1) = IsScreenLockedInner L send IS_SCREEN_LOCKED s
      in if ret \<noteq> error_code L E_SCREENLOCK_OK then (False, s1) else (fst (ReadBool L reply), s1))"

definition Proxy_IsLockedWithUserId :: "'m ipc \<Rightarrow> ('m, 's) link \<Rightarrow> int \<Rightarrow> 's \<Rightarrow> (int \<times> out_value) \<times> 's" where
  "Proxy_IsLockedWithUserId L send userId s =
     (let data = snd (WriteInt32 L userId (token_message L));
          (ret, reply, s1) = send (code_value IS_USER_SCREEN_LOCKED) data (freshParcel L) s
      in if ret \<noteq> 0 then ((error_code L E_SCREENLOCK_SENDREQUEST_FAILED, NoOut), s1)
         else let (retCode, reply1) = ReadInt32 L reply
              in ((retCode, BoolOut (fst (ReadBool L reply1))), s1))"

definition Proxy_GetSecure :: "'m ipc \<Rightarrow> ('m, 's) link \<Rightarrow> 's \<Rightarrow> bool \<times> 's" where
  "Proxy_GetSecure L send s =
     (let (ret, reply, s1) = send (code_value IS_SECURE_MODE) (token_message L) (freshParcel L) s
      in if ret \<noteq> 0 then (False, s1) else (fst (ReadBool L reply), s1))"

section \<open>Locking and unlocking\<close>

definition Proxy_UnlockInner ::
  "'m ipc \<Rightarrow> ('m, 's) link \<Rightarrow> ipc_code \<Rightarrow> nat option \<Rightarrow> 's \<Rightarrow> int \<times> 'm \<times> 's"
where
  "Proxy_UnlockInner L send command listener s =
     (case listener of
        None \<Rightarrow> (error_code L E_SCREENLOCK_NULLPTR, freshParcel L, s)
      | Some object \<Rightarrow>
          let (written, data) = WriteRemoteObject L object (token_message L)
          in if \<not> written then (error_code L E_SCREENLOCK_WRITE_PARCEL_ERROR, freshParcel L, s)
             else let (ret, reply, s1) = send (code_value command) data (freshParcel L) s
                  in (if ret \<noteq> 0 then error_code L E_SCREENLOCK_SENDREQUEST_FAILED
                      else error_code L E_SCREENLOCK_OK, reply, s1))"

definition Proxy_Unlock :: "'m ipc \<Rightarrow> ('m, 's) link \<Rightarrow> nat option \<Rightarrow> 's \<Rightarrow> int \<times> 's" where
  "Proxy_Unlock L send listener s =
     (let (ret, reply, s1) = Proxy_UnlockInner L send UNLOCK listener s
      in if ret \<noteq> error_code L E_SCREENLOCK_OK then (ret, s1) else (fst (ReadInt32 L reply), s1))"

definition Proxy_UnlockScreen :: "'m ipc \<Rightarrow> ('m, 's) link \<Rightarrow> nat option \<Rightarrow> 's \<Rightarrow> int \<times> 's" where
  "Proxy_UnlockScreen L send listener s =
     (let (ret, reply, s1) = Proxy_UnlockInner L send UNLOCK_SCREEN listener s
      in if ret \<noteq> error_code L E_SCREENLOCK_OK then (ret, s1) else (fst (ReadInt32 L reply), s1))"

definition Proxy_Lock :: "'m ipc \<Rightarrow> ('m, 's) link \<Rightarrow> nat option \<Rightarrow> 's \<Rightarrow> int \<times> 's" where
  "Proxy_Lock L send listener s =
     (let (tokenWritten, data) = WriteInterfaceToken L MANAGER_DESCRIPTOR (freshParcel L)
      in if \<not> tokenWritten then (error_code L E_SCREENLOCK_WRITE_PARCEL_ERROR, s)
         else case listener of
                None \<Rightarrow> (error_code L E_SCREENLOCK_NULLPTR, s)
              | Some object \<Rightarrow>
                  let (written, data1) = WriteRemoteObject L object data
                  in if \<not> written then (error_code L E_SCREENLOCK_WRITE_PARCEL_ERROR, s)
                     else let (ret, reply, s1) = send (code_value LOCK) data1 (freshParcel L) s
                          in if ret \<noteq> 0 then (error_code L E_SCREENLOCK_SENDREQUEST_FAILED, s1)
                             else (fst (ReadInt32 L reply), s1))"

definition Proxy_Lock_user :: "'m ipc \<Rightarrow> ('m, 's) link \<Rightarrow> int \<Rightarrow> 's \<Rightarrow> int \<times> 's" where
  "Proxy_Lock_user L send userId s =
     (let (tokenWritten, data) = WriteInterfaceToken L MANAGER_DESCRIPTOR (freshParcel L);
          (written, data1) = WriteInt32 L userId data
      in if \<not> tokenWritten \<or> \<not> written then (error_code L E_SCREENLOCK_WRITE_PARCEL_ERROR, s)
         else let (ret, reply, s1) = send (code_value LOCK_SCREEN) data1 (freshParcel L) s
              in if ret \<noteq> 0 then (error_code L E_SCREENLOCK_SENDREQUEST_FAILED, s1)
                 else (fst (ReadInt32 L reply), s1))"

section \<open>Events and settings\<close>

definition Proxy_OnSystemEvent :: "'m ipc \<Rightarrow> ('m, 's) link \<Rightarrow> nat option \<Rightarrow> 's \<Rightarrow> int \<times> 's" where
  "Proxy_OnSystemEvent L send listener s =
     (let (tokenWritten, data) = WriteInterfaceToken L MANAGER_DESCRIPTOR (freshParcel L)
      in if \<not> tokenWritten then (error_code L E_SCREENLOCK_WRITE_PARCEL_ERROR, s)
         else case listener of
                None \<Rightarrow> (error_code L E_SCREENLOCK_NULLPTR, s)
              | Some object \<Rightarrow>
                  let (written, data1) = WriteRemoteObject L object data
                  in if \<not> written then (error_code L E_SCREENLOCK_WRITE_PARCEL_ERROR, s)
                     else let (ret, reply, s1) = send (code_value ONSYSTEMEVENT) data1 (freshParcel L) s
                          in if ret \<noteq> 0 then (error_code L E_SCREENLOCK_SENDREQUEST_FAILED, s1)
                             else (fst (ReadInt32 L reply), s1))"

definition Proxy_SendScreenLockEvent :: "'m ipc \<Rightarrow> ('m, 's) link \<Rightarrow> string \<Rightarrow> int \<Rightarrow> 's \<Rightarrow> int \<times> 's" where
  "Proxy_SendScreenLockEvent L send ev param s =
     (let data1 = snd (WriteString L ev (token_message L));
          data2 = snd (WriteInt32 L param data1);
          (ret, reply, s1) = send (code_value SEND_SCREENLOCK_EVENT) data2 (freshParcel L) s
      in if ret \<noteq> 0 then (error_code L E_SCREENLOCK_SENDREQUEST_FAILED, s1)
         else (fst (ReadInt32 L reply), s1))"

definition Proxy_IsScreenLockDisabled :: "'m ipc \<Rightarrow> ('m, 's) link \<Rightarrow> int \<Rightarrow> 's \<Rightarrow> (int \<times> out_value) \<times> 's" where
  "Proxy_IsScreenLockDisabled L send userId s =
     (let data = snd (WriteInt32 L userId (token_message L));
          (ret, reply, s1) = send (code_value IS_SCREENLOCK_DISABLED) data (freshParcel L) s
      in if ret \<noteq> 0 then ((error_code L E_SCREENLOCK_SENDREQUEST_FAILED, NoOut), s1)
         else let (retCode, reply1) = ReadInt32 L reply
              in if retCode \<noteq> error_code L E_SCREENLOCK_OK then ((retCode, NoOut), s1)
                 else ((retCode, BoolOut (fst (ReadBool L reply1))), s1))"

definition Proxy_SetScreenLockDisabled :: "'m ipc \<Rightarrow> ('m, 's) link \<Rightarrow> bool \<Rightarrow> int \<Rightarrow> 's \<Rightarrow> int \<times> 's" where
  "Proxy_SetScreenLockDisabled L send disable userId s =
     (let data1 = snd (WriteBool L disable (token_message L));
          data2 = snd (WriteInt32 L userId data1);
          (ret, reply, s1) = send (code_value SET_SCREENLOCK_DISABLED) data2 (freshParcel L) s
      in if ret \<noteq> 0 then (error_code L E_SCREENLOCK_SENDREQUEST_FAILED, s1)
         else (fst (ReadInt32 L reply), s1))"

definition Proxy_SetScreenLockAuthState :: "'m ipc \<Rightarrow> ('m, 's) link \<Rightarrow> int \<Rightarrow> int \<Rightarrow> string \<Rightarrow> 's \<Rightarrow> int \<times> 's" where
  "Proxy_SetScreenLockAuthState L send authState userId authToken s =
     (let data1 = snd (WriteInt32 L authState (token_message L));
          data2 = snd (WriteInt32 L userId data1);
          data3 = snd (WriteString L authToken data2);
          (ret, reply, s1) = send (code_value SET_SCREENLOCK_AUTHSTATE) data3 (freshParcel L) s
      in if ret \<noteq> 0 then (error_code L E_SCREENLOCK_SENDREQUEST_FAILED, s1)
         else (fst (ReadInt32 L reply), s1))"

definition Proxy_GetScreenLockAuthState :: "'m ipc \<Rightarrow> ('m, 's) link \<Rightarrow> int \<Rightarrow> 's \<Rightarrow> (int \<times> out_value) \<times> 's" where
  "Proxy_GetScreenLockAuthState L send userId s =
     (let data = snd (WriteInt32 L userId (token_message L));
          (ret, reply, s1) = send (code_value GET_SCREENLOCK_AUTHSTATE) data (freshParcel L) s
      in if ret \<noteq> 0 then ((error_code L E_SCREENLOCK_SENDREQUEST_FAILED, NoOut), s1)
         else let (retCode, reply1) = ReadInt32 L reply
              in ((retCode, IntOut (fst (ReadInt32 L reply1))), s1))"

definition Proxy_RequestStrongAuth :: "'m ipc \<Rightarrow> ('m, 's) link \<Rightarrow> int \<Rightarrow> int \<Rightarrow> 's \<Rightarrow> int \<times> 's" where
  "Proxy_RequestStrongAuth L send reasonFlag userId s =
     (let data1 = snd (WriteInt32 L reasonFlag (token_message L));
          data2 = snd (WriteInt32 L userId data1);
          (ret, reply, s1) = send (code_value REQUEST_STRONG_AUTHSTATE) data2 (freshParcel L) s
      in if ret \<noteq> 0 then (error_code L E_SCREENLOCK_SENDREQUEST_FAILED, s1)
         else (fst (ReadInt32 L reply), s1))"

definition Proxy_GetStrongAuth :: "'m ipc \<Rightarrow> ('m, 's) link \<Rightarrow> int \<Rightarrow> 's \<Rightarrow> (int \<times> out_value) \<times> 's" where
  "Proxy_GetStrongAuth L send userId s =
     (let data = snd (WriteInt32 L userId (token_message L));
          (ret, reply, s1) = send (code_value GET_STRONG_AUTHSTATE) data (freshParcel L) s
      in if ret \<noteq> 0 then ((error_code L E_SCREENLOCK_SENDREQUEST_FAILED, NoOut), s1)
         else let (retCode, reply1) = ReadInt32 L reply
              in ((retCode, IntOut (fst (ReadInt32 L reply1))), s1))"

definition Proxy_IsDeviceLocked :: "'m ipc \<Rightarrow> ('m, 's) link \<Rightarrow> int \<Rightarrow> 's \<Rightarrow> (int \<times> out_value) \<times> 's" where
  "Proxy_IsDeviceLocked L send userId s =
     (let data = snd (WriteInt32 L userId (token_message L));
          (ret, reply, s1) = send (code_value IS_DEVICE_LOCKED) data (freshParcel L) s
      in if ret \<noteq> 0 then ((error_code L E_SCREENLOCK_SENDREQUEST_FAILED, NoOut), s1)
         else let (retCode, reply1) = ReadInt32 L reply
              in ((retCode, BoolOut (fst (ReadBool L reply1))), s1))"

section \<open>Inner listeners, policy and watch\<close>

definition Proxy_RegisterInnerListener ::
  "'m ipc \<Rightarrow> ('m, 's) link \<Rightarrow> int \<Rightarrow> int \<Rightarrow> nat option \<Rightarrow> 's \<Rightarrow> int \<times> 's"
where
  "Proxy_RegisterInnerListener L send userId listenType listener s =
     (let data1 = snd (WriteInt32 L userId (token_message L));
          data2 = snd (WriteInt32 L listenType data1)
      in case listener of
           None \<Rightarrow> (error_code L E_SCREENLOCK_NULLPTR, s)
         | Some object \<Rightarrow>
             let (written, data3) = WriteRemoteObject L object data2
             in if \<not> written then (error_code L E_SCREENLOCK_WRITE_PARCEL_ERROR, s)
                else let (ret, reply, s1) = send (code_value REGISTER_INNER_LISTENER) data3 (freshParcel L) s
                     in if ret \<noteq> 0 then (error_code L E_SCREENLOCK_SENDREQUEST_FAILED, s1)
                        else (fst (ReadInt32 L reply), s1))"

definition Proxy_UnRegisterInnerListener ::
  "'m ipc \<Rightarrow> ('m, 's) link \<Rightarrow> int \<Rightarrow> int \<Rightarrow> nat option \<Rightarrow> 's \<Rightarrow> int \<times> 's"
where
  "Proxy_UnRegisterInnerListener L send userId listenType listener s =
     (let data1 = snd (WriteInt32 L userId (token_message L));
          data2 = snd (WriteInt32 L listenType data1)
      in case listener of
           None \<Rightarrow> (error_code L E_SCREENLOCK_NULLPTR, s)
         | Some object \<Rightarrow>
             let (written, data3) = WriteRemoteObject L object data2
             in if \<not> written then (error_code L E_SCREENLOCK_WRITE_PARCEL_ERROR, s)
                else let (ret, reply, s1) = send (code_value UNREGISTER_INNER_LISTENER) data3 (freshParcel L) s
                     in if ret \<noteq> 0 then (error_code L E_SCREENLOCK_SENDREQUEST_FAILED, s1)
                        else (fst (ReadInt32 L reply), s1))"

definition Proxy_SetUnlockPolicy :: "'m ipc \<Rightarrow> ('m, 's) link \<Rightarrow> int \<Rightarrow> int \<Rightarrow> 's \<Rightarrow> int \<times> 's" where
  "Proxy_SetUnlockPolicy L send userId policy s =
     (let data1 = snd (WriteInt32 L userId (token_message L));
          data2 = snd (WriteInt32 L policy data1);
          (ret, reply, s1) = send (code_value SET_UNLOCK_POLICY) data2 (freshParcel L) s
      in if ret \<noteq> 0 then (error_code L E_SCREENLOCK_SENDREQUEST_FAILED, s1)
         else case fst (TryReadInt32 L reply) of
                None \<Rightarrow> (error_code L E_SCREENLOCK_READ_PARCEL_ERROR, s1)
              | Some retCode \<Rightarrow> (retCode, s1))"

definition Proxy_GetUnlockPolicy :: "'m ipc \<Rightarrow> ('m, 's) link \<Rightarrow> int \<Rightarrow> 's \<Rightarrow> (int \<times> out_value) \<times> 's" where
  "Proxy_GetUnlockPolicy L send userId s =
     (let data = snd (WriteInt32 L userId (token_message L));
          (ret, reply, s1) = send (code_value GET_UNLOCK_POLICY) data (freshParcel L) s
      in if ret \<noteq> 0 then ((error_code L E_SCREENLOCK_SENDREQUEST_FAILED, NoOut), s1)
         else let (code, reply1) = TryReadInt32 L reply
              in case code of
                   None \<Rightarrow> ((error_code L E_SCREENLOCK_READ_PARCEL_ERROR, NoOut), s1)
                 | Some retCode \<Rightarrow>
                     (case fst (TryReadInt32 L reply1) of
                        None \<Rightarrow> ((retCode, IntOut 0), s1)
                      | Some policy \<Rightarrow> ((retCode, IntOut policy), s1)))"

definition Proxy_IsLockedWatch :: "'m ipc \<Rightarrow> ('m, 's) link \<Rightarrow> 's \<Rightarrow> (int \<times> out_value) \<times> 's" where
  "Proxy_IsLockedWatch L send s =
     (let (ret, reply, s1) = send (code_value IS_LOCKED_WATCH) (token_message L) (freshParcel L) s
      in if ret \<noteq> 0 then ((error_code L E_SCREENLOCK_SENDREQUEST_FAILED, NoOut), s1)
         else let (retCode, reply1) = ReadInt32 L reply
              in if retCode \<noteq> error_code L E_SCREENLOCK_OK then ((retCode, NoOut), s1)
                 else ((error_code L E_SCREENLOCK_OK, BoolOut (fst (ReadBool L reply1))), s1))"

definition Proxy_UnlockWatch :: "'m ipc \<Rightarrow> ('m, 's) link \<Rightarrow> nat option \<Rightarrow> 's \<Rightarrow> int \<times> 's" where
  "Proxy_UnlockWatch L send listener s =
     (case listener of
        None \<Rightarrow> (error_code L E_SCREENLOCK_NULLPTR, s)
      | Some object \<Rightarrow>
          let (written, data) = WriteRemoteObject L object (token_message L)
          in if \<not> written then (error_code L E_SCREENLOCK_WRITE_PARCEL_ERROR, s)
             else let (ret, reply, s1) = send (code_value UNLOCK_WATCH) data (freshParcel L) s
                  in if ret \<noteq> 0 then (error_code L E_SCREENLOCK_SENDREQUEST_FAILED, s1)
                     else let retCode = fst (ReadInt32 L reply)
                          in if retCode \<noteq> error_code L E_SCREENLOCK_OK then (retCode, s1)
                             else (error_code L E_SCREENLOCK_OK, s1))"

section \<open>The wire contract\<close>

fun request_code :: "request \<Rightarrow> ipc_code" where
  "request_code Req_IsLocked = IS_LOCKED"
| "request_code Req_IsScreenLocked = IS_SCREEN_LOCKED"
| "request_code (Req_IsLockedWithUserId _) = IS_USER_SCREEN_LOCKED"
| "request_code Req_GetSecure = IS_SECURE_MODE"
| "request_code (Req_Unlock _) = UNLOCK"
| "request_code (Req_UnlockScreen _) = UNLOCK_SCREEN"
| "request_code (Req_Lock _) = LOCK"
| "request_code (Req_LockUser _) = LOCK_SCREEN"
| "request_code (Req_OnSystemEvent _) = ONSYSTEMEVENT"
| "request_code (Req_SendScreenLockEvent _ _) = SEND_SCREENLOCK_EVENT"
| "request_code (Req_IsScreenLockDisabled _) = IS_SCREENLOCK_DISABLED"
| "request_code (Req_SetScreenLockDisabled _ _) = SET_SCREENLOCK_DISABLED"
| "request_code (Req_SetAuthState _ _ _) = SET_SCREENLOCK_AUTHSTATE"
| "request_code (Req_GetAuthState _) = GET_SCREENLOCK_AUTHSTATE"
| "request_code (Req_RequestStrongAuth _ _) = REQUEST_STRONG_AUTHSTATE"
| "request_code (Req_GetStrongAuth _) = GET_STRONG_AUTHSTATE"
| "request_code (Req_IsDeviceLocked _) = IS_DEVICE_LOCKED"
| "request_code (Req_RegisterInnerListener _ _ _) = REGISTER_INNER_LISTENER"
| "request_code (Req_UnRegisterInnerListener _ _ _) = UNREGISTER_INNER_LISTENER"
| "request_code (Req_SetUnlockPolicy _ _) = SET_UNLOCK_POLICY"
| "request_code (Req_GetUnlockPolicy _) = GET_UNLOCK_POLICY"
| "request_code Req_IsLockedWatch = IS_LOCKED_WATCH"
| "request_code (Req_UnlockWatch _) = UNLOCK_WATCH"

definition listener_object :: "listener option \<Rightarrow> nat option" where
  "listener_object l = (case l of None \<Rightarrow> None | Some k \<Rightarrow> AsObject k)"

fun request_items :: "request \<Rightarrow> parcel_item list" where
  "request_items (Req_IsLockedWithUserId u) = [Int32Item u]"
| "request_items (Req_Unlock l) = [RemoteItem l]"
| "request_items (Req_UnlockScreen l) = [RemoteItem l]"
| "request_items (Req_Lock l) = [RemoteItem l]"
| "request_items (Req_LockUser u) = [Int32Item u]"
| "request_items (Req_OnSystemEvent l) = [RemoteItem (the l)]"
| "request_items (Req_SendScreenLockEvent ev p) = [StringItem ev, Int32Item p]"
| "request_items (Req_IsScreenLockDisabled u) = [Int32Item u]"
| "request_items (Req_SetScreenLockDisabled b u) = [BoolItem b, Int32Item u]"
| "request_items (Req_SetAuthState a u t) = [Int32Item a, Int32Item u, StringItem t]"
| "request_items (Req_GetAuthState u) = [Int32Item u]"
| "request_items (Req_RequestStrongAuth r u) = [Int32Item r, Int32Item u]"
| "request_items (Req_GetStrongAuth u) = [Int32Item u]"
| "request_items (Req_IsDeviceLocked u) = [Int32Item u]"
| "request_items (Req_RegisterInnerListener u t l) = [Int32Item u, Int32Item t, RemoteItem (the (listener_object l))]"
| "request_items (Req_UnRegisterInnerListener u t l) = [Int32Item u, Int32Item t, RemoteItem (the (listener_object l))]"
| "request_items (Req_SetUnlockPolicy u p) = [Int32Item u, Int32Item p]"
| "request_items (Req_GetUnlockPolicy u) = [Int32Item u]"
| "request_items (Req_UnlockWatch l) = [RemoteItem l]"
| "request_items _ = []"

text \<open>The out parameter of a request: none, one that is only sent with the status OK, or one that is
  always sent, with the value it has when the service does not assign it.\<close>

datatype out_kind = NoResult | OnlyBool | BoolWhenOk | AlwaysBool bool | AlwaysInt int

fun out_kind_of :: "request \<Rightarrow> out_kind" where
  "out_kind_of Req_IsLocked = BoolWhenOk"
| "out_kind_of Req_IsScreenLocked = OnlyBool"
| "out_kind_of Req_GetSecure = OnlyBool"
| "out_kind_of (Req_IsLockedWithUserId _) = AlwaysBool True"
| "out_kind_of (Req_IsScreenLockDisabled _) = BoolWhenOk"
| "out_kind_of (Req_GetAuthState _) = AlwaysInt (- 1)"
| "out_kind_of (Req_GetStrongAuth _) = AlwaysInt (- 1)"
| "out_kind_of (Req_IsDeviceLocked _) = AlwaysBool True"
| "out_kind_of (Req_GetUnlockPolicy _) = AlwaysInt 0"
| "out_kind_of Req_IsLockedWatch = BoolWhenOk"
| "out_kind_of _ = NoResult"

definition reply_items :: "'m ipc \<Rightarrow> request \<Rightarrow> status \<times> out_value \<Rightarrow> parcel_item list" where
  "reply_items L rq a =
     (let code = Int32Item (status_code (errOffset L) (fst a)) in
      case out_kind_of rq of
        NoResult \<Rightarrow> [code]
      | OnlyBool \<Rightarrow> [BoolItem (out_bool False (snd a))]
      | BoolWhenOk \<Rightarrow> if status_ok L (fst a) then [code, BoolItem (out_bool False (snd a))] else [code]
      | AlwaysBool d \<Rightarrow> [code, BoolItem (out_bool d (snd a))]
      | AlwaysInt d \<Rightarrow> [code, Int32Item (out_int d (snd a))])"

text \<open>What the caller of the proxy sees of a status and an out parameter.\<close>

definition client_view :: "'m ipc \<Rightarrow> request \<Rightarrow> status \<times> out_value \<Rightarrow> int \<times> out_value" where
  "client_view L rq a =
     (let code = status_code (errOffset L) (fst a) in
      case out_kind_of rq of
        NoResult \<Rightarrow> (code, NoOut)
      | OnlyBool \<Rightarrow> (error_code L E_SCREENLOCK_OK, BoolOut (out_bool False (snd a)))
      | BoolWhenOk \<Rightarrow> (code, if status_ok L (fst a) then BoolOut (out_bool False (snd a)) else NoOut)
      | AlwaysBool d \<Rightarrow> (code, BoolOut (out_bool d (snd a)))
      | AlwaysInt d \<Rightarrow> (code, IntOut (out_int d (snd a))))"

text \<open>The proxy function of a request; a plain boolean is given the code OK.\<close>

definition code_only :: "int \<times> 's \<Rightarrow> (int \<times> out_value) \<times> 's" where
  "code_only p = ((fst p, NoOut), snd p)"

definition flag_only :: "'m ipc \<Rightarrow> bool \<times> 's \<Rightarrow> (int \<times> out_value) \<times> 's" where
  "flag_only L p = ((error_code L E_SCREENLOCK_OK, BoolOut (fst p)), snd p)"

fun proxy_call :: "'m ipc \<Rightarrow> ('m, 's) link \<Rightarrow> request \<Rightarrow> 's \<Rightarrow> (int \<times> out_value) \<times> 's" where
  "proxy_call L send Req_IsLocked s = Proxy_IsLocked L send s"
| "proxy_call L send Req_IsScreenLocked s = flag_only L (Proxy_IsScreenLocked L send s)"
| "proxy_call L send (Req_IsLockedWithUserId u) s = Proxy_IsLockedWithUserId L send u s"
| "proxy_call L send Req_GetSecure s = flag_only L (Proxy_GetSecure L send s)"
| "proxy_call L send (Req_Unlock l) s = code_only (Proxy_Unlock L send (Some l) s)"
| "proxy_call L send (Req_UnlockScreen l) s = code_only (Proxy_UnlockScreen L send (Some l) s)"
| "proxy_call L send (Req_Lock l) s = code_only (Proxy_Lock L send (Some l) s)"
| "proxy_call L send (Req_LockUser u) s = code_only (Proxy_Lock_user L send u s)"
| "proxy_call L send (Req_OnSystemEvent l) s = code_only (Proxy_OnSystemEvent L send l s)"
| "proxy_call L send (Req_SendScreenLockEvent ev p) s = code_only (Proxy_SendScreenLockEvent L send ev p s)"
| "proxy_call L send (Req_IsScreenLockDisabled u) s = Proxy_IsScreenLockDisabled L send u s"
| "proxy_call L send (Req_SetScreenLockDisabled b u) s = code_only (Proxy_SetScreenLockDisabled L send b u s)"
| "proxy_call L send (Req_SetAuthState a u t) s = code_only (Proxy_SetScreenLockAuthState L send a u t s)"
| "proxy_call L send (Req_GetAuthState u) s = Proxy_GetScreenLockAuthState L send u s"
| "proxy_call L send (Req_RequestStrongAuth r u) s = code_only (Proxy_RequestStrongAuth L send r u s)"
| "proxy_call L send (Req_GetStrongAuth u) s = Proxy_GetStrongAuth L send u s"
| "proxy_call L send (Req_IsDeviceLocked u) s = Proxy_IsDeviceLocked L send u s"
| "proxy_call L send (Req_RegisterInnerListener u t l) s
     = code_only (Proxy_RegisterInnerListener L send u t (listener_object l) s)"
| "proxy_call L send (Req_UnRegisterInnerListener u t l) s
     = code_only (Proxy_UnRegisterInnerListener L send u t (listener_object l) s)"
| "proxy_call L send (Req_SetUnlockPolicy u p) s = code_only (Proxy_SetUnlockPolicy L send u p s)"
| "proxy_call L send (Req_GetUnlockPolicy u) s = Proxy_GetUnlockPolicy L send u s"
| "proxy_call L send Req_IsLockedWatch s = Proxy_IsLockedWatch L send s"
| "proxy_call L send (Req_UnlockWatch l) s = code_only (Proxy_UnlockWatch L send (Some l) s)"

text \<open>
  A request the client can put on the wire: its listener is an object (the proxy refuses null
  pointers), and the framework casts that object to a proxy of the same object on the other side.
\<close>

fun object_sent :: "'m ipc \<Rightarrow> request \<Rightarrow> bool" where
  "object_sent L (Req_Unlock l) \<longleftrightarrow> castCallback L l = Some l"
| "object_sent L (Req_UnlockScreen l) \<longleftrightarrow> castCallback L l = Some l"
| "object_sent L (Req_Lock l) \<longleftrightarrow> castCallback L l = Some l"
| "object_sent L (Req_UnlockWatch l) \<longleftrightarrow> castCallback L l = Some l"
| "object_sent L (Req_OnSystemEvent l) \<longleftrightarrow> l \<noteq> None \<and> castSystemAbility L (the l) = l"
| "object_sent L (Req_RegisterInnerListener u t l) \<longleftrightarrow>
     l \<noteq> None \<and> listener_object l \<noteq> None \<and> castInner L (the (listener_object l)) = l"
| "object_sent L (Req_UnRegisterInnerListener u t l) \<longleftrightarrow>
     l \<noteq> None \<and> listener_object l \<noteq> None \<and> castInner L (the (listener_object l)) = l"
| "object_sent L _ \<longleftrightarrow> True"

definition sendable :: "'p env \<Rightarrow> 'm ipc \<Rightarrow> request \<Rightarrow> bool" where
  "sendable e L rq \<longleftrightarrow> code_supported e (request_code rq) \<and> object_sent L rq"

lemmas proxy_defs = Proxy_IsLocked_def Proxy_IsScreenLocked_def Proxy_IsLockedWithUserId_def Proxy_GetSecure_def
  Proxy_UnlockInner_def Proxy_Unlock_def Proxy_UnlockScreen_def Proxy_Lock_def Proxy_Lock_user_def
  Proxy_OnSystemEvent_def Proxy_SendScreenLockEvent_def Proxy_IsScreenLockDisabled_def
  Proxy_SetScreenLockDisabled_def Proxy_SetScreenLockAuthState_def Proxy_GetScreenLockAuthState_def
  Proxy_RequestStrongAuth_def Proxy_GetStrongAuth_def Proxy_IsDeviceLocked_def
  Proxy_RegisterInnerListener_def Proxy_UnRegisterInnerListener_def Proxy_SetUnlockPolicy_def
  Proxy_GetUnlockPolicy_def Proxy_IsLockedWatch_def Proxy_UnlockWatch_def IsScreenLockedInner_def
  token_message_def parcel_ops code_only_def flag_only_def error_code_def

section \<open>The client over any service that keeps the wire contract\<close>

text \<open>
  What the proxy relies on: whoever is behind the link answers a well-formed message of an accepted
  request with the items of its answer.
\<close>

locale wire_contract =
  fixes L :: "'m ipc"
    and content :: "'m \<Rightarrow> parcel_item list"
    and send :: "('m, 's) link"
    and answer :: "request \<Rightarrow> 's \<Rightarrow> (status \<times> out_value) \<times> 's"
    and accepts :: "request \<Rightarrow> bool"
  assumes accepted_object: "accepts rq \<Longrightarrow> object_sent L rq"
    and exchange: "ipc_laws L content \<Longrightarrow> accepts rq
      \<Longrightarrow> content data = TokenItem MANAGER_DESCRIPTOR # request_items rq \<Longrightarrow> content reply = []
      \<Longrightarrow> fst (send (code_value (request_code rq)) data reply s) = 0
        \<and> content (fst (snd (send (code_value (request_code rq)) data reply s))) = reply_items L rq (fst (answer rq s))
        \<and> snd (snd (send (code_value (request_code rq)) data reply s)) = snd (answer rq s)"
begin

lemma exchange_facts:
  assumes "ipc_laws L content" and "accepts rq"
    and "content data = TokenItem MANAGER_DESCRIPTOR # request_items rq" and "content reply = []"
  shows "fst (send (code_value (request_code rq)) data reply s) = 0"
    and "content (fst (snd (send (code_value (request_code rq)) data reply s))) = reply_items L rq (fst (answer rq s))"
    and "snd (snd (send (code_value (request_code rq)) data reply s)) = snd (answer rq s)"
  using exchange [OF assms] by simp_all

lemma proxy_call_answer:
  assumes laws: "ipc_laws L content" and ok: "accepts rq"
  shows "proxy_call L send rq s = (client_view L rq (fst (answer rq s)), snd (answer rq s))"
proof -
  note ex = exchange_facts [OF laws ok]
  have obj: "object_sent L rq" by (rule accepted_object [OF ok])
  show ?thesis
    using obj ex
    by (cases rq; simp del: code_value.simps
        add: proxy_defs client_view_def reply_items_def status_ok_def write_content [OF laws] content_fresh [OF laws]
          read_hd [OF laws] Let_def split_beta split: option.split; clarsimp?)
qed

end

section \<open>The stub keeps the contract\<close>

lemma dispatch_request:
  assumes laws: "ipc_laws L content" and "code_supported e c"
    and "content data = TokenItem MANAGER_DESCRIPTOR # items"
  shows "OnRemoteRequest e L (code_value c) data reply s
      = (0, snd (handler_for c e L (snd (ReadInterfaceToken L data)) reply s))"
    and "content (snd (ReadInterfaceToken L data)) = items"
  using assms(2,3)
  by (simp_all add: OnRemoteRequest_def InitHandleMap_lookup parcel_ops read_hd [OF laws] Let_def split_beta)

lemmas handler_defs = OnIsLocked_def OnIsScreenLocked_def OnGetSecure_def OnUnlock_def OnUnlockScreen_def OnLock_def
  OnScreenLockOn_def OnSendScreenLockEvent_def OnIsScreenLockDisabled_def OnSetScreenLockDisabled_def
  OnSetScreenLockAuthState_def OnGetScreenLockAuthState_def OnRequestStrongAuth_def OnGetStrongAuth_def
  OnRegistInnerListener_def OnUnRegistInnerListener_def OnLockScreen_def OnIsDeviceLocked_def
  OnIsLockedWithUserId_def OnSetUnlockPolicy_def OnGetUnlockPolicy_def OnIsLockedWatch_def OnUnlockWatch_def
  no_out_def only_out_def WriteStatus_def parcel_ops

lemma SendScreenLockEvent_param:
  "ev \<noteq> UNLOCK_SCREEN_RESULT \<Longrightarrow> ev \<noteq> LOCK_SCREEN_RESULT \<Longrightarrow> ev \<noteq> SCREEN_DRAWDONE
     \<Longrightarrow> SendScreenLockEvent e ev p s = SendScreenLockEvent e ev q s"
  by (simp add: SendScreenLockEvent_def Let_def)

lemma handler_event_reply:
  assumes laws: "ipc_laws L content" and "content data = [StringItem ev, Int32Item p]" 
  shows "OnSendScreenLockEvent e L data reply s
     = (ERR_NONE, WriteStatus L (fst (SendScreenLockEvent e ev p s)) reply, snd (SendScreenLockEvent e ev p s))"
proof (cases "ev = UNLOCK_SCREEN_RESULT \<or> ev = LOCK_SCREEN_RESULT \<or> ev = SCREEN_DRAWDONE")
  case True
  then show ?thesis using assms(2)
    by (simp add: OnSendScreenLockEvent_def parcel_ops read_hd [OF laws] Let_def split_beta)
next
  case False
  then have "SendScreenLockEvent e ev 0 s = SendScreenLockEvent e ev p s"
    by (intro SendScreenLockEvent_param) simp_all
  with False show ?thesis using assms(2)
    by (simp add: OnSendScreenLockEvent_def parcel_ops read_hd [OF laws] Let_def split_beta)
qed

lemma handler_reply:
  assumes laws: "ipc_laws L content" and "object_sent L rq"
    and "content data = request_items rq" and "content reply = []"
  shows "content (fst (snd (handler_for (request_code rq) e L data reply s))) = reply_items L rq (fst (serve e rq s))
    \<and> snd (snd (handler_for (request_code rq) e L data reply s)) = snd (serve e rq s)"
proof (cases "\<exists>ev p. rq = Req_SendScreenLockEvent ev p")
  case True
  then show ?thesis using assms(3,4)
    by (auto simp: handler_event_reply [OF laws] reply_items_def no_out_def WriteStatus_def WriteInt32_def write_content [OF laws])
next
  case False
  with assms(2-4) show ?thesis
    by (cases rq; simp add: handler_defs reply_items_def write_content [OF laws] read_hd [OF laws] Let_def split_beta;
      (clarsimp simp: handler_defs write_content [OF laws] read_hd [OF laws] split_beta)?)
qed

interpretation stub_contract: wire_contract L content "OnRemoteRequest e L" "serve e" "sendable e L"
  for L :: "'m ipc" and content and e :: "'p env"
proof
  fix rq
  assume "sendable e L rq"
  then show "object_sent L rq" by (simp add: sendable_def)
next
  fix rq data reply and s :: "('p, 'b) service_state_scheme"
  assume laws: "ipc_laws L content" and ok: "sendable e L rq"
    and data: "content data = TokenItem MANAGER_DESCRIPTOR # request_items rq" and reply: "content reply = []"
  have sup: "code_supported e (request_code rq)" and obj: "object_sent L rq"
    using ok by (simp_all add: sendable_def)
  show "fst (OnRemoteRequest e L (code_value (request_code rq)) data reply s) = 0
      \<and> content (fst (snd (OnRemoteRequest e L (code_value (request_code rq)) data reply s)))
          = reply_items L rq (fst (serve e rq s))
      \<and> snd (snd (OnRemoteRequest e L (code_value (request_code rq)) data reply s)) = snd (serve e rq s)"
    unfolding dispatch_request(1) [OF laws sup data]
    using handler_reply [OF laws obj dispatch_request(2) [OF laws sup data] reply] by simp
qed

text \<open>Calling the service over IPC is calling the service.\<close>

lemma remote_call_is_local_call:
  assumes "ipc_laws L content" and "sendable e L rq"
  shows "proxy_call L (OnRemoteRequest e L) rq s = (client_view L rq (fst (serve e rq s)), snd (serve e rq s))"
  using assms by (rule stub_contract.proxy_call_answer)

section \<open>When the link fails\<close>

text \<open>What a proxy function answers without an answer of the service.\<close>

definition link_failure :: "'m ipc \<Rightarrow> request \<Rightarrow> int \<times> out_value" where
  "link_failure L rq = (case out_kind_of rq of
      OnlyBool \<Rightarrow> (error_code L E_SCREENLOCK_OK, BoolOut False)
    | _ \<Rightarrow> (error_code L E_SCREENLOCK_SENDREQUEST_FAILED, NoOut))"

text \<open>When the link reports an error, every proxy function with a status reports that the request could not
  be sent, but the two plain booleans answer false; a link that keeps the state keeps it.\<close>

lemma proxy_call_failure:
  assumes laws: "ipc_laws L content" and obj: "object_sent L rq" and fails: "\<forall>c d r t. fst (send c d r t) \<noteq> 0"
  shows "fst (proxy_call L send rq s) = link_failure L rq"
  using obj
  by (cases rq; simp add: proxy_defs link_failure_def fails write_content [OF laws] Let_def split_beta;
      (clarsimp simp: proxy_defs fails write_content [OF laws] Let_def split_beta)?)

lemma proxy_call_no_effect:
  assumes laws: "ipc_laws L content" and obj: "object_sent L rq"
    and fails: "\<forall>k d r t. fst (send k d r t) \<noteq> 0" and keeps: "\<forall>k d r t. snd (snd (send k d r t)) = t"
  shows "snd (proxy_call L send rq s) = s"
  using obj
  by (cases rq; simp add: proxy_defs fails keeps write_content [OF laws] Let_def split_beta;
      (clarsimp simp: proxy_defs fails keeps write_content [OF laws] Let_def split_beta)?)

text \<open>A null listener is refused before anything is sent.\<close>

lemma null_listener_refused:
  assumes laws: "ipc_laws L content"
  shows "Proxy_Unlock L send None s = (error_code L E_SCREENLOCK_NULLPTR, s)"
    and "Proxy_UnlockScreen L send None s = (error_code L E_SCREENLOCK_NULLPTR, s)"
    and "Proxy_Lock L send None s = (error_code L E_SCREENLOCK_NULLPTR, s)"
    and "Proxy_OnSystemEvent L send None s = (error_code L E_SCREENLOCK_NULLPTR, s)"
    and "Proxy_RegisterInnerListener L send u ty None s = (error_code L E_SCREENLOCK_NULLPTR, s)"
    and "Proxy_UnRegisterInnerListener L send u ty None s = (error_code L E_SCREENLOCK_NULLPTR, s)"
    and "Proxy_UnlockWatch L send None s = (error_code L E_SCREENLOCK_NULLPTR, s)"
  by (simp_all add: proxy_defs write_content [OF laws] Let_def split_beta)

end
