(* ===== verification/Screenlock_Client.thy ===== *)
theory Screenlock_Client
  imports Manager_Proxy
begin

text \<open>
  \<open>frameworks/native/src/screenlock_manager.cpp\<close>: the object of a client process through which it
  uses the service.  It keeps the proxy of the service, the system-event listener, and one wrapper per
  inner listener.  \<open>send r\<close> is the link to the remote object \<open>r\<close>; operations return the result, the
  client state and the state behind the link.  Overloads of \<open>Lock\<close> are \<open>Client_Lock\<close> and
  \<open>Client_Lock_user\<close>.  An inner listener is its address; \<open>listenerUser\<close> is its \<open>GetUserId()\<close>.
\<close>

section \<open>State\<close>

text \<open>
  The system-ability manager, \<open>iface_cast\<close> to the manager interface, and memory for a wrapper are
  outside the client.
\<close>

record client_env =
  systemAbilityManager :: bool
  getSystemAbility :: "nat option"
  castManager :: "nat \<Rightarrow> bool"
  wrapperMemory :: bool
  listenerUser :: "nat \<Rightarrow> int"

datatype client_effect =
    AddRecipient nat nat
  | RemoveRecipient nat nat
  | EventToListener nat system_event

record client_state =
  managerProxy :: "nat option"
  deathRecipient :: "nat option"
  recipientsMade :: nat
  clientListener :: "nat option"
  wrapperMap :: "(nat, nat) stdmap"
  wrappersMade :: nat
  clientTrace :: "client_effect list"

definition initial_client :: client_state where
  "initial_client = \<lparr>managerProxy = None, deathRecipient = None, recipientsMade = 0, clientListener = None,
     wrapperMap = [], wrappersMade = 0, clientTrace = []\<rparr>"

section \<open>The proxy\<close>

definition GetScreenLockManagerProxy :: "client_env \<Rightarrow> client_state \<Rightarrow> nat option \<times> client_state" where
  "GetScreenLockManagerProxy ce c =
     (if \<not> systemAbilityManager ce then (None, c)
      else case getSystemAbility ce of
             None \<Rightarrow> (None, c)
           | Some systemAbility \<Rightarrow>
               let recipient = recipientsMade c;
                   c1 = c\<lparr>deathRecipient := Some recipient, recipientsMade := Suc recipient,
                          clientTrace := clientTrace c @ [AddRecipient systemAbility recipient]\<rparr>
               in (if castManager ce systemAbility then Some systemAbility else None, c1))"

definition GetProxy :: "client_env \<Rightarrow> client_state \<Rightarrow> nat option \<times> client_state" where
  "GetProxy ce c =
     (case managerProxy c of
        None \<Rightarrow> let (proxy, c1) = GetScreenLockManagerProxy ce c in (proxy, c1\<lparr>managerProxy := proxy\<rparr>)
      | Some proxy \<Rightarrow> (Some proxy, c))"

definition OnRemoteSaDied :: "client_env \<Rightarrow> client_state \<Rightarrow> client_state" where
  "OnRemoteSaDied ce c =
     (let (proxy, c1) = GetScreenLockManagerProxy ce c;
          c2 = c1\<lparr>managerProxy := proxy\<rparr>
      in case clientListener c2 of
           None \<Rightarrow> c2
         | Some l \<Rightarrow> c2\<lparr>clientTrace := clientTrace c2 @ [EventToListener l (SystemEvent SERVICE_RESTART)]\<rparr>)"

definition Client_RemoveDeathRecipient :: "client_state \<Rightarrow> client_state" where
  "Client_RemoveDeathRecipient c =
     (case (managerProxy c, deathRecipient c) of
        (Some p, Some d) \<Rightarrow> c\<lparr>clientTrace := clientTrace c @ [RemoveRecipient p d]\<rparr>
      | _ \<Rightarrow> c)"

text \<open>The shape of a request: get the proxy, give up with \<open>failed\<close> without one, and call it.\<close>

definition with_proxy ::
  "client_env \<Rightarrow> 'r \<Rightarrow> (nat \<Rightarrow> 's \<Rightarrow> 'r \<times> 's) \<Rightarrow> client_state \<Rightarrow> 's \<Rightarrow> 'r \<times> client_state \<times> 's"
where
  "with_proxy ce failed call c s =
     (let (proxy, c1) = GetProxy ce c
      in case proxy of None \<Rightarrow> (failed, c1, s) | Some p \<Rightarrow> let (r, s1) = call p s in (r, c1, s1))"

section \<open>Requests\<close>

type_synonym ('m, 's) links = "nat \<Rightarrow> ('m, 's) link"

definition Client_IsLocked ::
  "client_env \<Rightarrow> 'm ipc \<Rightarrow> ('m, 's) links \<Rightarrow> client_state \<Rightarrow> 's \<Rightarrow> (int \<times> out_value) \<times> client_state \<times> 's"
where
  "Client_IsLocked ce L send c s = with_proxy ce (error_code L E_SCREENLOCK_SENDREQUEST_FAILED, NoOut) (\<lambda>p. Proxy_IsLocked L (send p)) c s"

definition Client_IsScreenLocked ::
  "client_env \<Rightarrow> 'm ipc \<Rightarrow> ('m, 's) links \<Rightarrow> client_state \<Rightarrow> 's \<Rightarrow> bool \<times> client_state \<times> 's"
where
  "Client_IsScreenLocked ce L send c s = with_proxy ce False (\<lambda>p. Proxy_IsScreenLocked L (send p)) c s"

definition Client_IsLockedWithUserId ::
  "client_env \<Rightarrow> 'm ipc \<Rightarrow> ('m, 's) links \<Rightarrow> int \<Rightarrow> client_state \<Rightarrow> 's \<Rightarrow> (int \<times> out_value) \<times> client_state \<times> 's"
where
  "Client_IsLockedWithUserId ce L send userId c s = with_proxy ce (error_code L E_SCREENLOCK_NULLPTR, NoOut) (\<lambda>p. Proxy_IsLockedWithUserId L (send p) userId) c s"

definition Client_GetSecure ::
  "client_env \<Rightarrow> 'm ipc \<Rightarrow> ('m, 's) links \<Rightarrow> client_state \<Rightarrow> 's \<Rightarrow> bool \<times> client_state \<times> 's"
where
  "Client_GetSecure ce L send c s = with_proxy ce False (\<lambda>p. Proxy_GetSecure L (send p)) c s"

datatype action = ACTION_LOCK | ACTION_UNLOCK | ACTION_UNLOCKSCREEN

definition Client_Unlock ::
  "client_env \<Rightarrow> 'm ipc \<Rightarrow> ('m, 's) links \<Rightarrow> action \<Rightarrow> nat option \<Rightarrow> client_state \<Rightarrow> 's \<Rightarrow> int \<times> client_state \<times> 's"
where
  "Client_Unlock ce L send action listener c s = with_proxy ce (error_code L E_SCREENLOCK_NULLPTR)
     (\<lambda>p t. if listener = None then (error_code L E_SCREENLOCK_NULLPTR, t)
            else if action = ACTION_UNLOCKSCREEN then Proxy_UnlockScreen L (send p) listener t
            else Proxy_Unlock L (send p) listener t) c s"

definition Client_Lock ::
  "client_env \<Rightarrow> 'm ipc \<Rightarrow> ('m, 's) links \<Rightarrow> nat option \<Rightarrow> client_state \<Rightarrow> 's \<Rightarrow> int \<times> client_state \<times> 's"
where
  "Client_Lock ce L send listener c s = with_proxy ce (error_code L E_SCREENLOCK_NULLPTR)
     (\<lambda>p t. if listener = None then (error_code L E_SCREENLOCK_NULLPTR, t) else Proxy_Lock L (send p) listener t) c s"

definition Client_Lock_user ::
  "client_env \<Rightarrow> 'm ipc \<Rightarrow> ('m, 's) links \<Rightarrow> int \<Rightarrow> client_state \<Rightarrow> 's \<Rightarrow> int \<times> client_state \<times> 's"
where
  "Client_Lock_user ce L send userId c s = with_proxy ce (error_code L E_SCREENLOCK_NULLPTR) (\<lambda>p. Proxy_Lock_user L (send p) userId) c s"

definition Client_SendScreenLockEvent ::
  "client_env \<Rightarrow> 'm ipc \<Rightarrow> ('m, 's) links \<Rightarrow> string \<Rightarrow> int \<Rightarrow> client_state \<Rightarrow> 's \<Rightarrow> int \<times> client_state \<times> 's"
where
  "Client_SendScreenLockEvent ce L send ev param c s = with_proxy ce (error_code L E_SCREENLOCK_NULLPTR) (\<lambda>p. Proxy_SendScreenLockEvent L (send p) ev param) c s"

definition Client_IsScreenLockDisabled ::
  "client_env \<Rightarrow> 'm ipc \<Rightarrow> ('m, 's) links \<Rightarrow> int \<Rightarrow> client_state \<Rightarrow> 's \<Rightarrow> (int \<times> out_value) \<times> client_state \<times> 's"
where
  "Client_IsScreenLockDisabled ce L send userId c s = with_proxy ce (error_code L E_SCREENLOCK_NULLPTR, NoOut) (\<lambda>p. Proxy_IsScreenLockDisabled L (send p) userId) c s"

definition Client_SetScreenLockDisabled ::
  "client_env \<Rightarrow> 'm ipc \<Rightarrow> ('m, 's) links \<Rightarrow> bool \<Rightarrow> int \<Rightarrow> client_state \<Rightarrow> 's \<Rightarrow> int \<times> client_state \<times> 's"
where
  "Client_SetScreenLockDisabled ce L send disable userId c s = with_proxy ce (error_code L E_SCREENLOCK_NULLPTR) (\<lambda>p. Proxy_SetScreenLockDisabled L (send p) disable userId) c s"

definition Client_SetScreenLockAuthState ::
  "client_env \<Rightarrow> 'm ipc \<Rightarrow> ('m, 's) links \<Rightarrow> int \<Rightarrow> int \<Rightarrow> string \<Rightarrow> client_state \<Rightarrow> 's \<Rightarrow> int \<times> client_state \<times> 's"
where
  "Client_SetScreenLockAuthState ce L send authState userId authToken c s = with_proxy ce (error_code L E_SCREENLOCK_NULLPTR) (\<lambda>p. Proxy_SetScreenLockAuthState L (send p) authState userId authToken) c s"

definition Client_GetScreenLockAuthState ::
  "client_env \<Rightarrow> 'm ipc \<Rightarrow> ('m, 's) links \<Rightarrow> int \<Rightarrow> client_state \<Rightarrow> 's \<Rightarrow> (int \<times> out_value) \<times> client_state \<times> 's"
where
  "Client_GetScreenLockAuthState ce L send userId c s = with_proxy ce (error_code L E_SCREENLOCK_NULLPTR, NoOut) (\<lambda>p. Proxy_GetScreenLockAuthState L (send p) userId) c s"

definition Client_RequestStrongAuth ::
  "client_env \<Rightarrow> 'm ipc \<Rightarrow> ('m, 's) links \<Rightarrow> int \<Rightarrow> int \<Rightarrow> client_state \<Rightarrow> 's \<Rightarrow> int \<times> client_state \<times> 's"
where
  "Client_RequestStrongAuth ce L send reasonFlag userId c s = with_proxy ce (error_code L E_SCREENLOCK_NULLPTR) (\<lambda>p. Proxy_RequestStrongAuth L (send p) reasonFlag userId) c s"

definition Client_GetStrongAuth ::
  "client_env \<Rightarrow> 'm ipc \<Rightarrow> ('m, 's) links \<Rightarrow> int \<Rightarrow> client_state \<Rightarrow> 's \<Rightarrow> (int \<times> out_value) \<times> client_state \<times> 's"
where
  "Client_GetStrongAuth ce L send userId c s = with_proxy ce (error_code L E_SCREENLOCK_NULLPTR, NoOut) (\<lambda>p. Proxy_GetStrongAuth L (send p) userId) c s"

definition Client_IsDeviceLocked ::
  "client_env \<Rightarrow> 'm ipc \<Rightarrow> ('m, 's) links \<Rightarrow> int \<Rightarrow> client_state \<Rightarrow> 's \<Rightarrow> (int \<times> out_value) \<times> client_state \<times> 's"
where
  "Client_IsDeviceLocked ce L send userId c s = with_proxy ce (error_code L E_SCREENLOCK_NULLPTR, NoOut) (\<lambda>p. Proxy_IsDeviceLocked L (send p) userId) c s"

definition Client_SetUnlockPolicy ::
  "client_env \<Rightarrow> 'm ipc \<Rightarrow> ('m, 's) links \<Rightarrow> int \<Rightarrow> int \<Rightarrow> client_state \<Rightarrow> 's \<Rightarrow> int \<times> client_state \<times> 's"
where
  "Client_SetUnlockPolicy ce L send userId policy c s = with_proxy ce (error_code L E_SCREENLOCK_NULLPTR) (\<lambda>p. Proxy_SetUnlockPolicy L (send p) userId policy) c s"

definition Client_GetUnlockPolicy ::
  "client_env \<Rightarrow> 'm ipc \<Rightarrow> ('m, 's) links \<Rightarrow> int \<Rightarrow> client_state \<Rightarrow> 's \<Rightarrow> (int \<times> out_value) \<times> client_state \<times> 's"
where
  "Client_GetUnlockPolicy ce L send userId c s = with_proxy ce (error_code L E_SCREENLOCK_NULLPTR, NoOut) (\<lambda>p. Proxy_GetUnlockPolicy L (send p) userId) c s"

definition Client_IsLockedWatch ::
  "client_env \<Rightarrow> 'm ipc \<Rightarrow> ('m, 's) links \<Rightarrow> client_state \<Rightarrow> 's \<Rightarrow> (int \<times> out_value) \<times> client_state \<times> 's"
where
  "Client_IsLockedWatch ce L send c s = with_proxy ce (error_code L E_SCREENLOCK_NULLPTR, NoOut) (\<lambda>p. Proxy_IsLockedWatch L (send p)) c s"

definition Client_UnlockWatch ::
  "client_env \<Rightarrow> 'm ipc \<Rightarrow> ('m, 's) links \<Rightarrow> nat option \<Rightarrow> client_state \<Rightarrow> 's \<Rightarrow> int \<times> client_state \<times> 's"
where
  "Client_UnlockWatch ce L send listener c s = with_proxy ce (error_code L E_SCREENLOCK_NULLPTR)
     (\<lambda>p t. if listener = None then (error_code L E_SCREENLOCK_NULLPTR, t) else Proxy_UnlockWatch L (send p) listener t) c s"

definition Client_OnSystemEvent ::
  "client_env \<Rightarrow> 'm ipc \<Rightarrow> ('m, 's) links \<Rightarrow> nat option \<Rightarrow> client_state \<Rightarrow> 's \<Rightarrow> int \<times> client_state \<times> 's"
where
  "Client_OnSystemEvent ce L send listener c s =
     (let (proxy, c1) = GetProxy ce c
      in case proxy of
           None \<Rightarrow> (error_code L E_SCREENLOCK_NULLPTR, c1, s)
         | Some p \<Rightarrow>
             if listener = None then (error_code L E_SCREENLOCK_NULLPTR, c1, s)
             else let c2 = c1\<lparr>clientListener := listener\<rparr>;
                      (status, s1) = Proxy_OnSystemEvent L (send p) listener s
                  in (status, c2, s1))"

section \<open>Inner listeners\<close>

text \<open>
  A wrapper is a remote object of its own; the number the client gives it is its identity.  The wrapper is
  entered into the map before the service is asked, and stays whatever the answer is.
\<close>

definition RegisterListenerInner ::
  "client_env \<Rightarrow> 'm ipc \<Rightarrow> ('m, 's) links \<Rightarrow> listen_type_name \<Rightarrow> nat \<Rightarrow> client_state \<Rightarrow> 's \<Rightarrow> int \<times> client_state \<times> 's"
where
  "RegisterListenerInner ce L send listenType listener c s =
     (let (proxy, c1) = GetProxy ce c
      in case proxy of
           None \<Rightarrow> (error_code L E_SCREENLOCK_NULLPTR, c1, s)
         | Some p \<Rightarrow>
             if \<not> wrapperMemory ce then (error_code L E_SCREENLOCK_NULLPTR, c1, s)
             else let wrapper = wrappersMade c1; c2 = c1\<lparr>wrappersMade := Suc wrapper\<rparr>
                  in if mfind (wrapperMap c2) listener \<noteq> None then (error_code L E_SCREENLOCK_PARAMETERS_INVALID, c2, s)
                     else let c3 = c2\<lparr>wrapperMap := mput listener wrapper (wrapperMap c2)\<rparr>;
                              (status, s1) = Proxy_RegisterInnerListener L (send p) (listenerUser ce listener)
                                 (listen_type listenType) (Some wrapper) s
                          in (status, c3, s1))"

definition UnRegisterListenerInner ::
  "client_env \<Rightarrow> 'm ipc \<Rightarrow> ('m, 's) links \<Rightarrow> listen_type_name \<Rightarrow> nat \<Rightarrow> client_state \<Rightarrow> 's \<Rightarrow> int \<times> client_state \<times> 's"
where
  "UnRegisterListenerInner ce L send listenType listener c s =
     (let (proxy, c1) = GetProxy ce c
      in case proxy of
           None \<Rightarrow> (error_code L E_SCREENLOCK_NULLPTR, c1, s)
         | Some p \<Rightarrow>
             (case mfind (wrapperMap c1) listener of
                None \<Rightarrow> (error_code L E_SCREENLOCK_NULLPTR, c1, s)
              | Some wrapper \<Rightarrow>
                  let (status, s1) = Proxy_UnRegisterInnerListener L (send p) (listenerUser ce listener)
                         (listen_type listenType) (Some wrapper) s
                  in (status, c1\<lparr>wrapperMap := merase listener (wrapperMap c1)\<rparr>, s1)))"

definition RegisterStrongAuthListener ::
  "client_env \<Rightarrow> 'm ipc \<Rightarrow> ('m, 's) links \<Rightarrow> nat option \<Rightarrow> client_state \<Rightarrow> 's \<Rightarrow> int \<times> client_state \<times> 's"
where
  "RegisterStrongAuthListener ce L send listener c s =
     (let (proxy, c1) = GetProxy ce c
      in case (proxy, listener) of
           (Some _, Some l) \<Rightarrow> RegisterListenerInner ce L send STRONG_AUTH l c1 s
         | _ \<Rightarrow> (error_code L E_SCREENLOCK_NULLPTR, c1, s))"

definition UnRegisterStrongAuthListener ::
  "client_env \<Rightarrow> 'm ipc \<Rightarrow> ('m, 's) links \<Rightarrow> nat option \<Rightarrow> client_state \<Rightarrow> 's \<Rightarrow> int \<times> client_state \<times> 's"
where
  "UnRegisterStrongAuthListener ce L send listener c s =
     (let (proxy, c1) = GetProxy ce c
      in case (proxy, listener) of
           (Some _, Some l) \<Rightarrow> UnRegisterListenerInner ce L send STRONG_AUTH l c1 s
         | _ \<Rightarrow> (error_code L E_SCREENLOCK_NULLPTR, c1, s))"

definition RegisterDeviceLockedListener ::
  "client_env \<Rightarrow> 'm ipc \<Rightarrow> ('m, 's) links \<Rightarrow> nat option \<Rightarrow> client_state \<Rightarrow> 's \<Rightarrow> int \<times> client_state \<times> 's"
where
  "RegisterDeviceLockedListener ce L send listener c s =
     (case listener of
        None \<Rightarrow> (error_code L E_SCREENLOCK_NULLPTR, c, s)
      | Some l \<Rightarrow> RegisterListenerInner ce L send DEVICE_LOCK l c s)"

definition UnRegisterDeviceLockedListener ::
  "client_env \<Rightarrow> 'm ipc \<Rightarrow> ('m, 's) links \<Rightarrow> nat option \<Rightarrow> client_state \<Rightarrow> 's \<Rightarrow> int \<times> client_state \<times> 's"
where
  "UnRegisterDeviceLockedListener ce L send listener c s =
     (case listener of
        None \<Rightarrow> (error_code L E_SCREENLOCK_NULLPTR, c, s)
      | Some l \<Rightarrow> UnRegisterListenerInner ce L send DEVICE_LOCK l c s)"

section \<open>Every request of the client\<close>

text \<open>The function of the client by request.  Inner listeners have their own functions above.\<close>

definition code_result :: "int \<times> client_state \<times> 's \<Rightarrow> (int \<times> out_value) \<times> client_state \<times> 's" where
  "code_result r = ((fst r, NoOut), snd r)"

definition flag_result :: "'m ipc \<Rightarrow> bool \<times> client_state \<times> 's \<Rightarrow> (int \<times> out_value) \<times> client_state \<times> 's" where
  "flag_result L r = ((error_code L E_SCREENLOCK_OK, BoolOut (fst r)), snd r)"

fun client_call ::
  "client_env \<Rightarrow> 'm ipc \<Rightarrow> ('m, 's) links \<Rightarrow> request \<Rightarrow> client_state \<Rightarrow> 's \<Rightarrow> (int \<times> out_value) \<times> client_state \<times> 's"
where
  "client_call ce L send Req_IsLocked c s = Client_IsLocked ce L send c s"
| "client_call ce L send Req_IsScreenLocked c s = flag_result L (Client_IsScreenLocked ce L send c s)"
| "client_call ce L send (Req_IsLockedWithUserId u) c s = Client_IsLockedWithUserId ce L send u c s"
| "client_call ce L send Req_GetSecure c s = flag_result L (Client_GetSecure ce L send c s)"
| "client_call ce L send (Req_Unlock l) c s = code_result (Client_Unlock ce L send ACTION_UNLOCK (Some l) c s)"
| "client_call ce L send (Req_UnlockScreen l) c s = code_result (Client_Unlock ce L send ACTION_UNLOCKSCREEN (Some l) c s)"
| "client_call ce L send (Req_Lock l) c s = code_result (Client_Lock ce L send (Some l) c s)"
| "client_call ce L send (Req_LockUser u) c s = code_result (Client_Lock_user ce L send u c s)"
| "client_call ce L send (Req_OnSystemEvent l) c s = code_result (Client_OnSystemEvent ce L send l c s)"
| "client_call ce L send (Req_SendScreenLockEvent ev p) c s = code_result (Client_SendScreenLockEvent ce L send ev p c s)"
| "client_call ce L send (Req_IsScreenLockDisabled u) c s = Client_IsScreenLockDisabled ce L send u c s"
| "client_call ce L send (Req_SetScreenLockDisabled b u) c s = code_result (Client_SetScreenLockDisabled ce L send b u c s)"
| "client_call ce L send (Req_SetAuthState a u t) c s = code_result (Client_SetScreenLockAuthState ce L send a u t c s)"
| "client_call ce L send (Req_GetAuthState u) c s = Client_GetScreenLockAuthState ce L send u c s"
| "client_call ce L send (Req_RequestStrongAuth r u) c s = code_result (Client_RequestStrongAuth ce L send r u c s)"
| "client_call ce L send (Req_GetStrongAuth u) c s = Client_GetStrongAuth ce L send u c s"
| "client_call ce L send (Req_IsDeviceLocked u) c s = Client_IsDeviceLocked ce L send u c s"
| "client_call ce L send (Req_SetUnlockPolicy u p) c s = code_result (Client_SetUnlockPolicy ce L send u p c s)"
| "client_call ce L send (Req_GetUnlockPolicy u) c s = Client_GetUnlockPolicy ce L send u c s"
| "client_call ce L send Req_IsLockedWatch c s = Client_IsLockedWatch ce L send c s"
| "client_call ce L send (Req_UnlockWatch l) c s = code_result (Client_UnlockWatch ce L send (Some l) c s)"
| "client_call ce L send (Req_RegisterInnerListener u ty l) c s = ((error_code L E_SCREENLOCK_NULLPTR, NoOut), c, s)"
| "client_call ce L send (Req_UnRegisterInnerListener u ty l) c s = ((error_code L E_SCREENLOCK_NULLPTR, NoOut), c, s)"

fun native_request :: "request \<Rightarrow> bool" where
  "native_request (Req_RegisterInnerListener _ _ _) = False"
| "native_request (Req_UnRegisterInnerListener _ _ _) = False"
| "native_request _ = True"

lemmas client_defs = Client_IsLocked_def Client_IsScreenLocked_def Client_IsLockedWithUserId_def Client_GetSecure_def
  Client_Unlock_def Client_Lock_def Client_Lock_user_def Client_OnSystemEvent_def Client_SendScreenLockEvent_def
  Client_IsScreenLockDisabled_def Client_SetScreenLockDisabled_def Client_SetScreenLockAuthState_def
  Client_GetScreenLockAuthState_def Client_RequestStrongAuth_def Client_GetStrongAuth_def Client_IsDeviceLocked_def
  Client_SetUnlockPolicy_def Client_GetUnlockPolicy_def Client_IsLockedWatch_def Client_UnlockWatch_def
  with_proxy_def code_result_def flag_result_def

text \<open>What a request does to the client itself: it may fetch the proxy, and \<open>OnSystemEvent\<close> records the
  listener.\<close>

definition after_call :: "client_env \<Rightarrow> request \<Rightarrow> client_state \<Rightarrow> client_state" where
  "after_call ce rq c = (let c1 = snd (GetProxy ce c) in
     case rq of Req_OnSystemEvent l \<Rightarrow> if l = None then c1 else c1\<lparr>clientListener := l\<rparr> | _ \<Rightarrow> c1)"

lemma client_call_proxy:
  assumes "fst (GetProxy ce c) = Some p" and "native_request rq" and "object_sent L rq"
  shows "client_call ce L send rq c s
     = (fst (proxy_call L (send p) rq s), after_call ce rq c, snd (proxy_call L (send p) rq s))"
  using assms
  by (cases rq; cases "GetProxy ce c"; simp add: client_defs code_only_def flag_only_def after_call_def split_beta;
      (clarsimp simp: client_defs code_only_def split_beta)?)

text \<open>What a request answers without a proxy.\<close>

fun no_proxy_answer :: "'m ipc \<Rightarrow> request \<Rightarrow> int \<times> out_value" where
  "no_proxy_answer L Req_IsLocked = (error_code L E_SCREENLOCK_SENDREQUEST_FAILED, NoOut)"
| "no_proxy_answer L Req_IsScreenLocked = (error_code L E_SCREENLOCK_OK, BoolOut False)"
| "no_proxy_answer L Req_GetSecure = (error_code L E_SCREENLOCK_OK, BoolOut False)"
| "no_proxy_answer L _ = (error_code L E_SCREENLOCK_NULLPTR, NoOut)"

lemma client_call_no_proxy:
  assumes "fst (GetProxy ce c) = None" and "native_request rq"
  shows "client_call ce L send rq c s = (no_proxy_answer L rq, snd (GetProxy ce c), s)"
  using assms by (cases rq; cases "GetProxy ce c"; simp add: client_defs)

lemma GetProxy_cases:
  "fst (GetProxy ce c) = (case managerProxy c of Some p \<Rightarrow> Some p | None \<Rightarrow>
     if systemAbilityManager ce then (case getSystemAbility ce of None \<Rightarrow> None
       | Some r \<Rightarrow> if castManager ce r then Some r else None) else None)"
  "managerProxy (snd (GetProxy ce c)) = fst (GetProxy ce c)"
  "wrapperMap (snd (GetProxy ce c)) = wrapperMap c" "clientListener (snd (GetProxy ce c)) = clientListener c"
  by (simp_all add: GetProxy_def GetScreenLockManagerProxy_def Let_def split: option.split)

lemma GetProxy_again: "fst (GetProxy ce c) = Some p \<Longrightarrow> GetProxy ce (snd (GetProxy ce c)) = (Some p, snd (GetProxy ce c))"
  using GetProxy_cases(2) [of ce c] by (simp add: GetProxy_def [of ce "snd (GetProxy ce c)"])

text \<open>C1: from the client's function to the service and back: when the proxy can be had and the link leads
  to the stub of the service, a request of the client is the request of the service: the same status and
  out parameter, the same change of the service, and on the client only the proxy that is kept (and the
  listener of OnSystemEvent); a second request does not fetch the proxy again.\<close>

theorem client_call_is_service_call:
  assumes "ipc_laws L content" and "sendable e L rq" and "native_request rq"
    and "fst (GetProxy ce c) = Some p" and "send p = OnRemoteRequest e L"
  shows "client_call ce L send rq c s
      = (client_view L rq (fst (serve e rq s)), after_call ce rq c, snd (serve e rq s))
    \<and> managerProxy (after_call ce rq c) = Some p
    \<and> GetProxy ce (after_call ce rq c) = (Some p, after_call ce rq c)"
proof -
  have obj: "object_sent L rq" using assms(2) by (simp add: sendable_def)
  have "managerProxy (after_call ce rq c) = Some p"
    using GetProxy_cases(2) [of ce c] assms(4) by (simp add: after_call_def Let_def split: request.split)
  then show ?thesis
    using remote_call_is_local_call [OF assms(1,2), of s]
    by (simp add: client_call_proxy [OF assms(4,3) obj] assms(5) GetProxy_def)
qed

definition sample_client_env :: client_env where
  "sample_client_env = \<lparr>systemAbilityManager = True, getSystemAbility = Some 7, castManager = (\<lambda>_. True),
     wrapperMemory = True, listenerUser = (\<lambda>_. 100)\<rparr>"

theorem client_call_is_service_call_witness:
  "client_call sample_client_env sample_ipc (\<lambda>_. OnRemoteRequest sample_env sample_ipc) (Req_SetAuthState 4 100 ''t'')
     initial_client (initial_service [])
   = ((13000, NoOut), after_call sample_client_env (Req_SetAuthState 4 100 ''t'') initial_client,
      snd (serve sample_env (Req_SetAuthState 4 100 ''t'') (initial_service [])))"
proof -
  have ok: "sendable sample_env sample_ipc (Req_SetAuthState 4 100 ''t'')" by (simp add: sendable_def code_supported_def)
  have p: "fst (GetProxy sample_client_env initial_client) = Some 7"
    by (simp add: GetProxy_cases sample_client_env_def initial_client_def)
  have "fst (serve sample_env (Req_SetAuthState 4 100 ''t'') (initial_service [])) = (OK, NoOut)" by code_simp
  then show ?thesis
    using client_call_is_service_call [OF ipc_laws_sample ok _ p,
        where send = "\<lambda>_. OnRemoteRequest sample_env sample_ipc" and s = "initial_service []"]
    by (simp add: client_view_def sample_ipc_def del: serve.simps)
qed

section \<open>When the service cannot be reached\<close>

text \<open>C38: when the service cannot be reached, because there is no proxy or because the link reports errors,
  no request changes the service; every request with a status reports an error and leaves the caller's
  variable alone; but the two plain booleans answer false, that is, a screen that is not locked and a device
  that is not secure.\<close>

theorem unreachable_service:
  assumes "ipc_laws L content" and "native_request rq" and "object_sent L rq"
    and "case fst (GetProxy ce c) of None \<Rightarrow> True
      | Some p \<Rightarrow> \<forall>k d r t. fst (send p k d r t) \<noteq> 0 \<and> snd (snd (send p k d r t)) = t"
  shows "let (r, c', s') = client_call ce L send rq c s in
      s' = s
    \<and> (if rq = Req_IsScreenLocked \<or> rq = Req_GetSecure then r = (error_code L E_SCREENLOCK_OK, BoolOut False)
       else snd r = NoOut \<and> fst r \<in> {error_code L E_SCREENLOCK_NULLPTR, error_code L E_SCREENLOCK_SENDREQUEST_FAILED})
    \<and> wrapperMap c' = wrapperMap c"
proof (cases "fst (GetProxy ce c)")
  case None
  have "if rq = Req_IsScreenLocked \<or> rq = Req_GetSecure
      then no_proxy_answer L rq = (error_code L E_SCREENLOCK_OK, BoolOut False)
      else snd (no_proxy_answer L rq) = NoOut \<and> fst (no_proxy_answer L rq)
        \<in> {error_code L E_SCREENLOCK_NULLPTR, error_code L E_SCREENLOCK_SENDREQUEST_FAILED}"
    by (cases rq) simp_all
  then show ?thesis
    by (simp add: client_call_no_proxy [OF None assms(2)] GetProxy_cases)
next
  case (Some p)
  with assms(4) have fails: "\<forall>k d r t. fst (send p k d r t) \<noteq> 0" and keeps: "\<forall>k d r t. snd (snd (send p k d r t)) = t"
    by simp_all
  have map: "wrapperMap (after_call ce rq c) = wrapperMap c"
    by (simp add: after_call_def GetProxy_cases Let_def split: request.split)
  have "if rq = Req_IsScreenLocked \<or> rq = Req_GetSecure then link_failure L rq = (error_code L E_SCREENLOCK_OK, BoolOut False)
      else link_failure L rq = (error_code L E_SCREENLOCK_SENDREQUEST_FAILED, NoOut)"
    by (cases rq) (simp_all add: link_failure_def)
  then show ?thesis
    using proxy_call_failure [OF assms(1,3) fails, of s] map
    by (simp add: client_call_proxy [OF Some assms(2,3)] proxy_call_no_effect [OF assms(1,3) fails keeps] split: if_splits)
qed

theorem unreachable_service_witness:
  "fst (client_call (sample_client_env\<lparr>getSystemAbility := None\<rparr>) sample_ipc (\<lambda>_. OnRemoteRequest sample_env sample_ipc)
     Req_IsScreenLocked initial_client (initial_service [])) = (13000, BoolOut False)"
proof -
  have p: "fst (GetProxy (sample_client_env\<lparr>getSystemAbility := None\<rparr>) initial_client) = None"
    by (simp add: GetProxy_cases sample_client_env_def initial_client_def)
  then show ?thesis
    using unreachable_service [OF ipc_laws_sample, where rq = Req_IsScreenLocked and c = initial_client
        and ce = "sample_client_env\<lparr>getSystemAbility := None\<rparr>"
        and send = "\<lambda>_. OnRemoteRequest sample_env sample_ipc" and s = "initial_service []"]
    by (simp add: split_beta error_code_def sample_ipc_def Let_def del: client_call.simps)
qed

section \<open>Inner listeners of a client\<close>

lemma RegisterListenerInner_known:
  assumes "fst (GetProxy ce c) = Some p" and "wrapperMemory ce" and "mfind (wrapperMap c) l \<noteq> None"
  shows "fst (RegisterListenerInner ce L send ty l c s) = error_code L E_SCREENLOCK_PARAMETERS_INVALID"
    and "snd (snd (RegisterListenerInner ce L send ty l c s)) = s"
    and "wrapperMap (fst (snd (RegisterListenerInner ce L send ty l c s))) = wrapperMap c"
  using assms GetProxy_cases(3) [of ce c]
  by (simp_all add: RegisterListenerInner_def Let_def split_beta)

lemma RegisterListenerInner_new:
  assumes "fst (GetProxy ce c) = Some p" and "wrapperMemory ce" and "mfind (wrapperMap c) l = None"
  shows "mfind (wrapperMap (fst (snd (RegisterListenerInner ce L send ty l c s)))) l \<noteq> None"
    and "managerProxy (fst (snd (RegisterListenerInner ce L send ty l c s))) = Some p"
  using assms GetProxy_cases(2,3) [of ce c]
  by (simp_all add: RegisterListenerInner_def Let_def split_beta mfind_mput)

lemma Proxy_RegisterInnerListener_call:
  "Proxy_RegisterInnerListener L send u t (Some r) s
     = (fst (fst (proxy_call L send (Req_RegisterInnerListener u t (Some (Listener a (Some r)))) s)),
        snd (proxy_call L send (Req_RegisterInnerListener u t (Some (Listener a (Some r)))) s))"
  by (simp add: listener_object_def code_only_def)

text \<open>C39: a registration is asked of the service once: a second registration of the listener is refused
  without asking, even when the service refused the first one, and even when the service died in between,
  told the client so through the system-event listener, and came back without any registration; only an
  unregistration, whatever the service answers to it, makes the listener registrable again.\<close>

theorem registration_survives_refusal_and_restart:
  assumes "fst (GetProxy ce c) = Some p" and "wrapperMemory ce" and "mfind (wrapperMap c) l = None"
    and "fst (GetScreenLockManagerProxy ce c) = Some q"
  shows "let c1 = fst (snd (RegisterListenerInner ce L send ty l c s)); c2 = OnRemoteSaDied ce c1 in
      fst (RegisterListenerInner ce L send ty' l c1 s') = error_code L E_SCREENLOCK_PARAMETERS_INVALID
    \<and> snd (snd (RegisterListenerInner ce L send ty' l c1 s')) = s'
    \<and> fst (RegisterListenerInner ce L send ty' l c2 s') = error_code L E_SCREENLOCK_PARAMETERS_INVALID
    \<and> snd (snd (RegisterListenerInner ce L send ty' l c2 s')) = s'
    \<and> (\<forall>x. clientListener c1 = Some x \<longrightarrow> EventToListener x (SystemEvent SERVICE_RESTART) \<in> set (clientTrace c2))
    \<and> mfind (wrapperMap (fst (snd (UnRegisterListenerInner ce L send ty' l c2 s')))) l = None"
proof -
  let ?c1 = "fst (snd (RegisterListenerInner ce L send ty l c s))"
  let ?c2 = "OnRemoteSaDied ce ?c1"
  have c1: "mfind (wrapperMap ?c1) l \<noteq> None" "fst (GetProxy ce ?c1) = Some p"
    using RegisterListenerInner_new [OF assms(1-3), of L send ty s] by (simp_all add: GetProxy_cases(1))
  have env: "systemAbilityManager ce" "getSystemAbility ce \<noteq> None" "castManager ce (the (getSystemAbility ce))"
    using assms(4) by (auto simp: GetScreenLockManagerProxy_def Let_def split: if_splits option.splits)
  then have "fst (GetProxy ce ?c2) = getSystemAbility ce" "wrapperMap ?c2 = wrapperMap ?c1"
    by (auto simp: OnRemoteSaDied_def GetProxy_cases(1) GetScreenLockManagerProxy_def Let_def split: option.split)
  then have c2: "mfind (wrapperMap ?c2) l \<noteq> None" "\<exists>q. fst (GetProxy ce ?c2) = Some q"
    using c1(1) env(2) by auto
  then obtain q' where q': "fst (GetProxy ce ?c2) = Some q'" by blast
  have "\<forall>x. clientListener ?c1 = Some x \<longrightarrow> EventToListener x (SystemEvent SERVICE_RESTART) \<in> set (clientTrace ?c2)"
    using env by (auto simp: OnRemoteSaDied_def GetScreenLockManagerProxy_def Let_def split: option.split)
  moreover have "mfind (wrapperMap (fst (snd (UnRegisterListenerInner ce L send ty' l ?c2 s')))) l = None"
    using c2(1) q' GetProxy_cases(3) [of ce ?c2]
    by (auto simp: UnRegisterListenerInner_def Let_def split_beta mfind_merase split: option.split)
  ultimately show ?thesis
    by (simp add: Let_def RegisterListenerInner_known [OF c1(2) assms(2) c1(1)]
        RegisterListenerInner_known [OF q' assms(2) c2(1)])
qed

theorem registration_survives_refusal_and_restart_witness:
  "fst (RegisterListenerInner sample_client_env sample_ipc (\<lambda>_. OnRemoteRequest sample_env sample_ipc) DEVICE_LOCK 5
     (OnRemoteSaDied sample_client_env (fst (snd (RegisterListenerInner sample_client_env sample_ipc
        (\<lambda>_. OnRemoteRequest sample_env sample_ipc) DEVICE_LOCK 5 initial_client (initial_service [])))))
     (initial_service [])) = 13007"
proof -
  have "fst (GetProxy sample_client_env initial_client) = Some 7" "wrapperMemory sample_client_env"
    "mfind (wrapperMap initial_client) 5 = None" "fst (GetScreenLockManagerProxy sample_client_env initial_client) = Some 7"
    by (simp_all add: GetProxy_cases GetScreenLockManagerProxy_def sample_client_env_def initial_client_def)
  from registration_survives_refusal_and_restart [OF this, where L = sample_ipc
      and send = "\<lambda>_. OnRemoteRequest sample_env sample_ipc" and ty = DEVICE_LOCK and ty' = DEVICE_LOCK
      and s = "initial_service []" and s' = "initial_service []"]
  show ?thesis by (simp add: Let_def error_code_def sample_ipc_def)
qed

end
