(* ===== verification/Js_Errors.thy ===== *)
theory Js_Errors
  imports Screenlock_Client
begin

text \<open>
  What both script bindings share: the error codes scripts see (\<open>JsErrorCode\<close> in
  \<open>screenlock_common.h\<close>), the tables that turn a native status into such a code and a message, and
  \<open>GetErrorInfo\<close>/\<open>GetErrorMessage\<close>, which \<open>napi_screenlock_ability.cpp\<close> and
  \<open>ani_screenlock_ability.cpp\<close> define with the same text.  A binding asks the manager object of the
  client; \<open>manager\<close> is that object with whatever state is behind it.
\<close>

section \<open>Codes and messages\<close>

datatype js_error_code =
    ERR_NO_PERMISSION
  | ERR_NOT_SYSTEM_APP
  | ERR_INVALID_PARAMS
  | ERR_CANCEL_UNLOCK
  | ERR_SERVICE_ABNORMAL
  | ERR_ILLEGAL_USE
  | ERR_USER_ID_INVALID

fun js_code :: "js_error_code \<Rightarrow> int" where
  "js_code ERR_NO_PERMISSION = 201"
| "js_code ERR_NOT_SYSTEM_APP = 202"
| "js_code ERR_INVALID_PARAMS = 401"
| "js_code ERR_CANCEL_UNLOCK = 13200001"
| "js_code ERR_SERVICE_ABNORMAL = 13200002"
| "js_code ERR_ILLEGAL_USE = 13200003"
| "js_code ERR_USER_ID_INVALID = 13200004"

lemma js_code_inject [simp]: "js_code x = js_code y \<longleftrightarrow> x = y"
  by (cases x; cases y) simp_all

definition PERMISSION_VALIDATION_FAILED :: string where
  "PERMISSION_VALIDATION_FAILED = ''Permission verification failed.''"
definition PARAMETER_VALIDATION_FAILED :: string where
  "PARAMETER_VALIDATION_FAILED = ''Parameter verification failed.''"
definition CANCEL_UNLOCK_OPERATION :: string where
  "CANCEL_UNLOCK_OPERATION = ''The user canceled the unlock operation.''"
definition SERVICE_IS_ABNORMAL :: string where
  "SERVICE_IS_ABNORMAL = ''The screenlock management service is abnormal.''"
definition ILLEGAL_USE :: string where
  "ILLEGAL_USE = ''Invalid use.''"
definition NON_SYSTEM_APP :: string where
  "NON_SYSTEM_APP = ''Permission verification failed, application which is not a system application '' @
     ''uses system API.''"
definition USER_ID_INVALID :: string where
  "USER_ID_INVALID = ''The userId is not same as the caller, and is not allowed for the caller.''"

definition ERROR_CODE_CONVERSION :: "'m ipc \<Rightarrow> (int, int) stdmap" where
  "ERROR_CODE_CONVERSION L =
     [(error_code L E_SCREENLOCK_NO_PERMISSION, js_code ERR_NO_PERMISSION),
      (error_code L E_SCREENLOCK_PARAMETERS_INVALID, js_code ERR_INVALID_PARAMS),
      (error_code L E_SCREENLOCK_WRITE_PARCEL_ERROR, js_code ERR_SERVICE_ABNORMAL),
      (error_code L E_SCREENLOCK_NULLPTR, js_code ERR_SERVICE_ABNORMAL),
      (error_code L E_SCREENLOCK_SENDREQUEST_FAILED, js_code ERR_SERVICE_ABNORMAL),
      (error_code L E_SCREENLOCK_NOT_FOCUS_APP, js_code ERR_ILLEGAL_USE),
      (error_code L E_SCREENLOCK_NOT_SYSTEM_APP, js_code ERR_NOT_SYSTEM_APP),
      (error_code L E_SCREENLOCK_USER_ID_INVALID, js_code ERR_USER_ID_INVALID)]"

definition ERROR_INFO_MAP :: "(int, string) stdmap" where
  "ERROR_INFO_MAP =
     [(js_code ERR_NO_PERMISSION, PERMISSION_VALIDATION_FAILED),
      (js_code ERR_INVALID_PARAMS, PARAMETER_VALIDATION_FAILED),
      (js_code ERR_CANCEL_UNLOCK, CANCEL_UNLOCK_OPERATION),
      (js_code ERR_SERVICE_ABNORMAL, SERVICE_IS_ABNORMAL),
      (js_code ERR_ILLEGAL_USE, ILLEGAL_USE),
      (js_code ERR_NOT_SYSTEM_APP, NON_SYSTEM_APP),
      (js_code ERR_USER_ID_INVALID, USER_ID_INVALID)]"

record error_info =
  errorCode :: int
  message :: string

definition no_error_info :: error_info where
  "no_error_info = \<lparr>errorCode = 0, message = ''''\<rparr>"

definition GetErrorMessage :: "int \<Rightarrow> string" where
  "GetErrorMessage code = (case mfind ERROR_INFO_MAP code of None \<Rightarrow> '''' | Some m \<Rightarrow> m)"

definition GetErrorInfo :: "'m ipc \<Rightarrow> int \<Rightarrow> error_info \<Rightarrow> error_info" where
  "GetErrorInfo L code errorInfo =
     (case mfind (ERROR_CODE_CONVERSION L) code of
        Some c \<Rightarrow> errorInfo\<lparr>errorCode := c, message := GetErrorMessage c\<rparr>
      | None \<Rightarrow> errorInfo)"

text \<open>
  The block every binding function repeats for a status other than OK: a fresh \<open>ErrorInfo\<close> with the
  status converted to \<open>uint32_t\<close>, then the tables.
\<close>

definition status_error_info :: "'m ipc \<Rightarrow> int \<Rightarrow> error_info" where
  "status_error_info L status = GetErrorInfo L status (no_error_info\<lparr>errorCode := status mod 2 ^ 32\<rparr>)"

definition status_is_ok :: "'m ipc \<Rightarrow> int \<Rightarrow> bool" where
  "status_is_ok L status \<longleftrightarrow> status = error_code L E_SCREENLOCK_OK"

section \<open>What the tables say\<close>

fun js_error_of :: "sl_error \<Rightarrow> js_error_code option" where
  "js_error_of E_SCREENLOCK_NO_PERMISSION = Some ERR_NO_PERMISSION"
| "js_error_of E_SCREENLOCK_PARAMETERS_INVALID = Some ERR_INVALID_PARAMS"
| "js_error_of E_SCREENLOCK_WRITE_PARCEL_ERROR = Some ERR_SERVICE_ABNORMAL"
| "js_error_of E_SCREENLOCK_NULLPTR = Some ERR_SERVICE_ABNORMAL"
| "js_error_of E_SCREENLOCK_SENDREQUEST_FAILED = Some ERR_SERVICE_ABNORMAL"
| "js_error_of E_SCREENLOCK_NOT_FOCUS_APP = Some ERR_ILLEGAL_USE"
| "js_error_of E_SCREENLOCK_NOT_SYSTEM_APP = Some ERR_NOT_SYSTEM_APP"
| "js_error_of E_SCREENLOCK_USER_ID_INVALID = Some ERR_USER_ID_INVALID"
| "js_error_of _ = None"

lemma error_code_inject [simp]: "error_code L x = error_code L y \<longleftrightarrow> x = y"
  by (simp add: error_code_def)

lemma conversion_lookup:
  "mfind (ERROR_CODE_CONVERSION L) (error_code L x) = map_option js_code (js_error_of x)"
  by (cases x) (simp_all add: ERROR_CODE_CONVERSION_def)

lemma GetErrorMessage_js: "GetErrorMessage (js_code c) \<noteq> ''''"
  by (cases c) (simp_all add: GetErrorMessage_def ERROR_INFO_MAP_def PERMISSION_VALIDATION_FAILED_def
      PARAMETER_VALIDATION_FAILED_def CANCEL_UNLOCK_OPERATION_def SERVICE_IS_ABNORMAL_def ILLEGAL_USE_def
      NON_SYSTEM_APP_def USER_ID_INVALID_def)

lemma status_error_info_known:
  "js_error_of x = Some c \<Longrightarrow> status_error_info L (error_code L x) = \<lparr>errorCode = js_code c, message = GetErrorMessage (js_code c)\<rparr>"
  by (simp add: status_error_info_def GetErrorInfo_def conversion_lookup no_error_info_def)

end
