(* ===== verification/Napi_Ability.thy ===== *)
theory Napi_Ability
  imports Js_Errors
begin

text \<open>
  \<open>frameworks/js/napi/src/napi_screenlock_ability.cpp\<close>, \<open>async_call.cpp\<close> and
  \<open>screenlock_callback.cpp\<close>: the functions scripts call.  The engine is a parameter (\<open>napi\<close>): the type of
  a value and the conversions of the N-API, with their documented agreement (\<open>napi_laws\<close>).  A function
  gets the argument values, and yields what it throws, what it returns (\<open>None\<close> for a null handle) and,
  when it is asynchronous, the work it queues, which is executed and completed later.  An \<open>AssertError\<close> is what
  the assertion macros of the engine throw; it carries the message given to the macro.
\<close>

section \<open>The engine\<close>

datatype js_type = JsUndefinedT | JsBooleanT | JsNumberT | JsStringT | JsObjectT | JsFunctionT

text \<open>\<open>jsTypedArray\<close> gives whether the value is a typed array of bytes and whether its data is non-null.\<close>

record 'v napi =
  jsTypeof :: "'v \<Rightarrow> js_type option"
  jsInt32 :: "'v \<Rightarrow> int option"
  jsBool :: "'v \<Rightarrow> bool option"
  jsUtf8 :: "'v \<Rightarrow> string option"
  jsTypedArray :: "'v \<Rightarrow> bool \<times> bool"

definition napi_laws :: "'v napi \<Rightarrow> bool" where
  "napi_laws N \<longleftrightarrow> (\<forall>v.
     (jsInt32 N v \<noteq> None \<longleftrightarrow> jsTypeof N v = Some JsNumberT)
     \<and> (jsBool N v \<noteq> None \<longleftrightarrow> jsTypeof N v = Some JsBooleanT)
     \<and> (jsUtf8 N v \<noteq> None \<longleftrightarrow> jsTypeof N v = Some JsStringT)
     \<and> (fst (jsTypedArray N v) \<longrightarrow> jsTypeof N v = Some JsObjectT))"

text \<open>Values the binding creates; an error object may lack its code.\<close>

datatype js_out =
    OutUndefined
  | OutNull
  | OutBool bool
  | OutInt int
  | OutError "int option" string
  | OutPromise

datatype js_throw = BusinessError int string | AssertError string

definition MAX_VALUE_LEN :: nat where "MAX_VALUE_LEN = 4096"

text \<open>A string read into a zeroed buffer and used as a C string.\<close>

definition read_buffer :: "'v napi \<Rightarrow> 'v \<Rightarrow> string" where
  "read_buffer N v = (case jsUtf8 N v of None \<Rightarrow> '''' | Some t \<Rightarrow> takeWhile (\<lambda>c. c \<noteq> CHR 0x00) (take (MAX_VALUE_LEN - 1) t))"

definition int32_or :: "'v napi \<Rightarrow> 'v \<Rightarrow> int \<Rightarrow> int" where
  "int32_or N v d = (case jsInt32 N v of None \<Rightarrow> d | Some i \<Rightarrow> i)"

definition bool_or :: "'v napi \<Rightarrow> 'v \<Rightarrow> bool \<Rightarrow> bool" where
  "bool_or N v d = (case jsBool N v of None \<Rightarrow> d | Some b \<Rightarrow> b)"

section \<open>Checks\<close>

definition IsValidEvent :: "string \<Rightarrow> bool" where
  "IsValidEvent ty \<longleftrightarrow> ty = UNLOCK_SCREEN_RESULT \<or> ty = SCREEN_DRAWDONE \<or> ty = LOCK_SCREEN_RESULT"

definition CheckParamType :: "'v napi \<Rightarrow> 'v \<Rightarrow> js_type \<Rightarrow> bool" where
  "CheckParamType N param jsType \<longleftrightarrow> jsTypeof N param = Some jsType"

definition CheckParamArrayType :: "'v napi \<Rightarrow> 'v \<Rightarrow> bool" where
  "CheckParamArrayType N param \<longleftrightarrow> fst (jsTypedArray N param) \<and> snd (jsTypedArray N param)"

definition CheckParamNumber :: "nat \<Rightarrow> nat \<Rightarrow> bool" where
  "CheckParamNumber argc paramNumber \<longleftrightarrow> \<not> argc < paramNumber"

definition ThrowError :: "int \<Rightarrow> string \<Rightarrow> js_throw" where
  "ThrowError code msg = BusinessError code msg"

definition parameter_error :: js_throw where
  "parameter_error = ThrowError (js_code ERR_INVALID_PARAMS) PARAMETER_VALIDATION_FAILED"

text \<open>The messages some functions build themselves.\<close>

definition typed_error :: "string \<Rightarrow> js_throw" where
  "typed_error msg = ThrowError (js_code ERR_INVALID_PARAMS) (''Parameter error. '' @ msg)"

definition type_message :: "string \<Rightarrow> string \<Rightarrow> string" where
  "type_message name ty = ''The type of '' @ [CHR 0x22] @ name @ [CHR 0x22] @ '' must be '' @ ty"

definition status_throw :: "'m ipc \<Rightarrow> int \<Rightarrow> js_throw" where
  "status_throw L status = ThrowError (errorCode (status_error_info L status)) (message (status_error_info L status))"

section \<open>Synchronous functions\<close>

text \<open>The manager object of the client, by request; it returns the status and the out parameter.\<close>

type_synonym 'w manager = "request \<Rightarrow> 'w \<Rightarrow> (int \<times> out_value) \<times> 'w"

type_synonym sync_result = "js_throw option \<times> js_out option"

definition NAPI_IsLocked :: "'m ipc \<Rightarrow> 'w manager \<Rightarrow> 'w \<Rightarrow> sync_result \<times> 'w" where
  "NAPI_IsLocked L manager w =
     (let ((status, out), w1) = manager Req_IsLocked w
      in if \<not> status_is_ok L status then ((Some (status_throw L status), None), w1)
         else ((None, Some (OutBool (out_bool False out))), w1))"

definition NAPI_IsScreenLockDisabled :: "'v napi \<Rightarrow> 'm ipc \<Rightarrow> 'w manager \<Rightarrow> 'v list \<Rightarrow> 'w \<Rightarrow> sync_result \<times> 'w" where
  "NAPI_IsScreenLockDisabled N L manager argv w =
     (if \<not> CheckParamNumber (length argv) 1 then ((Some (typed_error ''The number of parameters should 1''), None), w)
      else if \<not> CheckParamType N (argv ! 0) JsNumberT
      then ((Some (typed_error (type_message ''userId'' ''number'')), None), w)
      else let userId = int32_or N (argv ! 0) (- 1);
               ((status, out), w1) = manager (Req_IsScreenLockDisabled userId) w
           in if \<not> status_is_ok L status then ((Some (status_throw L status), None), w1)
              else ((None, Some (OutBool (out_bool False out))), w1))"

definition NAPI_GetScreenLockAuthState :: "'v napi \<Rightarrow> 'm ipc \<Rightarrow> 'w manager \<Rightarrow> 'v list \<Rightarrow> 'w \<Rightarrow> sync_result \<times> 'w" where
  "NAPI_GetScreenLockAuthState N L manager argv w =
     (if \<not> CheckParamNumber (length argv) 1 then ((Some parameter_error, None), w)
      else if \<not> CheckParamType N (argv ! 0) JsNumberT then ((Some parameter_error, None), w)
      else let userId = int32_or N (argv ! 0) (- 1);
               ((status, out), w1) = manager (Req_GetAuthState userId) w
           in if \<not> status_is_ok L status then ((Some (status_throw L status), None), w1)
              else ((None, Some (OutInt (out_int (- 1) out))), w1))"

definition NAPI_GetStrongAuth :: "'v napi \<Rightarrow> 'm ipc \<Rightarrow> 'w manager \<Rightarrow> 'v list \<Rightarrow> 'w \<Rightarrow> sync_result \<times> 'w" where
  "NAPI_GetStrongAuth N L manager argv w =
     (if \<not> CheckParamNumber (length argv) 1 then ((Some parameter_error, None), w)
      else if \<not> CheckParamType N (argv ! 0) JsNumberT then ((Some parameter_error, None), w)
      else let userId = int32_or N (argv ! 0) (- 1);
               ((status, out), w1) = manager (Req_GetStrongAuth userId) w
           in if \<not> status_is_ok L status then ((Some (status_throw L status), None), w1)
              else ((None, Some (OutInt (out_int (- 1) out))), w1))"

definition NAPI_IsDeviceLocked :: "'v napi \<Rightarrow> 'm ipc \<Rightarrow> 'w manager \<Rightarrow> 'v list \<Rightarrow> 'w \<Rightarrow> sync_result \<times> 'w" where
  "NAPI_IsDeviceLocked N L manager argv w =
     (if \<not> CheckParamNumber (length argv) 1 then ((Some parameter_error, None), w)
      else if \<not> CheckParamType N (argv ! 0) JsNumberT then ((Some parameter_error, None), w)
      else let userId = int32_or N (argv ! 0) (special_user_code USER_CURRENT);
               ((status, out), w1) = manager (Req_IsDeviceLocked userId) w
           in if \<not> status_is_ok L status then ((Some (status_throw L status), None), w1)
              else ((None, Some (OutBool (out_bool True out))), w1))"

definition UNLOCPOLICY_DEFAULT :: int where "UNLOCPOLICY_DEFAULT = 0"
definition UNLOCPOLICY_EXTENDED_AUTH_AND_SYSTEM :: int where "UNLOCPOLICY_EXTENDED_AUTH_AND_SYSTEM = 2"

definition NAPI_GetUnlockPolicy :: "'v napi \<Rightarrow> 'm ipc \<Rightarrow> 'w manager \<Rightarrow> 'v list \<Rightarrow> 'w \<Rightarrow> sync_result \<times> 'w" where
  "NAPI_GetUnlockPolicy N L manager argv w =
     (if \<not> CheckParamNumber (length argv) 1 then ((Some parameter_error, None), w)
      else if \<not> CheckParamType N (argv ! 0) JsNumberT then ((Some parameter_error, None), w)
      else case jsInt32 N (argv ! 0) of
             None \<Rightarrow> ((Some parameter_error, None), w)
           | Some userId \<Rightarrow>
               let ((status, out), w1) = manager (Req_GetUnlockPolicy userId) w; policy = out_int 0 out
               in if \<not> status_is_ok L status then ((Some (status_throw L status), None), w1)
                  else if policy < UNLOCPOLICY_DEFAULT \<or> policy > UNLOCPOLICY_EXTENDED_AUTH_AND_SYSTEM
                  then ((Some parameter_error, None), w1)
                  else ((None, Some (OutInt policy)), w1))"

text \<open>The listener object \<open>lid\<close> made of the callback is what the service calls back.\<close>

definition NAPI_OnSystemEvent :: "'v napi \<Rightarrow> 'm ipc \<Rightarrow> 'w manager \<Rightarrow> nat \<Rightarrow> 'v list \<Rightarrow> 'w \<Rightarrow> sync_result \<times> 'w" where
  "NAPI_OnSystemEvent N L manager lid argv w =
     (if \<not> CheckParamNumber (length argv) 1
      then ((Some (typed_error ''The number of parameters should 1''), Some (OutBool False)), w)
      else if \<not> CheckParamType N (argv ! 0) JsFunctionT
      then ((Some (typed_error (type_message ''callback'' ''function'')), Some (OutBool False)), w)
      else let ((retCode, _), w1) = manager (Req_OnSystemEvent (Some lid)) w
           in if \<not> status_is_ok L retCode then ((Some (status_throw L retCode), Some (OutBool False)), w1)
              else ((None, Some (OutBool True)), w1))"

section \<open>Asynchronous calls\<close>

text \<open>
  What an asynchronous function queues: a request whose boolean answer is the result, or a request whose
  status is; with the callback of the script, or none when it got a promise.
\<close>

datatype async_work = FlagWork request | StatusWork request

type_synonym input_result = "js_throw option \<times> async_work option"

definition AsyncCall_start ::
  "'v napi \<Rightarrow> nat \<Rightarrow> (nat \<Rightarrow> 'v list \<Rightarrow> input_result) \<Rightarrow> 'v list \<Rightarrow> sync_result \<times> ('v option \<times> async_work) option"
where
  "AsyncCall_start N pos input argv =
     (let callback = (if pos < length argv \<and> jsTypeof N (argv ! pos) = Some JsFunctionT then Some (argv ! pos) else None);
          argc = (if callback \<noteq> None then pos else length argv);
          (thrown, ctx) = input argc argv
      in case ctx of
           None \<Rightarrow> ((thrown, None), None)
         | Some work \<Rightarrow> ((thrown, Some (if callback = None then OutPromise else OutUndefined)), Some (callback, work)))"

record exec_result =
  execOk :: bool
  execError :: error_info
  execAllowed :: bool

definition OnExecute :: "'m ipc \<Rightarrow> 'w manager \<Rightarrow> async_work \<Rightarrow> 'w \<Rightarrow> exec_result \<times> 'w" where
  "OnExecute L manager work w =
     (case work of
        FlagWork rq \<Rightarrow>
          let ((_, out), w1) = manager rq w
          in (\<lparr>execOk = True, execError = no_error_info, execAllowed = out_bool False out\<rparr>, w1)
      | StatusWork rq \<Rightarrow>
          let ((retCode, _), w1) = manager rq w
          in if \<not> status_is_ok L retCode
             then (\<lparr>execOk = False, execError = status_error_info L retCode, execAllowed = False\<rparr>, w1)
             else (\<lparr>execOk = True, execError = no_error_info, execAllowed = True\<rparr>, w1))"

datatype 'v js_event =
    Resolved js_out
  | Rejected js_out
  | Called 'v js_out js_out

definition int32_of :: "int \<Rightarrow> int" where
  "int32_of x = (x + 2 ^ 31) mod 2 ^ 32 - 2 ^ 31"

definition GenerateBusinessError :: "error_info \<Rightarrow> js_out" where
  "GenerateBusinessError errorInfo =
     OutError (if errorCode errorInfo \<noteq> 0 then Some (int32_of (errorCode errorInfo)) else None) (message errorInfo)"

definition OnComplete :: "'v option \<Rightarrow> exec_result \<Rightarrow> 'v js_event" where
  "OnComplete callback r =
     (let data = (if execOk r then OutBool (execAllowed r) else OutUndefined);
          err = (if execOk r then OutNull else GenerateBusinessError (execError r))
      in case callback of
           None \<Rightarrow> if execOk r then Resolved data else Rejected err
         | Some f \<Rightarrow> Called f err data)"

definition NAPI_IsScreenLocked_input :: "nat \<Rightarrow> 'v list \<Rightarrow> input_result" where
  "NAPI_IsScreenLocked_input argc argv =
     (if argc = 0 \<or> argc = 1 then (None, Some (FlagWork Req_IsScreenLocked))
      else (Some (AssertError '' should 0 or 1 parameters!''), None))"

definition NAPI_IsScreenLocked :: "'v napi \<Rightarrow> 'v list \<Rightarrow> sync_result \<times> ('v option \<times> async_work) option" where
  "NAPI_IsScreenLocked N argv = AsyncCall_start N 0 NAPI_IsScreenLocked_input argv"

definition NAPI_IsSecureMode :: "'v napi \<Rightarrow> 'v list \<Rightarrow> sync_result \<times> ('v option \<times> async_work) option" where
  "NAPI_IsSecureMode N argv = AsyncCall_start N 0 (\<lambda>argc argv. (None, Some (FlagWork Req_GetSecure))) argv"

definition NAPI_ScreenLockSendEvent_input :: "'v napi \<Rightarrow> nat \<Rightarrow> 'v list \<Rightarrow> input_result" where
  "NAPI_ScreenLockSendEvent_input N argc argv =
     (if \<not> CheckParamNumber argc 2 then (Some (typed_error ''The number of parameters should 2''), None)
      else if \<not> CheckParamType N (argv ! 0) JsStringT
      then (Some (typed_error (type_message ''event'' ''string'')), None)
      else let eventInfo = read_buffer N (argv ! 0)
           in if \<not> IsValidEvent eventInfo then (Some parameter_error, None)
              else if \<not> CheckParamType N (argv ! 1) JsNumberT then (Some parameter_error, None)
              else (None, Some (StatusWork (Req_SendScreenLockEvent eventInfo (int32_or N (argv ! 1) 0)))))"

definition NAPI_ScreenLockSendEvent :: "'v napi \<Rightarrow> 'v list \<Rightarrow> sync_result \<times> ('v option \<times> async_work) option" where
  "NAPI_ScreenLockSendEvent N argv = AsyncCall_start N 2 (NAPI_ScreenLockSendEvent_input N) argv"

definition NAPI_SetScreenLockDisabled_input :: "'v napi \<Rightarrow> nat \<Rightarrow> 'v list \<Rightarrow> input_result" where
  "NAPI_SetScreenLockDisabled_input N argc argv =
     (if \<not> CheckParamNumber argc 2 then (Some (typed_error ''The number of parameters should be at least 2''), None)
      else if \<not> CheckParamType N (argv ! 0) JsBooleanT
      then (Some (typed_error (type_message ''disable'' ''boolean'')), None)
      else if \<not> CheckParamType N (argv ! 1) JsNumberT
      then (Some (typed_error (type_message ''userId'' ''number'')), None)
      else (None, Some (StatusWork
             (Req_SetScreenLockDisabled (bool_or N (argv ! 0) False) (int32_or N (argv ! 1) (- 1))))))"

definition NAPI_SetScreenLockDisabled :: "'v napi \<Rightarrow> 'v list \<Rightarrow> sync_result \<times> ('v option \<times> async_work) option" where
  "NAPI_SetScreenLockDisabled N argv = AsyncCall_start N 2 (NAPI_SetScreenLockDisabled_input N) argv"

definition NAPI_SetScreenLockAuthState_input :: "'v napi \<Rightarrow> nat \<Rightarrow> 'v list \<Rightarrow> input_result" where
  "NAPI_SetScreenLockAuthState_input N argc argv =
     (if \<not> CheckParamNumber argc 3 then (Some parameter_error, None)
      else if \<not> CheckParamType N (argv ! 0) JsNumberT then (Some parameter_error, None)
      else if \<not> CheckParamType N (argv ! 1) JsNumberT then (Some parameter_error, None)
      else if \<not> CheckParamArrayType N (argv ! 2) then (Some parameter_error, None)
      else (None, Some (StatusWork (Req_SetAuthState (int32_or N (argv ! 0) (- 1)) (int32_or N (argv ! 1) (- 1))
             (read_buffer N (argv ! 2))))))"

definition NAPI_SetScreenLockAuthState :: "'v napi \<Rightarrow> 'v list \<Rightarrow> sync_result \<times> ('v option \<times> async_work) option" where
  "NAPI_SetScreenLockAuthState N argv = AsyncCall_start N 3 (NAPI_SetScreenLockAuthState_input N) argv"

definition NAPI_RequestStrongAuth_input :: "'v napi \<Rightarrow> nat \<Rightarrow> 'v list \<Rightarrow> input_result" where
  "NAPI_RequestStrongAuth_input N argc argv =
     (if \<not> CheckParamNumber argc 2 then (Some parameter_error, None)
      else if \<not> CheckParamType N (argv ! 0) JsNumberT then (Some parameter_error, None)
      else if \<not> CheckParamType N (argv ! 1) JsNumberT then (Some parameter_error, None)
      else (None, Some (StatusWork (Req_RequestStrongAuth (int32_or N (argv ! 0) (- 1)) (int32_or N (argv ! 1) (- 1))))))"

definition NAPI_RequestStrongAuth :: "'v napi \<Rightarrow> 'v list \<Rightarrow> sync_result \<times> ('v option \<times> async_work) option" where
  "NAPI_RequestStrongAuth N argv = AsyncCall_start N 3 (NAPI_RequestStrongAuth_input N) argv"

section \<open>Locking and unlocking\<close>

text \<open>The listener of a lock or unlock: the callback of the script, or none for a promise, and the action.\<close>

type_synonym 'v lock_listener = "'v option \<times> action"

definition start_lock :: "action \<Rightarrow> 'v option \<Rightarrow> sync_result \<times> 'v lock_listener option" where
  "start_lock action callbackRef =
     (case callbackRef of
        None \<Rightarrow> ((None, Some OutPromise), Some (None, action))
      | Some f \<Rightarrow> ((None, Some OutUndefined), Some (Some f, action)))"

definition NAPI_Lock :: "'v napi \<Rightarrow> 'v list \<Rightarrow> sync_result \<times> 'v lock_listener option" where
  "NAPI_Lock N argv =
     (if length argv = 1
      then if \<not> CheckParamType N (argv ! 0) JsFunctionT
           then ((Some (typed_error (type_message ''callback'' ''function'')), None), None)
           else start_lock ACTION_LOCK (Some (argv ! 0))
      else start_lock ACTION_LOCK None)"

definition NAPI_UnlockScreen :: "'v napi \<Rightarrow> 'v list \<Rightarrow> sync_result \<times> 'v lock_listener option" where
  "NAPI_UnlockScreen N argv =
     (if \<not> (length argv = 0 \<or> length argv = 1)
      then ((Some (AssertError ''Wrong number of arguments, requires one''), None), None)
      else if length argv = 1
      then if jsTypeof N (argv ! 0) \<noteq> Some JsFunctionT
           then ((Some (AssertError ''callback is not a function''), None), None)
           else start_lock ACTION_UNLOCKSCREEN (Some (argv ! 0))
      else start_lock ACTION_UNLOCKSCREEN None)"

definition NAPI_Unlock :: "'v napi \<Rightarrow> 'v list \<Rightarrow> sync_result \<times> 'v lock_listener option" where
  "NAPI_Unlock N argv =
     (if length argv = 1
      then if \<not> CheckParamType N (argv ! 0) JsFunctionT
           then ((Some (typed_error (type_message ''callback'' ''function'')), None), None)
           else start_lock ACTION_UNLOCK (Some (argv ! 0))
      else start_lock ACTION_UNLOCK None)"

definition SCREENLOCK_FAIL :: string where "SCREENLOCK_FAIL = ''ScreenLock failed.''"

definition UvWorkOnCallBack :: "'v lock_listener \<Rightarrow> error_info \<Rightarrow> int \<Rightarrow> 'v js_event" where
  "UvWorkOnCallBack listener errorInfo screenLockResult =
     (let (callbackRef, action) = listener;
          screenLockSuccess = (screenLockResult = screen_change_code SCREEN_SUCC);
          cancelUnlock = (action = ACTION_UNLOCK \<and> screenLockResult = screen_change_code SCREEN_CANCEL);
          data = (if action = ACTION_UNLOCKSCREEN then OutUndefined else OutBool screenLockSuccess);
          err = (if screenLockSuccess \<or> cancelUnlock then OutNull else GenerateBusinessError errorInfo)
      in case callbackRef of
           None \<Rightarrow> if screenLockSuccess \<or> cancelUnlock then Resolved data else Rejected err
         | Some f \<Rightarrow> Called f err data)"

definition ScreenlockCallback_OnCallBack :: "'v lock_listener \<Rightarrow> error_info \<Rightarrow> int \<Rightarrow> 'v js_event" where
  "ScreenlockCallback_OnCallBack listener errorInfo screenLockResult =
     (let errorInfo1 =
            (if screenLockResult = screen_change_code SCREEN_CANCEL then errorInfo\<lparr>message := CANCEL_UNLOCK_OPERATION\<rparr>
             else if screenLockResult = screen_change_code SCREEN_FAIL then errorInfo\<lparr>message := SCREENLOCK_FAIL\<rparr>
             else errorInfo)
      in UvWorkOnCallBack listener errorInfo1 screenLockResult)"

text \<open>The work of a lock or unlock: the request with the callback object \<open>lid\<close>, and the answer to the
  script when the request is refused at once.\<close>

definition AsyncCallFunc :: "'m ipc \<Rightarrow> 'w manager \<Rightarrow> nat \<Rightarrow> 'v lock_listener \<Rightarrow> 'w \<Rightarrow> 'v js_event list \<times> 'w" where
  "AsyncCallFunc L manager lid listener w =
     (let ((status, _), w1) =
            (case snd listener of
               ACTION_LOCK \<Rightarrow> manager (Req_Lock lid) w
             | ACTION_UNLOCK \<Rightarrow> manager (Req_Unlock lid) w
             | ACTION_UNLOCKSCREEN \<Rightarrow> manager (Req_UnlockScreen lid) w)
      in if \<not> status_is_ok L status
         then ([ScreenlockCallback_OnCallBack listener (status_error_info L status) status], w1)
         else ([], w1))"

end
