(* ===== verification/Callback_Ipc.thy ===== *)
theory Callback_Ipc
  imports Manager_Proxy
begin

text \<open>
  The three interfaces the service calls back, proxy and stub: lock and unlock results
  (\<open>screenlock_callback_proxy.cpp\<close>, \<open>screenlock_callback_stub.cpp\<close>), system events
  (\<open>screenlock_system_ability_proxy.cpp\<close>, \<open>screenlock_system_ability_stub.cpp\<close>) and inner listeners
  (\<open>screenlock_inner_listener_proxy.cpp\<close>, \<open>screenlock_inner_listener_stub.cpp\<close>,
  \<open>screenlock_inner_listener_wapper.cpp\<close>, \<open>screenlock_inner_listener.h\<close>).  The virtual function that
  the application overrides is an argument of a stub; a proxy takes the link to its remote object.
\<close>

section \<open>Results of a lock or unlock\<close>

definition ON_CALLBACK :: int where "ON_CALLBACK = 0"

definition FOUNDATION_UID :: int where "FOUNDATION_UID = 5523"

definition CallbackProxy_OnCallBack :: "'m ipc \<Rightarrow> ('m, 't) link \<Rightarrow> int \<Rightarrow> 't \<Rightarrow> 't" where
  "CallbackProxy_OnCallBack L send screenLockResult t =
     (let (tokenWritten, data) = WriteInterfaceToken L CALLBACK_DESCRIPTOR (freshParcel L);
          (written, data1) = WriteInt32 L screenLockResult data
      in if \<not> tokenWritten then t
         else if \<not> written then t
         else snd (snd (send ON_CALLBACK data1 (freshParcel L) t)))"

definition CallbackStub_OnRemoteRequest ::
  "'m ipc \<Rightarrow> int \<Rightarrow> (int \<Rightarrow> 't \<Rightarrow> 't) \<Rightarrow> int \<Rightarrow> 'm \<Rightarrow> 'm \<Rightarrow> 't \<Rightarrow> int \<times> 'm \<times> 't"
where
  "CallbackStub_OnRemoteRequest L uid OnCallBack code data reply t =
     (let (descriptorToken, data1) = ReadInterfaceToken L data
      in if descriptorToken \<noteq> CALLBACK_DESCRIPTOR then (error_code L E_SCREENLOCK_TRANSACT_ERROR, reply, t)
         else if uid \<noteq> FOUNDATION_UID then (error_code L E_SCREENLOCK_TRANSACT_ERROR, reply, t)
         else if code = ON_CALLBACK
         then case fst (TryReadInt32 L data1) of
                None \<Rightarrow> (error_code L E_SCREENLOCK_READ_PARCEL_ERROR, reply, t)
              | Some screenLockResult \<Rightarrow> (0, reply, OnCallBack screenLockResult t)
         else (unknownTransaction L, reply, t))"

section \<open>System events\<close>

definition SystemProxy_OnCallBack :: "'m ipc \<Rightarrow> ('m, 't) link option \<Rightarrow> system_event \<Rightarrow> 't \<Rightarrow> 't" where
  "SystemProxy_OnCallBack L remote systemEvent t =
     (let (tokenWritten, data) = WriteInterfaceToken L SYSTEM_ABILITY_DESCRIPTOR (freshParcel L);
          (typeWritten, data1) = WriteString L (eventType systemEvent) data;
          (paramsWritten, data2) = WriteString L (params systemEvent) data1
      in if \<not> tokenWritten \<or> \<not> typeWritten \<or> \<not> paramsWritten then t
         else case remote of
                None \<Rightarrow> t
              | Some send \<Rightarrow> snd (snd (send ON_CALLBACK data2 (freshParcel L) t)))"

text \<open>
  The stub builds the event from two reads that are arguments of one constructor call; C++ leaves
  their order open, so the order the compiler chose is the argument \<open>leftFirst\<close>.
\<close>

definition SystemStub_OnRemoteRequest ::
  "bool \<Rightarrow> 'm ipc \<Rightarrow> (system_event \<Rightarrow> 't \<Rightarrow> 't) \<Rightarrow> int \<Rightarrow> 'm \<Rightarrow> 'm \<Rightarrow> 't \<Rightarrow> int \<times> 'm \<times> 't"
where
  "SystemStub_OnRemoteRequest leftFirst L OnCallBack code data reply t =
     (let (descriptorToken, data1) = ReadInterfaceToken L data
      in if descriptorToken \<noteq> SYSTEM_ABILITY_DESCRIPTOR then (error_code L E_SCREENLOCK_TRANSACT_ERROR, reply, t)
         else if code = ON_CALLBACK
         then let (first, data2) = ReadString L data1;
                  second = fst (ReadString L data2);
                  systemEvent = (if leftFirst then (SystemEvent first)\<lparr>params := second\<rparr>
                                 else (SystemEvent second)\<lparr>params := first\<rparr>)
              in (0, reply, OnCallBack systemEvent t)
         else (unknownTransaction L, reply, t))"

section \<open>Inner listeners\<close>

definition ON_LISTENER_STATE_CHANGED :: int where "ON_LISTENER_STATE_CHANGED = 0"

definition InnerProxy_SendRequest ::
  "('m, 't) link option \<Rightarrow> int \<Rightarrow> 'm \<Rightarrow> 'm \<Rightarrow> 't \<Rightarrow> bool \<times> 't"
where
  "InnerProxy_SendRequest remote code data reply t =
     (case remote of
        None \<Rightarrow> (False, t)
      | Some send \<Rightarrow> let (result, _, t1) = send code data reply t in (result = 0, t1))"

definition InnerProxy_OnStateChanged :: "'m ipc \<Rightarrow> ('m, 't) link option \<Rightarrow> int \<Rightarrow> int \<Rightarrow> 't \<Rightarrow> 't" where
  "InnerProxy_OnStateChanged L remote userId state t =
     (let (tokenWritten, data) = WriteInterfaceToken L INNER_DESCRIPTOR (freshParcel L);
          (userWritten, data1) = WriteInt32 L userId data;
          (stateWritten, data2) = WriteInt32 L state data1
      in if \<not> tokenWritten \<or> \<not> userWritten \<or> \<not> stateWritten then t
         else snd (InnerProxy_SendRequest remote ON_LISTENER_STATE_CHANGED data2 (freshParcel L) t))"

definition OnStateChangedStub :: "'m ipc \<Rightarrow> (int \<Rightarrow> int \<Rightarrow> 't \<Rightarrow> 't) \<Rightarrow> 'm \<Rightarrow> 't \<Rightarrow> handler_result \<times> 't" where
  "OnStateChangedStub L onState data t =
     (let (userId, data1) = TryReadInt32 L data
      in case userId of
           None \<Rightarrow> (ERR_INVALID_DATA, t)
         | Some u \<Rightarrow>
             (case fst (TryReadInt32 L data1) of
                None \<Rightarrow> (ERR_INVALID_DATA, t)
              | Some state \<Rightarrow> (ERR_NONE, onState u state t)))"

definition InnerStub_OnRemoteRequest ::
  "'m ipc \<Rightarrow> (int \<Rightarrow> int \<Rightarrow> 't \<Rightarrow> 't) \<Rightarrow> int \<Rightarrow> 'm \<Rightarrow> 'm \<Rightarrow> 't \<Rightarrow> int \<times> 'm \<times> 't"
where
  "InnerStub_OnRemoteRequest L onState code data reply t =
     (let (descriptorToken, data1) = ReadInterfaceToken L data
      in if descriptorToken \<noteq> INNER_DESCRIPTOR then (error_code L E_SCREENLOCK_TRANSACT_ERROR, reply, t)
         else if code = ON_LISTENER_STATE_CHANGED then (0, reply, snd (OnStateChangedStub L onState data1 t))
         else (unknownTransaction L, reply, t))"

text \<open>The two kinds of listener an application implements, and what their functions are told.\<close>

datatype listener_kind = StrongAuthListener | DeviceLockedListener

datatype app_call = StrongAuthChangedCall int int | DeviceLockStateChangedCall int bool

fun InnerListener_OnStateChanged :: "listener_kind \<Rightarrow> int \<Rightarrow> int \<Rightarrow> app_call" where
  "InnerListener_OnStateChanged StrongAuthListener userId state = StrongAuthChangedCall userId state"
| "InnerListener_OnStateChanged DeviceLockedListener userId state =
     (if state = 0 then DeviceLockStateChangedCall userId False else DeviceLockStateChangedCall userId True)"

text \<open>The application: the calls its listener got, and the tasks posted to the event handler of the
  thread, each a call still to be made.\<close>

record app_state =
  appCalls :: "app_call list"
  postedTasks :: "(listener_kind \<times> int \<times> int) list"

definition call_listener :: "listener_kind \<Rightarrow> int \<Rightarrow> int \<Rightarrow> app_state \<Rightarrow> app_state" where
  "call_listener k userId state t = t\<lparr>appCalls := appCalls t @ [InnerListener_OnStateChanged k userId state]\<rparr>"

text \<open>The wrapper: the wrapped listener may be null, \<open>handler\<close> says whether the thread has an event handler.\<close>

definition Wrapper_OnStateChanged ::
  "bool \<Rightarrow> listener_kind option \<Rightarrow> int \<Rightarrow> int \<Rightarrow> app_state \<Rightarrow> app_state"
where
  "Wrapper_OnStateChanged handler wrapped userId state t =
     (case wrapped of
        None \<Rightarrow> t
      | Some k \<Rightarrow>
          if \<not> handler then call_listener k userId state t
          else t\<lparr>postedTasks := postedTasks t @ [(k, userId, state)]\<rparr>)"

fun run_posted :: "app_state \<Rightarrow> app_state" where
  "run_posted t = fold (\<lambda>(k, u, st). call_listener k u st) (postedTasks t) (t\<lparr>postedTasks := []\<rparr>)"

section \<open>A remote method is the method\<close>

text \<open>
  What the service relies on when it calls a listener: over parcels that obey the laws, a call of the
  proxy is a call of the function behind the stub.
\<close>

locale remote_method =
  fixes L :: "'m ipc"
    and content :: "'m \<Rightarrow> parcel_item list"
    and remote_call :: "'a \<Rightarrow> 't \<Rightarrow> 't"
    and method_call :: "'a \<Rightarrow> 't \<Rightarrow> 't"
  assumes delivered: "ipc_laws L content \<Longrightarrow> remote_call a t = method_call a t"
begin

lemma delivered_in_order: "ipc_laws L content \<Longrightarrow> fold remote_call xs t = fold method_call xs t"
  by (induction xs arbitrary: t) (simp_all add: delivered)

end

interpretation unlock_result: remote_method L content
    "\<lambda>r. CallbackProxy_OnCallBack L (CallbackStub_OnRemoteRequest L FOUNDATION_UID f) r" f
  for L :: "'m ipc" and content and f :: "int \<Rightarrow> 't \<Rightarrow> 't"
  by unfold_locales
    (simp add: CallbackProxy_OnCallBack_def CallbackStub_OnRemoteRequest_def parcel_ops write_content read_hd
      content_fresh Let_def split_beta)

interpretation system_event_call: remote_method L content
    "\<lambda>ev. SystemProxy_OnCallBack L (Some (SystemStub_OnRemoteRequest lf L f)) ev"
    "\<lambda>ev. f (if lf then ev\<lparr>eventUserId := - 1\<rparr> else \<lparr>eventType = params ev, params = eventType ev, eventUserId = - 1\<rparr>)"
  for L :: "'m ipc" and content and lf and f :: "system_event \<Rightarrow> 't \<Rightarrow> 't"
proof
  fix ev :: system_event and t
  assume "ipc_laws L content"
  then show "SystemProxy_OnCallBack L (Some (SystemStub_OnRemoteRequest lf L f)) ev t
      = f (if lf then ev\<lparr>eventUserId := - 1\<rparr> else \<lparr>eventType = params ev, params = eventType ev, eventUserId = - 1\<rparr>) t"
    by (cases ev) (simp add: SystemProxy_OnCallBack_def SystemStub_OnRemoteRequest_def SystemEvent_def parcel_ops
      write_content read_hd content_fresh Let_def split_beta)
qed

interpretation state_change_call: remote_method L content
    "\<lambda>(u, st). InnerProxy_OnStateChanged L (Some (InnerStub_OnRemoteRequest L f)) u st" "\<lambda>(u, st). f u st"
  for L :: "'m ipc" and content and f :: "int \<Rightarrow> int \<Rightarrow> 't \<Rightarrow> 't"
  by unfold_locales
    (simp add: InnerProxy_OnStateChanged_def InnerProxy_SendRequest_def InnerStub_OnRemoteRequest_def
      OnStateChangedStub_def parcel_ops write_content read_hd content_fresh Let_def split_beta)

section \<open>Properties\<close>

text \<open>C28: the notifications the service sends to an inner listener reach the application exactly once and
  in order, as calls of its listener: at once where the receiving thread has no event handler, and when the
  posted tasks run where it has one; a device-lock listener is told the boolean the service sent.\<close>

theorem state_changes_delivered:
  assumes "ipc_laws L content" and "handler \<longrightarrow> postedTasks t = []"
  shows "let t' = fold (\<lambda>(u, st). InnerProxy_OnStateChanged L
             (Some (InnerStub_OnRemoteRequest L (Wrapper_OnStateChanged handler (Some k)))) u st) ns t
    in (if handler then appCalls t' = appCalls t \<and> appCalls (run_posted t') = appCalls t @ map (\<lambda>(u, st). InnerListener_OnStateChanged k u st) ns
        else appCalls t' = appCalls t @ map (\<lambda>(u, st). InnerListener_OnStateChanged k u st) ns)
     \<and> InnerListener_OnStateChanged DeviceLockedListener u (bool_int b) = DeviceLockStateChangedCall u b"
proof -
  have direct: "fold (\<lambda>(u, st). Wrapper_OnStateChanged False (Some k) u st) ns t
      = t\<lparr>appCalls := appCalls t @ map (\<lambda>(u, st). InnerListener_OnStateChanged k u st) ns\<rparr>" for t
    by (induction ns arbitrary: t) (auto simp: Wrapper_OnStateChanged_def call_listener_def)
  have posted: "fold (\<lambda>(u, st). Wrapper_OnStateChanged True (Some k) u st) ns t
      = t\<lparr>postedTasks := postedTasks t @ map (\<lambda>(u, st). (k, u, st)) ns\<rparr>" for t
    by (induction ns arbitrary: t) (auto simp: Wrapper_OnStateChanged_def)
  have run: "appCalls (fold (\<lambda>(k, u, st). call_listener k u st) (map (Pair k) ns) t)
      = appCalls t @ map (\<lambda>(u, st). InnerListener_OnStateChanged k u st) ns" for t
    by (induction ns arbitrary: t) (auto simp: call_listener_def)
  show ?thesis
    using assms(2)
    by (simp add: state_change_call.delivered_in_order [OF assms(1)] direct posted run bool_int_def Let_def)
qed

theorem state_changes_delivered_witness:
  "appCalls (fold (\<lambda>(u, st). InnerProxy_OnStateChanged sample_ipc
       (Some (InnerStub_OnRemoteRequest sample_ipc (Wrapper_OnStateChanged False (Some DeviceLockedListener)))) u st)
     [(100, 1), (100, 0)] \<lparr>appCalls = [], postedTasks = []\<rparr>)
   = [DeviceLockStateChangedCall 100 True, DeviceLockStateChangedCall 100 False]"
  using state_changes_delivered [OF ipc_laws_sample, of False "\<lparr>appCalls = [], postedTasks = []\<rparr>"
      DeviceLockedListener "[(100, 1), (100, 0)]" 0 False]
  by (simp add: Let_def)

text \<open>A system event reaches the screen-lock application with its type and its parameters where the
  two reads of the stub are evaluated left to right, and with the two exchanged otherwise; its user
  identifier is lost in both cases: the application always sees -1.\<close>

theorem event_user_lost:
  assumes "ipc_laws L content"
  shows "SystemProxy_OnCallBack L (Some (SystemStub_OnRemoteRequest True L f)) ev t = f (ev\<lparr>eventUserId := - 1\<rparr>) t
    \<and> SystemProxy_OnCallBack L (Some (SystemStub_OnRemoteRequest False L f)) ev t
        = f \<lparr>eventType = params ev, params = eventType ev, eventUserId = - 1\<rparr> t
    \<and> SystemProxy_OnCallBack L None ev t = t"
proof -
  have "SystemProxy_OnCallBack L None ev t = t"
    by (simp add: SystemProxy_OnCallBack_def Let_def split_beta)
  then show ?thesis
    using system_event_call.delivered [OF assms, of True f ev t] system_event_call.delivered [OF assms, of False f ev t]
    by simp
qed

theorem event_user_lost_witness:
  "SystemProxy_OnCallBack sample_ipc (Some (SystemStub_OnRemoteRequest True sample_ipc (\<lambda>ev evs. evs @ [eventUserId ev])))
     \<lparr>eventType = STRONG_AUTH_CHANGED, params = ''2'', eventUserId = 100\<rparr> [] = [- 1]"
  using event_user_lost [OF ipc_laws_sample, of "\<lambda>ev evs. evs @ [eventUserId ev]"
      "\<lparr>eventType = STRONG_AUTH_CHANGED, params = ''2'', eventUserId = 100\<rparr>" "[]"]
  by simp

text \<open>The result of a lock or unlock reaches the waiting application unchanged when the caller is the
  foundation process, and a call of any other process, with whatever message, changes nothing and is
  answered with a transaction error.\<close>

theorem result_only_from_foundation:
  assumes "ipc_laws L content"
  shows "CallbackProxy_OnCallBack L (CallbackStub_OnRemoteRequest L FOUNDATION_UID f) r t = f r t
    \<and> (uid \<noteq> FOUNDATION_UID \<longrightarrow>
        CallbackStub_OnRemoteRequest L uid f code data reply t = (error_code L E_SCREENLOCK_TRANSACT_ERROR, reply, t)
      \<and> CallbackProxy_OnCallBack L (CallbackStub_OnRemoteRequest L uid f) r t = t)"
proof -
  have refused: "CallbackStub_OnRemoteRequest L uid f code data reply t = (error_code L E_SCREENLOCK_TRANSACT_ERROR, reply, t)"
    if "uid \<noteq> FOUNDATION_UID" for code data reply
    using that by (simp add: CallbackStub_OnRemoteRequest_def Let_def split_beta)
  then show ?thesis
    using unlock_result.delivered [OF assms, of f r t]
    by (simp add: CallbackProxy_OnCallBack_def Let_def split_beta)
qed

theorem result_only_from_foundation_witness:
  "CallbackProxy_OnCallBack sample_ipc (CallbackStub_OnRemoteRequest sample_ipc 1000 (\<lambda>r rs. rs @ [r])) 0 [] = []"
  using result_only_from_foundation [OF ipc_laws_sample, of "\<lambda>r rs. rs @ [r]" 0 "[]" 1000]
  by (simp add: FOUNDATION_UID_def)

end
