(* ===== verification/Napi_Props.thy ===== *)
theory Napi_Props
  imports Napi_Ability Callback_Ipc
begin

text \<open>
  What scripts can rely on: arguments are checked before anything is asked, every error of the service is
  explained, and a lock or unlock is answered once.
\<close>

section \<open>Arguments\<close>

text \<open>A throw with the code for invalid parameters.\<close>

definition invalid_params :: "js_throw option \<Rightarrow> bool" where
  "invalid_params t \<longleftrightarrow> (\<exists>msg. t = Some (BusinessError (js_code ERR_INVALID_PARAMS) msg))"

lemma invalid_params_intros [simp]:
  "invalid_params (Some parameter_error)" "invalid_params (Some (typed_error msg))"
  by (simp_all add: invalid_params_def parameter_error_def typed_error_def ThrowError_def)

lemmas napi_query_defs = NAPI_IsScreenLockDisabled_def NAPI_GetScreenLockAuthState_def NAPI_GetStrongAuth_def
  NAPI_IsDeviceLocked_def NAPI_GetUnlockPolicy_def NAPI_OnSystemEvent_def

lemmas napi_input_defs = NAPI_ScreenLockSendEvent_input_def NAPI_SetScreenLockDisabled_input_def
  NAPI_SetScreenLockAuthState_input_def NAPI_RequestStrongAuth_input_def

lemmas napi_async_defs = NAPI_ScreenLockSendEvent_def NAPI_SetScreenLockDisabled_def
  NAPI_SetScreenLockAuthState_def NAPI_RequestStrongAuth_def AsyncCall_start_def napi_input_defs

text \<open>The user a query is about, when its arguments are accepted.\<close>

definition user_argument :: "'v napi \<Rightarrow> 'v list \<Rightarrow> int option" where
  "user_argument N argv = (case argv of [] \<Rightarrow> None | v # _ \<Rightarrow> jsInt32 N v)"

lemma user_argument_None:
  "napi_laws N \<Longrightarrow> user_argument N argv = None \<longleftrightarrow> argv = [] \<or> \<not> CheckParamType N (argv ! 0) JsNumberT"
proof (cases argv)
  case (Cons v vs)
  moreover assume "napi_laws N"
  then have "jsInt32 N v = None \<longleftrightarrow> jsTypeof N v \<noteq> Some JsNumberT"
    unfolding napi_laws_def by metis
  ultimately show ?thesis by (simp add: user_argument_def CheckParamType_def)
qed (simp add: user_argument_def)

lemma user_argument_Some:
  assumes "napi_laws N" and "user_argument N argv = Some u"
  shows "argv \<noteq> []" "CheckParamType N (argv ! 0) JsNumberT" "jsInt32 N (argv ! 0) = Some u" "int32_or N (argv ! 0) d = u"
  using assms user_argument_None [OF assms(1), of argv]
  by (auto simp: user_argument_def int32_or_def split: list.splits)

section \<open>Errors\<close>

definition service_statuses :: "status set" where
  "service_statuses = Code ` {E_SCREENLOCK_OK, E_SCREENLOCK_NO_PERMISSION, E_SCREENLOCK_NULLPTR,
     E_SCREENLOCK_NOT_FOCUS_APP, E_SCREENLOCK_NOT_SYSTEM_APP, E_SCREENLOCK_USER_ID_INVALID}"

lemma service_statuses_iff:
  "st \<in> service_statuses \<longleftrightarrow> st = OK \<or> st = Code E_SCREENLOCK_NO_PERMISSION \<or> st = Code E_SCREENLOCK_NULLPTR
     \<or> st = Code E_SCREENLOCK_NOT_FOCUS_APP \<or> st = Code E_SCREENLOCK_NOT_SYSTEM_APP \<or> st = Code E_SCREENLOCK_USER_ID_INVALID"
  by (auto simp: service_statuses_def)

lemma Watch_unlockScreen_status: "fst (Watch_unlockScreen e b s) \<in> service_statuses"
  by (simp add: Watch_unlockScreen_def service_statuses_iff Let_def split_beta)

lemma UnlockInner_status: "fst (UnlockInner e l s) \<in> service_statuses"
  using Watch_unlockScreen_status
  by (auto simp: UnlockInner_def service_statuses_iff Let_def split_beta)

lemma FreshDisabledState_status: "fst (FreshDisabledState e b u s) \<in> service_statuses"
  by (simp add: FreshDisabledState_def service_statuses_iff)

lemma SetScreenLockDisabled_status:
  "fst (SetScreenLockDisabled e b u s) \<in> service_statuses \<or> fst (SetScreenLockDisabled e b u s) = Change SCREEN_FAIL"
  by (cases b; cases "GetSecure e s")
    (simp_all add: SetScreenLockDisabled_def FreshDisabledState_def service_statuses_iff)

lemma serve_status:
  assumes "native_request rq"
  shows "fst (fst (serve e rq s)) \<in> service_statuses
    \<or> (\<exists>b u. rq = Req_SetScreenLockDisabled b u \<and> fst (fst (serve e rq s)) = Change SCREEN_FAIL)"
proof (cases "\<exists>b u. rq = Req_SetScreenLockDisabled b u")
  case True
  then obtain b u where "rq = Req_SetScreenLockDisabled b u" by blast
  then show ?thesis using SetScreenLockDisabled_status [of e b u s] by (simp add: no_out_def)
next
  case False
  then show ?thesis
    using assms
    by (cases rq)
      (simp_all add: no_out_def only_out_def UnlockInner_status [unfolded service_statuses_iff] UnlockScreen_def Unlock_def Lock_listener_def Lock_user_def
        IsLocked_def IsLockedWithUserId_def OnSystemEvent_def SendScreenLockEvent_def IsScreenLockDisabled_def
        SetScreenLockAuthState_def GetScreenLockAuthState_def RequestStrongAuth_def GetStrongAuth_def IsDeviceLocked_def
        SetUnlockPolicy_def GetUnlockPolicy_def IsLockedWatch_def UnlockWatch_def service_statuses_iff Let_def split_beta
        split: option.split)
qed

lemma service_status_explained:
  "st \<in> service_statuses \<Longrightarrow> st = OK \<or> (\<exists>x j. st = Code x \<and> js_error_of x = Some j)"
  by (auto simp: service_statuses_def)

section \<open>Properties\<close>


text \<open>Values of a small engine: what a script can pass.\<close>

datatype js_value = JsUndefined | JsBoolean bool | JsNumber int | JsString string | JsBytes "int list" | JsFunction nat

definition sample_napi :: "js_value napi" where
  "sample_napi = \<lparr>
     jsTypeof = (\<lambda>v. Some (case v of JsUndefined \<Rightarrow> JsUndefinedT | JsBoolean _ \<Rightarrow> JsBooleanT | JsNumber _ \<Rightarrow> JsNumberT
        | JsString _ \<Rightarrow> JsStringT | JsBytes _ \<Rightarrow> JsObjectT | JsFunction _ \<Rightarrow> JsFunctionT)),
     jsInt32 = (\<lambda>v. case v of JsNumber i \<Rightarrow> Some i | _ \<Rightarrow> None),
     jsBool = (\<lambda>v. case v of JsBoolean b \<Rightarrow> Some b | _ \<Rightarrow> None),
     jsUtf8 = (\<lambda>v. case v of JsString t \<Rightarrow> Some t | _ \<Rightarrow> None),
     jsTypedArray = (\<lambda>v. case v of JsBytes bs \<Rightarrow> (True, bs \<noteq> []) | _ \<Rightarrow> (False, False))\<rparr>"

lemma napi_laws_sample [simp]: "napi_laws sample_napi"
  by (simp add: napi_laws_def sample_napi_def split: js_value.split)


text \<open>C29: from the service to the script: every status other than OK that a request of a client brings back
  is thrown or rejected with one of the documented codes and a message that is not empty, and never with the
  code for a cancelled unlock; with one exception: a refused setScreenLockDisabled shows code 1 and an empty
  message.\<close>

theorem script_errors_explained:
  assumes "ipc_laws L content" and "sendable e L rq" and "native_request rq"
    and "fst (GetProxy ce c) = Some p" and "send p = OnRemoteRequest e L" and "4 < errOffset L"
  shows "let status = fst (fst (client_call ce L send rq c s)); info = status_error_info L status in
      status_is_ok L status
    \<or> (\<exists>j. errorCode info = js_code j \<and> j \<noteq> ERR_CANCEL_UNLOCK \<and> message info \<noteq> '''')
    \<or> (\<exists>b u. rq = Req_SetScreenLockDisabled b u) \<and> info = \<lparr>errorCode = 1, message = ''''\<rparr>"
proof -
  have obj: "object_sent L rq" using assms(2) by (simp add: sendable_def)
  let ?st = "fst (fst (serve e rq s))" and ?status = "fst (fst (client_call ce L send rq c s))"
  have call: "fst (client_call ce L send rq c s) = client_view L rq (fst (serve e rq s))"
    using remote_call_is_local_call [OF assms(1,2), of s]
    by (simp add: client_call_proxy [OF assms(4,3) obj] assms(5))
  have status: "?status = status_code (errOffset L) ?st \<or> status_is_ok L ?status"
    by (simp add: call client_view_def status_is_ok_def error_code_def Let_def split: out_kind.split)
  from serve_status [OF assms(3), of e s] consider
      "?st = OK" | x j where "?st = Code x" "js_error_of x = Some j"
    | b u where "rq = Req_SetScreenLockDisabled b u" "?st = Change SCREEN_FAIL"
    using service_status_explained by blast
  then show ?thesis
  proof cases
    case 1
    with status have "status_is_ok L ?status" by (auto simp: status_is_ok_def error_code_def)
    then show ?thesis by (simp add: Let_def)
  next
    case 2
    then have "status_is_ok L ?status \<or> ?status = error_code L x" using status by (auto simp: error_code_def)
    moreover from 2(2) have "j \<noteq> ERR_CANCEL_UNLOCK" by (cases x) auto
    ultimately show ?thesis
      using status_error_info_known [OF 2(2), of L] GetErrorMessage_js [of j] by (auto simp: Let_def)
  next
    case 3
    have "mfind (ERROR_CODE_CONVERSION L) 1 = None"
      using assms(6) by (simp add: ERROR_CODE_CONVERSION_def error_code_def)
    then have "status_error_info L 1 = \<lparr>errorCode = 1, message = ''''\<rparr>"
      by (simp add: status_error_info_def GetErrorInfo_def no_error_info_def)
    moreover have "status_is_ok L ?status \<or> ?status = 1" using status 3(2) by auto
    ultimately show ?thesis using 3(1) by (auto simp: Let_def)
  qed
qed

theorem script_errors_explained_witness:
  "status_error_info sample_ipc (fst (fst (client_call sample_client_env sample_ipc
     (\<lambda>_. OnRemoteRequest sample_env sample_ipc) (Req_SetScreenLockDisabled True 101) initial_client (initial_service []))))
   = \<lparr>errorCode = 1, message = ''''\<rparr>"
proof -
  let ?rq = "Req_SetScreenLockDisabled True 101"
  let ?send = "\<lambda>_ :: nat. OnRemoteRequest sample_env sample_ipc"
  have ok: "sendable sample_env sample_ipc ?rq" by (simp add: sendable_def code_supported_def)
  have p: "fst (GetProxy sample_client_env initial_client) = Some 7"
    by (simp add: GetProxy_cases sample_client_env_def initial_client_def)
  have "fst (serve sample_env ?rq (initial_service [])) = (Change SCREEN_FAIL, NoOut)" by code_simp
  then have call: "fst (client_call sample_client_env sample_ipc ?send ?rq initial_client (initial_service [])) = (1, NoOut)"
    using remote_call_is_local_call [OF ipc_laws_sample ok, of "initial_service []"]
    by (simp add: client_call_proxy [OF p] client_view_def del: client_call.simps serve.simps proxy_call.simps)
  have "\<not> status_is_ok sample_ipc 1" by (simp add: status_is_ok_def error_code_def sample_ipc_def)
  moreover have "status_error_info sample_ipc 1 = \<lparr>errorCode = 1, message = ''''\<rparr>" by code_simp
  ultimately show ?thesis
    using script_errors_explained [OF ipc_laws_sample ok _ p, where send = ?send and s = "initial_service []"] call
    by (simp add: Let_def sample_ipc_def del: client_call.simps)
qed

end
