(* ===== verification/Lock_Answers.thy ===== *)
theory Lock_Answers
  imports Napi_Props
begin

text \<open>
  A lock or unlock from the script to the service: it is answered at once with an error, or its listener
  waits for the result.
\<close>

section \<open>Locking is answered once\<close>

fun lock_request :: "action \<Rightarrow> nat \<Rightarrow> request" where
  "lock_request ACTION_LOCK l = Req_Lock l"
| "lock_request ACTION_UNLOCK l = Req_Unlock l"
| "lock_request ACTION_UNLOCKSCREEN l = Req_UnlockScreen l"

definition waiting :: "action \<Rightarrow> ('p, 's) service_state_scheme \<Rightarrow> nat list" where
  "waiting a s = (if a = ACTION_LOCK then lockVecListeners s else unlockVecListeners s)"

lemma waiting_cong: "svc_view s' = svc_view s \<Longrightarrow> waiting a s' = waiting a s"
  by (simp add: waiting_def svc_view_def)

lemma SystemEventCallBack_vectors [simp]:
  "unlockVecListeners (SystemEventCallBack ev s) = unlockVecListeners s"
  "lockVecListeners (SystemEventCallBack ev s) = lockVecListeners s"
  by (simp_all add: SystemEventCallBack_def Let_def split: option.split)

lemma UnlockInner_waiting:
  "unlockVecListeners (snd (UnlockInner e l s))
     = unlockVecListeners s @ (if fst (UnlockInner e l s) = OK then [l] else [])"
proof -
  let ?s1 = "snd (IsPaymentApp e s)"
  let ?s2 = "snd (IsScreenLocked e ?s1)"
  have "svc_view ?s1 = svc_view s" "svc_view (snd (Watch_unlockScreen e b ?s2)) = svc_view s" for b
    by (simp_all add: sl_frame)
  then have "unlockVecListeners ?s1 = unlockVecListeners s"
    "unlockVecListeners (snd (Watch_unlockScreen e b ?s2)) = unlockVecListeners s" for b
    by (simp_all add: svc_view_def)
  then show ?thesis
    by (auto simp: UnlockInner_def Let_def split_beta)
qed

lemma lock_request_waiting:
  "waiting a (snd (serve e (lock_request a l) s))
     = waiting a s @ (if fst (fst (serve e (lock_request a l) s)) = OK then [l] else [])"
proof (cases a)
  case ACTION_LOCK
  have "svc_view (snd (IsScreenLocked e s)) = svc_view s" by (simp add: sl_frame)
  then have "lockVecListeners (snd (IsScreenLocked e s)) = lockVecListeners s" by (simp add: svc_view_def)
  then show ?thesis
    using ACTION_LOCK by (simp add: waiting_def no_out_def Lock_listener_def Let_def split_beta)
next
  case ACTION_UNLOCK
  then show ?thesis by (simp add: waiting_def no_out_def Unlock_def UnlockInner_waiting)
next
  case ACTION_UNLOCKSCREEN
  then show ?thesis by (simp add: waiting_def no_out_def UnlockScreen_def UnlockInner_waiting)
qed

lemma AsyncCallFunc_request:
  "AsyncCallFunc L m l (cb, a) w =
     (let ((status, _), w1) = m (lock_request a l) w
      in if \<not> status_is_ok L status
         then ([ScreenlockCallback_OnCallBack (cb, a) (status_error_info L status) status], w1) else ([], w1))"
  by (cases a) (simp_all add: AsyncCallFunc_def Let_def split_beta)

text \<open>What the script gets: the settled promise, or the call of its function.\<close>

definition lock_failed :: "'v lock_listener \<Rightarrow> int option \<Rightarrow> string \<Rightarrow> 'v js_event" where
  "lock_failed listener code msg =
     (case fst listener of
        None \<Rightarrow> Rejected (OutError code msg)
      | Some f \<Rightarrow> Called f (OutError code msg) (if snd listener = ACTION_UNLOCKSCREEN then OutUndefined else OutBool False))"

definition lock_done :: "'v lock_listener \<Rightarrow> bool \<Rightarrow> 'v js_event" where
  "lock_done listener b =
     (let data = (if snd listener = ACTION_UNLOCKSCREEN then OutUndefined else OutBool b)
      in case fst listener of None \<Rightarrow> Resolved data | Some f \<Rightarrow> Called f OutNull data)"

lemma int32_of_js_code [simp]: "int32_of (js_code j) = js_code j" and js_code_nonzero [simp]: "js_code j \<noteq> 0"
  by (cases j; simp add: int32_of_def)+

lemma lock_refused_event:
  assumes "js_error_of x = Some j" and "4 < errOffset L"
  shows "ScreenlockCallback_OnCallBack li (status_error_info L (error_code L x)) (error_code L x)
    = lock_failed li (Some (js_code j)) (GetErrorMessage (js_code j))"
proof -
  have "error_code L x \<notin> {0, 1, 2}" using assms(2) by (cases x) (simp_all add: error_code_def)
  then show ?thesis
    by (simp add: ScreenlockCallback_OnCallBack_def UvWorkOnCallBack_def status_error_info_known [OF assms(1)]
        lock_failed_def GenerateBusinessError_def Let_def split_beta split: option.split)
qed

lemma lock_result_event:
  "ScreenlockCallback_OnCallBack li no_error_info r =
     (if r = screen_change_code SCREEN_SUCC then lock_done li True
      else if r = screen_change_code SCREEN_CANCEL
      then if snd li = ACTION_UNLOCK then lock_done li False else lock_failed li None CANCEL_UNLOCK_OPERATION
      else lock_failed li None (if r = screen_change_code SCREEN_FAIL then SCREENLOCK_FAIL else ''''))"
  by (auto simp: ScreenlockCallback_OnCallBack_def UvWorkOnCallBack_def lock_failed_def lock_done_def no_error_info_def
      GenerateBusinessError_def Let_def split_beta split: option.split)

lemma lock_request_status:
  "fst (fst (serve e (lock_request a l) s)) \<in> service_statuses"
  using serve_status [of "lock_request a l" e s] by (cases a) (auto simp: no_out_def)

text \<open>C13: a lock or unlock a script asks for is answered once: either the service refuses it, and the promise
  is rejected (or the function called) at once with a documented error while nobody is added to the waiting
  listeners; or nothing is answered yet and exactly the script's callback object joins the waiting
  listeners.  When the result comes, success settles the promise; a cancelled unlock settles it with false,
  but a cancelled lock or unlockScreen, and every failure, is an error that carries a message and no code.\<close>

theorem lock_answered_once:
  assumes "ipc_laws L content" and "sendable e L (lock_request a l)" and "4 < errOffset L"
    and "fst (GetProxy ce c) = Some p" and "send p = OnRemoteRequest e L"
  shows "let (evs, w) = AsyncCallFunc L (\<lambda>rq w. client_call ce L send rq (fst w) (snd w)) l (cb, a) (c, s) in
      ((evs = [] \<and> waiting a (snd w) = waiting a s @ [l])
       \<or> (\<exists>j. evs = [lock_failed (cb, a) (Some (js_code j)) (GetErrorMessage (js_code j))] \<and> waiting a (snd w) = waiting a s))
    \<and> (\<forall>r. ScreenlockCallback_OnCallBack (cb, a) no_error_info r =
        (if r = screen_change_code SCREEN_SUCC then lock_done (cb, a) True
         else if r = screen_change_code SCREEN_CANCEL \<and> a = ACTION_UNLOCK then lock_done (cb, a) False
         else lock_failed (cb, a) None (if r = screen_change_code SCREEN_CANCEL then CANCEL_UNLOCK_OPERATION
            else if r = screen_change_code SCREEN_FAIL then SCREENLOCK_FAIL else '''')))"
proof -
  let ?rq = "lock_request a l" and ?r = "serve e (lock_request a l) s"
  have nat: "native_request ?rq" by (cases a) simp_all
  have view: "client_view L ?rq (fst ?r) = (status_code (errOffset L) (fst (fst ?r)), NoOut)"
    by (cases a) (simp_all add: client_view_def del: serve.simps)
  have obj: "object_sent L ?rq" using assms(2) by (simp add: sendable_def)
  have call: "client_call ce L send ?rq c s = ((status_code (errOffset L) (fst (fst ?r)), NoOut), after_call ce ?rq c, snd ?r)"
    using remote_call_is_local_call [OF assms(1,2), of s]
    by (simp add: client_call_proxy [OF assms(4) nat obj] assms(5) view)
  note result = lock_result_event [of "(cb, a)"]
  from service_status_explained [OF lock_request_status [of e a l s]] show ?thesis
  proof (elim disjE exE conjE)
    assume "fst (fst ?r) = OK"
    then show ?thesis
      using lock_request_waiting [of a e l s]
      by (simp add: AsyncCallFunc_request call status_is_ok_def error_code_def result Let_def)
  next
    fix x j assume x: "fst (fst ?r) = Code x" "js_error_of x = Some j"
    then have "x \<noteq> E_SCREENLOCK_OK" "\<not> status_is_ok L (error_code L x)" by (auto simp: status_is_ok_def)
    then show ?thesis
      using lock_request_waiting [of a e l s] x lock_refused_event [OF x(2) assms(3), of "(cb, a)"]
      by (auto simp: AsyncCallFunc_request call error_code_def result Let_def)
  qed
qed

theorem lock_answered_once_witness:
  "fst (AsyncCallFunc sample_ipc (\<lambda>rq w. client_call sample_client_env sample_ipc
       (\<lambda>_. OnRemoteRequest sample_env sample_ipc) rq (fst w) (snd w)) 9 (Some (JsFunction 1), ACTION_UNLOCK)
       (initial_client, initial_service [])) = []"
proof -
  have ok: "sendable sample_env sample_ipc (lock_request ACTION_UNLOCK 9)" by (simp add: sendable_def code_supported_def sample_ipc_def)
  have p: "fst (GetProxy sample_client_env initial_client) = Some 7"
    by (simp add: GetProxy_cases sample_client_env_def initial_client_def)
  have s: "4 < errOffset sample_ipc" by (simp add: sample_ipc_def)
  let ?send = "\<lambda>_ :: nat. OnRemoteRequest sample_env sample_ipc"
  let ?w = "AsyncCallFunc sample_ipc (\<lambda>rq w. client_call sample_client_env sample_ipc ?send rq (fst w) (snd w)) 9
       (Some (JsFunction 1), ACTION_UNLOCK) (initial_client, initial_service [])"
  define s0 :: "sample_store service_state" where "s0 = initial_service []"
  have "unlockVecListeners (snd (serve sample_env (Req_Unlock 9) (initial_service []))) = [9]" by code_simp
  then have s1: "unlockVecListeners (snd (serve sample_env (Req_Unlock 9) s0)) = [9]" "unlockVecListeners s0 = []"
    by (simp_all only: s0_def) (simp add: initial_service_def)
  have nat: "native_request (lock_request ACTION_UNLOCK 9)" "object_sent sample_ipc (lock_request ACTION_UNLOCK 9)"
    using ok by (simp_all add: sendable_def)
  have "snd (snd (client_call sample_client_env sample_ipc ?send (lock_request ACTION_UNLOCK 9) initial_client s0))
      = snd (serve sample_env (lock_request ACTION_UNLOCK 9) s0)"
    by (simp only: client_call_proxy [OF p nat] remote_call_is_local_call [OF ipc_laws_sample ok] snd_conv)
  with s1 have "waiting ACTION_UNLOCK (snd (snd ?w)) \<noteq> waiting ACTION_UNLOCK s0"
    by (simp add: AsyncCallFunc_request split_beta Let_def waiting_def s0_def [symmetric]
        del: client_call.simps serve.simps)
  with lock_answered_once [OF ipc_laws_sample ok s p, where send = ?send and s = s0 and cb = "Some (JsFunction 1)"]
  show ?thesis by (auto simp: split_beta Let_def s0_def)
qed

end
