(* ===== verification/Ani_Ability.thy ===== *)
theory Ani_Ability
  imports Lock_Answers
begin

text \<open>
  \<open>frameworks/ets/ani/src/ani_screenlock_ability.cpp\<close> and \<open>ani_screenlock_callback.cpp\<close>: the second
  binding, for statically typed scripts.  What the code asks of the runtime is a parameter (\<open>ani\<close>); making
  an error object or a boolean is taken to succeed here, and \<open>Ani_Runtime\<close> says what happens when it fails.
\<close>

section \<open>The runtime\<close>

text \<open>\<open>enumItemAt\<close> is the item of the named enumeration by position, \<open>None\<close> for a null item.\<close>

record 'v ani =
  stringUtf8 :: "'v \<Rightarrow> string option"
  enumItemInt :: "'v \<Rightarrow> int option"
  enumFound :: "string \<Rightarrow> bool"
  enumItemAt :: "string \<Rightarrow> int \<Rightarrow> 'v option"
  promiseNew :: bool
  vmFound :: bool
  globalReference :: bool

definition ANIUtils_ANIStringToStdString :: "'v ani \<Rightarrow> 'v \<Rightarrow> string" where
  "ANIUtils_ANIStringToStdString A aniStr = (case stringUtf8 A aniStr of None \<Rightarrow> '''' | Some t \<Rightarrow> t)"

section \<open>Errors\<close>

text \<open>This file has tables of its own, with the entries of the other binding.\<close>

definition Ani_ERROR_CODE_CONVERSION :: "'m ipc \<Rightarrow> (int, int) stdmap" where
  "Ani_ERROR_CODE_CONVERSION L =
     [(error_code L E_SCREENLOCK_NO_PERMISSION, js_code ERR_NO_PERMISSION),
      (error_code L E_SCREENLOCK_PARAMETERS_INVALID, js_code ERR_INVALID_PARAMS),
      (error_code L E_SCREENLOCK_WRITE_PARCEL_ERROR, js_code ERR_SERVICE_ABNORMAL),
      (error_code L E_SCREENLOCK_NULLPTR, js_code ERR_SERVICE_ABNORMAL),
      (error_code L E_SCREENLOCK_SENDREQUEST_FAILED, js_code ERR_SERVICE_ABNORMAL),
      (error_code L E_SCREENLOCK_NOT_FOCUS_APP, js_code ERR_ILLEGAL_USE),
      (error_code L E_SCREENLOCK_NOT_SYSTEM_APP, js_code ERR_NOT_SYSTEM_APP),
      (error_code L E_SCREENLOCK_USER_ID_INVALID, js_code ERR_USER_ID_INVALID)]"

definition Ani_ERROR_INFO_MAP :: "(int, string) stdmap" where
  "Ani_ERROR_INFO_MAP =
     [(js_code ERR_NO_PERMISSION, ''Permission verification failed.''),
      (js_code ERR_INVALID_PARAMS, ''Parameter verification failed.''),
      (js_code ERR_CANCEL_UNLOCK, ''The user canceled the unlock operation.''),
      (js_code ERR_SERVICE_ABNORMAL, ''The screenlock management service is abnormal.''),
      (js_code ERR_ILLEGAL_USE, ''Invalid use.''),
      (js_code ERR_NOT_SYSTEM_APP,
         ''Permission verification failed, application which is not a system application '' @ ''uses system API.''),
      (js_code ERR_USER_ID_INVALID, ''The userId is not same as the caller, and is not allowed for the caller.'')]"

definition Ani_GetErrorMessage :: "int \<Rightarrow> string" where
  "Ani_GetErrorMessage code = (case mfind Ani_ERROR_INFO_MAP code of None \<Rightarrow> '''' | Some m \<Rightarrow> m)"

definition Ani_GetErrorInfo :: "'m ipc \<Rightarrow> int \<Rightarrow> error_info \<Rightarrow> error_info" where
  "Ani_GetErrorInfo L code errorInfo =
     (case mfind (Ani_ERROR_CODE_CONVERSION L) code of
        Some c \<Rightarrow> errorInfo\<lparr>errorCode := c, message := Ani_GetErrorMessage c\<rparr>
      | None \<Rightarrow> errorInfo)"

definition ani_status_error_info :: "'m ipc \<Rightarrow> int \<Rightarrow> error_info" where
  "ani_status_error_info L status = Ani_GetErrorInfo L status (no_error_info\<lparr>errorCode := status mod 2 ^ 32\<rparr>)"

lemma same_tables:
  "Ani_ERROR_CODE_CONVERSION L = ERROR_CODE_CONVERSION L" "Ani_ERROR_INFO_MAP = ERROR_INFO_MAP"
  by (simp_all add: Ani_ERROR_CODE_CONVERSION_def ERROR_CODE_CONVERSION_def Ani_ERROR_INFO_MAP_def ERROR_INFO_MAP_def
      PERMISSION_VALIDATION_FAILED_def PARAMETER_VALIDATION_FAILED_def CANCEL_UNLOCK_OPERATION_def
      SERVICE_IS_ABNORMAL_def ILLEGAL_USE_def NON_SYSTEM_APP_def USER_ID_INVALID_def)

lemma same_error_info [simp]: "ani_status_error_info L status = status_error_info L status"
  by (simp add: ani_status_error_info_def status_error_info_def Ani_GetErrorInfo_def GetErrorInfo_def
      Ani_GetErrorMessage_def GetErrorMessage_def same_tables split: option.split)

text \<open>The code of an error object is signed here.\<close>

definition Ani_Throw :: "int \<Rightarrow> string \<Rightarrow> js_throw" where
  "Ani_Throw code msg = BusinessError (int32_of code) msg"

definition ani_status_throw :: "'m ipc \<Rightarrow> int \<Rightarrow> js_throw" where
  "ani_status_throw L status = Ani_Throw (errorCode (ani_status_error_info L status)) (message (ani_status_error_info L status))"

section \<open>Queries\<close>

definition ANI_IsScreenLocked :: "'w manager \<Rightarrow> 'w \<Rightarrow> bool \<times> 'w" where
  "ANI_IsScreenLocked manager w = (let ((_, out), w1) = manager Req_IsScreenLocked w in (out_bool False out, w1))"

definition ANI_IsSecureMode :: "'w manager \<Rightarrow> 'w \<Rightarrow> bool \<times> 'w" where
  "ANI_IsSecureMode manager w = (let ((_, out), w1) = manager Req_GetSecure w in (out_bool False out, w1))"

definition ANI_IsLocked :: "'m ipc \<Rightarrow> 'w manager \<Rightarrow> 'w \<Rightarrow> (js_throw option \<times> bool) \<times> 'w" where
  "ANI_IsLocked L manager w =
     (let ((status, out), w1) = manager Req_IsLocked w
      in if \<not> status_is_ok L status then ((Some (ani_status_throw L status), False), w1)
         else ((None, out_bool False out), w1))"

definition ANI_IsScreenLockDisabled :: "'m ipc \<Rightarrow> 'w manager \<Rightarrow> int \<Rightarrow> 'w \<Rightarrow> (js_throw option \<times> bool) \<times> 'w" where
  "ANI_IsScreenLockDisabled L manager userId w =
     (let ((status, out), w1) = manager (Req_IsScreenLockDisabled userId) w
      in if \<not> status_is_ok L status then ((Some (ani_status_throw L status), False), w1)
         else ((None, out_bool False out), w1))"

definition AUTH_STATE_ENUM :: string where "AUTH_STATE_ENUM = ''@ohos.screenLock.screenLock.AuthState''"
definition UNLOCK_POLICY_ENUM :: string where "UNLOCK_POLICY_ENUM = ''@ohos.screenLock.screenLock.UnlockPolicy''"

definition ANI_GetScreenLockAuthState ::
  "'v ani \<Rightarrow> 'm ipc \<Rightarrow> 'w manager \<Rightarrow> int \<Rightarrow> 'w \<Rightarrow> (js_throw option \<times> 'v option) \<times> 'w"
where
  "ANI_GetScreenLockAuthState A L manager userId w =
     (let ((status, out), w1) = manager (Req_GetAuthState userId) w
      in if \<not> status_is_ok L status then ((Some (ani_status_throw L status), None), w1)
         else ((None, enumItemAt A AUTH_STATE_ENUM (out_int (- 1) out)), w1))"

text \<open>The function goes on after the throw.\<close>

definition ANI_GetStrongAuth :: "'m ipc \<Rightarrow> 'w manager \<Rightarrow> int \<Rightarrow> 'w \<Rightarrow> (js_throw option \<times> int) \<times> 'w" where
  "ANI_GetStrongAuth L manager userId w =
     (let ((status, out), w1) = manager (Req_GetStrongAuth userId) w
      in ((if \<not> status_is_ok L status then Some (ani_status_throw L status) else None, out_int (- 1) out), w1))"

definition ANI_IsDeviceLocked :: "'m ipc \<Rightarrow> 'w manager \<Rightarrow> int \<Rightarrow> 'w \<Rightarrow> (js_throw option \<times> bool) \<times> 'w" where
  "ANI_IsDeviceLocked L manager userId w =
     (let ((status, out), w1) = manager (Req_IsDeviceLocked userId) w
      in if \<not> status_is_ok L status then ((Some (ani_status_throw L status), False), w1)
         else ((None, out_bool True out), w1))"

text \<open>The item is null when it is tested, so the enumeration is never asked.\<close>

definition ANI_GetUnlockPolicy ::
  "'v ani \<Rightarrow> 'm ipc \<Rightarrow> 'w manager \<Rightarrow> int \<Rightarrow> 'w \<Rightarrow> (js_throw option \<times> 'v option) \<times> 'w"
where
  "ANI_GetUnlockPolicy A L manager userId w =
     (let result = None
      in if \<not> enumFound A UNLOCK_POLICY_ENUM then ((None, None), w)
         else let ((status, out), w1) = manager (Req_GetUnlockPolicy userId) w
              in if \<not> status_is_ok L status then ((Some (ani_status_throw L status), result), w1)
                 else if result = None then ((None, None), w1)
                 else ((None, enumItemAt A UNLOCK_POLICY_ENUM (out_int 0 out)), w1))"

section \<open>Changes\<close>

definition ANI_SendScreenLockEvent ::
  "'v ani \<Rightarrow> 'm ipc \<Rightarrow> 'w manager \<Rightarrow> 'v \<Rightarrow> int \<Rightarrow> 'w \<Rightarrow> (js_throw option \<times> bool) \<times> 'w"
where
  "ANI_SendScreenLockEvent A L manager ev parameter w =
     (let stdEvent = ANIUtils_ANIStringToStdString A ev
      in if stdEvent = '''' then ((None, False), w)
         else if \<not> (stdEvent = UNLOCK_SCREEN_RESULT \<or> stdEvent = SCREEN_DRAWDONE \<or> stdEvent = LOCK_SCREEN_RESULT)
         then ((Some (ani_status_throw L (error_code L E_SCREENLOCK_PARAMETERS_INVALID)), False), w)
         else let ((retCode, _), w1) = manager (Req_SendScreenLockEvent stdEvent parameter) w
              in if \<not> status_is_ok L retCode then ((Some (ani_status_throw L retCode), False), w1)
                 else ((None, True), w1))"

definition ANI_RequestStrongAuth ::
  "'v ani \<Rightarrow> 'm ipc \<Rightarrow> 'w manager \<Rightarrow> 'v \<Rightarrow> int \<Rightarrow> 'w \<Rightarrow> js_throw option \<times> 'w"
where
  "ANI_RequestStrongAuth A L manager reasonFlag userId w =
     (case enumItemInt A reasonFlag of
        None \<Rightarrow> (None, w)
      | Some reasonFlagInt \<Rightarrow>
          let ((retCode, _), w1) = manager (Req_RequestStrongAuth reasonFlagInt userId) w
          in (if \<not> status_is_ok L retCode then Some (ani_status_throw L retCode) else None, w1))"

definition ANI_SetScreenLockDisabled ::
  "'m ipc \<Rightarrow> 'w manager \<Rightarrow> bool \<Rightarrow> int \<Rightarrow> 'w \<Rightarrow> (js_throw option \<times> bool) \<times> 'w"
where
  "ANI_SetScreenLockDisabled L manager disable userId w =
     (let ((retCode, _), w1) = manager (Req_SetScreenLockDisabled disable userId) w
      in if \<not> status_is_ok L retCode then ((Some (ani_status_throw L retCode), False), w1) else ((None, True), w1))"

definition ANI_SetScreenLockAuthState ::
  "'v ani \<Rightarrow> 'm ipc \<Rightarrow> 'w manager \<Rightarrow> 'v \<Rightarrow> int \<Rightarrow> 'v \<Rightarrow> 'w \<Rightarrow> (js_throw option \<times> bool) \<times> 'w"
where
  "ANI_SetScreenLockAuthState A L manager state userId authToken w =
     (case enumItemInt A state of
        None \<Rightarrow> ((None, False), w)
      | Some stateInt \<Rightarrow>
          let authTokenStr = ANIUtils_ANIStringToStdString A authToken;
              ((retCode, _), w1) = manager (Req_SetAuthState stateInt userId authTokenStr) w
          in if \<not> status_is_ok L retCode then ((Some (ani_status_throw L retCode), False), w1) else ((None, True), w1))"

text \<open>When there is no virtual machine the status, a failure converted to a boolean, is returned: true.\<close>

definition ANI_OnSystemEvent :: "'v ani \<Rightarrow> 'm ipc \<Rightarrow> 'w manager \<Rightarrow> nat \<Rightarrow> 'w \<Rightarrow> (js_throw option \<times> bool) \<times> 'w" where
  "ANI_OnSystemEvent A L manager lid w =
     (if \<not> vmFound A then ((None, True), w)
      else if \<not> globalReference A then ((None, False), w)
      else let ((retCode, _), w1) = manager (Req_OnSystemEvent (Some lid)) w
           in if \<not> status_is_ok L retCode then ((Some (ani_status_throw L retCode), False), w1)
              else ((None, True), w1))"

section \<open>Locking and unlocking\<close>

datatype ani_event = AniResolve bool | AniReject int string

definition AniCallback_OnCallBack :: "action \<Rightarrow> error_info \<Rightarrow> int \<Rightarrow> ani_event" where
  "AniCallback_OnCallBack action errorInfo screenLockResult =
     (let errorInfo1 =
            (if screenLockResult = screen_change_code SCREEN_CANCEL then errorInfo\<lparr>message := CANCEL_UNLOCK_OPERATION\<rparr>
             else if screenLockResult = screen_change_code SCREEN_FAIL then errorInfo\<lparr>message := SCREENLOCK_FAIL\<rparr>
             else errorInfo);
          screenLockSuccess = (screenLockResult = screen_change_code SCREEN_SUCC);
          cancelUnlock = (action = ACTION_UNLOCK \<and> screenLockResult = screen_change_code SCREEN_CANCEL)
      in if screenLockSuccess \<or> cancelUnlock then AniResolve screenLockSuccess
         else AniReject (int32_of (errorCode errorInfo1)) (message errorInfo1))"

definition ScreenLockRequest :: "'m ipc \<Rightarrow> 'w manager \<Rightarrow> nat \<Rightarrow> action \<Rightarrow> 'w \<Rightarrow> ani_event list \<times> 'w" where
  "ScreenLockRequest L manager lid action w =
     (let ((retCode, _), w1) =
            (case action of
               ACTION_LOCK \<Rightarrow> manager (Req_Lock lid) w
             | ACTION_UNLOCK \<Rightarrow> manager (Req_Unlock lid) w
             | ACTION_UNLOCKSCREEN \<Rightarrow> manager (Req_UnlockScreen lid) w)
      in if \<not> status_is_ok L retCode
         then ([AniCallback_OnCallBack action (ani_status_error_info L retCode) retCode], w1)
         else ([], w1))"

text \<open>The promise, or a null object, and what has been told it already.\<close>

definition ANI_UnlockScreen :: "'v ani \<Rightarrow> 'm ipc \<Rightarrow> 'w manager \<Rightarrow> nat \<Rightarrow> 'w \<Rightarrow> (bool \<times> ani_event list) \<times> 'w" where
  "ANI_UnlockScreen A L manager lid w =
     (if \<not> promiseNew A then ((False, []), w)
      else if \<not> vmFound A then ((False, []), w)
      else let (evs, w1) = ScreenLockRequest L manager lid ACTION_UNLOCKSCREEN w in ((True, evs), w1))"

definition ANI_Unlock :: "'v ani \<Rightarrow> 'm ipc \<Rightarrow> 'w manager \<Rightarrow> nat \<Rightarrow> 'w \<Rightarrow> (bool \<times> ani_event list) \<times> 'w" where
  "ANI_Unlock A L manager lid w =
     (if \<not> promiseNew A then ((False, []), w)
      else if \<not> vmFound A then ((False, []), w)
      else let (evs, w1) = ScreenLockRequest L manager lid ACTION_UNLOCK w in ((True, evs), w1))"

definition ANI_Lock :: "'v ani \<Rightarrow> 'm ipc \<Rightarrow> 'w manager \<Rightarrow> nat \<Rightarrow> 'w \<Rightarrow> (bool \<times> ani_event list) \<times> 'w" where
  "ANI_Lock A L manager lid w =
     (if \<not> promiseNew A then ((False, []), w)
      else if \<not> vmFound A then ((False, []), w)
      else let (evs, w1) = ScreenLockRequest L manager lid ACTION_LOCK w in ((True, evs), w1))"

section \<open>The two bindings agree\<close>

lemmas ani_query_defs = ANI_IsLocked_def ANI_IsScreenLockDisabled_def ANI_GetScreenLockAuthState_def ANI_GetStrongAuth_def
  ANI_IsDeviceLocked_def ANI_GetUnlockPolicy_def

lemma GetErrorInfo_code:
  "errorCode (status_error_info L i) = (case mfind (ERROR_CODE_CONVERSION L) i of Some c \<Rightarrow> c | None \<Rightarrow> i mod 2 ^ 32)"
  by (simp add: status_error_info_def GetErrorInfo_def split: option.split)

lemma conversion_codes: "mfind (ERROR_CODE_CONVERSION L) i = Some c \<Longrightarrow> \<exists>j. c = js_code j"
  by (auto simp: ERROR_CODE_CONVERSION_def simp del: js_code.simps split: if_splits)

lemma status_error_code_small:
  assumes "0 < i" and "i < 2 ^ 31"
  shows "int32_of (errorCode (status_error_info L i)) = errorCode (status_error_info L i)"
    and "errorCode (status_error_info L i) \<noteq> 0"
proof -
  show "int32_of (errorCode (status_error_info L i)) = errorCode (status_error_info L i)"
    "errorCode (status_error_info L i) \<noteq> 0"
  proof (atomize (full), cases "mfind (ERROR_CODE_CONVERSION L) i")
    case None
    with assms show "int32_of (errorCode (status_error_info L i)) = errorCode (status_error_info L i)
      \<and> errorCode (status_error_info L i) \<noteq> 0"
      by (simp add: GetErrorInfo_code int32_of_def)
  next
    case (Some c)
    with conversion_codes [OF Some] show "int32_of (errorCode (status_error_info L i)) = errorCode (status_error_info L i)
      \<and> errorCode (status_error_info L i) \<noteq> 0"
      by (auto simp: GetErrorInfo_code)
  qed
qed

lemma same_throw: "0 < i \<Longrightarrow> i < 2 ^ 31 \<Longrightarrow> ani_status_throw L i = status_throw L i"
  by (simp add: ani_status_throw_def status_throw_def Ani_Throw_def ThrowError_def status_error_code_small(1))

text \<open>What a promise gets of a change: the throw of the other binding, or success.\<close>

definition change_event :: "js_throw option \<Rightarrow> 'v js_event" where
  "change_event t = (case t of
       Some (BusinessError c msg) \<Rightarrow> Rejected (OutError (Some c) msg)
     | Some (AssertError msg) \<Rightarrow> Rejected (OutError None msg)
     | None \<Rightarrow> Resolved (OutBool True))"

lemma change_agrees:
  assumes "0 < fst (fst (m rq w))" and "fst (fst (m rq w)) < 2 ^ 31"
  shows "OnComplete None (fst (OnExecute L m (StatusWork rq) w)) = change_event
       (if status_is_ok L (fst (fst (m rq w))) then None else Some (ani_status_throw L (fst (fst (m rq w)))))"
    and "snd (OnExecute L m (StatusWork rq) w) = snd (m rq w)"
  using status_error_code_small [OF assms, of L]
  by (simp_all add: OnExecute_def OnComplete_def change_event_def GenerateBusinessError_def ani_status_throw_def
      Ani_Throw_def split_beta Let_def)


definition sample_ani :: "js_value ani" where
  "sample_ani = \<lparr>stringUtf8 = jsUtf8 sample_napi, enumItemInt = jsInt32 sample_napi, enumFound = (\<lambda>_. True),
     enumItemAt = (\<lambda>_ i. Some (JsNumber i)), promiseNew = True, vmFound = True, globalReference = True\<rparr>"


end
