(* ===== verification/Script_Events.thy ===== *)
theory Script_Events
  imports Ani_Ability
begin

text \<open>
  System events in the script bindings: \<open>screenlock_system_ability_callback.cpp\<close> of the N-API binding and
  \<open>ani_screenlock_system_ability_callback.cpp\<close> of the ANI binding.  Both keep one event handler for all
  listeners of the process, that of the thread which first registered; an event is posted to it and becomes
  a call of the script when the posted task runs.
\<close>

section \<open>The handler\<close>

text \<open>A thread is a number; \<open>'v\<close> is the script's function.  A call carries the event object, \<open>None\<close> for a
  null object.\<close>

record 'v script_state =
  eventHandler :: "nat option"
  postedEvents :: "(nat \<times> 'v \<times> system_event) list"
  scriptCalls :: "(nat \<times> 'v \<times> (string \<times> string) option) list"

definition no_events :: "'v script_state" where
  "no_events = \<lparr>eventHandler = None, postedEvents = [], scriptCalls = []\<rparr>"

text \<open>\<open>current\<close> is the event handler of the calling thread, if it has one.\<close>

definition NapiEvent_GetEventHandler :: "nat option \<Rightarrow> 'v script_state \<Rightarrow> 'v script_state" where
  "NapiEvent_GetEventHandler current s = (if eventHandler s = None then s\<lparr>eventHandler := current\<rparr> else s)"

definition AniEvent_GetEventHandler :: "nat option \<Rightarrow> 'v script_state \<Rightarrow> 'v script_state" where
  "AniEvent_GetEventHandler current s = (if eventHandler s = None then s\<lparr>eventHandler := current\<rparr> else s)"

section \<open>Events\<close>

definition NapiEvent_OnCallBack :: "'v \<Rightarrow> system_event \<Rightarrow> 'v script_state \<Rightarrow> 'v script_state" where
  "NapiEvent_OnCallBack callbackRef systemEvent s =
     (case eventHandler s of
        None \<Rightarrow> s
      | Some h \<Rightarrow> s\<lparr>postedEvents := postedEvents s @ [(h, callbackRef, systemEvent)]\<rparr>)"

definition NapiEvent_task :: "nat \<Rightarrow> 'v \<Rightarrow> system_event \<Rightarrow> 'v script_state \<Rightarrow> 'v script_state" where
  "NapiEvent_task h callbackRef systemEvent s =
     s\<lparr>scriptCalls := scriptCalls s @ [(h, callbackRef, Some (eventType systemEvent, params systemEvent))]\<rparr>"

text \<open>The steps of making the event object that may fail in the runtime.\<close>

record ani_objects =
  eventClassFound :: bool
  eventCtorFound :: bool
  eventObjectMade :: bool
  eventTypeSet :: bool
  eventParamsSet :: bool

definition GetSystemEventImpl :: "ani_objects \<Rightarrow> string \<Rightarrow> string \<Rightarrow> (string \<times> string) option" where
  "GetSystemEventImpl A eventTypeStr paramsStr =
     (if \<not> eventClassFound A then None
      else if \<not> eventCtorFound A then None
      else if \<not> eventObjectMade A then None
      else if \<not> eventTypeSet A then None
      else if \<not> eventParamsSet A then None
      else Some (eventTypeStr, paramsStr))"

definition AniEvent_OnCallBack :: "'v option \<Rightarrow> system_event \<Rightarrow> 'v option script_state \<Rightarrow> 'v option script_state" where
  "AniEvent_OnCallBack callbackRef systemEvent s =
     (case eventHandler s of
        None \<Rightarrow> s
      | Some h \<Rightarrow> s\<lparr>postedEvents := postedEvents s @ [(h, callbackRef, systemEvent)]\<rparr>)"

definition AniEvent_task ::
  "ani_objects \<Rightarrow> nat \<Rightarrow> 'v option \<Rightarrow> system_event \<Rightarrow> 'v option script_state \<Rightarrow> 'v option script_state"
where
  "AniEvent_task A h callbackRef systemEvent s =
     (if callbackRef = None then s
      else s\<lparr>scriptCalls := scriptCalls s
               @ [(h, callbackRef, GetSystemEventImpl A (eventType systemEvent) (params systemEvent))]\<rparr>)"

text \<open>The handlers run what was posted, in order.\<close>

definition run_events ::
  "(nat \<Rightarrow> 'v \<Rightarrow> system_event \<Rightarrow> 'v script_state \<Rightarrow> 'v script_state) \<Rightarrow> 'v script_state \<Rightarrow> 'v script_state"
where
  "run_events task s = fold (\<lambda>(h, f, ev). task h f ev) (postedEvents s) (s\<lparr>postedEvents := []\<rparr>)"

section \<open>From the service to the script\<close>

text \<open>The event a stub rebuilds, by the order in which it read the two strings.\<close>

definition rebuilt_event :: "bool \<Rightarrow> system_event \<Rightarrow> system_event" where
  "rebuilt_event leftFirst ev =
     (if leftFirst then ev\<lparr>eventUserId := - 1\<rparr> else \<lparr>eventType = params ev, params = eventType ev, eventUserId = - 1\<rparr>)"

text \<open>Both bindings meet one contract: an event is posted to the handler if there is one, and the task of a
  posted event makes one call.\<close>

locale event_listener =
  fixes post :: "'v \<Rightarrow> system_event \<Rightarrow> 'v script_state \<Rightarrow> 'v script_state"
    and task :: "nat \<Rightarrow> 'v \<Rightarrow> system_event \<Rightarrow> 'v script_state \<Rightarrow> 'v script_state"
    and args :: "system_event \<Rightarrow> (string \<times> string) option"
    and callable :: "'v \<Rightarrow> bool"
  assumes posts: "post f ev s = (case eventHandler s of None \<Rightarrow> s
      | Some h \<Rightarrow> s\<lparr>postedEvents := postedEvents s @ [(h, f, ev)]\<rparr>)"
    and calls: "callable f \<Longrightarrow> task h f ev s = s\<lparr>scriptCalls := scriptCalls s @ [(h, f, args ev)]\<rparr>"
begin

lemma post_all:
  "fold (post f) evs s = (case eventHandler s of None \<Rightarrow> s
      | Some h \<Rightarrow> s\<lparr>postedEvents := postedEvents s @ map (\<lambda>ev. (h, f, ev)) evs\<rparr>)"
  by (induction evs arbitrary: s) (auto simp: posts split: option.split)

lemma run_all:
  assumes "callable f"
  shows "scriptCalls (fold (\<lambda>(h, f, ev). task h f ev) (map (\<lambda>ev. (h, f, ev)) evs) s)
     = scriptCalls s @ map (\<lambda>ev. (h, f, args ev)) evs"
  by (induction evs arbitrary: s) (simp_all add: calls [OF assms])

lemma events_called:
  assumes "callable f" and "postedEvents s = []"
  shows "scriptCalls (run_events task (fold (post f) evs s)) = scriptCalls s
     @ (case eventHandler s of None \<Rightarrow> [] | Some h \<Rightarrow> map (\<lambda>ev. (h, f, args ev)) evs)"
  using assms by (auto simp: post_all run_events_def run_all split: option.split)

lemma delivered_events_called:
  assumes "callable f" and "postedEvents s = []" and "ipc_laws L content"
  shows "scriptCalls (run_events task (fold (\<lambda>ev. SystemProxy_OnCallBack L
           (Some (SystemStub_OnRemoteRequest lf L (post f))) ev) evs s)) = scriptCalls s
     @ (case eventHandler s of None \<Rightarrow> [] | Some h \<Rightarrow> map (\<lambda>ev. (h, f, args (rebuilt_event lf ev))) evs)"
proof -
  have "fold (\<lambda>ev. SystemProxy_OnCallBack L (Some (SystemStub_OnRemoteRequest lf L (post f))) ev) evs s
      = fold (post f) (map (rebuilt_event lf) evs) s"
    using system_event_call.delivered [OF assms(3), of lf "post f"]
    by (induction evs arbitrary: s) (simp_all add: rebuilt_event_def)
  then show ?thesis
    using events_called [OF assms(1,2), of "map (rebuilt_event lf) evs"] by (simp add: comp_def split: option.split)
qed

end

interpretation napi_events: event_listener NapiEvent_OnCallBack NapiEvent_task
    "\<lambda>ev. Some (eventType ev, params ev)" "\<lambda>_. True"
  by unfold_locales (simp_all add: NapiEvent_OnCallBack_def NapiEvent_task_def)

interpretation ani_events: event_listener AniEvent_OnCallBack "AniEvent_task A"
    "\<lambda>ev. GetSystemEventImpl A (eventType ev) (params ev)" "\<lambda>f. f \<noteq> None"
  for A
  by unfold_locales (simp_all add: AniEvent_OnCallBack_def AniEvent_task_def)

text \<open>C40: system events reach a script in order, once each, as objects with the type and the parameters the
  service reported (exchanged where the stub's reads are evaluated right to left), in both bindings; they
  carry no user.  They run on the thread whose registration was the first of the process, whoever registered
  the listener, and are dropped when that thread had no event handler and no registration followed.\<close>

theorem events_reach_script:
  assumes "ipc_laws L content"
  shows "let s = NapiEvent_GetEventHandler second (NapiEvent_GetEventHandler first no_events);
             send = (\<lambda>lf. fold (\<lambda>ev. SystemProxy_OnCallBack L (Some (SystemStub_OnRemoteRequest lf L (NapiEvent_OnCallBack f))) ev) evs s);
             t = AniEvent_GetEventHandler second (AniEvent_GetEventHandler first no_events);
             ani_send = fold (\<lambda>ev. SystemProxy_OnCallBack L (Some (SystemStub_OnRemoteRequest True L (AniEvent_OnCallBack (Some f)))) ev) evs t;
             thread = (if first = None then second else first)
    in scriptCalls (run_events NapiEvent_task (send True))
         = (case thread of None \<Rightarrow> [] | Some h \<Rightarrow> map (\<lambda>ev. (h, f, Some (eventType ev, params ev))) evs)
     \<and> scriptCalls (run_events NapiEvent_task (send False))
         = (case thread of None \<Rightarrow> [] | Some h \<Rightarrow> map (\<lambda>ev. (h, f, Some (params ev, eventType ev))) evs)
     \<and> scriptCalls (run_events (AniEvent_task A) ani_send)
         = (case thread of None \<Rightarrow> [] | Some h \<Rightarrow> map (\<lambda>ev. (h, Some f, GetSystemEventImpl A (eventType ev) (params ev))) evs)"
  by (cases first)
    (simp_all add: Let_def napi_events.delivered_events_called [OF _ _ assms] ani_events.delivered_events_called [OF _ _ assms]
      NapiEvent_GetEventHandler_def AniEvent_GetEventHandler_def no_events_def rebuilt_event_def split: option.split)

theorem events_reach_script_witness:
  "scriptCalls (run_events NapiEvent_task (fold (\<lambda>ev. SystemProxy_OnCallBack sample_ipc
       (Some (SystemStub_OnRemoteRequest True sample_ipc (NapiEvent_OnCallBack (7 :: nat)))) ev)
       [SystemEvent UNLOCKSCREEN, \<lparr>eventType = STRONG_AUTH_CHANGED, params = ''2'', eventUserId = 100\<rparr>]
       (NapiEvent_GetEventHandler (Some 2) (NapiEvent_GetEventHandler (Some 1) no_events))))
   = [(1, 7, Some (UNLOCKSCREEN, '''')), (1, 7, Some (STRONG_AUTH_CHANGED, ''2''))]"
  using events_reach_script [OF ipc_laws_sample, where first = "Some 1" and second = "Some 2" and f = "7 :: nat"
      and evs = "[SystemEvent UNLOCKSCREEN, \<lparr>eventType = STRONG_AUTH_CHANGED, params = ''2'', eventUserId = 100\<rparr>]",
      unfolded Let_def, THEN conjunct1]
  by (simp add: SystemEvent_def)

end
