(* ===== verification/Script_Exports.thy ===== *)
theory Script_Exports
  imports Script_Events
begin

text \<open>
  What a script sees: the functions both modules give it by name.  \<open>Init\<close>, \<open>ScreenlockInit\<close> and
  \<open>RegisterModule\<close> of \<open>napi_screenlock_ability.cpp\<close> define the properties of the one module;
  \<open>BindMethods\<close> and \<open>ANI_Constructor\<close> of \<open>ani_screenlock_ability.cpp\<close> bind the native functions of the
  other.  A call is looked up by its name, made with the arguments of the script, and the work it leaves is
  run.
\<close>

section \<open>The N-API module\<close>

text \<open>What is left to be run after a function has returned.\<close>

datatype 'v script_work =
    NoWork
  | CallWork "'v option" async_work
  | LockWork "'v lock_listener"

type_synonym ('v, 'w) js_function = "nat \<Rightarrow> 'v list \<Rightarrow> 'w \<Rightarrow> (sync_result \<times> 'v script_work) \<times> 'w"

definition returning :: "('v list \<Rightarrow> 'w \<Rightarrow> sync_result \<times> 'w) \<Rightarrow> ('v, 'w) js_function" where
  "returning f lid argv w = (let (res, w1) = f argv w in ((res, NoWork), w1))"

definition queueing :: "('v list \<Rightarrow> sync_result \<times> ('v option \<times> async_work) option) \<Rightarrow> ('v, 'w) js_function" where
  "queueing f lid argv w =
     (let (res, q) = f argv in ((res, case q of None \<Rightarrow> NoWork | Some (cb, wk) \<Rightarrow> CallWork cb wk), w))"

definition locking :: "('v list \<Rightarrow> sync_result \<times> 'v lock_listener option) \<Rightarrow> ('v, 'w) js_function" where
  "locking f lid argv w = (let (res, q) = f argv in ((res, case q of None \<Rightarrow> NoWork | Some li \<Rightarrow> LockWork li), w))"

definition exportFuncs :: "'v napi \<Rightarrow> 'm ipc \<Rightarrow> 'w manager \<Rightarrow> (string \<times> ('v, 'w) js_function) list" where
  "exportFuncs N L m =
     [(''isScreenLocked'', queueing (NAPI_IsScreenLocked N)),
      (''isLocked'', returning (\<lambda>argv. NAPI_IsLocked L m)),
      (''lock'', locking (NAPI_Lock N)),
      (''unlockScreen'', locking (NAPI_UnlockScreen N)),
      (''unlock'', locking (NAPI_Unlock N)),
      (''isSecureMode'', queueing (NAPI_IsSecureMode N)),
      (''onSystemEvent'', (\<lambda>lid. returning (NAPI_OnSystemEvent N L m lid) lid)),
      (''sendScreenLockEvent'', queueing (NAPI_ScreenLockSendEvent N)),
      (''isScreenLockDisabled'', returning (NAPI_IsScreenLockDisabled N L m)),
      (''setScreenLockDisabled'', queueing (NAPI_SetScreenLockDisabled N)),
      (''setScreenLockAuthState'', queueing (NAPI_SetScreenLockAuthState N)),
      (''getScreenLockAuthState'', returning (NAPI_GetScreenLockAuthState N L m)),
      (''requestStrongAuth'', queueing (NAPI_RequestStrongAuth N)),
      (''getStrongAuth'', returning (NAPI_GetStrongAuth N L m)),
      (''isDeviceLocked'', returning (NAPI_IsDeviceLocked N L m)),
      (''getUnlockPolicy'', returning (NAPI_GetUnlockPolicy N L m))]"

text \<open>The properties are defined on the exports object one after the other.\<close>

type_synonym ('v, 'w) exports = "string \<rightharpoonup> ('v, 'w) js_function"

definition Napi_Init :: "'v napi \<Rightarrow> 'm ipc \<Rightarrow> 'w manager \<Rightarrow> ('v, 'w) exports \<Rightarrow> ('v, 'w) exports" where
  "Napi_Init N L m exports = fold (\<lambda>(name, f) ex. ex(name \<mapsto> f)) (exportFuncs N L m) exports"

definition ScreenlockInit :: "'v napi \<Rightarrow> 'm ipc \<Rightarrow> 'w manager \<Rightarrow> ('v, 'w) exports \<Rightarrow> ('v, 'w) exports" where
  "ScreenlockInit N L m exports = Napi_Init N L m exports"

text \<open>The work runs on another thread and settles the promise or calls the function of the script.\<close>

definition run_work :: "'m ipc \<Rightarrow> 'w manager \<Rightarrow> nat \<Rightarrow> 'v script_work \<Rightarrow> 'w \<Rightarrow> 'v js_event list \<times> 'w" where
  "run_work L m lid wk w =
     (case wk of
        NoWork \<Rightarrow> ([], w)
      | CallWork cb aw \<Rightarrow> let (r, w1) = OnExecute L m aw w in ([OnComplete cb r], w1)
      | LockWork li \<Rightarrow> AsyncCallFunc L m lid li w)"

definition script_call ::
  "'v napi \<Rightarrow> 'm ipc \<Rightarrow> 'w manager \<Rightarrow> string \<Rightarrow> nat \<Rightarrow> 'v list \<Rightarrow> 'w \<Rightarrow> ((sync_result \<times> 'v js_event list) \<times> 'w) option"
where
  "script_call N L m name lid argv w =
     (case ScreenlockInit N L m Map.empty name of
        None \<Rightarrow> None
      | Some f \<Rightarrow>
          let ((res, wk), w1) = f lid argv w; (evs, w2) = run_work L m lid wk w1
          in Some ((res, evs), w2))"

section \<open>The ANI module\<close>

text \<open>A native function gets arguments of the types it declares; \<open>None\<close> stands for a call the compiler of the
  script refuses.\<close>

datatype 'v ani_arg = ArgBool bool | ArgInt int | ArgRef 'v

datatype 'v ani_return =
    RetBool "js_throw option" bool
  | RetInt "js_throw option" int
  | RetItem "js_throw option" "'v option"
  | RetVoid "js_throw option"
  | RetPromise bool "ani_event list"

type_synonym ('v, 'w) ani_function = "nat \<Rightarrow> 'v ani_arg list \<Rightarrow> 'w \<Rightarrow> ('v ani_return \<times> 'w) option"

definition bool_function :: "('w \<Rightarrow> (js_throw option \<times> bool) \<times> 'w) \<Rightarrow> 'w \<Rightarrow> ('v ani_return \<times> 'w) option" where
  "bool_function f w = (let ((t, b), w1) = f w in Some (RetBool t b, w1))"

definition item_function :: "('w \<Rightarrow> (js_throw option \<times> 'v option) \<times> 'w) \<Rightarrow> 'w \<Rightarrow> ('v ani_return \<times> 'w) option" where
  "item_function f w = (let ((t, i), w1) = f w in Some (RetItem t i, w1))"

definition promise_function :: "('w \<Rightarrow> (bool \<times> ani_event list) \<times> 'w) \<Rightarrow> 'w \<Rightarrow> ('v ani_return \<times> 'w) option" where
  "promise_function f w = (let ((p, evs), w1) = f w in Some (RetPromise p evs, w1))"

definition methods :: "'v ani \<Rightarrow> 'm ipc \<Rightarrow> 'w manager \<Rightarrow> (string \<times> ('v, 'w) ani_function) list" where
  "methods A L m =
     [(''isScreenLocked_inner'', \<lambda>lid args w. case args of
          [] \<Rightarrow> let (b, w1) = ANI_IsScreenLocked m w in Some (RetBool None b, w1) | _ \<Rightarrow> None),
      (''isLocked'', \<lambda>lid args. case args of [] \<Rightarrow> bool_function (ANI_IsLocked L m) | _ \<Rightarrow> Map.empty),
      (''isSecureMode_inner'', \<lambda>lid args w. case args of
          [] \<Rightarrow> let (b, w1) = ANI_IsSecureMode m w in Some (RetBool None b, w1) | _ \<Rightarrow> None),
      (''unlockScreen_inner'', \<lambda>lid args. case args of
          [] \<Rightarrow> promise_function (ANI_UnlockScreen A L m lid) | _ \<Rightarrow> Map.empty),
      (''unlock_inner'', \<lambda>lid args. case args of
          [] \<Rightarrow> promise_function (ANI_Unlock A L m lid) | _ \<Rightarrow> Map.empty),
      (''lock_inner'', \<lambda>lid args. case args of
          [] \<Rightarrow> promise_function (ANI_Lock A L m lid) | _ \<Rightarrow> Map.empty),
      (''onSystemEvent'', \<lambda>lid args. case args of
          [ArgRef cb] \<Rightarrow> bool_function (ANI_OnSystemEvent A L m lid) | _ \<Rightarrow> Map.empty),
      (''sendScreenLockEvent_inner'', \<lambda>lid args. case args of
          [ArgRef ev, ArgInt p] \<Rightarrow> bool_function (ANI_SendScreenLockEvent A L m ev p) | _ \<Rightarrow> Map.empty),
      (''requestStrongAuth_inner'', \<lambda>lid args w. case args of
          [ArgRef flag, ArgInt u] \<Rightarrow> let (t, w1) = ANI_RequestStrongAuth A L m flag u w in Some (RetVoid t, w1)
        | _ \<Rightarrow> None),
      (''setScreenLockDisabled_inner'', \<lambda>lid args. case args of
          [ArgBool b, ArgInt u] \<Rightarrow> bool_function (ANI_SetScreenLockDisabled L m b u) | _ \<Rightarrow> Map.empty),
      (''isScreenLockDisabled'', \<lambda>lid args. case args of
          [ArgInt u] \<Rightarrow> bool_function (ANI_IsScreenLockDisabled L m u) | _ \<Rightarrow> Map.empty),
      (''setScreenLockAuthState_inner'', \<lambda>lid args. case args of
          [ArgRef st, ArgInt u, ArgRef tok] \<Rightarrow> bool_function (ANI_SetScreenLockAuthState A L m st u tok) | _ \<Rightarrow> Map.empty),
      (''getScreenLockAuthState'', \<lambda>lid args. case args of
          [ArgInt u] \<Rightarrow> item_function (ANI_GetScreenLockAuthState A L m u) | _ \<Rightarrow> Map.empty),
      (''getStrongAuth'', \<lambda>lid args w. case args of
          [ArgInt u] \<Rightarrow> let ((t, i), w1) = ANI_GetStrongAuth L m u w in Some (RetInt t i, w1) | _ \<Rightarrow> None),
      (''getUnlockPolicy'', \<lambda>lid args. case args of
          [ArgInt u] \<Rightarrow> item_function (ANI_GetUnlockPolicy A L m u) | _ \<Rightarrow> Map.empty),
      (''isDeviceLocked'', \<lambda>lid args. case args of
          [ArgInt u] \<Rightarrow> bool_function (ANI_IsDeviceLocked L m u) | _ \<Rightarrow> Map.empty)]"

datatype ani_status = ANI_OK | ANI_ERROR | ANI_NOT_FOUND | ANI_OUT_OF_REF

text \<open>What the loader and the runtime give; the last field is the number of the version asked for.\<close>

record ani_loader =
  vmGiven :: bool
  resultGiven :: bool
  versionSupported :: bool
  envGiven :: bool
  namespaceFound :: bool
  functionsBound :: bool
  aniVersion1 :: int

text \<open>The functions bound to the namespace come with the status.\<close>

definition BindMethods ::
  "ani_loader \<Rightarrow> 'v ani \<Rightarrow> 'm ipc \<Rightarrow> 'w manager \<Rightarrow> ani_status \<times> (string \<times> ('v, 'w) ani_function) list"
where
  "BindMethods V A L m =
     (if \<not> namespaceFound V then (ANI_NOT_FOUND, [])
      else if \<not> functionsBound V then (ANI_ERROR, [])
      else (ANI_OK, methods A L m))"

definition ANI_Constructor ::
  "ani_loader \<Rightarrow> 'v ani \<Rightarrow> 'm ipc \<Rightarrow> 'w manager \<Rightarrow> (ani_status \<times> int option) \<times> (string \<times> ('v, 'w) ani_function) list"
where
  "ANI_Constructor V A L m =
     (if \<not> vmGiven V \<or> \<not> resultGiven V then ((ANI_ERROR, None), [])
      else if \<not> versionSupported V then ((ANI_OUT_OF_REF, None), [])
      else if \<not> envGiven V then ((ANI_ERROR, None), [])
      else let (st, bound) = BindMethods V A L m
           in if st \<noteq> ANI_OK then ((ANI_ERROR, None), bound) else ((ANI_OK, Some (aniVersion1 V)), bound))"

definition native_call ::
  "ani_loader \<Rightarrow> 'v ani \<Rightarrow> 'm ipc \<Rightarrow> 'w manager \<Rightarrow> string \<Rightarrow> nat \<Rightarrow> 'v ani_arg list \<Rightarrow> 'w \<Rightarrow> ('v ani_return \<times> 'w) option"
where
  "native_call V A L m name lid args w =
     (case map_of (snd (ANI_Constructor V A L m)) name of None \<Rightarrow> None | Some f \<Rightarrow> f lid args w)"

section \<open>What a call asks\<close>

text \<open>The name scripts know a request by; none for the requests no script can make.\<close>

fun api_name :: "request \<Rightarrow> string" where
  "api_name Req_IsScreenLocked = ''isScreenLocked''"
| "api_name Req_IsLocked = ''isLocked''"
| "api_name (Req_Lock _) = ''lock''"
| "api_name (Req_UnlockScreen _) = ''unlockScreen''"
| "api_name (Req_Unlock _) = ''unlock''"
| "api_name Req_GetSecure = ''isSecureMode''"
| "api_name (Req_OnSystemEvent (Some _)) = ''onSystemEvent''"
| "api_name (Req_SendScreenLockEvent _ _) = ''sendScreenLockEvent''"
| "api_name (Req_IsScreenLockDisabled _) = ''isScreenLockDisabled''"
| "api_name (Req_SetScreenLockDisabled _ _) = ''setScreenLockDisabled''"
| "api_name (Req_SetAuthState _ _ _) = ''setScreenLockAuthState''"
| "api_name (Req_GetAuthState _) = ''getScreenLockAuthState''"
| "api_name (Req_RequestStrongAuth _ _) = ''requestStrongAuth''"
| "api_name (Req_GetStrongAuth _) = ''getStrongAuth''"
| "api_name (Req_IsDeviceLocked _) = ''isDeviceLocked''"
| "api_name (Req_GetUnlockPolicy _) = ''getUnlockPolicy''"
| "api_name _ = ''''"

definition script_api :: "string list" where
  "script_api = [''isScreenLocked'', ''isLocked'', ''lock'', ''unlockScreen'', ''unlock'', ''isSecureMode'', ''onSystemEvent'',
     ''sendScreenLockEvent'', ''isScreenLockDisabled'', ''setScreenLockDisabled'', ''setScreenLockAuthState'',
     ''getScreenLockAuthState'', ''requestStrongAuth'', ''getStrongAuth'', ''isDeviceLocked'', ''getUnlockPolicy'']"

text \<open>A native function that the script of the module wraps has a suffix.\<close>

definition api_of_native :: "string \<Rightarrow> string" where
  "api_of_native n = (let k = length n - length ''_inner'' in if drop k n = ''_inner'' then take k n else n)"

text \<open>A call makes the request of its name: the state behind the manager is what that one request makes of it.\<close>

definition makes_request :: "'w manager \<Rightarrow> string \<Rightarrow> 'w \<Rightarrow> 'w \<Rightarrow> bool" where
  "makes_request m name w w' \<longleftrightarrow> (\<exists>rq. api_name rq = name \<and> w' = snd (m rq w))"

lemma makes_request_call [simp]: "api_name rq = name \<Longrightarrow> makes_request m name w (snd (m rq w))"
  by (auto simp: makes_request_def)

text \<open>A function of the one module throws and leaves everything alone, or makes its request.\<close>

definition asks_one :: "'m ipc \<Rightarrow> 'w manager \<Rightarrow> string \<Rightarrow> ('v, 'w) js_function \<Rightarrow> bool" where
  "asks_one L m name f \<longleftrightarrow> (\<forall>lid argv w.
     let (((t, v), wk), w1) = f lid argv w; (evs, w2) = run_work L m lid wk w1
     in (t \<noteq> None \<and> evs = [] \<and> w2 = w) \<or> (length evs \<le> 1 \<and> makes_request m name w w2))"

lemma asks_one_returning:
  assumes "\<And>argv w. (fst (fst (f argv w)) \<noteq> None \<and> snd (f argv w) = w) \<or> makes_request m name w (snd (f argv w))"
  shows "asks_one L m name (returning f)"
  using assms by (auto simp: asks_one_def returning_def run_work_def split_beta Let_def)

lemma asks_one_queueing:
  assumes "\<And>argv. case snd (f argv) of None \<Rightarrow> fst (fst (f argv)) \<noteq> None
       | Some (_, FlagWork rq) \<Rightarrow> api_name rq = name | Some (_, StatusWork rq) \<Rightarrow> api_name rq = name"
  shows "asks_one L m name (queueing f)"
  unfolding asks_one_def
proof (intro allI)
  fix lid argv w
  show "let (((t, v), wk), w1) = queueing f lid argv w; (evs, w2) = run_work L m lid wk w1
     in (t \<noteq> None \<and> evs = [] \<and> w2 = w) \<or> (length evs \<le> 1 \<and> makes_request m name w w2)"
    using assms [of argv]
    by (auto simp: queueing_def run_work_def OnExecute_def split_beta Let_def
        split: option.splits async_work.splits)
qed

lemma asks_one_locking:
  assumes "\<And>argv. case snd (f argv) of None \<Rightarrow> fst (fst (f argv)) \<noteq> None
       | Some (cb, a) \<Rightarrow> \<forall>l. api_name (lock_request a l) = name"
  shows "asks_one L m name (locking f)"
  unfolding asks_one_def
proof (intro allI)
  fix lid argv w
  show "let (((t, v), wk), w1) = locking f lid argv w; (evs, w2) = run_work L m lid wk w1
     in (t \<noteq> None \<and> evs = [] \<and> w2 = w) \<or> (length evs \<le> 1 \<and> makes_request m name w w2)"
    using assms [of argv]
    by (cases "snd (f argv)")
      (auto simp: locking_def run_work_def AsyncCallFunc_request split_beta Let_def split: if_splits)
qed

lemma exports_ask_one:
  "\<forall>(name, f) \<in> set (exportFuncs N L m). asks_one L m name f"
proof -
  have sys: "asks_one L m ''onSystemEvent'' (\<lambda>lid. returning (NAPI_OnSystemEvent N L m lid) lid)"
    by (auto simp: asks_one_def returning_def run_work_def NAPI_OnSystemEvent_def split_beta Let_def)
  show ?thesis
    unfolding exportFuncs_def list.set ball_simps prod.case
    by (intro conjI TrueI sys asks_one_returning asks_one_queueing asks_one_locking)
      (auto simp: napi_query_defs NAPI_IsLocked_def NAPI_Lock_def NAPI_UnlockScreen_def NAPI_Unlock_def
        start_lock_def NAPI_IsScreenLocked_def NAPI_IsSecureMode_def NAPI_IsScreenLocked_input_def napi_async_defs
        napi_input_defs split_beta Let_def split: option.split)
qed

lemma exports_distinct: "distinct (map fst (exportFuncs N L m))"
  by (simp add: exportFuncs_def)

lemma exports_names: "set (map fst (exportFuncs N L m)) = set script_api"
  by (auto simp: exportFuncs_def script_api_def)

lemma define_properties:
  "distinct (map fst fs) \<Longrightarrow> fold (\<lambda>(name, f) ex. ex(name \<mapsto> f)) fs ex = ex ++ map_of fs"
proof (induction fs arbitrary: ex)
  case (Cons p fs)
  then have "fst p \<notin> dom (map_of fs)" by (simp add: dom_map_of_conv_image_fst)
  with Cons show ?case by (auto simp: split_beta map_add_def fun_eq_iff split: option.split)
qed simp

lemma ScreenlockInit_lookup: "ScreenlockInit N L m Map.empty = map_of (exportFuncs N L m)"
  by (simp add: ScreenlockInit_def Napi_Init_def define_properties exports_distinct)

text \<open>A function of the other module leaves everything alone or makes its request.\<close>

definition asks_at_most_one :: "'w manager \<Rightarrow> string \<Rightarrow> ('v, 'w) ani_function \<Rightarrow> bool" where
  "asks_at_most_one m name f \<longleftrightarrow> (\<forall>lid args w.
     case f lid args w of None \<Rightarrow> True | Some (r, w') \<Rightarrow> w' = w \<or> makes_request m (api_of_native name) w w')"

lemma asks_at_most_oneI:
  "(\<And>lid args w r w'. f lid args w = Some (r, w') \<Longrightarrow> w' = w \<or> makes_request m (api_of_native name) w w')
   \<Longrightarrow> asks_at_most_one m name f"
  by (auto simp: asks_at_most_one_def split: option.split)

lemma ScreenLockRequest_request:
  "ScreenLockRequest L m lid a w =
     (let ((retCode, _), w1) = m (lock_request a lid) w
      in if \<not> status_is_ok L retCode
         then ([AniCallback_OnCallBack a (status_error_info L retCode) retCode], w1) else ([], w1))"
  by (cases a) (simp_all add: ScreenLockRequest_def split_beta Let_def)

lemmas ani_change_defs = ANI_IsScreenLocked_def ANI_IsSecureMode_def ANI_SendScreenLockEvent_def ANI_RequestStrongAuth_def
  ANI_SetScreenLockDisabled_def ANI_SetScreenLockAuthState_def ANI_OnSystemEvent_def ANI_UnlockScreen_def ANI_Unlock_def
  ANI_Lock_def ScreenLockRequest_request

lemmas ani_shapes = bool_function_def item_function_def promise_function_def

lemma methods_ask_one:
  "\<forall>(name, f) \<in> set (methods A L m). asks_at_most_one m name f"
  unfolding methods_def list.set ball_simps prod.case
  by (intro conjI TrueI asks_at_most_oneI)
    (auto simp: ani_shapes ani_query_defs ani_change_defs api_of_native_def split_beta Let_def
      split: list.splits ani_arg.splits if_splits option.splits)

lemma methods_names: "set (map (api_of_native \<circ> fst) (methods A L m)) = set script_api"
  by (simp add: methods_def script_api_def api_of_native_def insert_commute)

definition loaded :: "ani_loader \<Rightarrow> bool" where
  "loaded V \<longleftrightarrow> vmGiven V \<and> resultGiven V \<and> versionSupported V \<and> envGiven V \<and> namespaceFound V \<and> functionsBound V"

lemma ANI_Constructor_bound: "snd (ANI_Constructor V A L m) = (if loaded V then methods A L m else [])"
  by (auto simp: ANI_Constructor_def BindMethods_def loaded_def)

lemma native_call_asks:
  "case native_call V A L m native lid args w of
     None \<Rightarrow> True
   | Some (r, w') \<Rightarrow> loaded V \<and> api_of_native native \<in> set script_api
       \<and> (w' = w \<or> makes_request m (api_of_native native) w w')"
proof (cases "map_of (snd (ANI_Constructor V A L m)) native")
  case None
  then show ?thesis by (simp add: native_call_def)
next
  case (Some f)
  then have load: "loaded V" and mem: "(native, f) \<in> set (methods A L m)"
    by (auto simp: ANI_Constructor_bound dest: map_of_SomeD split: if_splits)
  then have "api_of_native native \<in> set script_api"
    using methods_names [of A L m] by force
  moreover have "asks_at_most_one m native f" using methods_ask_one mem by fast
  note this [unfolded asks_at_most_one_def, THEN spec, of lid, THEN spec, of args, THEN spec, of w]
  ultimately show ?thesis
    using Some load by (auto simp: native_call_def split_beta split: option.splits)
qed

lemma script_call_asks:
  "case script_call N L m name lid argv w of
     None \<Rightarrow> name \<notin> set script_api
   | Some (((thrown, ret), evs), w') \<Rightarrow> name \<in> set script_api
       \<and> ((thrown \<noteq> None \<and> evs = [] \<and> w' = w) \<or> (length evs \<le> 1 \<and> makes_request m name w w'))"
proof (cases "map_of (exportFuncs N L m) name")
  case None
  then have "name \<notin> set script_api"
    using exports_names [of N L m] by (auto simp: map_of_eq_None_iff)
  with None show ?thesis by (simp add: script_call_def ScreenlockInit_lookup)
next
  case (Some f)
  then have mem: "(name, f) \<in> set (exportFuncs N L m)" by (rule map_of_SomeD)
  then have "name \<in> set script_api" using exports_names [of N L m] by force
  moreover have "asks_one L m name f" using exports_ask_one mem by fast
  note this [unfolded asks_one_def, THEN spec, of lid, THEN spec, of argv, THEN spec, of w]
  ultimately show ?thesis
    using Some by (auto simp: script_call_def ScreenlockInit_lookup split_beta Let_def)
qed

text \<open>C15: both modules offer the same sixteen functions, and a call of one asks for what its name says.  A
  call of the first module, with any arguments, either throws and asks nothing, or asks the manager object
  exactly one request, that of its name, and tells the script at most once afterwards; a call of the second
  asks nothing or exactly the request of its name.  A module whose loading fails anywhere binds no function.\<close>

theorem each_call_asks_its_request:
  "dom (ScreenlockInit N L m Map.empty) = set script_api
   \<and> (if loaded V then set (map (api_of_native \<circ> fst) (snd (ANI_Constructor V A L m))) = set script_api
      else snd (ANI_Constructor V A L m) = [])
   \<and> (case script_call N L m name lid argv w of
        None \<Rightarrow> name \<notin> set script_api
      | Some (((thrown, ret), evs), w') \<Rightarrow> name \<in> set script_api
          \<and> ((thrown \<noteq> None \<and> evs = [] \<and> w' = w) \<or> (length evs \<le> 1 \<and> makes_request m name w w')))
   \<and> (case native_call V A L m native lid args w of
        None \<Rightarrow> True
      | Some (r, w') \<Rightarrow> loaded V \<and> api_of_native native \<in> set script_api
          \<and> (w' = w \<or> makes_request m (api_of_native native) w w'))"
  using methods_names [of A L m]
  by (intro conjI script_call_asks native_call_asks)
    (simp_all add: ScreenlockInit_lookup dom_map_of_conv_image_fst exports_names ANI_Constructor_bound flip: set_map)

theorem each_call_asks_its_request_witness:
  "snd (the (script_call sample_napi sample_ipc (\<lambda>rq w. ((13000, BoolOut True), w @ [rq])) ''isDeviceLocked'' 1
       [JsNumber 100] [])) = [Req_IsDeviceLocked 100]"
proof -
  define r where "r = script_call sample_napi sample_ipc (\<lambda>rq w. ((13000, BoolOut True), w @ [rq])) ''isDeviceLocked'' 1
       [JsNumber 100] []"
  have "r \<noteq> None \<and> snd (the r) \<noteq> [] \<and> (\<forall>rq. snd (the r) = [rq] \<longrightarrow> rq = Req_IsDeviceLocked 100)"
    unfolding r_def by (simp add: script_call_def ScreenlockInit_def Napi_Init_def exportFuncs_def returning_def run_work_def
        NAPI_IsDeviceLocked_def CheckParamNumber_def CheckParamType_def sample_napi_def int32_or_def split_beta Let_def)
  moreover note each_call_asks_its_request [where N = sample_napi and L = sample_ipc
      and m = "\<lambda>rq w. ((13000, BoolOut True), w @ [rq])" and name = "''isDeviceLocked''" and lid = 1
      and argv = "[JsNumber 100]" and w = "[]", THEN conjunct2, THEN conjunct2, THEN conjunct1, folded r_def]
  ultimately show ?thesis
    unfolding r_def [symmetric] by (auto simp: makes_request_def split: option.splits if_splits)
qed

end
