(* ===== verification/Script_Histories.thy ===== *)
theory Script_Histories
  imports Script_Exports "HOL-Library.Sublist"
begin

text \<open>
  Scripts on top of the whole stack: calls by name go through the binding, the manager object of the client,
  the proxy, the wire and the stub to the service.  What any program of such calls does to the service is a
  list of requests, so everything the other theories show of requests and of reachable states holds for
  scripts.
\<close>

section \<open>The stack\<close>

text \<open>The manager object of a process whose identity is \<open>e\<close>, with the stub of the service at the other end.\<close>

definition service_manager :: "'p env \<Rightarrow> client_env \<Rightarrow> 'm ipc \<Rightarrow> (client_state \<times> 'p service_state) manager" where
  "service_manager e ce L rq w = client_call ce L (\<lambda>_. OnRemoteRequest e L) rq (fst w) (snd w)"

text \<open>A program of a script: each call has the identity of the caller at that moment, the name, the number of
  the listener it makes and the arguments.  A name that is not exported is an error of the script.\<close>

type_synonym ('p, 'v) invocation = "'p env \<times> string \<times> nat \<times> 'v list"

fun call_name :: "('p, 'v) invocation \<Rightarrow> 'p env \<times> string" where
  "call_name (e, name, lid, argv) = (e, name)"

fun run_script ::
  "'v napi \<Rightarrow> client_env \<Rightarrow> 'm ipc \<Rightarrow> ('p, 'v) invocation list \<Rightarrow> client_state \<times> 'p service_state
     \<Rightarrow> (sync_result \<times> 'v js_event list) option list \<times> client_state \<times> 'p service_state"
where
  "run_script N ce L [] w = ([], w)"
| "run_script N ce L ((e, name, lid, argv) # calls) w =
     (case script_call N L (service_manager e ce L) name lid argv w of
        None \<Rightarrow> let (outs, w1) = run_script N ce L calls w in (None # outs, w1)
      | Some (out, w1) \<Rightarrow> let (outs, w2) = run_script N ce L calls w1 in (Some out # outs, w2))"

definition serve_all :: "('p env \<times> request) list \<Rightarrow> 'p service_state \<Rightarrow> 'p service_state" where
  "serve_all asked s = fold (\<lambda>(e, rq) t. snd (serve e rq t)) asked s"

lemma serve_all_Cons: "serve_all ((e, rq) # asked) s = serve_all asked (snd (serve e rq s))"
  by (simp add: serve_all_def del: serve.simps)

lemma serve_all_reachable: "service_reachable s \<Longrightarrow> service_reachable (serve_all asked s)"
proof (induction asked arbitrary: s)
  case (Cons p asked)
  then show ?case
    by (cases p) (auto simp: serve_all_Cons simp del: serve.simps intro: service_reachable.step service_step.request)
qed (simp add: serve_all_def)

section \<open>Programs of scripts\<close>

lemma api_native: "api_name rq \<in> set script_api \<Longrightarrow> native_request rq"
  by (cases rq rule: api_name.cases) (simp_all add: script_api_def)

lemma service_manager_serves:
  assumes "ipc_laws L content" and "sendable e L rq" and "native_request rq" and "fst (GetProxy ce c) = Some p"
  shows "snd (service_manager e ce L rq (c, s)) = (after_call ce rq c, snd (serve e rq s))"
    and "fst (GetProxy ce (after_call ce rq c)) = Some p"
proof -
  have obj: "object_sent L rq" using assms(2) by (simp add: sendable_def)
  show "snd (service_manager e ce L rq (c, s)) = (after_call ce rq c, snd (serve e rq s))"
    using remote_call_is_local_call [OF assms(1,2), of s]
    by (simp add: service_manager_def client_call_proxy [OF assms(4,3) obj])
  have "managerProxy (after_call ce rq c) = Some p"
    using GetProxy_cases(2) [of ce c] assms(4) by (simp add: after_call_def Let_def split: request.split)
  then show "fst (GetProxy ce (after_call ce rq c)) = Some p" by (simp add: GetProxy_def)
qed

lemma script_call_serves:
  assumes "ipc_laws L content" and "\<And>rq. api_name rq = name \<Longrightarrow> sendable e L rq" and "fst (GetProxy ce c) = Some p"
    and "script_call N L (service_manager e ce L) name lid argv (c, s) = Some (out, c1, s1)"
  obtains "c1 = c" and "s1 = s" and "fst (fst out) \<noteq> None" and "snd out = []"
    | rq where "api_name rq = name" and "s1 = snd (serve e rq s)" and "fst (GetProxy ce c1) = Some p"
proof -
  obtain thrown ret evs where out: "out = ((thrown, ret), evs)" by (metis prod.exhaust)
  have "name \<in> set script_api \<and> ((thrown \<noteq> None \<and> evs = [] \<and> (c1, s1) = (c, s))
      \<or> (length evs \<le> 1 \<and> makes_request (service_manager e ce L) name (c, s) (c1, s1)))"
    using script_call_asks [where N = N and L = L and m = "service_manager e ce L" and name = name and lid = lid
        and argv = argv and w = "(c, s)"] assms(4)
    by (simp add: out)
  then show thesis
    using that service_manager_serves [OF assms(1) assms(2) api_native assms(3)]
    by (fastforce simp: makes_request_def out simp del: serve.simps)
qed

text \<open>C3: scripts reach the service only through its requests.  Whatever program of calls runs on the whole
  stack, with any names and arguments and whoever calls, the service ends in the state that a list of
  requests leaves, served one after the other: one request at most for each call, in the order of the calls,
  with the identity of its caller and of the kind its name says.  In particular a reachable service stays
  reachable, so no script can break what holds in every reachable state.\<close>

theorem scripts_act_by_requests:
  assumes "ipc_laws L content" and "fst (GetProxy ce c) = Some p"
    and "\<forall>(e, name, lid, argv) \<in> set calls. \<forall>rq. api_name rq = name \<longrightarrow> sendable e L rq"
  shows "\<exists>outs c' asked. run_script N ce L calls (c, s) = (outs, c', serve_all asked s)
    \<and> length outs = length calls
    \<and> subseq (map (\<lambda>(e, rq). (e, api_name rq)) asked) (map call_name calls)
    \<and> (service_reachable s \<longrightarrow> service_reachable (serve_all asked s))"
proof -
  have "\<exists>outs c' asked. run_script N ce L calls (c, s) = (outs, c', serve_all asked s)
    \<and> length outs = length calls
    \<and> subseq (map (\<lambda>(e, rq). (e, api_name rq)) asked) (map call_name calls)"
    using assms(2,3)
  proof (induction calls arbitrary: c s)
    case Nil
    have "serve_all [] s = s" by (simp add: serve_all_def)
    then show ?case by (intro exI [of _ "[]"] exI [of _ c] conjI) simp_all
  next
    case (Cons call calls)
    obtain e name lid argv where call: "call = (e, name, lid, argv)" by (metis prod.exhaust)
    have sendable: "\<And>rq. api_name rq = name \<Longrightarrow> sendable e L rq"
      and rest: "\<forall>(e, name, lid, argv) \<in> set calls. \<forall>rq. api_name rq = name \<longrightarrow> sendable e L rq"
      using Cons.prems(2) by (auto simp: call)
    note IH = Cons.IH [OF _ rest]
    show ?case
    proof (cases "script_call N L (service_manager e ce L) name lid argv (c, s)")
      case None
      with IH [OF Cons.prems(1), of s] show ?thesis
        by (fastforce simp: call intro: subseq_Cons')
    next
      case (Some r)
      then obtain out c1 s1 where r: "script_call N L (service_manager e ce L) name lid argv (c, s) = Some (out, c1, s1)"
        by (metis prod.exhaust)
      show ?thesis
      proof (rule script_call_serves [OF assms(1) sendable Cons.prems(1) r])
        assume "c1 = c" "s1 = s"
        with IH [OF Cons.prems(1), of s] r show ?thesis by (fastforce simp: call intro: subseq_Cons')
      next
        fix rq assume rq: "api_name rq = name" "s1 = snd (serve e rq s)" "fst (GetProxy ce c1) = Some p"
        obtain outs c' asked where run: "run_script N ce L calls (c1, s1) = (outs, c', serve_all asked s1)"
          "length outs = length calls"
          "subseq (map (\<lambda>(e, rq). (e, api_name rq)) asked) (map call_name calls)"
          using IH [OF rq(3), of s1] by blast
        then show ?thesis
          using r rq(1,2)
          by (intro exI [of _ "Some out # outs"] exI [of _ c'] exI [of _ "(e, rq) # asked"])
            (simp add: call serve_all_Cons del: serve.simps)
      qed
    qed
  qed
  then show ?thesis using serve_all_reachable by blast
qed

definition sample_calls :: "(sample_store, js_value) invocation list" where
  "sample_calls = [(sample_env, ''unlock'', 9, []), (sample_env, ''isDeviceLocked'', 1, [JsString ''x'']),
     (sample_env, ''setScreenLockAuthState'', 2, [JsNumber 4, JsNumber 100, JsBytes [1]])]"

theorem scripts_act_by_requests_witness:
  "service_reachable (snd (snd (run_script sample_napi sample_client_env sample_ipc sample_calls
     (initial_client, initial_service []))))"
proof -
  have "sendable sample_env sample_ipc rq"
    if "api_name rq \<in> {''unlock'', ''isDeviceLocked'', ''setScreenLockAuthState''}" for rq
    using that by (cases rq rule: api_name.cases) (simp_all add: sendable_def code_supported_def sample_ipc_def)
  then have send: "\<forall>(e, name, lid, argv) \<in> set sample_calls. \<forall>rq. api_name rq = name \<longrightarrow> sendable e sample_ipc rq"
    by (auto simp: sample_calls_def)
  have p: "fst (GetProxy sample_client_env initial_client) = Some 7"
    by (simp add: GetProxy_cases sample_client_env_def initial_client_def)
  from scripts_act_by_requests [OF ipc_laws_sample p send, of sample_napi "initial_service []"]
  show ?thesis using service_reachable.initial [of "[]"] by fastforce
qed

end
