(* ===== verification/Async_Call.thy ===== *)
theory Async_Call
  imports Napi_Props "HOL-Library.Multiset"
begin

text \<open>
  Asynchronous calls of the N-API binding as the code makes them: \<open>AsyncCall\<close> and its \<open>Context\<close>
  (\<open>frameworks/js/napi/include/async_call.h\<close>, \<open>src/async_call.cpp\<close>), the context structures of
  \<open>napi_screenlock_ability.h\<close>, and the input, exec and output lambdas of each function of
  \<open>napi_screenlock_ability.cpp\<close>, which leave the arguments in the context and read them back on another
  thread.  \<open>Napi_Ability\<close> describes the same functions by the request they queue; both descriptions agree.
  A ledger records what is allocated and released on the way.
\<close>

section \<open>What is allocated\<close>

datatype resource =
    TheContext | TheAsyncContext | CallbackRef | SelfRef | AsyncWork
  | TheEventListener | OnCallBackData | UvWork

datatype ledger_entry = Acquired resource | Released resource

text \<open>What is live after the entries; \<open>None\<close> when something is released that is not live.\<close>

fun settle :: "ledger_entry list \<Rightarrow> resource multiset \<Rightarrow> resource multiset option" where
  "settle [] h = Some h"
| "settle (Acquired r # es) h = settle es (add_mset r h)"
| "settle (Released r # es) h = (if r \<in># h then settle es (h - {#r#}) else None)"

lemma settle_append: "settle (es @ fs) h = Option.bind (settle es h) (settle fs)"
  by (induction es h rule: settle.induct) simp_all

section \<open>Contexts\<close>

datatype napi_status = napi_ok | napi_invalid_arg | napi_generic_failure

text \<open>The members of \<open>Context\<close> that are data, and those of the structures derived from it.  Every structure
  has the two members of the first one, so it is extended where the code derives from \<open>Context\<close> again.\<close>

record context_data =
  ctxErrorInfo :: error_info
  ctxStatus :: napi_status

record AsyncScreenLockInfo = context_data +
  status :: napi_status
  allowed :: bool

record SendEventInfo = AsyncScreenLockInfo +
  param :: int
  eventInfo :: string
  flag :: bool

record ScreenLockDisableInfo = AsyncScreenLockInfo +
  disable :: bool
  disableUserId :: int

record ScreenLockAuthStatInfo = AsyncScreenLockInfo +
  authUserId :: int
  authState :: int
  authToken :: string

record ScreenLockStrongAuthInfo = AsyncScreenLockInfo +
  reasonFlag :: int
  strongUserId :: int

definition new_AsyncScreenLockInfo :: AsyncScreenLockInfo where
  "new_AsyncScreenLockInfo =
     \<lparr>ctxErrorInfo = no_error_info, ctxStatus = napi_generic_failure, status = napi_generic_failure, allowed = False\<rparr>"

definition new_SendEventInfo :: SendEventInfo where
  "new_SendEventInfo =
     AsyncScreenLockInfo.extend new_AsyncScreenLockInfo (SendEventInfo.fields 0 '''' False)"

definition new_ScreenLockDisableInfo :: ScreenLockDisableInfo where
  "new_ScreenLockDisableInfo =
     AsyncScreenLockInfo.extend new_AsyncScreenLockInfo (ScreenLockDisableInfo.fields False (- 1))"

definition new_ScreenLockAuthStatInfo :: ScreenLockAuthStatInfo where
  "new_ScreenLockAuthStatInfo =
     AsyncScreenLockInfo.extend new_AsyncScreenLockInfo (ScreenLockAuthStatInfo.fields (- 1) (- 1) '''')"

definition new_ScreenLockStrongAuthInfo :: ScreenLockStrongAuthInfo where
  "new_ScreenLockStrongAuthInfo =
     AsyncScreenLockInfo.extend new_AsyncScreenLockInfo (ScreenLockStrongAuthInfo.fields (- 1) (- 1))"

definition SetErrorInfo :: "error_info \<Rightarrow> 'x context_data_scheme \<Rightarrow> 'x context_data_scheme" where
  "SetErrorInfo errorInfo c = c\<lparr>ctxErrorInfo := errorInfo\<rparr>"

definition SetStatus :: "napi_status \<Rightarrow> 'x context_data_scheme \<Rightarrow> 'x context_data_scheme" where
  "SetStatus st c = c\<lparr>ctxStatus := st\<rparr>"

text \<open>The actions; the lambdas capture their context, so they are functions of its data.\<close>

type_synonym ('v, 'c) InputAction = "nat \<Rightarrow> 'v list \<Rightarrow> 'c \<Rightarrow> (js_throw option \<times> napi_status) \<times> 'c"
type_synonym 'c OutputAction = "'c \<Rightarrow> napi_status \<times> js_out option"
type_synonym ('w, 'c) ExecAction = "'c \<Rightarrow> 'w \<Rightarrow> 'c \<times> 'w"

record ('v, 'w, 'c) Context =
  inputAction :: "('v, 'c) InputAction option"
  outputAction :: "'c OutputAction option"
  execAction :: "('w, 'c) ExecAction option"
  contextData :: 'c

definition SetAction ::
  "('v, 'c) InputAction option \<Rightarrow> 'c OutputAction option \<Rightarrow> ('v, 'w, 'c) Context \<Rightarrow> ('v, 'w, 'c) Context"
where
  "SetAction input output c = c\<lparr>inputAction := input, outputAction := output\<rparr>"

definition new_Context :: "'c \<Rightarrow> ('v, 'w, 'c) Context" where
  "new_Context c = \<lparr>inputAction = None, outputAction = None, execAction = None, contextData = c\<rparr>"

text \<open>The two call operators; \<open>selfv\<close> tells whether the engine gave a receiver.\<close>

definition Context_input ::
  "nat \<Rightarrow> 'v list \<Rightarrow> bool \<Rightarrow> ('v, 'w, 'c) Context \<Rightarrow> (js_throw option \<times> napi_status) \<times> ('v, 'w, 'c) Context"
where
  "Context_input argc argv selfv c =
     (case inputAction c of
        None \<Rightarrow> ((None, napi_ok), c)
      | Some f \<Rightarrow>
          if \<not> selfv then ((Some (AssertError ''self is nullptr''), napi_invalid_arg), c)
          else let (r, d) = f argc argv (contextData c) in (r, c\<lparr>contextData := d\<rparr>))"

definition Context_output :: "('v, 'w, 'x context_data_scheme) Context \<Rightarrow> napi_status \<times> js_out option" where
  "Context_output c =
     (case outputAction c of
        None \<Rightarrow> (napi_ok, None)
      | Some f \<Rightarrow> if ctxStatus (contextData c) \<noteq> napi_ok then (ctxStatus (contextData c), None) else f (contextData c))"

definition Context_Exec :: "('v, 'w, 'c) Context \<Rightarrow> 'w \<Rightarrow> ('v, 'w, 'c) Context \<times> 'w" where
  "Context_Exec c w =
     (case execAction c of None \<Rightarrow> (c, w) | Some f \<Rightarrow> let (d, w1) = f (contextData c) w in (c\<lparr>contextData := d\<rparr>, w1))"

section \<open>The call\<close>

record ('v, 'w, 'c) AsyncContext =
  ctx :: "('v, 'w, 'c) Context option"
  callback :: "'v option"
  self :: bool
  deferred :: bool
  work :: bool

definition ASYNC_DEFAULT_POS :: nat where "ASYNC_DEFAULT_POS = 2 ^ 64 - 1"

text \<open>The callback among the arguments, and how many arguments are left for the input action.\<close>

definition callback_argument :: "'v napi \<Rightarrow> 'v list \<Rightarrow> nat \<Rightarrow> 'v option \<times> nat" where
  "callback_argument N argv pos =
     (let argc = length argv;
          pos1 = (if pos = ASYNC_DEFAULT_POS then (argc + 2 ^ 64 - 1) mod 2 ^ 64 else pos)
      in if pos1 < argc \<and> jsTypeof N (argv ! pos1) = Some JsFunctionT then (Some (argv ! pos1), pos1) else (None, argc))"

text \<open>
  The constructor.  When the input action refuses, the context is not stored; the macro around it throws the
  last error of the engine only when nothing has been thrown yet, and every action that refuses has thrown.
\<close>

definition AsyncCall_new ::
  "'v napi \<Rightarrow> 'v list \<Rightarrow> bool \<Rightarrow> ('v, 'w, 'c) Context option \<Rightarrow> nat
     \<Rightarrow> js_throw option \<times> ('v, 'w, 'c) AsyncContext \<times> ledger_entry list"
where
  "AsyncCall_new N argv selfv context pos =
     (let (cb, argc) = callback_argument N argv pos;
          ac = \<lparr>ctx = None, callback = cb, self = False, deferred = False, work = False\<rparr>;
          es = Acquired TheAsyncContext # (if cb \<noteq> None then [Acquired CallbackRef] else [])
      in case context of
           None \<Rightarrow> (None, ac, es)
         | Some c \<Rightarrow>
             let ((thrown, st), c1) = Context_input argc argv selfv c
             in if st \<noteq> napi_ok then (thrown, ac, es)
                else (thrown, ac\<lparr>ctx := Some c1, self := True\<rparr>, es @ [Acquired SelfRef]))"

definition AsyncContext_delete :: "('v, 'w, 'c) AsyncContext \<Rightarrow> ledger_entry list" where
  "AsyncContext_delete ac =
     (if callback ac \<noteq> None then [Released CallbackRef] else [])
     @ (if self ac then [Released SelfRef] else [])
     @ (if work ac then [Released AsyncWork] else [])
     @ (if ctx ac \<noteq> None then [Released TheContext] else [])
     @ [Released TheAsyncContext]"

text \<open>\<open>context_\<close> is given up by a call that is queued, and deleted with the object otherwise.\<close>

definition AsyncCall_delete :: "('v, 'w, 'c) AsyncContext option \<Rightarrow> ledger_entry list" where
  "AsyncCall_delete held = (case held of None \<Rightarrow> [] | Some ac \<Rightarrow> AsyncContext_delete ac)"

definition AsyncCall_Call ::
  "('w, 'c) ExecAction option \<Rightarrow> ('v, 'w, 'c) AsyncContext option
     \<Rightarrow> js_out option \<times> ('v, 'w, 'c) AsyncContext option \<times> ('v, 'w, 'c) AsyncContext option \<times> ledger_entry list"
where
  "AsyncCall_Call exec held =
     (case held of
        None \<Rightarrow> (None, None, None, [])
      | Some ac \<Rightarrow>
          case ctx ac of
            None \<Rightarrow> (None, Some ac, None, [])
          | Some c \<Rightarrow>
              (Some (if callback ac = None then OutPromise else OutUndefined), None,
               Some (ac\<lparr>ctx := Some (c\<lparr>execAction := exec\<rparr>), deferred := callback ac = None, work := True\<rparr>),
               [Acquired AsyncWork]))"

definition AsyncCall_OnExecute :: "('v, 'w, 'c) AsyncContext \<Rightarrow> 'w \<Rightarrow> (('v, 'w, 'c) AsyncContext \<times> 'w) option" where
  "AsyncCall_OnExecute ac w =
     (case ctx ac of None \<Rightarrow> None | Some c \<Rightarrow> let (c1, w1) = Context_Exec c w in Some (ac\<lparr>ctx := Some c1\<rparr>, w1))"

text \<open>\<open>None\<close> is the access to a context that is not there.\<close>

definition AsyncCall_OnComplete ::
  "napi_status \<Rightarrow> ('v, 'w, 'x context_data_scheme) AsyncContext \<Rightarrow> ('v js_event \<times> ledger_entry list) option"
where
  "AsyncCall_OnComplete st ac =
     (case ctx ac of
        None \<Rightarrow> None
      | Some c \<Rightarrow>
          let (runStatus, output) = Context_output c;
              ok = (st = napi_ok \<and> runStatus = napi_ok);
              data = (if ok then case output of Some v \<Rightarrow> v | None \<Rightarrow> OutUndefined else OutUndefined);
              err = (if ok then OutNull else GenerateBusinessError (ctxErrorInfo (contextData c)))
          in if deferred ac then Some (if ok then Resolved data else Rejected err, AsyncContext_delete ac)
             else case callback ac of
                    None \<Rightarrow> None
                  | Some f \<Rightarrow> Some (Called f err data, AsyncContext_delete ac))"

text \<open>A call that is executed at once; none of the functions makes one.\<close>

definition AsyncCall_SyncCall ::
  "('w, 'x context_data_scheme) ExecAction option \<Rightarrow> ('v, 'w, 'x context_data_scheme) AsyncContext option \<Rightarrow> 'w
     \<Rightarrow> (js_out option \<times> ('v, 'w, 'x context_data_scheme) AsyncContext option
          \<times> ('v js_event \<times> ledger_entry list) option) \<times> 'w"
where
  "AsyncCall_SyncCall exec held w =
     (case held of
        None \<Rightarrow> ((None, None, None), w)
      | Some ac \<Rightarrow>
          case ctx ac of
            None \<Rightarrow> ((None, Some ac, None), w)
          | Some c \<Rightarrow>
              let ac1 = ac\<lparr>ctx := Some (c\<lparr>execAction := exec\<rparr>), deferred := callback ac = None\<rparr>;
                  promise = Some (if callback ac = None then OutPromise else OutUndefined)
              in case AsyncCall_OnExecute ac1 w of
                   None \<Rightarrow> ((promise, None, None), w)
                 | Some (ac2, w1) \<Rightarrow> ((promise, None, AsyncCall_OnComplete napi_ok ac2), w1))"

text \<open>The scope every function opens: the context is allocated, the call is made, and the object goes away.\<close>

definition async_call ::
  "'v napi \<Rightarrow> 'v list \<Rightarrow> bool \<Rightarrow> ('v, 'w, 'c) Context \<Rightarrow> nat \<Rightarrow> ('w, 'c) ExecAction
     \<Rightarrow> sync_result \<times> ('v, 'w, 'c) AsyncContext option \<times> ledger_entry list"
where
  "async_call N argv selfv context pos exec =
     (let (thrown, ac, es) = AsyncCall_new N argv selfv (Some context) pos;
          (ret, held, queued, fs) = AsyncCall_Call (Some exec) (Some ac)
      in ((thrown, ret), queued, Acquired TheContext # es @ fs @ AsyncCall_delete held))"

text \<open>The queued work: executed, then completed.\<close>

definition async_run ::
  "napi_status \<Rightarrow> ('v, 'w, 'x context_data_scheme) AsyncContext \<Rightarrow> 'w \<Rightarrow> (('v js_event \<times> ledger_entry list) \<times> 'w) option"
where
  "async_run st ac w =
     (case AsyncCall_OnExecute ac w of
        None \<Rightarrow> None
      | Some (ac1, w1) \<Rightarrow> (case AsyncCall_OnComplete st ac1 of None \<Rightarrow> None | Some r \<Rightarrow> Some (r, w1)))"


section \<open>The functions\<close>

text \<open>The output lambda all of them have.\<close>

definition allowed_output :: "'x AsyncScreenLockInfo_scheme OutputAction" where
  "allowed_output c = (napi_ok, Some (OutBool (allowed c)))"

text \<open>The exec lambda of a change: \<open>call\<close> is the call of the manager with what the context holds.\<close>

definition change_exec :: "'m ipc \<Rightarrow> 'w manager \<Rightarrow> ('x AsyncScreenLockInfo_scheme \<Rightarrow> request) \<Rightarrow> ('w, 'x AsyncScreenLockInfo_scheme) ExecAction" where
  "change_exec L manager call c w =
     (let ((retCode, _), w1) = manager (call c) w
      in if \<not> status_is_ok L retCode
         then let errInfo = GetErrorInfo L retCode (no_error_info\<lparr>errorCode := retCode mod 2 ^ 32\<rparr>)
              in ((SetErrorInfo errInfo c)\<lparr>allowed := False\<rparr>, w1)
         else ((SetStatus napi_ok c)\<lparr>allowed := True\<rparr>, w1))"

definition query_exec :: "'w manager \<Rightarrow> request \<Rightarrow> ('w, 'x AsyncScreenLockInfo_scheme) ExecAction" where
  "query_exec manager rq c w =
     (let ((_, out), w1) = manager rq w in (SetStatus napi_ok (c\<lparr>allowed := out_bool False out\<rparr>), w1))"

definition IsScreenLocked_input :: "('v, AsyncScreenLockInfo) InputAction" where
  "IsScreenLocked_input argc argv c =
     (if argc = 0 \<or> argc = 1 then ((None, napi_ok), c)
      else ((Some (AssertError '' should 0 or 1 parameters!''), napi_invalid_arg), c))"

definition Async_IsScreenLocked ::
  "'v napi \<Rightarrow> 'w manager \<Rightarrow> 'v list \<Rightarrow> bool \<Rightarrow> sync_result \<times> ('v, 'w, AsyncScreenLockInfo) AsyncContext option \<times> ledger_entry list"
where
  "Async_IsScreenLocked N manager argv selfv =
     (let context = SetAction (Some IsScreenLocked_input) (Some allowed_output) (new_Context new_AsyncScreenLockInfo)
      in async_call N argv selfv context 0 (query_exec manager Req_IsScreenLocked))"

definition IsSecureMode_input :: "('v, AsyncScreenLockInfo) InputAction" where
  "IsSecureMode_input argc argv c = ((None, napi_ok), c)"

definition Async_IsSecureMode ::
  "'v napi \<Rightarrow> 'w manager \<Rightarrow> 'v list \<Rightarrow> bool \<Rightarrow> sync_result \<times> ('v, 'w, AsyncScreenLockInfo) AsyncContext option \<times> ledger_entry list"
where
  "Async_IsSecureMode N manager argv selfv =
     (let context = SetAction (Some IsSecureMode_input) (Some allowed_output) (new_Context new_AsyncScreenLockInfo)
      in async_call N argv selfv context 0 (query_exec manager Req_GetSecure))"

definition ScreenLockSendEvent_input :: "'v napi \<Rightarrow> ('v, SendEventInfo) InputAction" where
  "ScreenLockSendEvent_input N argc argv c =
     (if \<not> CheckParamNumber argc 2
      then ((Some (typed_error ''The number of parameters should 2''), napi_invalid_arg), c)
      else if \<not> CheckParamType N (argv ! 0) JsStringT
      then ((Some (typed_error (type_message ''event'' ''string'')), napi_invalid_arg), c)
      else let c1 = c\<lparr>eventInfo := read_buffer N (argv ! 0)\<rparr>
           in if \<not> IsValidEvent (eventInfo c1) then ((Some parameter_error, napi_invalid_arg), c1)
              else if \<not> CheckParamType N (argv ! 1) JsNumberT then ((Some parameter_error, napi_invalid_arg), c1)
              else ((None, napi_ok), c1\<lparr>param := int32_or N (argv ! 1) (param c1)\<rparr>))"

definition Async_ScreenLockSendEvent ::
  "'v napi \<Rightarrow> 'm ipc \<Rightarrow> 'w manager \<Rightarrow> 'v list \<Rightarrow> bool \<Rightarrow> sync_result \<times> ('v, 'w, SendEventInfo) AsyncContext option \<times> ledger_entry list"
where
  "Async_ScreenLockSendEvent N L manager argv selfv =
     (let context = SetAction (Some (ScreenLockSendEvent_input N)) (Some allowed_output) (new_Context new_SendEventInfo)
      in async_call N argv selfv context 2
           (change_exec L manager (\<lambda>c. Req_SendScreenLockEvent (eventInfo c) (param c))))"

definition SetScreenLockDisabled_input :: "'v napi \<Rightarrow> ('v, ScreenLockDisableInfo) InputAction" where
  "SetScreenLockDisabled_input N argc argv c =
     (if \<not> CheckParamNumber argc 2
      then ((Some (typed_error ''The number of parameters should be at least 2''), napi_invalid_arg), c)
      else if \<not> CheckParamType N (argv ! 0) JsBooleanT
      then ((Some (typed_error (type_message ''disable'' ''boolean'')), napi_invalid_arg), c)
      else let c1 = c\<lparr>disable := bool_or N (argv ! 0) (disable c)\<rparr>
           in if \<not> CheckParamType N (argv ! 1) JsNumberT
              then ((Some (typed_error (type_message ''userId'' ''number'')), napi_invalid_arg), c1)
              else ((None, napi_ok), c1\<lparr>disableUserId := int32_or N (argv ! 1) (disableUserId c1)\<rparr>))"

definition Async_SetScreenLockDisabled ::
  "'v napi \<Rightarrow> 'm ipc \<Rightarrow> 'w manager \<Rightarrow> 'v list \<Rightarrow> bool \<Rightarrow> sync_result \<times> ('v, 'w, ScreenLockDisableInfo) AsyncContext option \<times> ledger_entry list"
where
  "Async_SetScreenLockDisabled N L manager argv selfv =
     (let context = SetAction (Some (SetScreenLockDisabled_input N)) (Some allowed_output)
            (new_Context new_ScreenLockDisableInfo)
      in async_call N argv selfv context 2
           (change_exec L manager (\<lambda>c. Req_SetScreenLockDisabled (disable c) (disableUserId c))))"

definition SetScreenLockAuthState_input :: "'v napi \<Rightarrow> ('v, ScreenLockAuthStatInfo) InputAction" where
  "SetScreenLockAuthState_input N argc argv c =
     (if \<not> CheckParamNumber argc 3 then ((Some parameter_error, napi_invalid_arg), c)
      else if \<not> CheckParamType N (argv ! 0) JsNumberT then ((Some parameter_error, napi_invalid_arg), c)
      else let c1 = c\<lparr>authState := int32_or N (argv ! 0) (authState c)\<rparr>
           in if \<not> CheckParamType N (argv ! 1) JsNumberT then ((Some parameter_error, napi_invalid_arg), c1)
              else let c2 = c1\<lparr>authUserId := int32_or N (argv ! 1) (authUserId c1)\<rparr>
                   in if \<not> CheckParamArrayType N (argv ! 2) then ((Some parameter_error, napi_invalid_arg), c2)
                      else ((None, napi_ok), c2\<lparr>authToken := read_buffer N (argv ! 2)\<rparr>))"

definition Async_SetScreenLockAuthState ::
  "'v napi \<Rightarrow> 'm ipc \<Rightarrow> 'w manager \<Rightarrow> 'v list \<Rightarrow> bool \<Rightarrow> sync_result \<times> ('v, 'w, ScreenLockAuthStatInfo) AsyncContext option \<times> ledger_entry list"
where
  "Async_SetScreenLockAuthState N L manager argv selfv =
     (let context = SetAction (Some (SetScreenLockAuthState_input N)) (Some allowed_output)
            (new_Context new_ScreenLockAuthStatInfo)
      in async_call N argv selfv context 3
           (change_exec L manager (\<lambda>c. Req_SetAuthState (authState c) (authUserId c) (authToken c))))"

definition RequestStrongAuth_input :: "'v napi \<Rightarrow> ('v, ScreenLockStrongAuthInfo) InputAction" where
  "RequestStrongAuth_input N argc argv c =
     (if \<not> CheckParamNumber argc 2 then ((Some parameter_error, napi_invalid_arg), c)
      else if \<not> CheckParamType N (argv ! 0) JsNumberT then ((Some parameter_error, napi_invalid_arg), c)
      else let c1 = c\<lparr>reasonFlag := int32_or N (argv ! 0) (reasonFlag c)\<rparr>
           in if \<not> CheckParamType N (argv ! 1) JsNumberT then ((Some parameter_error, napi_invalid_arg), c1)
              else ((None, napi_ok), c1\<lparr>strongUserId := int32_or N (argv ! 1) (strongUserId c1)\<rparr>))"

definition Async_RequestStrongAuth ::
  "'v napi \<Rightarrow> 'm ipc \<Rightarrow> 'w manager \<Rightarrow> 'v list \<Rightarrow> bool \<Rightarrow> sync_result \<times> ('v, 'w, ScreenLockStrongAuthInfo) AsyncContext option \<times> ledger_entry list"
where
  "Async_RequestStrongAuth N L manager argv selfv =
     (let context = SetAction (Some (RequestStrongAuth_input N)) (Some allowed_output)
            (new_Context new_ScreenLockStrongAuthInfo)
      in async_call N argv selfv context 3
           (change_exec L manager (\<lambda>c. Req_RequestStrongAuth (reasonFlag c) (strongUserId c))))"

end
