(* ===== verification/Async_Props.thy ===== *)
theory Async_Props
  imports Async_Call
begin

text \<open>
  The two descriptions of the asynchronous functions agree: what the lambdas of \<open>Async_Call\<close> do through
  their context is what \<open>Napi_Ability\<close> says of the request they queue.  A locale states what the lambdas of
  one function owe to that description; each function interprets it.  The second half is the ledger: a call
  that is queued settles once and releases everything it allocated, and a refused one keeps its context.
\<close>

section \<open>One function\<close>

text \<open>A queued call does what the queued request does: the same event for the script, the same effect.\<close>

definition same_work ::
  "'m ipc \<Rightarrow> 'w manager \<Rightarrow> ('v, 'w, 'x context_data_scheme) AsyncContext option \<Rightarrow> ('v option \<times> async_work) option \<Rightarrow> bool"
where
  "same_work L m q q' \<longleftrightarrow>
     (case (q, q') of
        (None, None) \<Rightarrow> True
      | (Some ac, Some (cb, wk)) \<Rightarrow>
          \<forall>w. map_option (\<lambda>((ev, _), w1). (ev, w1)) (async_run napi_ok ac w)
            = Some (OnComplete cb (fst (OnExecute L m wk w)), snd (OnExecute L m wk w))
      | _ \<Rightarrow> False)"

definition same_call ::
  "'m ipc \<Rightarrow> 'w manager \<Rightarrow> sync_result \<times> ('v, 'w, 'x context_data_scheme) AsyncContext option \<times> ledger_entry list
     \<Rightarrow> sync_result \<times> ('v option \<times> async_work) option \<Rightarrow> bool"
where
  "same_call L m c c' \<longleftrightarrow> fst c = fst c' \<and> same_work L m (fst (snd c)) (snd c')"

text \<open>What exec leaves in the context, against the result of the queued request.\<close>

definition same_result :: "'x AsyncScreenLockInfo_scheme \<Rightarrow> exec_result \<Rightarrow> bool" where
  "same_result c r \<longleftrightarrow> (ctxStatus c = napi_ok \<longleftrightarrow> execOk r)
     \<and> (execOk r \<longrightarrow> allowed c = execAllowed r) \<and> (\<not> execOk r \<longrightarrow> ctxErrorInfo c = execError r)"

text \<open>What a call makes of its callback and of the answer of the input action.\<close>

lemma async_call_eq:
  assumes "callback_argument N argv pos = (cb, n)" and "Context_input n argv selfv c = ((t, st), c1)"
  shows "async_call N argv selfv c pos exec =
     (if st = napi_ok
      then ((t, Some (if cb = None then OutPromise else OutUndefined)),
        Some \<lparr>ctx = Some (c1\<lparr>execAction := Some exec\<rparr>), callback = cb, self = True, deferred = cb = None, work = True\<rparr>,
        [Acquired TheContext, Acquired TheAsyncContext] @ (if cb \<noteq> None then [Acquired CallbackRef] else [])
          @ [Acquired SelfRef, Acquired AsyncWork])
      else ((t, None), None,
        [Acquired TheContext, Acquired TheAsyncContext]
          @ (if cb \<noteq> None then [Acquired CallbackRef, Released CallbackRef] else []) @ [Released TheAsyncContext]))"
  using assms
  by (simp add: async_call_def AsyncCall_new_def AsyncCall_Call_def AsyncCall_delete_def AsyncContext_delete_def Let_def)

lemma AsyncCall_start_eq:
  assumes "callback_argument N argv pos = (cb, n)" and "pos \<noteq> ASYNC_DEFAULT_POS"
  shows "AsyncCall_start N pos request_input argv =
     (case request_input n argv of
        (t, None) \<Rightarrow> ((t, None), None)
      | (t, Some wk) \<Rightarrow> ((t, Some (if cb = None then OutPromise else OutUndefined)), Some (cb, wk)))"
  using assms by (auto simp: callback_argument_def AsyncCall_start_def Let_def split: if_splits prod.split option.split)

locale async_function =
  fixes N :: "'v napi" and L :: "'m ipc" and m :: "'w manager"
    and input :: "('v, 'x AsyncScreenLockInfo_scheme) InputAction"
    and info :: "'x AsyncScreenLockInfo_scheme"
    and exec :: "('w, 'x AsyncScreenLockInfo_scheme) ExecAction"
    and request_input :: "nat \<Rightarrow> 'v list \<Rightarrow> input_result"
  assumes thrown: "fst (fst (input argc argv info)) = fst (request_input argc argv)"
    and accepted: "snd (fst (input argc argv info)) = napi_ok \<longleftrightarrow> snd (request_input argc argv) \<noteq> None"
    and executed: "snd (request_input argc argv) = Some wk \<Longrightarrow>
        same_result (fst (exec (snd (input argc argv info)) w)) (fst (OnExecute L m wk w))
        \<and> snd (exec (snd (input argc argv info)) w) = snd (OnExecute L m wk w)"
begin

lemma completed:
  assumes "snd (request_input argc argv) = Some wk"
  shows "map_option (\<lambda>((ev, _), w1). (ev, w1))
      (async_run napi_ok \<lparr>ctx = Some \<lparr>inputAction = Some input, outputAction = Some allowed_output, execAction = Some exec,
          contextData = snd (input argc argv info)\<rparr>, callback = cb, self = True, deferred = cb = None, work = True\<rparr> w)
    = Some (OnComplete cb (fst (OnExecute L m wk w)), snd (OnExecute L m wk w))"
  using executed [OF assms, of w]
  by (cases "exec (snd (input argc argv info)) w"; cases cb)
    (auto simp: async_run_def AsyncCall_OnExecute_def Context_Exec_def AsyncCall_OnComplete_def Context_output_def
      OnComplete_def same_result_def allowed_output_def Let_def)

lemma agrees:
  assumes "pos \<noteq> ASYNC_DEFAULT_POS"
  shows "same_call L m
      (async_call N argv True (SetAction (Some input) (Some allowed_output) (new_Context info)) pos exec)
      (AsyncCall_start N pos request_input argv)"
proof -
  obtain cb n where cb: "callback_argument N argv pos = (cb, n)" by force
  obtain t st d1 where i: "input n argv info = ((t, st), d1)" by (metis prod.exhaust)
  obtain t' q where r: "request_input n argv = (t', q)" by force
  have "Context_input n argv True (SetAction (Some input) (Some allowed_output) (new_Context info)) = ((t, st),
      \<lparr>inputAction = Some input, outputAction = Some allowed_output, execAction = None, contextData = d1\<rparr>)"
    by (simp add: Context_input_def SetAction_def new_Context_def i)
  note call = async_call_eq [OF cb this, of exec]
  have start: "AsyncCall_start N pos request_input argv =
      (case q of None \<Rightarrow> ((t', None), None)
       | Some wk \<Rightarrow> ((t', Some (if cb = None then OutPromise else OutUndefined)), Some (cb, wk)))"
    using AsyncCall_start_eq [OF cb assms, of request_input] r by simp
  show ?thesis
    using thrown [of n argv] accepted [of n argv] completed [of n argv _ cb] i r
    by (cases q) (auto simp: call start same_call_def same_work_def)
qed

end

text \<open>The two exec lambdas, against the two kinds of queued requests.\<close>

lemma query_exec_result:
  "same_result (fst (query_exec m rq c w)) (fst (OnExecute L m (FlagWork rq) w))
   \<and> snd (query_exec m rq c w) = snd (OnExecute L m (FlagWork rq) w)"
  by (simp add: same_result_def query_exec_def OnExecute_def SetStatus_def split_beta Let_def)

lemma change_exec_result:
  assumes "ctxStatus c \<noteq> napi_ok" and "call c = rq"
  shows "same_result (fst (change_exec L m call c w)) (fst (OnExecute L m (StatusWork rq) w))
   \<and> snd (change_exec L m call c w) = snd (OnExecute L m (StatusWork rq) w)"
  using assms
  by (simp add: same_result_def change_exec_def OnExecute_def SetStatus_def SetErrorInfo_def status_error_info_def
      split_beta Let_def)

lemmas new_info_defs = new_AsyncScreenLockInfo_def new_SendEventInfo_def new_ScreenLockDisableInfo_def
  new_ScreenLockAuthStatInfo_def new_ScreenLockStrongAuthInfo_def AsyncScreenLockInfo.defs SendEventInfo.defs
  ScreenLockDisableInfo.defs ScreenLockAuthStatInfo.defs ScreenLockStrongAuthInfo.defs

lemmas async_input_defs = IsScreenLocked_input_def IsSecureMode_input_def ScreenLockSendEvent_input_def
  SetScreenLockDisabled_input_def SetScreenLockAuthState_input_def RequestStrongAuth_input_def

interpretation is_screen_locked: async_function N L m IsScreenLocked_input new_AsyncScreenLockInfo
    "query_exec m Req_IsScreenLocked" NAPI_IsScreenLocked_input for N L m
  by unfold_locales
    (auto simp: async_input_defs NAPI_IsScreenLocked_input_def query_exec_result split: if_splits)

interpretation is_secure_mode: async_function N L m IsSecureMode_input new_AsyncScreenLockInfo
    "query_exec m Req_GetSecure" "\<lambda>argc argv. (None, Some (FlagWork Req_GetSecure))" for N L m
  by unfold_locales (auto simp: async_input_defs query_exec_result)

interpretation send_event: async_function N L m "ScreenLockSendEvent_input N" new_SendEventInfo
    "change_exec L m (\<lambda>c. Req_SendScreenLockEvent (eventInfo c) (param c))" "NAPI_ScreenLockSendEvent_input N" for N L m
  by unfold_locales
    (auto simp: async_input_defs napi_input_defs new_info_defs Let_def intro!: change_exec_result split: if_splits)

interpretation set_disabled: async_function N L m "SetScreenLockDisabled_input N" new_ScreenLockDisableInfo
    "change_exec L m (\<lambda>c. Req_SetScreenLockDisabled (disable c) (disableUserId c))" "NAPI_SetScreenLockDisabled_input N"
    for N L m
  by unfold_locales
    (auto simp: async_input_defs napi_input_defs new_info_defs Let_def intro!: change_exec_result split: if_splits)

interpretation set_auth_state: async_function N L m "SetScreenLockAuthState_input N" new_ScreenLockAuthStatInfo
    "change_exec L m (\<lambda>c. Req_SetAuthState (authState c) (authUserId c) (authToken c))" "NAPI_SetScreenLockAuthState_input N"
    for N L m
  by unfold_locales
    (auto simp: async_input_defs napi_input_defs new_info_defs Let_def intro!: change_exec_result split: if_splits)

interpretation request_strong_auth: async_function N L m "RequestStrongAuth_input N" new_ScreenLockStrongAuthInfo
    "change_exec L m (\<lambda>c. Req_RequestStrongAuth (reasonFlag c) (strongUserId c))" "NAPI_RequestStrongAuth_input N"
    for N L m
  by unfold_locales
    (auto simp: async_input_defs napi_input_defs new_info_defs Let_def intro!: change_exec_result split: if_splits)

text \<open>C14: the lambdas of every asynchronous function, which pass arguments and results through a context that
  two threads use, do what the function is described to do: they throw the same, return the same, refuse the
  same arguments, and when the queued call runs, the manager is asked the same request and the script gets
  the same settled promise or the same call.\<close>

theorem asynchronous_calls_agree:
  "same_call L m (Async_IsScreenLocked N m argv True) (NAPI_IsScreenLocked N argv)
   \<and> same_call L m (Async_IsSecureMode N m argv True) (NAPI_IsSecureMode N argv)
   \<and> same_call L m (Async_ScreenLockSendEvent N L m argv True) (NAPI_ScreenLockSendEvent N argv)
   \<and> same_call L m (Async_SetScreenLockDisabled N L m argv True) (NAPI_SetScreenLockDisabled N argv)
   \<and> same_call L m (Async_SetScreenLockAuthState N L m argv True) (NAPI_SetScreenLockAuthState N argv)
   \<and> same_call L m (Async_RequestStrongAuth N L m argv True) (NAPI_RequestStrongAuth N argv)"
proof -
  have pos: "0 \<noteq> ASYNC_DEFAULT_POS" "2 \<noteq> ASYNC_DEFAULT_POS" "3 \<noteq> ASYNC_DEFAULT_POS"
    by (simp_all add: ASYNC_DEFAULT_POS_def)
  show ?thesis
    unfolding Async_IsScreenLocked_def Async_IsSecureMode_def Async_ScreenLockSendEvent_def
      Async_SetScreenLockDisabled_def Async_SetScreenLockAuthState_def Async_RequestStrongAuth_def
      NAPI_IsScreenLocked_def NAPI_IsSecureMode_def NAPI_ScreenLockSendEvent_def
      NAPI_SetScreenLockDisabled_def NAPI_SetScreenLockAuthState_def NAPI_RequestStrongAuth_def
    unfolding Let_def [of "SetAction _ _ _"]
    using pos by (intro conjI is_screen_locked.agrees is_secure_mode.agrees send_event.agrees set_disabled.agrees
        set_auth_state.agrees request_strong_auth.agrees)
qed

section \<open>What a call releases\<close>

lemma run_settles:
  fixes c :: "('v, 'w, 'x context_data_scheme) Context"
  shows "\<exists>ev fs w1. async_run st \<lparr>ctx = Some c, callback = cb, self = True, deferred = cb = None, work = True\<rparr> w
        = Some ((ev, fs), w1)
      \<and> settle fs ({#TheContext, TheAsyncContext, SelfRef, AsyncWork#} + (if cb \<noteq> None then {#CallbackRef#} else {#})) = Some {#}"
  by (cases cb)
    (simp_all add: async_run_def AsyncCall_OnExecute_def AsyncCall_OnComplete_def AsyncContext_delete_def split_beta Let_def)

text \<open>C22: an asynchronous call gives back what it takes.  A call that is queued returns a promise or
  undefined, and when it has run, whatever the engine says of the work, the script has been told exactly once
  and the context, the references and the work have each been released exactly once.  A call that is
  refused, for its arguments or for want of a receiver, returns nothing and never releases its context: each
  refused call leaks one.\<close>

theorem async_call_releases:
  fixes exec :: "('w, 'x context_data_scheme) ExecAction" and argv :: "'v list"
  shows "let context = SetAction (Some input) (Some output) (new_Context info);
       ((t, ret), queued, es) = async_call N argv selfv context pos exec
   in (case queued of
         None \<Rightarrow> ret = None \<and> settle es {#} = Some {#TheContext#}
       | Some ac \<Rightarrow> ret \<in> {Some OutPromise, Some OutUndefined}
           \<and> (\<exists>ev fs w1. async_run st ac w = Some ((ev, fs), w1) \<and> settle (es @ fs) {#} = Some {#}))"
proof -
  let ?c = "SetAction (Some input) (Some output) (new_Context info) :: ('v, 'w, 'x context_data_scheme) Context"
  obtain cb n where cb: "callback_argument N argv pos = (cb, n)" by force
  obtain t st' c1 where i: "Context_input n argv selfv ?c = ((t, st'), c1)" by (metis prod.exhaust)
  show ?thesis
    using run_settles [of st "c1\<lparr>execAction := Some exec\<rparr>" cb w]
    by (auto simp: async_call_eq [OF cb i] settle_append add_mset_commute)
qed

end
