(* ===== verification/Script_Resources.thy ===== *)
theory Script_Resources
  imports Async_Props Ani_Ability
begin

text \<open>
  What a lock or unlock of a script allocates and releases on its way: the listener structure, the work of
  the engine, the reference to the callback, and the data and work of the event loop that carry the answer
  (\<open>AsyncCallFunc\<close>, \<open>CompleteAsyncWork\<close> of \<open>napi_screenlock_ability.cpp\<close>, \<open>uv_queue.cpp\<close>,
  \<open>screenlock_callback.cpp\<close>), and the reference a listener for system events holds in both bindings.
  Each step that can fail is a field of \<open>engine\<close>.
\<close>

section \<open>The event loop\<close>

record engine =
  listenerAllocated :: bool
  workQueued :: bool
  callbackAllocated :: bool
  dataAllocated :: bool
  loopFound :: bool
  uvWorkAllocated :: bool
  uvQueued :: bool
  scopeOpened :: bool

definition healthy :: "engine \<Rightarrow> bool" where
  "healthy U \<longleftrightarrow> listenerAllocated U \<and> workQueued U \<and> callbackAllocated U \<and> dataAllocated U
     \<and> loopFound U \<and> uvWorkAllocated U \<and> uvQueued U \<and> scopeOpened U"

definition UvQueue_Call :: "engine \<Rightarrow> bool \<times> ledger_entry list" where
  "UvQueue_Call U =
     (if \<not> loopFound U then (False, [Released OnCallBackData])
      else if \<not> uvWorkAllocated U then (False, [Released OnCallBackData])
      else if \<not> uvQueued U then (False, [Acquired UvWork, Released OnCallBackData, Released UvWork])
      else (True, [Acquired UvWork]))"

text \<open>The work may be null, and so may its data.\<close>

definition ScopeStatusCheck :: "engine \<Rightarrow> 'd option option \<Rightarrow> 'd option \<times> ledger_entry list" where
  "ScopeStatusCheck U uvWork =
     (case uvWork of
        None \<Rightarrow> (None, [])
      | Some None \<Rightarrow> (None, [Released UvWork])
      | Some (Some data) \<Rightarrow>
          if \<not> scopeOpened U then (None, [Released OnCallBackData, Released UvWork]) else (Some data, []))"

type_synonym 'v callback_data = "'v lock_listener \<times> error_info \<times> int"

definition UvWork_run :: "engine \<Rightarrow> 'v callback_data option option \<Rightarrow> 'v js_event list \<times> ledger_entry list" where
  "UvWork_run U uvWork =
     (case ScopeStatusCheck U uvWork of
        (None, es) \<Rightarrow> ([], es)
      | (Some (listener, errorInfo, screenLockResult), es) \<Rightarrow>
          ([UvWorkOnCallBack listener errorInfo screenLockResult],
           es @ (if fst listener \<noteq> None then [Released CallbackRef] else [])
              @ [Released OnCallBackData, Released UvWork]))"

definition OnCallBack_queue ::
  "engine \<Rightarrow> 'v lock_listener \<Rightarrow> error_info \<Rightarrow> int \<Rightarrow> 'v callback_data option \<times> ledger_entry list"
where
  "OnCallBack_queue U listener errorInfo screenLockResult =
     (if \<not> dataAllocated U then (None, [])
      else let errorInfo1 =
                 (if screenLockResult = screen_change_code SCREEN_CANCEL then errorInfo\<lparr>message := CANCEL_UNLOCK_OPERATION\<rparr>
                  else if screenLockResult = screen_change_code SCREEN_FAIL then errorInfo\<lparr>message := SCREENLOCK_FAIL\<rparr>
                  else errorInfo);
               (bRet, es) = UvQueue_Call U
           in (if bRet then Some (listener, errorInfo1, screenLockResult) else None, Acquired OnCallBackData # es))"

text \<open>An answer on its way to the script: put on the loop, then run by it.\<close>

definition answer :: "engine \<Rightarrow> 'v lock_listener \<Rightarrow> error_info \<Rightarrow> int \<Rightarrow> 'v js_event list \<times> ledger_entry list" where
  "answer U listener errorInfo screenLockResult =
     (case OnCallBack_queue U listener errorInfo screenLockResult of
        (None, es) \<Rightarrow> ([], es)
      | (Some data, es) \<Rightarrow> let (evs, fs) = UvWork_run U (Some (Some data)) in (evs, es @ fs))"

section \<open>The call\<close>

text \<open>\<open>NAPI_Lock\<close>, \<open>NAPI_Unlock\<close> and \<open>NAPI_UnlockScreen\<close> up to the listener they make.\<close>

definition new_listener :: "engine \<Rightarrow> 'v lock_listener \<Rightarrow> 'v lock_listener option \<times> ledger_entry list" where
  "new_listener U listener =
     (let es = (if fst listener \<noteq> None then [Acquired CallbackRef] else [])
      in if \<not> listenerAllocated U then (None, es) else (Some listener, es @ [Acquired TheEventListener]))"

definition CompleteAsyncWork :: "'v lock_listener option \<Rightarrow> bool \<Rightarrow> ledger_entry list" where
  "CompleteAsyncWork eventListener workMade =
     (if eventListener = None then []
      else (if workMade then [Released AsyncWork] else []) @ [Released TheEventListener])"

definition AsyncCallFunc_execute ::
  "engine \<Rightarrow> 'm ipc \<Rightarrow> 'w manager \<Rightarrow> nat \<Rightarrow> 'v lock_listener option \<Rightarrow> 'w
     \<Rightarrow> ('v js_event list \<times> ledger_entry list) \<times> 'w"
where
  "AsyncCallFunc_execute U L manager lid eventListener w =
     (case eventListener of
        None \<Rightarrow> (([], []), w)
      | Some listener \<Rightarrow>
          if \<not> callbackAllocated U then (([], if fst listener \<noteq> None then [Released CallbackRef] else []), w)
          else let ((status, _), w1) =
                     (case snd listener of
                        ACTION_LOCK \<Rightarrow> manager (Req_Lock lid) w
                      | ACTION_UNLOCK \<Rightarrow> manager (Req_Unlock lid) w
                      | ACTION_UNLOCKSCREEN \<Rightarrow> manager (Req_UnlockScreen lid) w)
               in if \<not> status_is_ok L status
                  then let errInfo = GetErrorInfo L status (no_error_info\<lparr>errorCode := status mod 2 ^ 32\<rparr>)
                       in (answer U listener errInfo status, w1)
                  else (([], []), w1))"

definition lock_call ::
  "engine \<Rightarrow> 'm ipc \<Rightarrow> 'w manager \<Rightarrow> nat \<Rightarrow> 'v lock_listener \<Rightarrow> 'w
     \<Rightarrow> ('v js_event list \<times> ledger_entry list) \<times> 'w"
where
  "lock_call U L manager lid listener w =
     (case new_listener U listener of
        (None, es) \<Rightarrow> (([], es), w)
      | (Some li, es) \<Rightarrow>
          let es1 = es @ [Acquired AsyncWork]
          in if \<not> workQueued U then (([], es1 @ CompleteAsyncWork (Some li) True), w)
             else let ((evs, fs), w1) = AsyncCallFunc_execute U L manager lid (Some li) w
                  in ((evs, es1 @ fs @ CompleteAsyncWork (Some li) True), w1))"

section \<open>What it releases\<close>

abbreviation callback_kept :: "'v lock_listener \<Rightarrow> resource multiset" where
  "callback_kept listener \<equiv> (if fst listener \<noteq> None then {#CallbackRef#} else {#})"

lemma answer_healthy:
  "healthy U \<Longrightarrow> answer U li ei r =
     ([ScreenlockCallback_OnCallBack li ei r], [Acquired OnCallBackData, Acquired UvWork]
        @ (if fst li \<noteq> None then [Released CallbackRef] else []) @ [Released OnCallBackData, Released UvWork])"
  by (simp add: answer_def OnCallBack_queue_def UvQueue_Call_def UvWork_run_def ScopeStatusCheck_def healthy_def
      ScreenlockCallback_OnCallBack_def Let_def)

text \<open>Whatever fails on the way, an answer is the right one or none, and releases no more than the callback.\<close>

lemma answer_cases:
  obtains (answered) es where "answer U li ei r = ([ScreenlockCallback_OnCallBack li ei r], es)"
      and "settle es (add_mset AsyncWork (add_mset TheEventListener (callback_kept li))) = Some {#AsyncWork, TheEventListener#}"
    | (lost) es where "answer U li ei r = ([], es)" and "\<And>h. settle es h = Some h"
proof (cases "dataAllocated U \<and> loopFound U \<and> uvWorkAllocated U \<and> uvQueued U \<and> scopeOpened U")
  case True
  then have "answer U li ei r =
     ([ScreenlockCallback_OnCallBack li ei r], [Acquired OnCallBackData, Acquired UvWork]
        @ (if fst li \<noteq> None then [Released CallbackRef] else []) @ [Released OnCallBackData, Released UvWork])"
    by (simp add: answer_def OnCallBack_queue_def UvQueue_Call_def UvWork_run_def ScopeStatusCheck_def
        ScreenlockCallback_OnCallBack_def Let_def)
  then show ?thesis by (rule answered) (simp add: add_mset_commute)
next
  case False
  then have "fst (answer U li ei r) = []" "\<And>h. settle (snd (answer U li ei r)) h = Some h"
    by (auto simp: answer_def OnCallBack_queue_def UvQueue_Call_def UvWork_run_def ScopeStatusCheck_def Let_def)
  then show ?thesis by (intro lost [of "snd (answer U li ei r)"]) (simp_all add: prod_eq_iff)
qed

lemma execute_eq:
  "callbackAllocated U \<Longrightarrow> AsyncCallFunc_execute U L m lid (Some li) w =
     (let ((status, _), w1) = m (lock_request (snd li) lid) w
      in if \<not> status_is_ok L status then (answer U li (status_error_info L status) status, w1) else (([], []), w1))"
  by (cases "snd li") (simp_all add: AsyncCallFunc_execute_def status_error_info_def split_beta Let_def)

lemma lock_call_started:
  assumes "listenerAllocated U" and "workQueued U" and "callbackAllocated U"
  shows "lock_call U L m lid (cb, a) w =
     (let ((status, _), w1) = m (lock_request a lid) w;
          (evs, fs) = (if \<not> status_is_ok L status then answer U (cb, a) (status_error_info L status) status else ([], []))
      in ((evs, (if cb \<noteq> None then [Acquired CallbackRef] else []) @ [Acquired TheEventListener, Acquired AsyncWork]
            @ fs @ [Released AsyncWork, Released TheEventListener]), w1))"
  using assms
  by (simp add: lock_call_def new_listener_def execute_eq CompleteAsyncWork_def split_beta Let_def)

lemma lock_call_stopped:
  assumes "\<not> (listenerAllocated U \<and> workQueued U \<and> callbackAllocated U)"
  shows "\<exists>es h. lock_call U L m lid (cb, a) w = (([], es), w) \<and> settle es {#} = Some h \<and> h \<subseteq># callback_kept (cb, a)"
  using assms
  by (cases cb)
    (auto simp: lock_call_def new_listener_def AsyncCallFunc_execute_def CompleteAsyncWork_def add_mset_commute Let_def)

text \<open>C21: a lock or unlock of a script releases what it takes.  Whatever the engine refuses on the way, the
  script gets the answer it should get or none, at most once, nothing is released that is not held, and at
  most the reference to the callback stays.  When nothing fails, a refused request leaves nothing behind; an
  accepted one keeps exactly the reference to the callback, if it has one, until its answer, which leaves
  nothing; and a second answer would release the reference again.\<close>

theorem lock_call_releases:
  "let ((evs, es), w1) = lock_call U L m lid (cb, a) w; (evs', w') = AsyncCallFunc L m lid (cb, a) w;
       ans = (\<lambda>r. snd (answer U (cb, a) no_error_info r))
   in evs \<in> {[], evs'} \<and> length evs \<le> 1 \<and> w1 \<in> {w, w'}
    \<and> (\<exists>h. settle es {#} = Some h \<and> h \<subseteq># callback_kept (cb, a))
    \<and> (healthy U \<longrightarrow> evs = evs' \<and> w1 = w'
         \<and> settle es {#} = Some (if evs' = [] then callback_kept (cb, a) else {#})
         \<and> (evs' = [] \<longrightarrow> (\<forall>r. settle (es @ ans r) {#} = Some {#} \<and> (settle (es @ ans r @ ans r) {#} = None) = (cb \<noteq> None))))"
proof (cases "listenerAllocated U \<and> workQueued U \<and> callbackAllocated U")
  case False
  then have "\<not> healthy U" by (auto simp: healthy_def)
  with lock_call_stopped [OF False, of L m lid cb a w] show ?thesis by (auto simp: split_beta)
next
  case True
  define st where "st = fst (fst (m (lock_request a lid) w))"
  have call: "lock_call U L m lid (cb, a) w =
     ((fst (if \<not> status_is_ok L st then answer U (cb, a) (status_error_info L st) st else ([], [])),
       (if cb \<noteq> None then [Acquired CallbackRef] else []) @ [Acquired TheEventListener, Acquired AsyncWork]
         @ snd (if \<not> status_is_ok L st then answer U (cb, a) (status_error_info L st) st else ([], []))
         @ [Released AsyncWork, Released TheEventListener]), snd (m (lock_request a lid) w))"
    using True by (simp add: lock_call_started split_beta Let_def st_def)
  have func: "AsyncCallFunc L m lid (cb, a) w =
     (if status_is_ok L st then [] else [ScreenlockCallback_OnCallBack (cb, a) (status_error_info L st) st],
      snd (m (lock_request a lid) w))"
    by (simp add: AsyncCallFunc_request split_beta Let_def st_def)
  show ?thesis
  proof (cases "status_is_ok L st")
    case True
    then show ?thesis by (simp add: call func answer_healthy add_mset_commute)
  next
    case False
    note call = call [unfolded if_P [OF False]] and func = func [unfolded if_not_P [OF False]]
    show ?thesis
    proof (cases rule: answer_cases [of U "(cb, a)" "status_error_info L st" st])
      case (answered es)
      with call func show ?thesis by (cases cb) (auto simp: settle_append add_mset_commute)
    next
      case (lost es)
      then have "\<not> healthy U" using answer_healthy [of U "(cb, a)" "status_error_info L st" st] by auto
      with lost call func show ?thesis by (cases cb) (auto simp: settle_append add_mset_commute)
    qed
  qed
qed

definition healthy_engine :: engine where
  "healthy_engine = \<lparr>listenerAllocated = True, workQueued = True, callbackAllocated = True, dataAllocated = True,
     loopFound = True, uvWorkAllocated = True, uvQueued = True, scopeOpened = True\<rparr>"

theorem lock_call_releases_witness:
  "settle (snd (fst (lock_call healthy_engine sample_ipc (\<lambda>_ w. ((13000, NoOut), Suc w)) 9
       (Some (JsFunction 1), ACTION_UNLOCK) 0))) {#} = Some {#CallbackRef#}"
proof -
  have ok: "healthy healthy_engine" by (simp add: healthy_def healthy_engine_def)
  have "fst (AsyncCallFunc sample_ipc (\<lambda>_ w. ((13000, NoOut), Suc w)) 9 (Some (JsFunction 1), ACTION_UNLOCK) 0) = []"
    by code_simp
  with ok lock_call_releases [where U = healthy_engine and L = sample_ipc and m = "\<lambda>_ w. ((13000, NoOut), Suc w)"
      and lid = 9 and cb = "Some (JsFunction 1)" and a = ACTION_UNLOCK and w = "0 :: nat"]
  show ?thesis by (simp add: split_beta Let_def)
qed

section \<open>Listeners for system events\<close>

text \<open>The reference a registration makes, on the way of \<open>NAPI_OnSystemEvent\<close> and of \<open>ANI_OnSystemEvent\<close>, and
  what the destructors of the two \<open>ScreenlockSystemAbilityCallback\<close> do with it; the second one asks for the
  environment of its thread first.\<close>

definition NAPI_OnSystemEvent_ledger :: "'v napi \<Rightarrow> 'v list \<Rightarrow> ledger_entry list" where
  "NAPI_OnSystemEvent_ledger N argv =
     (if \<not> CheckParamNumber (length argv) 1 then []
      else if \<not> CheckParamType N (argv ! 0) JsFunctionT then []
      else [Acquired CallbackRef])"

definition NapiEvent_delete :: "ledger_entry list" where
  "NapiEvent_delete = []"

definition ANI_OnSystemEvent_ledger :: "'v ani \<Rightarrow> 'm ipc \<Rightarrow> 'w manager \<Rightarrow> nat \<Rightarrow> 'w \<Rightarrow> ledger_entry list" where
  "ANI_OnSystemEvent_ledger A L manager lid w =
     (if \<not> vmFound A then []
      else if \<not> globalReference A then []
      else let ((retCode, _), w1) = manager (Req_OnSystemEvent (Some lid)) w
           in if \<not> status_is_ok L retCode then [Acquired CallbackRef, Released CallbackRef]
              else [Acquired CallbackRef])"

definition AniEvent_delete :: "bool \<Rightarrow> ledger_entry list" where
  "AniEvent_delete envFound = (if envFound then [Released CallbackRef] else [])"

text \<open>In the one binding the reference is never released; in the other, once when the registration was
  accepted and twice when it was refused.\<close>

lemma napi_listener_reference_kept:
  assumes "argv \<noteq> []" and "jsTypeof N (argv ! 0) = Some JsFunctionT"
  shows "settle (NAPI_OnSystemEvent_ledger N argv @ NapiEvent_delete) {#} = Some {#CallbackRef#}"
  using assms by (simp add: NAPI_OnSystemEvent_ledger_def NapiEvent_delete_def CheckParamNumber_def CheckParamType_def Suc_le_eq not_less)

lemma ani_listener_reference:
  assumes "vmFound A" and "globalReference A"
  shows "settle (ANI_OnSystemEvent_ledger A L m lid w @ AniEvent_delete True) {#}
     = (if status_is_ok L (fst (fst (m (Req_OnSystemEvent (Some lid)) w))) then Some {#} else None)"
  using assms by (simp add: ANI_OnSystemEvent_ledger_def AniEvent_delete_def split_beta Let_def)

end
