(* ===== verification/Ani_Runtime.thy ===== *)
theory Ani_Runtime
  imports Ani_Ability
begin

text \<open>
  The objects the ANI binding makes for a script, when the runtime can fail to make them: booleans
  (\<open>CreateBoolean\<close> of \<open>ani_screenlock_util.cpp\<close>), errors (\<open>ErrorHandler\<close> of \<open>ani_error_handler.h\<close>) and the
  settling of a promise (\<open>SendCallBackEvent\<close> of \<open>ani_screenlock_callback.cpp\<close>).  \<open>Ani_Ability\<close> describes
  what happens when none of them fails.
\<close>

section \<open>What can fail\<close>

record ani_steps =
  envGivenToUtil :: bool
  booleanClassFound :: bool
  booleanCtorFound :: bool
  booleanMade :: bool
  messageMade :: bool
  errorClassFound :: bool
  errorCtorFound :: bool
  errorMade :: bool
  businessClassFound :: bool
  businessCtorFound :: bool
  businessMade :: bool
  thrownByRuntime :: bool
  vmHeld :: bool
  envOfThread :: bool
  handlerMade :: bool
  taskPosted :: bool
  promiseSettled :: bool

definition all_well :: "ani_steps \<Rightarrow> bool" where
  "all_well R \<longleftrightarrow> envGivenToUtil R \<and> booleanClassFound R \<and> booleanCtorFound R \<and> booleanMade R \<and> messageMade R
     \<and> errorClassFound R \<and> errorCtorFound R \<and> errorMade R \<and> businessClassFound R \<and> businessCtorFound R \<and> businessMade R
     \<and> thrownByRuntime R \<and> vmHeld R \<and> envOfThread R \<and> handlerMade R \<and> taskPosted R \<and> promiseSettled R"

section \<open>Objects\<close>

text \<open>\<open>None\<close> is a null object.\<close>

definition CreateBoolean :: "ani_steps \<Rightarrow> bool \<Rightarrow> bool option" where
  "CreateBoolean R value =
     (if \<not> envGivenToUtil R then None
      else if \<not> booleanClassFound R then None
      else if \<not> booleanCtorFound R then None
      else if \<not> booleanMade R then None
      else Some value)"

definition WrapError :: "ani_steps \<Rightarrow> string \<Rightarrow> string option" where
  "WrapError R msg =
     (if \<not> envGivenToUtil R then None
      else if \<not> messageMade R then None
      else if \<not> errorClassFound R then None
      else if \<not> errorCtorFound R then None
      else if \<not> errorMade R then None
      else Some msg)"

definition CreateError :: "ani_steps \<Rightarrow> int \<Rightarrow> string \<Rightarrow> (int \<times> string) option" where
  "CreateError R code errMsg =
     (if \<not> envGivenToUtil R then None
      else if \<not> businessClassFound R then None
      else if \<not> businessCtorFound R then None
      else case WrapError R errMsg of
             None \<Rightarrow> None
           | Some error \<Rightarrow> if \<not> businessMade R then None else Some (int32_of code, error))"

definition ErrorHandler_Throw :: "ani_steps \<Rightarrow> int \<Rightarrow> string \<Rightarrow> js_throw option" where
  "ErrorHandler_Throw R code errMsg =
     (case CreateError R code errMsg of
        None \<Rightarrow> None
      | Some (c, msg) \<Rightarrow> if thrownByRuntime R then Some (BusinessError c msg) else None)"

section \<open>Settling a promise\<close>

datatype settling = ResolvedWith "bool option" | RejectedWith "(int \<times> string) option"

definition GetAniEnv :: "ani_steps \<Rightarrow> bool" where
  "GetAniEnv R \<longleftrightarrow> envOfThread R"

text \<open>The posted task, with what the promise is told if the runtime takes it.\<close>

definition callback_task :: "ani_steps \<Rightarrow> action \<Rightarrow> error_info \<Rightarrow> int \<Rightarrow> settling option" where
  "callback_task R action errorInfo screenLockResult =
     (if \<not> vmHeld R then None
      else if \<not> GetAniEnv R then None
      else let screenLockSuccess = (screenLockResult = screen_change_code SCREEN_SUCC);
               cancelUnlock = (action = ACTION_UNLOCK \<and> screenLockResult = screen_change_code SCREEN_CANCEL);
               settled = (if screenLockSuccess \<or> cancelUnlock
                          then ResolvedWith (CreateBoolean R screenLockSuccess)
                          else RejectedWith (CreateError R (errorCode errorInfo) (message errorInfo)))
           in if promiseSettled R then Some settled else None)"

text \<open>A missing event runner is only logged; the handler is made all the same.\<close>

definition SendCallBackEvent :: "ani_steps \<Rightarrow> action \<Rightarrow> error_info \<Rightarrow> int \<Rightarrow> settling option" where
  "SendCallBackEvent R action errorInfo screenLockResult =
     (if \<not> handlerMade R then None
      else if taskPosted R then callback_task R action errorInfo screenLockResult else None)"

definition Ani_OnCallBack :: "ani_steps \<Rightarrow> action \<Rightarrow> error_info \<Rightarrow> int \<Rightarrow> settling option" where
  "Ani_OnCallBack R action errorInfo screenLockResult =
     (let errorInfo1 =
            (if screenLockResult = screen_change_code SCREEN_CANCEL then errorInfo\<lparr>message := CANCEL_UNLOCK_OPERATION\<rparr>
             else if screenLockResult = screen_change_code SCREEN_FAIL then errorInfo\<lparr>message := SCREENLOCK_FAIL\<rparr>
             else errorInfo)
      in SendCallBackEvent R action errorInfo1 screenLockResult)"

section \<open>Failures only lose\<close>

text \<open>What a promise is told against what it should be told: the same, or the same kind with a null object.\<close>

fun told_as :: "ani_event \<Rightarrow> settling \<Rightarrow> bool" where
  "told_as (AniResolve b) (ResolvedWith v) \<longleftrightarrow> v \<in> {None, Some b}"
| "told_as (AniReject c msg) (RejectedWith v) \<longleftrightarrow> v \<in> {None, Some (c, msg)}"
| "told_as _ _ \<longleftrightarrow> False"

fun exactly :: "ani_event \<Rightarrow> settling" where
  "exactly (AniResolve b) = ResolvedWith (Some b)"
| "exactly (AniReject c msg) = RejectedWith (Some (c, msg))"

lemma CreateBoolean_cases: "CreateBoolean R b \<in> {None, Some b}"
  by (simp add: CreateBoolean_def)

lemma CreateError_cases: "CreateError R c msg \<in> {None, Some (int32_of c, msg)}"
  by (simp add: CreateError_def WrapError_def)

text \<open>A success is never rejected and a refusal never resolved, whatever the runtime does; when it does
  everything, the promise is told exactly the event of \<open>Ani_Ability\<close>.\<close>

lemma Ani_OnCallBack_told:
  "case Ani_OnCallBack R a ei r of None \<Rightarrow> \<not> all_well R | Some st \<Rightarrow> told_as (AniCallback_OnCallBack a ei r) st"
  using CreateBoolean_cases CreateError_cases
  by (auto simp: Ani_OnCallBack_def SendCallBackEvent_def callback_task_def AniCallback_OnCallBack_def all_well_def
      GetAniEnv_def Let_def simp del: insert_iff split: option.split)

lemma Ani_OnCallBack_all_well:
  "all_well R \<Longrightarrow> Ani_OnCallBack R a ei r = Some (exactly (AniCallback_OnCallBack a ei r))"
  by (simp add: Ani_OnCallBack_def SendCallBackEvent_def callback_task_def AniCallback_OnCallBack_def all_well_def
      GetAniEnv_def CreateBoolean_def CreateError_def WrapError_def Let_def)

lemma ErrorHandler_Throw_told:
  "ErrorHandler_Throw R c msg \<in> {None, Some (Ani_Throw c msg)}"
  "all_well R \<Longrightarrow> ErrorHandler_Throw R c msg = Some (Ani_Throw c msg)"
  by (simp_all add: ErrorHandler_Throw_def CreateError_def WrapError_def Ani_Throw_def all_well_def)

end
