(* ===== verification/Mutex_Machine.thy ===== *)
theory Mutex_Machine
  imports SL_Prelude "HOL-Library.Multiset"
begin

text \<open>
  Threads that share a state and take mutexes: \<open>std::mutex\<close>, \<open>std::recursive_mutex\<close> and the guards of
  the standard library.  A function is a program: what it returns, or a mutex to acquire or release, or
  one access to the shared state, which decides how to go on.  Local variables are the arguments of the
  continuations, so between two accesses any other thread may run.  The lemmas are about programs in
  general: when a set of threads cannot block for ever, and what a mutex makes of the accesses between
  its acquisition and its release.
\<close>

section \<open>Programs\<close>

datatype ('m, 'd, 'r) prog =
    Return 'r
  | Acquire 'm "('m, 'd, 'r) prog"
  | Release 'm "('m, 'd, 'r) prog"
  | Act "'d \<Rightarrow> 'd \<times> ('m, 'd, 'r) prog"

lemma prog_induct [case_names Return Acquire Release Act]:
  assumes "\<And>r. P (Return r)" and "\<And>m p. P p \<Longrightarrow> P (Acquire m p)" and "\<And>m p. P p \<Longrightarrow> P (Release m p)"
    and "\<And>f. (\<And>d. P (snd (f d))) \<Longrightarrow> P (Act f)"
  shows "P p"
proof (induction p)
  case (Act f)
  have "P (snd (f d))" for d
    by (rule Act.IH [of "f d"]) (auto simp: prod_set_simps intro: snds.intros)
  then show ?case by (rule assms(4))
qed (use assms in auto)

text \<open>An access that reads, one that writes, and one that does both.\<close>

definition reading :: "('d \<Rightarrow> 'a) \<Rightarrow> ('a \<Rightarrow> ('m, 'd, 'r) prog) \<Rightarrow> ('m, 'd, 'r) prog" where
  "reading g k = Act (\<lambda>d. (d, k (g d)))"

definition writing :: "('d \<Rightarrow> 'd) \<Rightarrow> ('m, 'd, 'r) prog \<Rightarrow> ('m, 'd, 'r) prog" where
  "writing f p = Act (\<lambda>d. (f d, p))"

definition calling :: "('d \<Rightarrow> 'a \<times> 'd) \<Rightarrow> ('a \<Rightarrow> ('m, 'd, 'r) prog) \<Rightarrow> ('m, 'd, 'r) prog" where
  "calling f k = Act (\<lambda>d. case f d of (a, d') \<Rightarrow> (d', k a))"

text \<open>A call of a function, whose result the caller goes on with.\<close>

primrec andthen :: "('m, 'd, 'a) prog \<Rightarrow> ('a \<Rightarrow> ('m, 'd, 'r) prog) \<Rightarrow> ('m, 'd, 'r) prog" where
  "andthen (Return a) k = k a"
| "andthen (Acquire m p) k = Acquire m (andthen p k)"
| "andthen (Release m p) k = Release m (andthen p k)"
| "andthen (Act f) k = Act (map_prod id (\<lambda>p. andthen p k) \<circ> f)"

text \<open>A block with a guard at its start: the mutex is released where the block is left.\<close>

definition guarded :: "'m \<Rightarrow> ('m, 'd, 'a) prog \<Rightarrow> ('m, 'd, 'a) prog" where
  "guarded m p = Acquire m (andthen p (\<lambda>a. Release m (Return a)))"

text \<open>What a program does when nothing interferes.\<close>

primrec alone :: "('m, 'd, 'r) prog \<Rightarrow> 'd \<Rightarrow> 'r \<times> 'd" where
  "alone (Return r) = (\<lambda>d. (r, d))"
| "alone (Acquire m p) = alone p"
| "alone (Release m p) = alone p"
| "alone (Act f) = (\<lambda>d. case (map_prod id alone \<circ> f) d of (d', g) \<Rightarrow> g d')"

lemma alone_Act [simp]: "alone (Act f) d = (case f d of (d', p) \<Rightarrow> alone p d')"
  by (simp add: case_prod_beta)

declare alone.simps(4) [simp del]

lemma alone_reading [simp]: "alone (reading g k) d = alone (k (g d)) d"
  by (simp add: reading_def)

lemma alone_writing [simp]: "alone (writing f p) d = alone p (f d)"
  by (simp add: writing_def)

lemma alone_calling [simp]: "alone (calling f k) d = (case f d of (a, d') \<Rightarrow> alone (k a) d')"
  by (simp add: calling_def split: prod.split)

lemma alone_andthen [simp]: "alone (andthen p k) d = (case alone p d of (a, d') \<Rightarrow> alone (k a) d')"
  by (induction p arbitrary: d rule: prog_induct) (auto simp: case_prod_beta)

lemma alone_guarded [simp]: "alone (guarded m p) = alone p"
  by (rule ext) (simp add: guarded_def case_prod_beta)

section \<open>Threads\<close>

text \<open>
  A thread is the mutexes it holds, innermost first, and the rest of its program.  It may take a mutex
  no other thread holds; one it holds itself only when that mutex is recursive.  To release a mutex one
  does not hold is undefined, so such a thread does not go on.
\<close>

type_synonym ('m, 'd, 'r) thread = "'m list \<times> ('m, 'd, 'r) prog"
type_synonym ('m, 'd, 'r) config = "('m, 'd, 'r) thread list \<times> 'd"

definition held_by_others :: "'m \<Rightarrow> nat \<Rightarrow> ('m, 'd, 'r) thread list \<Rightarrow> bool" where
  "held_by_others m i ts = (\<exists>j \<in> set [0..<length ts]. j \<noteq> i \<and> m \<in> set (fst (ts ! j)))"

definition may_acquire :: "('m \<Rightarrow> bool) \<Rightarrow> 'm \<Rightarrow> nat \<Rightarrow> ('m, 'd, 'r) thread list \<Rightarrow> bool" where
  "may_acquire recursive m i ts = ((m \<in> set (fst (ts ! i)) \<longrightarrow> recursive m) \<and> \<not> held_by_others m i ts)"

definition thread_step :: "('m \<Rightarrow> bool) \<Rightarrow> nat \<Rightarrow> ('m, 'd, 'r) config \<Rightarrow> ('m, 'd, 'r) config option" where
  "thread_step recursive i c =
     (case c of (ts, d) \<Rightarrow>
        if i < length ts
        then case ts ! i of (H, p) \<Rightarrow>
               (case p of
                  Return r \<Rightarrow> None
                | Acquire m q \<Rightarrow> if may_acquire recursive m i ts then Some (ts[i := (m # H, q)], d) else None
                | Release m q \<Rightarrow> if m \<in> set H then Some (ts[i := (remove1 m H, q)], d) else None
                | Act f \<Rightarrow> (case f d of (d', q) \<Rightarrow> Some (ts[i := (H, q)], d')))
        else None)"

inductive reaches :: "('m \<Rightarrow> bool) \<Rightarrow> ('m, 'd, 'r) config \<Rightarrow> ('m, 'd, 'r) config \<Rightarrow> bool" for recursive c where
  start: "reaches recursive c c"
| step: "reaches recursive c c' \<Longrightarrow> thread_step recursive i c' = Some c'' \<Longrightarrow> reaches recursive c c''"

text \<open>A schedule names the thread that makes each step.\<close>

fun schedule :: "('m \<Rightarrow> bool) \<Rightarrow> nat list \<Rightarrow> ('m, 'd, 'r) config \<Rightarrow> ('m, 'd, 'r) config option" where
  "schedule recursive [] c = Some c"
| "schedule recursive (i # is) c =
     (case thread_step recursive i c of None \<Rightarrow> None | Some c' \<Rightarrow> schedule recursive is c')"

lemma schedule_reaches: "schedule recursive is c = Some c' \<Longrightarrow> reaches recursive c0 c \<Longrightarrow> reaches recursive c0 c'"
  by (induction "is" arbitrary: c) (auto split: option.splits intro: reaches.step)

lemma schedule_example:
  assumes "case schedule recursive is c of None \<Rightarrow> False | Some (ts, d) \<Rightarrow> P ts d"
  obtains ts d where "reaches recursive c (ts, d)" "P ts d"
proof (cases "schedule recursive is c")
  case None
  then show thesis using assms by simp
next
  case (Some x)
  obtain ts d where x: "x = (ts, d)" by (cases x)
  have "reaches recursive c (ts, d)" by (rule schedule_reaches [OF Some [unfolded x] reaches.start])
  moreover have "P ts d" using assms Some x by simp
  ultimately show thesis by (rule that)
qed

definition started :: "('m, 'd, 'r) prog list \<Rightarrow> 'd \<Rightarrow> ('m, 'd, 'r) config" where
  "started ps d = (map (Pair []) ps, d)"

definition finished :: "('m, 'd, 'r) thread \<Rightarrow> bool" where
  "finished t = (case snd t of Return r \<Rightarrow> True | _ \<Rightarrow> False)"

lemma finished_simps [simp]:
  "finished (H, Return r)" "\<not> finished (H, Acquire m p)" "\<not> finished (H, Release m p)" "\<not> finished (H, Act f)"
  by (simp_all add: finished_def)

text \<open>What one step can be.\<close>

lemma thread_step_cases:
  assumes "thread_step recursive i (ts, d) = Some (ts', d')"
  obtains (acquire) H m p where "i < length ts" "ts ! i = (H, Acquire m p)" "may_acquire recursive m i ts"
      "ts' = ts[i := (m # H, p)]" "d' = d"
    | (release) H m p where "i < length ts" "ts ! i = (H, Release m p)" "m \<in> set H"
      "ts' = ts[i := (remove1 m H, p)]" "d' = d"
    | (act) H f p where "i < length ts" "ts ! i = (H, Act f)" "f d = (d', p)" "ts' = ts[i := (H, p)]"
  using assms
  by (auto simp: thread_step_def split: if_splits prog.splits prod.splits)

lemma thread_step_length: "thread_step recursive i (ts, d) = Some (ts', d') \<Longrightarrow> length ts' = length ts"
  by (erule thread_step_cases) auto

lemma reaches_length: "reaches recursive (ts, d) (ts', d') \<Longrightarrow> length ts' = length ts"
  by (induction "(ts', d')" arbitrary: ts' d' rule: reaches.induct) (auto dest: thread_step_length)

section \<open>Mutual exclusion\<close>

definition exclusive :: "('m, 'd, 'r) thread list \<Rightarrow> bool" where
  "exclusive ts \<longleftrightarrow> (\<forall>i < length ts. \<forall>j < length ts. i \<noteq> j \<longrightarrow> set (fst (ts ! i)) \<inter> set (fst (ts ! j)) = {})"

lemma exclusive_update:
  assumes "exclusive ts" and "i < length ts"
    and "\<And>j. j < length ts \<Longrightarrow> j \<noteq> i \<Longrightarrow> set H \<inter> set (fst (ts ! j)) = {}"
  shows "exclusive (ts[i := (H, p)])"
  unfolding exclusive_def
proof (intro allI impI)
  fix j k assume "j < length (ts[i := (H, p)])" "k < length (ts[i := (H, p)])" "j \<noteq> k"
  then show "set (fst (ts[i := (H, p)] ! j)) \<inter> set (fst (ts[i := (H, p)] ! k)) = {}"
    using assms(1) assms(3) [of j] assms(3) [of k] assms(2)
    by (cases "j = i"; cases "k = i") (simp_all add: exclusive_def Int_commute)
qed

lemma exclusiveD:
  "exclusive ts \<Longrightarrow> i < length ts \<Longrightarrow> ts ! i = (H, p) \<Longrightarrow> j < length ts \<Longrightarrow> j \<noteq> i \<Longrightarrow> set H \<inter> set (fst (ts ! j)) = {}"
  unfolding exclusive_def by (metis fst_conv)

lemma exclusive_step:
  assumes "thread_step recursive i (ts, d) = Some (ts', d')" and "exclusive ts"
  shows "exclusive ts'"
  using assms(1)
proof (cases rule: thread_step_cases)
  case (acquire H m p)
  then have "m \<notin> set (fst (ts ! j))" if "j < length ts" "j \<noteq> i" for j
    using that by (auto simp: may_acquire_def held_by_others_def)
  with acquire exclusiveD [OF assms(2) acquire(1,2)] show ?thesis by (simp add: exclusive_update [OF assms(2)])
next
  case (release H m p)
  have "set (remove1 m H) \<inter> set (fst (ts ! j)) = {}" if "j < length ts" "j \<noteq> i" for j
    using exclusiveD [OF assms(2) release(1,2) that] set_remove1_subset [of m H] by blast
  with release show ?thesis by (simp add: exclusive_update [OF assms(2)])
next
  case (act H f p)
  with exclusiveD [OF assms(2) act(1,2)] show ?thesis by (simp add: exclusive_update [OF assms(2)])
qed

lemma exclusive_started: "exclusive (fst (started ps d))"
  by (simp add: exclusive_def started_def)

lemma reaches_exclusive: "reaches recursive (started ps d) c \<Longrightarrow> exclusive (fst c)"
proof (induction rule: reaches.induct)
  case start
  show ?case by (rule exclusive_started)
next
  case (step c i c')
  then show ?case by (cases c; cases c') (auto dest: exclusive_step)
qed

section \<open>An order of the mutexes\<close>

text \<open>
  A program keeps to an order of the mutexes when every mutex it acquires is above all it holds, or is a
  recursive one it holds already, and when it releases what it holds.  \<open>H\<close> is what it holds at its start
  and \<open>H'\<close> at its end.
\<close>

primrec in_order :: "('m \<Rightarrow> nat) \<Rightarrow> ('m \<Rightarrow> bool) \<Rightarrow> 'm list \<Rightarrow> ('m, 'd, 'r) prog \<Rightarrow> 'm list \<Rightarrow> bool" where
  "in_order rank recursive H' (Return r) = (\<lambda>H. H = H')"
| "in_order rank recursive H' (Acquire m p) =
     (\<lambda>H. (m \<in> set H \<and> recursive m \<or> (\<forall>k \<in> set H. rank k < rank m)) \<and> in_order rank recursive H' p (m # H))"
| "in_order rank recursive H' (Release m p) = (\<lambda>H. m \<in> set H \<and> in_order rank recursive H' p (remove1 m H))"
| "in_order rank recursive H' (Act f) = (\<lambda>H. \<forall>d. snd ((map_prod id (in_order rank recursive H') \<circ> f) d) H)"

lemma in_order_Act [simp]: "in_order rank recursive H' (Act f) H \<longleftrightarrow> (\<forall>d. in_order rank recursive H' (snd (f d)) H)"
  by simp

declare in_order.simps(4) [simp del]

lemma in_order_reading [simp]:
  "in_order rank recursive H' (reading g k) H \<longleftrightarrow> (\<forall>d. in_order rank recursive H' (k (g d)) H)"
  by (simp add: reading_def)

lemma in_order_writing [simp]:
  "in_order rank recursive H' (writing f p) H \<longleftrightarrow> in_order rank recursive H' p H"
  by (simp add: writing_def)

lemma in_order_calling:
  "(\<And>a. in_order rank recursive H' (k a) H) \<Longrightarrow> in_order rank recursive H' (calling f k) H"
  by (simp add: calling_def split: prod.split)

lemma in_order_andthen:
  "in_order rank recursive H1 p H \<Longrightarrow> (\<And>a. in_order rank recursive H' (k a) H1)
     \<Longrightarrow> in_order rank recursive H' (andthen p k) H"
  by (induction p arbitrary: H rule: prog_induct) auto

lemma in_order_guarded:
  assumes "in_order rank recursive (m # H) p (m # H)"
    and "m \<in> set H \<and> recursive m \<or> (\<forall>k \<in> set H. rank k < rank m)"
  shows "in_order rank recursive H (guarded m p) H"
  using assms by (simp add: guarded_def in_order_andthen)

text \<open>Threads in order.\<close>

definition ordered_threads :: "('m \<Rightarrow> nat) \<Rightarrow> ('m \<Rightarrow> bool) \<Rightarrow> ('m, 'd, 'r) thread list \<Rightarrow> bool" where
  "ordered_threads rank recursive ts \<longleftrightarrow> (\<forall>(H, p) \<in> set ts. in_order rank recursive [] p H)"

lemma ordered_threads_nth:
  "ordered_threads rank recursive ts \<Longrightarrow> i < length ts \<Longrightarrow> ts ! i = (H, p) \<Longrightarrow> in_order rank recursive [] p H"
  by (force simp: ordered_threads_def in_set_conv_nth)

lemma ordered_threads_update:
  "ordered_threads rank recursive ts \<Longrightarrow> in_order rank recursive [] p H
     \<Longrightarrow> ordered_threads rank recursive (ts[i := (H, p)])"
  by (auto simp: ordered_threads_def dest: subsetD [OF set_update_subset_insert])

lemma ordered_step:
  assumes "thread_step recursive i (ts, d) = Some (ts', d')" and "ordered_threads rank recursive ts"
  shows "ordered_threads rank recursive ts'"
  using assms(1)
proof (cases rule: thread_step_cases)
  case (act H f p)
  have "in_order rank recursive [] (snd (f d)) H" using ordered_threads_nth [OF assms(2) act(1,2)] by simp
  with act assms(2) show ?thesis by (simp add: ordered_threads_update)
next
  case (acquire H m p)
  with ordered_threads_nth [OF assms(2) acquire(1,2)] assms(2) show ?thesis by (simp add: ordered_threads_update)
next
  case (release H m p)
  with ordered_threads_nth [OF assms(2) release(1,2)] assms(2) show ?thesis by (simp add: ordered_threads_update)
qed

lemma reaches_ordered:
  "reaches recursive (started ps d) c \<Longrightarrow> (\<And>p. p \<in> set ps \<Longrightarrow> in_order rank recursive [] p [])
     \<Longrightarrow> ordered_threads rank recursive (fst c)"
proof (induction rule: reaches.induct)
  case start
  then show ?case by (auto simp: started_def ordered_threads_def)
next
  case (step c i c')
  then show ?case by (cases c; cases c') (auto dest: ordered_step)
qed

text \<open>A thread that cannot go on waits for a mutex that another thread holds, above all it holds itself.\<close>

lemma blocked_waits:
  assumes "ordered_threads rank recursive ts" and "exclusive ts" and "i < length ts" and "\<not> finished (ts ! i)"
    and "thread_step recursive i (ts, d) = None"
  obtains H m p j where "ts ! i = (H, Acquire m p)" and "\<forall>k \<in> set H. rank k < rank m"
    and "j < length ts" and "m \<in> set (fst (ts ! j))"
proof -
  obtain H p where t: "ts ! i = (H, p)" by (cases "ts ! i")
  note ok = ordered_threads_nth [OF assms(1,3) t]
  show thesis
  proof (cases p)
    case (Acquire m q)
    with assms t have no: "\<not> may_acquire recursive m i ts" by (auto simp: thread_step_def split: if_splits)
    have "m \<in> set H \<Longrightarrow> recursive m" using ok Acquire by auto
    with no t obtain j where j: "j < length ts" "j \<noteq> i" "m \<in> set (fst (ts ! j))"
      by (auto simp: may_acquire_def held_by_others_def)
    with assms(2,3) t have "m \<notin> set H" by (fastforce simp: exclusive_def)
    with that t j Acquire ok show ?thesis by auto
  qed (use assms t ok in \<open>auto simp: thread_step_def split: prod.splits\<close>)
qed

text \<open>The thread that holds the mutex waits, if it waits, for a higher one.\<close>

lemma waits_upwards:
  assumes ord: "ordered_threads rank recursive ts" and exc: "exclusive ts"
    and stuck: "\<And>i. thread_step recursive i (ts, d) = None"
    and i: "i < length ts" "ts ! i = (H, Acquire m p)"
  shows "\<exists>j H' m' p'. j < length ts \<and> ts ! j = (H', Acquire m' p') \<and> rank m < rank m'"
proof -
  have "\<not> finished (ts ! i)" by (simp add: i)
  then obtain j where j: "j < length ts" "m \<in> set (fst (ts ! j))"
    by (rule blocked_waits [OF ord exc i(1) _ stuck]) (simp add: i(2))
  obtain H' q where t: "ts ! j = (H', q)" by (cases "ts ! j")
  have "in_order rank recursive [] q H'" by (rule ordered_threads_nth [OF ord j(1) t])
  with j(2) t have "\<not> finished (ts ! j)" by (cases q) auto
  then show ?thesis
    by (rule blocked_waits [OF ord exc j(1) _ stuck]) (use j t in auto)
qed

text \<open>So threads in order never block each other for ever.\<close>

theorem some_thread_steps:
  assumes ord: "ordered_threads rank recursive ts" and exc: "exclusive ts"
    and unfinished: "\<exists>t \<in> set ts. \<not> finished t"
  shows "\<exists>i c. thread_step recursive i (ts, d) = Some c"
proof (rule ccontr)
  assume "\<not> ?thesis"
  then have stuck: "thread_step recursive i (ts, d) = None" for i by (meson not_None_eq)
  have high: "\<exists>i H m p. i < length ts \<and> ts ! i = (H, Acquire m p) \<and> n \<le> rank m" for n
  proof (induction n)
    case 0
    obtain i where i: "i < length ts" "\<not> finished (ts ! i)" using unfinished by (auto simp: in_set_conv_nth)
    show ?case by (rule blocked_waits [OF ord exc i stuck]) (use i(1) in auto)
  next
    case (Suc n)
    then obtain i H m p where i: "i < length ts" "ts ! i = (H, Acquire m p)" and n: "n \<le> rank m" by auto
    from waits_upwards [OF ord exc stuck i] obtain j H' m' p' where
      "j < length ts" "ts ! j = (H', Acquire m' p')" "rank m < rank m'" by blast
    with n show ?case by (intro exI [of _ j] exI [of _ H'] exI [of _ m'] exI [of _ p']) simp
  qed
  define wanted where "wanted = (\<lambda>i. case snd (ts ! i) of Acquire m p \<Rightarrow> rank m | _ \<Rightarrow> 0) ` {..<length ts}"
  obtain i H m p where i: "i < length ts" "ts ! i = (H, Acquire m p)" "Suc (Max wanted) \<le> rank m"
    using high by blast
  then have "rank m \<in> wanted" unfolding wanted_def by (intro image_eqI [of _ _ i]) simp_all
  then have "rank m \<le> Max wanted" by (simp add: wanted_def)
  with i(3) show False by simp
qed

section \<open>Programs end\<close>

text \<open>Every step takes one thread to a smaller program, so no schedule goes on for ever.\<close>

inductive smaller :: "('m, 'd, 'r) prog \<Rightarrow> ('m, 'd, 'r) prog \<Rightarrow> bool" where
  "smaller p (Acquire m p)"
| "smaller p (Release m p)"
| "smaller (snd (f d)) (Act f)"

inductive_cases smaller_Return: "smaller p (Return r)"
inductive_cases smaller_Acquire: "smaller p (Acquire m q)"
inductive_cases smaller_Release: "smaller p (Release m q)"
inductive_cases smaller_Act: "smaller p (Act f)"

lemma wf_smaller: "wfP smaller"
proof (rule accp_wfpI, rule allI)
  show "Wellfounded.accp smaller p" for p :: "('m, 'd, 'r) prog"
  proof (induction p rule: prog_induct)
    case (Return r)
    show ?case by (rule accp.intros) (erule smaller_Return)
  next
    case (Acquire m p)
    show ?case by (rule accp.intros) (erule smaller_Acquire, insert Acquire, simp only:)
  next
    case (Release m p)
    show ?case by (rule accp.intros) (erule smaller_Release, insert Release, simp only:)
  next
    case (Act f)
    show ?case
    proof (rule accp.intros)
      fix q assume "smaller q (Act f)"
      then obtain d where "q = snd (f d)" by (rule smaller_Act)
      with Act [of d] show "Wellfounded.accp smaller q" by (simp only:)
    qed
  qed
qed

lemma thread_step_smaller:
  assumes "thread_step recursive i (ts, d) = Some (ts', d')"
  shows "i < length ts \<and> (\<exists>H p. ts' = ts[i := (H, p)] \<and> smaller p (snd (ts ! i)))"
  using assms
proof (cases rule: thread_step_cases)
  case (act H f p)
  then have "smaller (snd (f d)) (Act f)" by (intro smaller.intros)
  with act show ?thesis by auto
qed (auto intro: smaller.intros)

definition rest_programs :: "('m, 'd, 'r) config \<Rightarrow> ('m, 'd, 'r) prog multiset" where
  "rest_programs c = mset (map snd (fst c))"

lemma rest_programs_step:
  assumes "thread_step recursive i c = Some c'"
  shows "(rest_programs c', rest_programs c) \<in> mult {(p, q). smaller p q}"
proof -
  obtain ts d ts' d' where c: "c = (ts, d)" "c' = (ts', d')" by (cases c; cases c')
  then obtain H p where
    i: "i < length ts" and ts': "ts' = ts[i := (H, p)]" and p: "smaller p (snd (ts ! i))"
    using thread_step_smaller [OF assms [unfolded c]] by auto
  let ?rest = "mset (map snd ts) - {#snd (ts ! i)#}"
  have "snd (ts ! i) \<in># mset (map snd ts)" using i by (force simp: in_set_conv_nth)
  then have "mset (map snd ts) = add_mset (snd (ts ! i)) ?rest" by (metis insert_DiffM)
  moreover have "mset (map snd ts') = add_mset p ?rest"
    using i by (simp add: ts' map_update mset_update)
  ultimately have "(mset (map snd ts'), mset (map snd ts)) \<in> mult1 {(p, q). smaller p q}"
    using p by (intro mult1I [of _ "snd (ts ! i)" ?rest _ "{#p#}"]) auto
  then have "(mset (map snd ts'), mset (map snd ts)) \<in> mult {(p, q). smaller p q}"
    unfolding mult_def by (rule r_into_trancl)
  then show ?thesis by (simp only: rest_programs_def c fst_conv)
qed

lemma wf_thread_step: "wf {(c', c). \<exists>i. thread_step recursive i c = Some c'}"
proof -
  have "wf (inv_image (mult {(p, q). smaller p q}) rest_programs)"
    using wf_smaller by (intro wf_inv_image wf_mult) (simp add: wfp_def)
  then show ?thesis by (rule wf_subset) (auto simp: in_inv_image rest_programs_step)
qed

lemma reaches_trans: "reaches recursive c' c'' \<Longrightarrow> reaches recursive c c' \<Longrightarrow> reaches recursive c c''"
  by (induction rule: reaches.induct) (auto intro: reaches.step)

text \<open>Threads in order all finish, whatever has happened so far, and they cannot run for ever.\<close>

theorem all_threads_finish:
  assumes "\<And>p. p \<in> set ps \<Longrightarrow> in_order rank recursive [] p []" and "reaches recursive (started ps d) c"
  shows "\<exists>c'. reaches recursive c c' \<and> (\<forall>t \<in> set (fst c'). finished t)"
  using wf_thread_step [of recursive] assms(2)
proof (induction c rule: wf_induct_rule)
  case (less c)
  show ?case
  proof (cases "\<forall>t \<in> set (fst c). finished t")
    case True
    with reaches.start [of recursive c] show ?thesis by blast
  next
    case False
    then obtain i c' where s: "thread_step recursive i c = Some c'"
      using some_thread_steps [OF reaches_ordered [OF less.prems assms(1)] reaches_exclusive [OF less.prems], of "snd c"]
      by auto
    have "(c', c) \<in> {(c', c). \<exists>i. thread_step recursive i c = Some c'}" using s by auto
    from less.IH [OF this reaches.step [OF less.prems s]] obtain c'' where
      "reaches recursive c' c''" "\<forall>t \<in> set (fst c''). finished t" by auto
    with reaches_trans [OF _ reaches.step [OF reaches.start s]] show ?thesis by blast
  qed
qed

end
