(* ===== verification/Mutex_Sections.thy ===== *)
theory Mutex_Sections
  imports Mutex_Machine
begin

text \<open>
  What a mutex makes of a part of the shared state that is written only by its holder.  Between the
  acquisition and the release of the mutex the part changes as if the section were one step, whatever
  the other threads do to the rest of the state meanwhile.  So every schedule gives an order of whole
  sections.
\<close>

section \<open>Programs in sections\<close>

text \<open>
  \<open>view\<close> is the part of the state the mutex guards.  A program is described by what it may have done to
  that part: \<open>okay\<close> holds of its sections so far, each with the part before and after, and of its answer
  at the end.  The last argument is the section the program is in: what the part was at its start, what
  it is, and how often the mutex was taken again.
\<close>

primrec in_sections ::
  "'m \<Rightarrow> ('d \<Rightarrow> 'v) \<Rightarrow> (('v \<times> 'v) list \<Rightarrow> 'r option \<Rightarrow> bool) \<Rightarrow> ('m, 'd, 'r) prog
     \<Rightarrow> ('v \<times> 'v) list \<Rightarrow> ('v \<times> 'v \<times> nat) option \<Rightarrow> bool"
where
  "in_sections m view okay (Return r) = (\<lambda>done x. x = None \<and> okay done (Some r))"
| "in_sections m view okay (Acquire k p) = (\<lambda>done x.
     if k = m
     then case x of None \<Rightarrow> \<forall>v. in_sections m view okay p done (Some (v, v, 0))
                  | Some (v0, v, n) \<Rightarrow> in_sections m view okay p done (Some (v0, v, Suc n))
     else in_sections m view okay p done x)"
| "in_sections m view okay (Release k p) = (\<lambda>done x.
     if k = m
     then case x of None \<Rightarrow> False
                  | Some (v0, v, n) \<Rightarrow>
                      (case n of 0 \<Rightarrow> okay (done @ [(v0, v)]) None
                                       \<and> in_sections m view okay p (done @ [(v0, v)]) None
                               | Suc n' \<Rightarrow> in_sections m view okay p done (Some (v0, v, n')))
     else in_sections m view okay p done x)"
| "in_sections m view okay (Act f) = (\<lambda>done x. \<forall>d.
     case (map_prod id (in_sections m view okay) \<circ> f) d of (d', rest) \<Rightarrow>
       (case x of None \<Rightarrow> view d' = view d \<and> rest done None
                | Some (v0, v, n) \<Rightarrow> view d = v \<longrightarrow> rest done (Some (v0, view d', n))))"

lemma in_sections_Act_outside [simp]:
  "in_sections m view okay (Act f) done None
     \<longleftrightarrow> (\<forall>d. view (fst (f d)) = view d \<and> in_sections m view okay (snd (f d)) done None)"
  by (auto simp: case_prod_beta)

lemma in_sections_Act_inside [simp]:
  "in_sections m view okay (Act f) done (Some (v0, v, n))
     \<longleftrightarrow> (\<forall>d. view d = v \<longrightarrow> in_sections m view okay (snd (f d)) done (Some (v0, view (fst (f d)), n)))"
  by (auto simp: case_prod_beta)

declare in_sections.simps(4) [simp del]

text \<open>A function that neither takes the mutex nor writes the part it guards.\<close>

primrec quiet :: "'m \<Rightarrow> ('d \<Rightarrow> 'v) \<Rightarrow> ('m, 'd, 'a) prog \<Rightarrow> bool" where
  "quiet m view (Return r) = True"
| "quiet m view (Acquire k p) = (k \<noteq> m \<and> quiet m view p)"
| "quiet m view (Release k p) = (k \<noteq> m \<and> quiet m view p)"
| "quiet m view (Act f) = (\<forall>d. case (map_prod id (quiet m view) \<circ> f) d of (d', q) \<Rightarrow> view d' = view d \<and> q)"

lemma quiet_Act [simp]: "quiet m view (Act f) \<longleftrightarrow> (\<forall>d. view (fst (f d)) = view d \<and> quiet m view (snd (f d)))"
  by (auto simp: case_prod_beta)

declare quiet.simps(4) [simp del]

lemma in_sections_andthen_quiet:
  "quiet m view q \<Longrightarrow> (\<And>a. in_sections m view okay (k a) done x) \<Longrightarrow> in_sections m view okay (andthen q k) done x"
  by (induction q rule: prog_induct) (cases x; auto)+

lemma quiet_andthen: "quiet m view q \<Longrightarrow> (\<And>a. quiet m view (k a)) \<Longrightarrow> quiet m view (andthen q k)"
  by (induction q rule: prog_induct) auto

lemma in_sections_quiet:
  "quiet m view q \<Longrightarrow> (\<And>r. okay done (Some r)) \<Longrightarrow> in_sections m view okay q done None"
  by (induction q rule: prog_induct) auto

lemma quiet_reading [simp]: "quiet m view (reading g k) \<longleftrightarrow> (\<forall>d. quiet m view (k (g d)))"
  by (simp add: reading_def)

lemma quiet_writing [simp]: "quiet m view (writing f p) \<longleftrightarrow> (\<forall>d. view (f d) = view d) \<and> quiet m view p"
  by (auto simp: writing_def)

lemma quiet_guarded [simp]: "quiet m view q \<Longrightarrow> k \<noteq> m \<Longrightarrow> quiet m view (guarded k q)"
  by (simp add: guarded_def quiet_andthen)

lemma in_sections_reading_outside [simp]:
  "in_sections m view okay (reading g k) done None \<longleftrightarrow> (\<forall>d. in_sections m view okay (k (g d)) done None)"
  by (simp add: reading_def)

lemma in_sections_reading_inside [simp]:
  "in_sections m view okay (reading g k) done (Some (v0, v, n))
     \<longleftrightarrow> (\<forall>d. view d = v \<longrightarrow> in_sections m view okay (k (g d)) done (Some (v0, v, n)))"
  by (auto simp: reading_def)

lemma in_sections_writing_outside [simp]:
  "in_sections m view okay (writing f p) done None
     \<longleftrightarrow> (\<forall>d. view (f d) = view d) \<and> in_sections m view okay p done None"
  by (auto simp: writing_def)

lemma in_sections_writing_inside [simp]:
  "in_sections m view okay (writing f p) done (Some (v0, v, n))
     \<longleftrightarrow> (\<forall>d. view d = v \<longrightarrow> in_sections m view okay p done (Some (v0, view (f d), n)))"
  by (auto simp: writing_def)

section \<open>Sections follow each other\<close>

text \<open>A history of sections, each by a thread, from one value of the guarded part to the next.\<close>

type_synonym 'v section_log = "(nat \<times> 'v \<times> 'v) list"

fun linked :: "'v \<Rightarrow> 'v section_log \<Rightarrow> 'v \<Rightarrow> bool" where
  "linked v [] w = (v = w)"
| "linked v ((i, a, b) # h) w = (a = v \<and> linked b h w)"

lemma linked_snoc [simp]: "linked v (h @ [(i, a, b)]) w \<longleftrightarrow> linked v h a \<and> b = w"
  by (induction h arbitrary: v) auto

definition sections_of :: "nat \<Rightarrow> 'v section_log \<Rightarrow> ('v \<times> 'v) list" where
  "sections_of i h = map snd (filter (\<lambda>x. fst x = i) h)"

lemma sections_of_Nil [simp]: "sections_of i [] = []"
  by (simp add: sections_of_def)

lemma sections_of_snoc [simp]:
  "sections_of i (h @ [(j, a, b)]) = sections_of i h @ (if j = i then [(a, b)] else [])"
  by (simp add: sections_of_def)

text \<open>A thread described by its program is, at any time, in the section its mutexes say.\<close>

definition in_section :: "'m \<Rightarrow> ('d \<Rightarrow> 'v) \<Rightarrow> 'v \<Rightarrow> 'd \<Rightarrow> 'm list \<Rightarrow> ('v \<times> 'v \<times> nat) option" where
  "in_section m view v0 d H = (if m \<in> set H then Some (v0, view d, count_list H m - 1) else None)"

definition sections_inv ::
  "'m \<Rightarrow> ('d \<Rightarrow> 'v) \<Rightarrow> (nat \<Rightarrow> ('v \<times> 'v) list \<Rightarrow> 'r option \<Rightarrow> bool) \<Rightarrow> 'v \<Rightarrow> 'v section_log
     \<Rightarrow> ('m, 'd, 'r) config \<Rightarrow> bool"
where
  "sections_inv m view okay v h c \<longleftrightarrow>
     (case c of (ts, d) \<Rightarrow>
        \<exists>w. linked v h w
          \<and> ((\<forall>i < length ts. m \<notin> set (fst (ts ! i))) \<longrightarrow> view d = w)
          \<and> (\<forall>x \<in> set h. fst x < length ts)
          \<and> (\<forall>i < length ts. (sections_of i h \<noteq> [] \<longrightarrow> okay i (sections_of i h) None)
               \<and> in_sections m view (okay i) (snd (ts ! i)) (sections_of i h) (in_section m view w d (fst (ts ! i)))))"

lemma in_section_out [simp]: "m \<notin> set H \<Longrightarrow> in_section m view v0 d H = None"
  by (simp add: in_section_def)

lemma in_section_other [simp]: "k \<noteq> m \<Longrightarrow> in_section m view v0 d (k # H) = in_section m view v0 d H"
  "k \<noteq> m \<Longrightarrow> in_section m view v0 d (remove1 k H) = in_section m view v0 d H"
  by (simp_all add: in_section_def)

lemma sections_invI:
  assumes inv: "linked v h w'" "\<forall>x \<in> set h. fst x < length ts" and i: "i < length ts"
    and free: "m \<notin> set H \<Longrightarrow> \<forall>j < length ts. j \<noteq> i \<longrightarrow> m \<notin> set (fst (ts ! j)) \<Longrightarrow> view d' = w'"
    and own: "sections_of i h \<noteq> [] \<Longrightarrow> okay i (sections_of i h) None"
      "in_sections m view (okay i) p (sections_of i h) (in_section m view w' d' H)"
    and others: "\<And>j. j < length ts \<Longrightarrow> j \<noteq> i \<Longrightarrow> sections_of j h \<noteq> [] \<Longrightarrow> okay j (sections_of j h) None"
      "\<And>j. j < length ts \<Longrightarrow> j \<noteq> i \<Longrightarrow>
        in_sections m view (okay j) (snd (ts ! j)) (sections_of j h) (in_section m view w' d' (fst (ts ! j)))"
  shows "sections_inv m view okay v h (ts[i := (H, p)], d')"
proof -
  let ?ts = "ts[i := (H, p)]"
  have "view d' = w'" if out: "\<forall>j < length ?ts. m \<notin> set (fst (?ts ! j))"
  proof (rule free)
    show "m \<notin> set H" using out [rule_format, of i] i by simp
    show "\<forall>j < length ts. j \<noteq> i \<longrightarrow> m \<notin> set (fst (ts ! j))"
      using out by (metis length_list_update nth_list_update_neq)
  qed
  moreover have "(sections_of j h \<noteq> [] \<longrightarrow> okay j (sections_of j h) None)
      \<and> in_sections m view (okay j) (snd (?ts ! j)) (sections_of j h) (in_section m view w' d' (fst (?ts ! j)))"
    if "j < length ts" for j
    using own others [OF that] i by (cases "j = i") auto
  ultimately show ?thesis using inv by (auto simp: sections_inv_def)
qed

lemma sections_invE:
  assumes "sections_inv m view okay v h (ts, d)" and "exclusive ts"
  obtains w where "linked v h w" "\<forall>x \<in> set h. fst x < length ts"
    and "(\<forall>i < length ts. m \<notin> set (fst (ts ! i))) \<Longrightarrow> view d = w"
    and "\<And>i. i < length ts \<Longrightarrow> sections_of i h \<noteq> [] \<Longrightarrow> okay i (sections_of i h) None"
    and "\<And>i. i < length ts \<Longrightarrow> in_sections m view (okay i) (snd (ts ! i)) (sections_of i h)
           (in_section m view w d (fst (ts ! i)))"
    and "\<And>i j w' x. i < length ts \<Longrightarrow> m \<in> set (fst (ts ! i)) \<Longrightarrow> j < length ts \<Longrightarrow> j \<noteq> i
           \<Longrightarrow> in_section m view w' x (fst (ts ! j)) = None"
proof -
  have "in_section m view w' x (fst (ts ! j)) = None"
    if "i < length ts" "m \<in> set (fst (ts ! i))" "j < length ts" "j \<noteq> i" for i j w' x
    using assms(2) that by (intro in_section_out) (auto simp: exclusive_def)
  moreover obtain w where "linked v h w" "\<forall>x \<in> set h. fst x < length ts" "(\<forall>i < length ts. m \<notin> set (fst (ts ! i))) \<longrightarrow> view d = w"
    "\<forall>i < length ts. (sections_of i h \<noteq> [] \<longrightarrow> okay i (sections_of i h) None)
       \<and> in_sections m view (okay i) (snd (ts ! i)) (sections_of i h) (in_section m view w d (fst (ts ! i)))"
    using assms(1) by (auto simp: sections_inv_def)
  ultimately show thesis by (intro that) blast+
qed

text \<open>The three kinds of step.\<close>

lemma sections_inv_acquire:
  assumes inv: "sections_inv m view okay v h (ts, d)" and exc: "exclusive ts"
    and i: "i < length ts" "ts ! i = (H, Acquire k p)" and may: "may_acquire recursive k i ts"
  shows "sections_inv m view okay v h (ts[i := (k # H, p)], d)"
proof -
  obtain w where w: "linked v h w" "(\<forall>i < length ts. m \<notin> set (fst (ts ! i))) \<Longrightarrow> view d = w"
    and log: "\<forall>x \<in> set h. fst x < length ts" and okay: "\<And>i. i < length ts \<Longrightarrow> sections_of i h \<noteq> [] \<Longrightarrow> okay i (sections_of i h) None"
    and prg: "\<And>i. i < length ts \<Longrightarrow> in_sections m view (okay i) (snd (ts ! i)) (sections_of i h)
           (in_section m view w d (fst (ts ! i)))"
    using inv exc by (rule sections_invE) blast
  have free: "view d = w" if "\<forall>j < length ts. j \<noteq> i \<longrightarrow> m \<notin> set (fst (ts ! j))" "m \<notin> set H"
    using w(2) that i by (metis fst_conv)
  note pi = prg [OF i(1), unfolded i(2)]
  have "in_sections m view (okay i) p (sections_of i h) (in_section m view w d (k # H))"
  proof (cases "k = m \<and> m \<notin> set H")
    case True
    have "\<forall>j < length ts. j \<noteq> i \<longrightarrow> m \<notin> set (fst (ts ! j))"
      using may True by (auto simp: may_acquire_def held_by_others_def)
    with free True have "view d = w" by blast
    with pi True show ?thesis by (auto simp: in_section_def)
  next
    case False
    then have "\<exists>n. count_list H m = Suc n" if "k = m"
      using that by (metis count_list_0_iff not0_implies_Suc)
    with False pi show ?thesis by (auto simp: in_section_def split: if_splits)
  qed
  with free w(1) log okay prg i(1) show ?thesis by (intro sections_invI [where w' = w]) auto
qed

lemma sections_inv_release:
  assumes inv: "sections_inv m view okay v h (ts, d)" and exc: "exclusive ts"
    and i: "i < length ts" "ts ! i = (H, Release k p)" and held: "k \<in> set H"
  shows "\<exists>h'. sections_inv m view okay v h' (ts[i := (remove1 k H, p)], d)"
proof -
  obtain w where w: "linked v h w" "(\<forall>i < length ts. m \<notin> set (fst (ts ! i))) \<Longrightarrow> view d = w"
    and log: "\<forall>x \<in> set h. fst x < length ts" and okay: "\<And>i. i < length ts \<Longrightarrow> sections_of i h \<noteq> [] \<Longrightarrow> okay i (sections_of i h) None"
    and prg: "\<And>i. i < length ts \<Longrightarrow> in_sections m view (okay i) (snd (ts ! i)) (sections_of i h)
           (in_section m view w d (fst (ts ! i)))"
    and other: "\<And>i j w' x. i < length ts \<Longrightarrow> m \<in> set (fst (ts ! i)) \<Longrightarrow> j < length ts \<Longrightarrow> j \<noteq> i
           \<Longrightarrow> in_section m view w' x (fst (ts ! j)) = None"
    using inv exc by (rule sections_invE) blast
  note pi = prg [OF i(1), unfolded i(2)]
  show ?thesis
  proof (cases "k = m \<and> count_list H m = 1")
    case True
    then have gone: "m \<notin> set (remove1 m H)" by (simp flip: count_list_0_iff)
    let ?h = "h @ [(i, w, view d)]"
    have "okay i (sections_of i ?h) None" "in_sections m view (okay i) p (sections_of i ?h) None"
      using pi True held by (auto simp: in_section_def)
    moreover have "in_sections m view (okay j) (snd (ts ! j)) (sections_of j h) None" if "j < length ts" "j \<noteq> i" for j
      using prg [OF that(1)] other [OF i(1) _ that] True held i(2) by simp
    ultimately have "sections_inv m view okay v ?h (ts[i := (remove1 k H, p)], d)"
      using w(1) log okay other [OF i(1)] i True held gone by (intro sections_invI [where w' = "view d"]) auto
    then show ?thesis by blast
  next
    case False
    have still: "\<exists>n. count_list H m = Suc (Suc n)" "m \<in> set (remove1 m H)" if "k = m"
    proof -
      have "count_list H m \<noteq> 0" "count_list H m \<noteq> 1" using that False held by (auto simp: count_list_0_iff)
      then show "\<exists>n. count_list H m = Suc (Suc n)" by (metis One_nat_def not0_implies_Suc)
      then show "m \<in> set (remove1 m H)" by (auto simp flip: count_list_0_iff intro: ccontr)
    qed
    then have "in_sections m view (okay i) p (sections_of i h) (in_section m view w d (remove1 k H))"
      using pi held by (cases "k = m") (auto simp: in_section_def)
    moreover have "view d = w" if "m \<notin> set (remove1 k H)" "\<forall>j < length ts. j \<noteq> i \<longrightarrow> m \<notin> set (fst (ts ! j))"
    proof -
      have "m \<notin> set H" using that(1) still by (cases "k = m") (auto simp: in_set_remove1)
      with w(2) that(2) i show ?thesis by (metis fst_conv)
    qed
    ultimately have "sections_inv m view okay v h (ts[i := (remove1 k H, p)], d)"
      using w(1) log okay prg i(1) by (intro sections_invI [where w' = w]) auto
    then show ?thesis by blast
  qed
qed

lemma sections_inv_act:
  assumes inv: "sections_inv m view okay v h (ts, d)" and exc: "exclusive ts"
    and i: "i < length ts" "ts ! i = (H, Act f)" and f: "f d = (d', p)"
  shows "sections_inv m view okay v h (ts[i := (H, p)], d')"
proof -
  obtain w where w: "linked v h w" "(\<forall>i < length ts. m \<notin> set (fst (ts ! i))) \<Longrightarrow> view d = w"
    and log: "\<forall>x \<in> set h. fst x < length ts" and okay: "\<And>i. i < length ts \<Longrightarrow> sections_of i h \<noteq> [] \<Longrightarrow> okay i (sections_of i h) None"
    and prg: "\<And>i. i < length ts \<Longrightarrow> in_sections m view (okay i) (snd (ts ! i)) (sections_of i h)
           (in_section m view w d (fst (ts ! i)))"
    and other: "\<And>i j w' x. i < length ts \<Longrightarrow> m \<in> set (fst (ts ! i)) \<Longrightarrow> j < length ts \<Longrightarrow> j \<noteq> i
           \<Longrightarrow> in_section m view w' x (fst (ts ! j)) = None"
    using inv exc by (rule sections_invE) blast
  note pi = prg [OF i(1), unfolded i(2)]
  show ?thesis
  proof (cases "m \<in> set H")
    case True
    with pi f have "in_sections m view (okay i) p (sections_of i h) (in_section m view w d' H)"
      by (auto simp: in_section_def)
    moreover have "in_sections m view (okay j) (snd (ts ! j)) (sections_of j h) None" if "j < length ts" "j \<noteq> i" for j
      using prg [OF that(1)] other [OF i(1) _ that] True i(2) by simp
    ultimately show ?thesis
      using w(1) log okay other [OF i(1)] i True by (intro sections_invI [where w' = w]) auto
  next
    case False
    have "\<forall>d. view (fst (f d)) = view d \<and> in_sections m view (okay i) (snd (f d)) (sections_of i h) None"
      using pi False by simp
    from this [rule_format, of d] f have v: "view d' = view d"
      and "in_sections m view (okay i) p (sections_of i h) (in_section m view w d' H)"
      using False by simp_all
    moreover have "in_section m view w d' H' = in_section m view w d H'" for H'
      by (simp add: in_section_def v)
    moreover have "view d' = w" if "\<forall>j < length ts. j \<noteq> i \<longrightarrow> m \<notin> set (fst (ts ! j))"
      using w(2) v that i False by (metis fst_conv)
    ultimately show ?thesis
      using w(1) log okay prg i(1) by (intro sections_invI [where w' = w]) auto
  qed
qed

lemma sections_inv_step:
  assumes "thread_step recursive i (ts, d) = Some (ts', d')" and "exclusive ts"
    and "sections_inv m view okay v h (ts, d)"
  shows "\<exists>h'. sections_inv m view okay v h' (ts', d')"
  using assms(1)
proof (cases rule: thread_step_cases)
  case (acquire H k p)
  then show ?thesis using sections_inv_acquire [OF assms(3,2)] by blast
next
  case (release H k p)
  then show ?thesis using sections_inv_release [OF assms(3,2)] by blast
next
  case (act H f p)
  then show ?thesis using sections_inv_act [OF assms(3,2)] by blast
qed

text \<open>
  Every schedule gives an order of whole sections: the guarded part goes through them, every program has
  done what it is described to do, and what is stored when nobody holds the mutex is the last value.
\<close>

theorem sections_in_some_order:
  assumes "reaches recursive (started ps d) (ts, d')"
    and "\<And>i. i < length ps \<Longrightarrow> in_sections m view (okay i) (ps ! i) [] None"
  shows "\<exists>h w. linked (view d) h w
    \<and> ((\<forall>i < length ts. m \<notin> set (fst (ts ! i))) \<longrightarrow> view d' = w)
    \<and> (\<forall>x \<in> set h. fst x < length ts)
    \<and> (\<forall>i < length ts. (sections_of i h \<noteq> [] \<longrightarrow> okay i (sections_of i h) None)
         \<and> (\<forall>H r. ts ! i = (H, Return r) \<longrightarrow> okay i (sections_of i h) (Some r)))"
proof -
  have "\<exists>h. sections_inv m view okay (view d) h c" if "reaches recursive (started ps d) c" for c
    using that
  proof (induction rule: reaches.induct)
    case start
    have "sections_inv m view okay (view d) [] (started ps d)"
      using assms(2) by (auto simp: sections_inv_def started_def)
    then show ?case by blast
  next
    case (step c i c')
    then show ?case
      using reaches_exclusive [OF step.hyps(1)] by (cases c; cases c') (fastforce dest: sections_inv_step)
  qed
  from this [OF assms(1)] obtain h w where
    "linked (view d) h w" "(\<forall>i < length ts. m \<notin> set (fst (ts ! i))) \<longrightarrow> view d' = w"
    "\<forall>x \<in> set h. fst x < length ts"
    and each: "\<And>i. i < length ts \<Longrightarrow> (sections_of i h \<noteq> [] \<longrightarrow> okay i (sections_of i h) None)
       \<and> in_sections m view (okay i) (snd (ts ! i)) (sections_of i h) (in_section m view w d' (fst (ts ! i)))"
    by (auto simp: sections_inv_def)
  moreover have "okay i (sections_of i h) (Some r)" if "i < length ts" "ts ! i = (H, Return r)" for i H r
    using each [OF that(1)] that(2) by simp
  ultimately show ?thesis by blast
qed

end
