(* ===== verification/Threaded_Components.thy ===== *)
theory Threaded_Components
  imports System_Lifecycle Mutex_Sections
begin

text \<open>
  The functions of the service as programs of threads, with every mutex they take: the members of
  \<open>screenlock_system_ability.h\<close>, \<open>strongauthmanager.h\<close>, \<open>innerlistenermanager.h\<close>, \<open>commeventsubscriber.h\<close>
  and \<open>dump_helper.h\<close>.  Here the listeners of system events, the inner listeners and strong
  authentication; \<open>Threaded_Service\<close> has the requests and the rest.  Run alone, a program does what the
  function of the same name does (the lemmas called \<open>_alone\<close>); and it keeps to one order of the mutexes
  (the lemmas called \<open>_order\<close>).  Calls into other processes and services are accesses that return.
\<close>

section \<open>The mutexes and their order\<close>

datatype service_mutex =
    DumpLock
  | AccountSubscriberMutex
  | EventLock
  | AuthStateMutex
  | StrongAuthTimerMutex
  | UnlockListenerMutex
  | LockListenerMutex
  | ScreenLockMutex
  | InnerMutex
  | ListenerMutex
  | QueueLock
  | RunningStateMutex
  | InstanceLock
  | StrongAuthInstanceLock

fun lock_rank :: "service_mutex \<Rightarrow> nat" where
  "lock_rank DumpLock = 0"
| "lock_rank AccountSubscriberMutex = 1"
| "lock_rank EventLock = 2"
| "lock_rank AuthStateMutex = 3"
| "lock_rank StrongAuthTimerMutex = 4"
| "lock_rank UnlockListenerMutex = 5"
| "lock_rank LockListenerMutex = 6"
| "lock_rank ScreenLockMutex = 7"
| "lock_rank InnerMutex = 8"
| "lock_rank ListenerMutex = 9"
| "lock_rank QueueLock = 10"
| "lock_rank RunningStateMutex = 11"
| "lock_rank InstanceLock = 12"
| "lock_rank StrongAuthInstanceLock = 13"

text \<open>Only the mutex of the inner listeners is a \<open>std::recursive_mutex\<close>.\<close>

definition recursive_mutex :: "service_mutex \<Rightarrow> bool" where
  "recursive_mutex m = (m = InnerMutex)"

lemma lock_rank_inj: "lock_rank a = lock_rank b \<Longrightarrow> a = b"
  by (cases a; cases b) simp_all

text \<open>A program that takes only mutexes of at least a rank, in order, and gives them back.\<close>

definition keeps_order :: "nat \<Rightarrow> (service_mutex, 'd, 'r) prog \<Rightarrow> bool" where
  "keeps_order n p \<longleftrightarrow> (\<forall>H. (\<forall>k \<in> set H. lock_rank k < n) \<longrightarrow> in_order lock_rank recursive_mutex H p H)"

lemma keeps_order_Return [simp]: "keeps_order n (Return r)"
  by (simp add: keeps_order_def)

lemma keeps_order_reading [simp]: "keeps_order n (reading g k) \<longleftrightarrow> (\<forall>d. keeps_order n (k (g d)))"
  by (auto simp: keeps_order_def)

lemma keeps_order_writing [simp]: "keeps_order n (writing f p) \<longleftrightarrow> keeps_order n p"
  by (simp add: keeps_order_def)

lemma keeps_order_calling: "(\<And>a. keeps_order n (k a)) \<Longrightarrow> keeps_order n (calling f k)"
  by (auto simp: keeps_order_def intro: in_order_calling)

lemma keeps_order_andthen: "keeps_order n p \<Longrightarrow> (\<And>a. keeps_order n (k a)) \<Longrightarrow> keeps_order n (andthen p k)"
  by (auto simp: keeps_order_def intro: in_order_andthen)

lemma keeps_order_mono: "keeps_order n' p \<Longrightarrow> n \<le> n' \<Longrightarrow> keeps_order n p"
  by (force simp: keeps_order_def)

text \<open>A recursive mutex may be taken by a program that holds it already.\<close>

lemma keeps_order_guarded:
  assumes p: "keeps_order (Suc (lock_rank m)) p" and n: "n \<le> lock_rank m + (if recursive_mutex m then 1 else 0)"
  shows "keeps_order n (guarded m p)"
  unfolding keeps_order_def
proof (intro allI impI in_order_guarded)
  fix H assume H: "\<forall>k \<in> set H. lock_rank k < n"
  have "\<forall>k \<in> set (m # H). lock_rank k < Suc (lock_rank m)" using H n by (auto split: if_splits)
  then show "in_order lock_rank recursive_mutex (m # H) p (m # H)" using p unfolding keeps_order_def by blast
  show "m \<in> set H \<and> recursive_mutex m \<or> (\<forall>k \<in> set H. lock_rank k < lock_rank m)"
  proof (cases "\<forall>k \<in> set H. lock_rank k < lock_rank m")
    case False
    then obtain k where k: "k \<in> set H" "lock_rank m \<le> lock_rank k" by auto
    with H n have "lock_rank k = lock_rank m" "recursive_mutex m" by (force split: if_splits)+
    with k(1) show ?thesis by (auto dest: lock_rank_inj)
  qed simp
qed

lemma recursive_mutex_simps [simp]:
  "recursive_mutex InnerMutex" "m \<noteq> InnerMutex \<Longrightarrow> \<not> recursive_mutex m"
  by (simp_all add: recursive_mutex_def)

lemmas order_rules = keeps_order_calling keeps_order_andthen keeps_order_guarded

lemma in_order_keeps: "keeps_order 0 p \<Longrightarrow> in_order lock_rank recursive_mutex [] p []"
  by (simp add: keeps_order_def)

text \<open>A program composed of others runs alone as their composition.\<close>

lemma andthen_parts [simp]:
  "andthen (reading g k) h = reading g (\<lambda>a. andthen (k a) h)"
  "andthen (writing f p) h = writing f (andthen p h)"
  by (simp_all add: reading_def writing_def comp_def)

lemma andthen_calling [simp]: "andthen (calling f k) h = calling f (\<lambda>a. andthen (k a) h)"
  by (simp add: calling_def comp_def map_prod_def split_beta)

section \<open>System events\<close>

text \<open>\<open>SystemEventCallBack\<close> takes the mutex twice: to see that there is a listener, and to call it.\<close>

definition SystemEventCallBack_prog ::
  "system_event \<Rightarrow> (service_mutex, ('p, 's) event_state_scheme, unit) prog"
where
  "SystemEventCallBack_prog ev =
     andthen (guarded ListenerMutex (reading systemEventListener (\<lambda>l. Return (l \<noteq> None))))
       (\<lambda>there. if \<not> there then Return ()
         else guarded ListenerMutex (reading systemEventListener (\<lambda>l.
                case l of None \<Rightarrow> Return ()
                | Some listener \<Rightarrow> writing (emit [SystemEventCallback listener ev]) (Return ()))))"

lemma SystemEventCallBack_alone [simp]: "alone (SystemEventCallBack_prog ev) s = ((), SystemEventCallBack ev s)"
  by (simp add: SystemEventCallBack_prog_def SystemEventCallBack_def split: option.split)

lemma SystemEventCallBack_order [simp]: "n \<le> 9 \<Longrightarrow> keeps_order n (SystemEventCallBack_prog ev)"
  by (auto simp: SystemEventCallBack_prog_def intro!: order_rules split: option.split)

definition StrongAuthChanged_prog ::
  "int \<Rightarrow> int \<Rightarrow> (service_mutex, ('p, 's) event_state_scheme, unit) prog"
where
  "StrongAuthChanged_prog userId reasonFlag =
     reading (\<lambda>s. GetCurrentUser (stateValue s)) (\<lambda>cur.
       if cur \<noteq> userId then Return ()
       else SystemEventCallBack_prog
              ((SystemEvent STRONG_AUTH_CHANGED)\<lparr>eventUserId := userId, params := to_string reasonFlag\<rparr>))"

lemma StrongAuthChanged_alone [simp]: "alone (StrongAuthChanged_prog u r) s = ((), StrongAuthChanged u r s)"
  by (simp add: StrongAuthChanged_prog_def StrongAuthChanged_def)

lemma StrongAuthChanged_order [simp]: "n \<le> 9 \<Longrightarrow> keeps_order n (StrongAuthChanged_prog u r)"
  by (auto simp: StrongAuthChanged_prog_def)

definition PreAuthStateNotify_prog ::
  "int \<Rightarrow> int \<Rightarrow> (service_mutex, ('p, 's) event_state_scheme, unit) prog"
where
  "PreAuthStateNotify_prog userId authState =
     reading (\<lambda>s. GetCurrentUser (stateValue s)) (\<lambda>cur.
       if userId \<noteq> cur then Return ()
       else if authState = auth_code PRE_AUTHED_RESULT_BY_CREDENTIAL
               \<or> authState = auth_code PRE_AUTHED_RESULT_BY_FINGERPRINT
       then SystemEventCallBack_prog (SystemEvent PRE_AUTH_RESULT)
       else Return ())"

lemma PreAuthStateNotify_alone [simp]: "alone (PreAuthStateNotify_prog u a) s = ((), PreAuthStateNotify u a s)"
  by (simp add: PreAuthStateNotify_prog_def PreAuthStateNotify_def)

lemma PreAuthStateNotify_order [simp]: "n \<le> 9 \<Longrightarrow> keeps_order n (PreAuthStateNotify_prog u a)"
  by (auto simp: PreAuthStateNotify_prog_def)

section \<open>Inner listeners\<close>

text \<open>
  The tables are read and written only under their mutex, which each function takes again.  The calls of
  the listeners are one access each.
\<close>

definition getListenerSet_prog ::
  "int \<Rightarrow> int \<Rightarrow> (service_mutex, ('p, 's) inner_state_scheme, listener list) prog"
where
  "getListenerSet_prog userId listenType = guarded InnerMutex (reading (getListenerSet userId listenType) Return)"

fun tell_listeners ::
  "listener list \<Rightarrow> int \<Rightarrow> int \<Rightarrow> (service_mutex, ('p, 's) inner_state_scheme, unit) prog"
where
  "tell_listeners [] userId state = Return ()"
| "tell_listeners (l # ls) userId state =
     writing (emit [InnerStateChanged l userId state]) (tell_listeners ls userId state)"

definition OnStateChanged_prog ::
  "int \<Rightarrow> int \<Rightarrow> int \<Rightarrow> (service_mutex, ('p, 's) inner_state_scheme, unit) prog"
where
  "OnStateChanged_prog userId state listenType =
     guarded InnerMutex
       (andthen (getListenerSet_prog userId listenType) (\<lambda>listenerSetTemp.
        andthen (tell_listeners listenerSetTemp userId state) (\<lambda>_.
        andthen (getListenerSet_prog (special_user_code USER_ALL) listenType) (\<lambda>listenerSetAll.
        tell_listeners listenerSetAll userId state))))"

lemma tell_listeners_alone [simp]:
  "alone (tell_listeners ls u st) s = ((), emit (map (\<lambda>l. InnerStateChanged l u st) ls) s)"
  by (induction ls arbitrary: s) simp_all

lemma tell_listeners_order [simp]: "keeps_order n (tell_listeners ls u st)"
  by (induction ls) simp_all

lemma OnStateChanged_alone [simp]: "alone (OnStateChanged_prog u st t) s = ((), OnStateChanged u st t s)"
  by (simp add: OnStateChanged_prog_def OnStateChanged_def getListenerSet_prog_def Let_def)

lemma OnStateChanged_order [simp]: "n \<le> 8 \<Longrightarrow> keeps_order n (OnStateChanged_prog u st t)"
  by (auto simp: OnStateChanged_prog_def getListenerSet_prog_def intro!: order_rules)

definition RegisterInnerListener_prog ::
  "'p env \<Rightarrow> int \<Rightarrow> int \<Rightarrow> listener option \<Rightarrow> (service_mutex, ('p, 's) inner_state_scheme, status) prog"
where
  "RegisterInnerListener_prog e userId listenType listener =
     guarded InnerMutex
       (case listener of
          None \<Rightarrow> Return (Code E_SCREENLOCK_NULLPTR)
        | Some l \<Rightarrow>
            andthen (guarded InnerMutex (calling (AddDeathRecipient e listenType (Some l)) Return)) (\<lambda>result.
              if result \<noteq> OK then Return result
              else let userId' = (if userId = special_user_code USER_CURRENT
                                  then GetUserIdFromCallingUid e else userId)
                   in andthen (guarded InnerMutex (calling (AddInnerListener userId' listenType l) Return)) (\<lambda>result2.
                        if result2 \<noteq> OK then Return result2 else Return OK)))"

definition UnRegisterInnerListener_prog ::
  "int \<Rightarrow> listener option \<Rightarrow> (service_mutex, ('p, 's) inner_state_scheme, status) prog"
where
  "UnRegisterInnerListener_prog listenType listener =
     guarded InnerMutex
       (case listener of
          None \<Rightarrow> Return (Code E_SCREENLOCK_NULLPTR)
        | Some l \<Rightarrow>
            andthen (guarded InnerMutex (calling (RemoveDeathRecipient (Some l)) Return)) (\<lambda>result.
              if result \<noteq> OK then Return result
              else andthen (guarded InnerMutex (calling (RemoveInnerListener listenType l) Return)) (\<lambda>result2.
                     if result2 \<noteq> OK then Return result2 else Return OK)))"

lemma RegisterInnerListener_alone [simp]:
  "alone (RegisterInnerListener_prog e u t lo) s = RegisterInnerListener e u t lo s"
  by (auto simp: RegisterInnerListener_prog_def RegisterInnerListener_def Let_def split: option.split prod.split)

lemma UnRegisterInnerListener_alone [simp]:
  "alone (UnRegisterInnerListener_prog t lo) s = UnRegisterInnerListener t lo s"
  by (auto simp: UnRegisterInnerListener_prog_def UnRegisterInnerListener_def Let_def split: option.split prod.split)

lemma RegisterInnerListener_order [simp]: "n \<le> 8 \<Longrightarrow> keeps_order n (RegisterInnerListener_prog e u t lo)"
  by (auto simp: RegisterInnerListener_prog_def Let_def intro!: order_rules split: option.split)

lemma UnRegisterInnerListener_order [simp]: "n \<le> 8 \<Longrightarrow> keeps_order n (UnRegisterInnerListener_prog t lo)"
  by (auto simp: UnRegisterInnerListener_prog_def intro!: order_rules split: option.split)

text \<open>The death of a client: a copy of the map, then each removal of its own.\<close>

definition GetDeathRecipient_prog ::
  "(service_mutex, ('p, 's) inner_state_scheme, (listener, int \<times> bool) stdmap) prog"
where
  "GetDeathRecipient_prog = guarded InnerMutex (reading deathRecipientMap Return)"

fun unregister_dead_prog ::
  "nat \<Rightarrow> (listener, int \<times> bool) stdmap \<Rightarrow> (service_mutex, ('p, 's) inner_state_scheme, unit) prog"
where
  "unregister_dead_prog remote [] = Return ()"
| "unregister_dead_prog remote ((l, listenType, dr) # rest) =
     (if AsObject l = Some remote
      then andthen (UnRegisterInnerListener_prog listenType (Some l)) (\<lambda>_. unregister_dead_prog remote rest)
      else unregister_dead_prog remote rest)"

definition OnRemoteDied_prog :: "nat option \<Rightarrow> (service_mutex, ('p, 's) inner_state_scheme, unit) prog" where
  "OnRemoteDied_prog remote =
     (case remote of None \<Rightarrow> Return ()
      | Some r \<Rightarrow> andthen GetDeathRecipient_prog (unregister_dead_prog r))"

lemma unregister_dead_alone [simp]: "alone (unregister_dead_prog r d) s = ((), unregister_dead r d s)"
  by (induction r d arbitrary: s rule: unregister_dead_prog.induct) (simp_all add: case_prod_beta)

lemma OnRemoteDied_alone [simp]: "alone (OnRemoteDied_prog ro) s = ((), OnRemoteDied ro s)"
  by (simp add: OnRemoteDied_prog_def OnRemoteDied_def GetDeathRecipient_prog_def split: option.split)

lemma unregister_dead_order [simp]: "n \<le> 8 \<Longrightarrow> keeps_order n (unregister_dead_prog r d)"
  by (induction r d rule: unregister_dead_prog.induct) (auto intro: order_rules)

lemma OnRemoteDied_order [simp]: "n \<le> 8 \<Longrightarrow> keeps_order n (OnRemoteDied_prog ro)"
  by (auto simp: OnRemoteDied_prog_def GetDeathRecipient_prog_def intro!: order_rules split: option.split)

end
