(* ===== verification/Threaded_Strong_Auth.thy ===== *)
theory Threaded_Strong_Auth
  imports Threaded_Components
begin

text \<open>
  \<open>strongauthmanager.cpp\<close> as programs of threads.  One mutex guards both maps of the manager.  Some
  functions tell the listeners while they hold it and some after they have released it, and
  \<open>ResetStrongAuthTimer\<close> restarts a timer between two sections; each is written as the code has it.
\<close>

section \<open>The reason flags\<close>

definition NotifyStrongAuthChange_prog ::
  "'p env \<Rightarrow> int \<Rightarrow> int \<Rightarrow> (service_mutex, ('p, 's) strong_state_scheme, unit) prog"
where
  "NotifyStrongAuthChange_prog e userId reasonFlag =
     (let tell = andthen (StrongAuthChanged_prog userId reasonFlag)
                   (\<lambda>_. OnStateChanged_prog userId reasonFlag (listen_type STRONG_AUTH))
      in if reasonFlag = reason_code REASON_NONE
         then if IsOsAccountUnlocked e userId then tell else Return ()
         else tell)"

lemma NotifyStrongAuthChange_alone [simp]:
  "alone (NotifyStrongAuthChange_prog e u r) s = ((), NotifyStrongAuthChange e u r s)"
  by (simp add: NotifyStrongAuthChange_prog_def NotifyStrongAuthChange_def OnStrongAuthChanged_def Let_def)

lemma NotifyStrongAuthChange_order [simp]: "n \<le> 8 \<Longrightarrow> keeps_order n (NotifyStrongAuthChange_prog e u r)"
  by (auto simp: NotifyStrongAuthChange_prog_def Let_def intro!: order_rules)

text \<open>The listeners of a user that is new are told under the mutex, those of a known one after it.\<close>

definition SetStrongAuthStat_prog ::
  "'p env \<Rightarrow> int \<Rightarrow> int \<Rightarrow> (service_mutex, ('p, 's) strong_state_scheme, unit) prog"
where
  "SetStrongAuthStat_prog e userId reasonFlag =
     andthen
       (guarded StrongAuthTimerMutex
          (reading (\<lambda>s. mfind (strongAuthStateInfo s) userId) (\<lambda>iter.
             case iter of
               None \<Rightarrow>
                 writing (\<lambda>s. s\<lparr>strongAuthStateInfo := minsert userId reasonFlag (strongAuthStateInfo s)\<rparr>)
                   (andthen (NotifyStrongAuthChange_prog e userId reasonFlag) (\<lambda>_. Return False))
             | Some oldFlag \<Rightarrow>
                 if oldFlag = reason_code AFTER_BOOT \<and> reasonFlag \<noteq> reason_code REASON_NONE then Return False
                 else writing (\<lambda>s. s\<lparr>strongAuthStateInfo := mput userId reasonFlag (strongAuthStateInfo s)\<rparr>)
                        (Return True))))
       (\<lambda>unlocked. if unlocked then NotifyStrongAuthChange_prog e userId reasonFlag else Return ())"

definition GetStrongAuthStat_prog ::
  "'p env \<Rightarrow> int \<Rightarrow> (service_mutex, ('p, 's) strong_state_scheme, int) prog"
where
  "GetStrongAuthStat_prog e userId =
     guarded StrongAuthTimerMutex
       (reading (\<lambda>s. mfind (strongAuthStateInfo s) userId) (\<lambda>iter.
          if IsOsAccountUnlocked e userId
          then case iter of None \<Rightarrow> Return (reason_code AFTER_BOOT) | Some reasonFlag \<Rightarrow> Return reasonFlag
          else Return (reason_code AFTER_BOOT)))"

definition GetStrongAuthTimeTrigger_prog :: "int \<Rightarrow> (service_mutex, ('p, 's) strong_state_scheme, int) prog" where
  "GetStrongAuthTimeTrigger_prog userId =
     guarded StrongAuthTimerMutex (reading (GetStrongAuthTimeTrigger userId) Return)"

definition DestroyStrongAuthStateInfo_prog :: "int \<Rightarrow> (service_mutex, ('p, 's) strong_state_scheme, unit) prog" where
  "DestroyStrongAuthStateInfo_prog userId =
     guarded StrongAuthTimerMutex (writing (DestroyStrongAuthStateInfo userId) (Return ()))"

definition InitStrongAuthStat_prog ::
  "'p env \<Rightarrow> int \<Rightarrow> int \<Rightarrow> (service_mutex, ('p, 's) strong_state_scheme, unit) prog"
where
  "InitStrongAuthStat_prog e userId reasonFlag =
     guarded StrongAuthTimerMutex
       (reading (\<lambda>s. mfind (strongAuthStateInfo s) userId) (\<lambda>iter.
          case iter of
            None \<Rightarrow> writing (\<lambda>s. s\<lparr>strongAuthStateInfo := minsert userId reasonFlag (strongAuthStateInfo s)\<rparr>)
                      (NotifyStrongAuthChange_prog e userId reasonFlag)
          | Some _ \<Rightarrow> Return ()))"

definition IsUserExitInStrongAuthInfo_prog :: "int \<Rightarrow> (service_mutex, ('p, 's) strong_state_scheme, bool) prog" where
  "IsUserExitInStrongAuthInfo_prog userId =
     guarded StrongAuthTimerMutex (reading (IsUserExitInStrongAuthInfo userId) Return)"

lemma reason_alone [simp]:
  "alone (SetStrongAuthStat_prog e u r) s = ((), SetStrongAuthStat e u r s)"
  "alone (GetStrongAuthStat_prog e u) s = (GetStrongAuthStat e u s, s)"
  "alone (GetStrongAuthTimeTrigger_prog u) s = (GetStrongAuthTimeTrigger u s, s)"
  "alone (DestroyStrongAuthStateInfo_prog u) s = ((), DestroyStrongAuthStateInfo u s)"
  "alone (InitStrongAuthStat_prog e u r) s = ((), InitStrongAuthStat e u r s)"
  "alone (IsUserExitInStrongAuthInfo_prog u) s = (IsUserExitInStrongAuthInfo u s, s)"
  by (simp_all add: SetStrongAuthStat_prog_def SetStrongAuthStat_def GetStrongAuthStat_prog_def
      GetStrongAuthStat_def GetStrongAuthTimeTrigger_prog_def DestroyStrongAuthStateInfo_prog_def
      InitStrongAuthStat_prog_def InitStrongAuthStat_def IsUserExitInStrongAuthInfo_prog_def split: option.split)

lemma reason_order [simp]:
  "n \<le> 4 \<Longrightarrow> keeps_order n (SetStrongAuthStat_prog e u r)"
  "n \<le> 4 \<Longrightarrow> keeps_order n (GetStrongAuthStat_prog e u)"
  "n \<le> 4 \<Longrightarrow> keeps_order n (GetStrongAuthTimeTrigger_prog u)"
  "n \<le> 4 \<Longrightarrow> keeps_order n (DestroyStrongAuthStateInfo_prog u)"
  "n \<le> 4 \<Longrightarrow> keeps_order n (InitStrongAuthStat_prog e u r)"
  "n \<le> 4 \<Longrightarrow> keeps_order n (IsUserExitInStrongAuthInfo_prog u)"
  by (auto simp: SetStrongAuthStat_prog_def GetStrongAuthStat_prog_def GetStrongAuthTimeTrigger_prog_def
      DestroyStrongAuthStateInfo_prog_def InitStrongAuthStat_prog_def IsUserExitInStrongAuthInfo_prog_def
      intro!: order_rules split: option.split)

section \<open>The timers\<close>

definition StartStrongAuthTimer_period_prog ::
  "'p env \<Rightarrow> int \<Rightarrow> int \<Rightarrow> (service_mutex, ('p, 's) strong_state_scheme, unit) prog"
where
  "StartStrongAuthTimer_period_prog e userId period =
     guarded StrongAuthTimerMutex
       (reading (GetTimerId userId) (\<lambda>tid.
          if tid \<noteq> 0 then Return ()
          else let timer = SetUserId userId (SetCallbackInfo True
                             (authTimer e True DEFAULT_STRONG_AUTH_TIMEOUT_MS True False))
               in calling (CreateTimer e timer) (\<lambda>newId.
                  calling (GetBootTimeMs e) (\<lambda>currentTime.
                  writing (emit [TimerStart newId (to_uint64 (currentTime + period))])
                    (writing (\<lambda>s. s\<lparr>strongAuthTimerInfo := minsert userId
                         \<lparr>timerId = newId, triggerPeriod = period, credChangeTimerStamp = currentTime\<rparr>
                         (strongAuthTimerInfo s)\<rparr>) (Return ()))))))"

definition SetCredChangeTriggerPeriod_prog ::
  "'p env \<Rightarrow> int \<Rightarrow> int \<Rightarrow> (service_mutex, ('p, 's) strong_state_scheme, unit) prog"
where
  "SetCredChangeTriggerPeriod_prog e userId period =
     guarded StrongAuthTimerMutex
       (reading (\<lambda>s. mfind (strongAuthTimerInfo s) userId) (\<lambda>iter.
          case iter of None \<Rightarrow> Return ()
          | Some ti \<Rightarrow>
              writing (\<lambda>s. s\<lparr>strongAuthTimerInfo := mput userId (ti\<lparr>triggerPeriod := period\<rparr>) (strongAuthTimerInfo s)\<rparr>)
                (calling (GetBootTimeMs e) (\<lambda>t.
                   writing (\<lambda>s. s\<lparr>strongAuthTimerInfo :=
                       mput userId (ti\<lparr>triggerPeriod := period, credChangeTimerStamp := t\<rparr>) (strongAuthTimerInfo s)\<rparr>)
                     (Return ())))))"

text \<open>Between its two sections the timer is stopped and started without the mutex.\<close>

definition ResetStrongAuthTimer_prog ::
  "'p env \<Rightarrow> int \<Rightarrow> int \<Rightarrow> (service_mutex, ('p, 's) strong_state_scheme, unit) prog"
where
  "ResetStrongAuthTimer_prog e userId period =
     andthen (guarded StrongAuthTimerMutex (reading (GetTimerId userId) Return)) (\<lambda>tid.
       if tid = 0 then StartStrongAuthTimer_period_prog e userId period
       else calling (GetBootTimeMs e) (\<lambda>currentTime.
            writing (emit [TimerStop tid])
              (writing (emit [TimerStart tid (to_uint64 (currentTime + period))])
                 (SetCredChangeTriggerPeriod_prog e userId period))))"

definition GetStrongAuthTriggerPeriod_prog ::
  "'p env \<Rightarrow> int \<Rightarrow> (service_mutex, ('p, 's) strong_state_scheme, int) prog"
where
  "GetStrongAuthTriggerPeriod_prog e userId =
     calling (GetBootTimeMs e) (\<lambda>currentTime.
       guarded StrongAuthTimerMutex
         (reading (\<lambda>s. mfind (strongAuthTimerInfo s) userId) (\<lambda>iter.
            case iter of
              None \<Rightarrow> Return DEFAULT_STRONG_AUTH_TIMEOUT_MS
            | Some ti \<Rightarrow>
                let ti' = advance_stage stages currentTime ti
                in writing (\<lambda>s. s\<lparr>strongAuthTimerInfo := mput userId ti' (strongAuthTimerInfo s)\<rparr>)
                     (Return (triggerPeriod ti')))))"

definition DestroyStrongAuthTimer_prog :: "int \<Rightarrow> (service_mutex, ('p, 's) strong_state_scheme, unit) prog" where
  "DestroyStrongAuthTimer_prog userId =
     guarded StrongAuthTimerMutex
       (reading (GetTimerId userId) (\<lambda>tid.
          if tid = 0 then Return ()
          else writing (emit [TimerStop tid]) (writing (emit [TimerDestroy tid])
                 (writing (\<lambda>s. s\<lparr>strongAuthTimerInfo := merase userId (strongAuthTimerInfo s)\<rparr>) (Return ())))))"

definition DestroyAllStrongAuthTimer_prog :: "(service_mutex, ('p, 's) strong_state_scheme, unit) prog" where
  "DestroyAllStrongAuthTimer_prog = guarded StrongAuthTimerMutex (writing DestroyAllStrongAuthTimer (Return ()))"

lemma mput_mput [simp]: "mput k v (mput k w m) = mput k v m"
  by (induction m) auto

lemma timer_alone [simp]:
  "alone (StartStrongAuthTimer_period_prog e u p) s = ((), StartStrongAuthTimer_period e u p s)"
  "alone (SetCredChangeTriggerPeriod_prog e u p) s = ((), SetCredChangeTriggerPeriod e u p s)"
  "alone (GetStrongAuthTriggerPeriod_prog e u) s = GetStrongAuthTriggerPeriod e u s"
  "alone (DestroyStrongAuthTimer_prog u) s = ((), DestroyStrongAuthTimer u s)"
  "alone DestroyAllStrongAuthTimer_prog s = ((), DestroyAllStrongAuthTimer s)"
proof -
  show "alone (StartStrongAuthTimer_period_prog e u p) s = ((), StartStrongAuthTimer_period e u p s)"
    by (simp add: StartStrongAuthTimer_period_prog_def StartStrongAuthTimer_period_def Let_def split_beta)
  show "alone (SetCredChangeTriggerPeriod_prog e u p) s = ((), SetCredChangeTriggerPeriod e u p s)"
    by (simp add: SetCredChangeTriggerPeriod_prog_def SetCredChangeTriggerPeriod_def GetBootTimeMs_def split: option.split)
  show "alone (GetStrongAuthTriggerPeriod_prog e u) s = GetStrongAuthTriggerPeriod e u s"
    by (simp add: GetStrongAuthTriggerPeriod_prog_def GetStrongAuthTriggerPeriod_def Let_def split_beta split: option.split)
  show "alone (DestroyStrongAuthTimer_prog u) s = ((), DestroyStrongAuthTimer u s)"
    by (simp add: DestroyStrongAuthTimer_prog_def DestroyStrongAuthTimer_def emit_def Let_def)
  show "alone DestroyAllStrongAuthTimer_prog s = ((), DestroyAllStrongAuthTimer s)"
    by (simp add: DestroyAllStrongAuthTimer_prog_def)
qed

lemma ResetStrongAuthTimer_alone [simp]:
  "alone (ResetStrongAuthTimer_prog e u p) s = ((), ResetStrongAuthTimer e u p s)"
  by (simp add: ResetStrongAuthTimer_prog_def ResetStrongAuthTimer_def Let_def split_beta)

lemma timer_order [simp]:
  "n \<le> 4 \<Longrightarrow> keeps_order n (StartStrongAuthTimer_period_prog e u p)"
  "n \<le> 4 \<Longrightarrow> keeps_order n (SetCredChangeTriggerPeriod_prog e u p)"
  "n \<le> 4 \<Longrightarrow> keeps_order n (GetStrongAuthTriggerPeriod_prog e u)"
  "n \<le> 4 \<Longrightarrow> keeps_order n (DestroyStrongAuthTimer_prog u)"
  "n \<le> 4 \<Longrightarrow> keeps_order n DestroyAllStrongAuthTimer_prog"
  by (auto simp: StartStrongAuthTimer_period_prog_def SetCredChangeTriggerPeriod_prog_def
      GetStrongAuthTriggerPeriod_prog_def DestroyStrongAuthTimer_prog_def
      DestroyAllStrongAuthTimer_prog_def Let_def intro!: order_rules split: option.split)

lemma ResetStrongAuthTimer_order [simp]: "n \<le> 4 \<Longrightarrow> keeps_order n (ResetStrongAuthTimer_prog e u p)"
  by (auto simp: ResetStrongAuthTimer_prog_def intro!: order_rules)

section \<open>Callbacks\<close>

definition StrongAuthTimerCallback_prog ::
  "'p env \<Rightarrow> int \<Rightarrow> (service_mutex, ('p, 's) strong_state_scheme, unit) prog"
where
  "StrongAuthTimerCallback_prog e userId =
     andthen (GetStrongAuthTimeTrigger_prog userId) (\<lambda>period.
       SetStrongAuthStat_prog e userId
         (if period > 0 \<and> period < DEFAULT_STRONG_AUTH_TIMEOUT_MS
          then reason_code AFTER_CREDENTIAL_CHANGED else reason_code AFTER_TIMEOUT))"

definition OnTrigger_prog ::
  "'p env \<Rightarrow> auth_timer \<Rightarrow> (service_mutex, ('p, 's) strong_state_scheme, unit) prog"
where
  "OnTrigger_prog e timer =
     (if timerHasCallback timer then StrongAuthTimerCallback_prog e (timerUserId timer) else Return ())"

definition RegistAuthEventListener_prog :: "(service_mutex, ('p, 's) strong_state_scheme, unit) prog" where
  "RegistAuthEventListener_prog =
     andthen (guarded StrongAuthInstanceLock (writing (\<lambda>s. s\<lparr>authSuccessListener := True\<rparr>) (Return ())))
       (\<lambda>_. writing (emit [ServiceCall ''RegistUserAuthSuccessEventListener'']) (Return ()))"

definition UnRegistAuthEventListener_prog :: "(service_mutex, ('p, 's) strong_state_scheme, unit) prog" where
  "UnRegistAuthEventListener_prog =
     andthen (guarded StrongAuthInstanceLock
                (reading authSuccessListener (\<lambda>there.
                   if there then writing (\<lambda>s. s\<lparr>authSuccessListener := False\<rparr>) (Return True) else Return False)))
       (\<lambda>there. if there then writing (emit [ServiceCall ''UnRegistUserAuthSuccessEventListener'']) (Return ())
                else Return ())"

definition OnNotifyAuthSuccessEvent_prog ::
  "'p env \<Rightarrow> int \<Rightarrow> auth_type \<Rightarrow> bool \<Rightarrow> (service_mutex, ('p, 's) strong_state_scheme, unit) prog"
where
  "OnNotifyAuthSuccessEvent_prog e userId authType isWidgetAuth =
     (if authType = PIN \<and> \<not> isWidgetAuth
      then andthen (SetStrongAuthStat_prog e userId (reason_code REASON_NONE)) (\<lambda>_.
           andthen (GetStrongAuthTriggerPeriod_prog e userId) (\<lambda>period.
           ResetStrongAuthTimer_prog e userId period))
      else Return ())"

definition OnNotifyCredChangeEvent_prog ::
  "'p env \<Rightarrow> int \<Rightarrow> auth_type \<Rightarrow> cred_change_event \<Rightarrow> bool \<Rightarrow> (service_mutex, ('p, 's) strong_state_scheme, unit) prog"
where
  "OnNotifyCredChangeEvent_prog e userId authType credEvent isSilentCredChange =
     (if deviceType e = ''2in1'' then Return ()
      else if authType = PIN
      then andthen (IsUserExitInStrongAuthInfo_prog userId) (\<lambda>there.
             if \<not> there then Return ()
             else if credEvent = ADD_CRED \<or> (credEvent = UPDATE_CRED \<and> \<not> isSilentCredChange)
             then ResetStrongAuthTimer_prog e userId CRED_CHANGE_FIRST_STRONG_AUTH_TIMEOUT_MS
             else if credEvent = DEL_USER
             then andthen (SetStrongAuthStat_prog e userId (reason_code REASON_NONE))
                    (\<lambda>_. DestroyStrongAuthTimer_prog userId)
             else if credEvent = ENFORCE_DEL_USER
             then andthen (DestroyStrongAuthStateInfo_prog userId) (\<lambda>_. DestroyStrongAuthTimer_prog userId)
             else Return ())
      else Return ())"

definition GetCredInfo_prog :: "'p env \<Rightarrow> int \<Rightarrow> (service_mutex, ('p, 's) strong_state_scheme, bool) prog" where
  "GetCredInfo_prog e userId =
     andthen (guarded StrongAuthTimerMutex
                (reading (\<lambda>s. mfind (strongAuthStateInfo s) userId) (\<lambda>iter. Return (iter \<noteq> None))))
       (\<lambda>there. if there then Return True
                else writing (emit [CredentialRequest userId]) (Return (getCredentialInfo e userId = AUTH_SUCCESS)))"

definition OnCredentialInfo_prog ::
  "'p env \<Rightarrow> int \<Rightarrow> auth_result \<Rightarrow> nat \<Rightarrow> (service_mutex, ('p, 's) strong_state_scheme, unit) prog"
where
  "OnCredentialInfo_prog e userId result infoCount =
     (if infoCount > 0 \<or> (result \<noteq> AUTH_SUCCESS \<and> result \<noteq> AUTH_NOT_ENROLLED)
      then andthen (InitStrongAuthStat_prog e userId (reason_code AFTER_BOOT))
             (\<lambda>_. StartStrongAuthTimer_period_prog e userId DEFAULT_STRONG_AUTH_TIMEOUT_MS)
      else InitStrongAuthStat_prog e userId (reason_code REASON_NONE))"

lemma strong_callbacks_alone [simp]:
  "alone (OnTrigger_prog e t) s = ((), OnTrigger e t s)"
  "alone RegistAuthEventListener_prog s = ((), RegistAuthEventListener s)"
  "alone UnRegistAuthEventListener_prog s = ((), UnRegistAuthEventListener s)"
  "alone (OnNotifyAuthSuccessEvent_prog e u a w) s = ((), OnNotifyAuthSuccessEvent e u a w s)"
  "alone (OnNotifyCredChangeEvent_prog e u a c b) s = ((), OnNotifyCredChangeEvent e u a c b s)"
  "alone (GetCredInfo_prog e u) s = GetCredInfo e u s"
  "alone (OnCredentialInfo_prog e u r n) s = ((), OnCredentialInfo e u r n s)"
  by (auto simp: OnTrigger_prog_def OnTrigger_def StrongAuthTimerCallback_prog_def StrongAuthTimerCallback_def
      RegistAuthEventListener_prog_def RegistAuthEventListener_def UnRegistAuthEventListener_prog_def
      UnRegistAuthEventListener_def OnNotifyAuthSuccessEvent_prog_def OnNotifyAuthSuccessEvent_def
      OnNotifyCredChangeEvent_prog_def OnNotifyCredChangeEvent_def GetCredInfo_prog_def GetCredInfo_def
      OnCredentialInfo_prog_def OnCredentialInfo_def StartStrongAuthTimer_def Let_def split_beta
      split: option.split)

lemma strong_callbacks_order [simp]:
  "n \<le> 4 \<Longrightarrow> keeps_order n (OnTrigger_prog e t)"
  "n \<le> 13 \<Longrightarrow> keeps_order n RegistAuthEventListener_prog"
  "n \<le> 13 \<Longrightarrow> keeps_order n UnRegistAuthEventListener_prog"
  "n \<le> 4 \<Longrightarrow> keeps_order n (OnNotifyAuthSuccessEvent_prog e u a w)"
  "n \<le> 4 \<Longrightarrow> keeps_order n (OnNotifyCredChangeEvent_prog e u a c b)"
  "n \<le> 4 \<Longrightarrow> keeps_order n (GetCredInfo_prog e u)"
  "n \<le> 4 \<Longrightarrow> keeps_order n (OnCredentialInfo_prog e u r k)"
  by (auto simp: OnTrigger_prog_def StrongAuthTimerCallback_prog_def RegistAuthEventListener_prog_def
      UnRegistAuthEventListener_prog_def OnNotifyAuthSuccessEvent_prog_def OnNotifyCredChangeEvent_prog_def
      GetCredInfo_prog_def OnCredentialInfo_prog_def intro!: order_rules)

end
