(* ===== verification/Threaded_Service.thy ===== *)
theory Threaded_Service
  imports Threaded_Strong_Auth System_Lifecycle
begin

text \<open>
  The requests of the service, its submitted work and its callbacks as programs of threads.  The record of
  unlocked applications of the watch, the preferences, the settings and the atomic members of
  \<open>StateValue\<close> are read and written in one access each.
\<close>

section \<open>Screen-lock state\<close>

definition SetScreenlocked_prog ::
  "bool \<Rightarrow> int \<Rightarrow> (service_mutex, ('p, 's) service_state_scheme, unit) prog"
where
  "SetScreenlocked_prog isScreenlocked userId =
     guarded ScreenLockMutex (writing (SetScreenlocked isScreenlocked userId) (Return ()))"

definition IsScreenLocked_prog :: "'p env \<Rightarrow> (service_mutex, ('p, 's) service_state_scheme, bool) prog" where
  "IsScreenLocked_prog e =
     reading (\<lambda>s. GetCurrentUser (stateValue s)) (\<lambda>cur.
       let userId = (if cur = USER_NULL \<or> cur = 0 then GetUserIdFromCallingUid e else cur)
       in guarded ScreenLockMutex
            (if SUPPORT_WEAR_PAYMENT_APP e
             then calling (IsPaymentApp e) (\<lambda>payment.
                    if payment
                    then reading (screen_locked_of userId) (\<lambda>isScreenLocked.
                         reading (Watch_IsScreenLocked e isScreenLocked) Return)
                    else reading (screen_locked_of userId) Return)
             else reading (screen_locked_of userId) Return))"

definition IsLocked_prog ::
  "'p env \<Rightarrow> (service_mutex, ('p, 's) service_state_scheme, status \<times> out_value) prog"
where
  "IsLocked_prog e =
     (if tokenTypeFlag e (callingTokenId e) = TOKEN_HAP \<and> \<not> IsSystemApp e
      then Return (Code E_SCREENLOCK_NOT_SYSTEM_APP, NoOut)
      else andthen (IsScreenLocked_prog e) (\<lambda>isLocked. Return (OK, BoolOut isLocked)))"

definition IsLockedWithUserId_prog ::
  "'p env \<Rightarrow> int \<Rightarrow> (service_mutex, ('p, 's) service_state_scheme, status \<times> out_value) prog"
where
  "IsLockedWithUserId_prog e userId =
     (if CheckSystemPermission e then Return (Code E_SCREENLOCK_NOT_SYSTEM_APP, NoOut)
      else guarded ScreenLockMutex
             (reading (\<lambda>s. mfind (isScreenlockedMap s) userId) (\<lambda>iter.
                case iter of Some b \<Rightarrow> Return (OK, BoolOut b)
                | None \<Rightarrow> Return (Code E_SCREENLOCK_USER_ID_INVALID, BoolOut True))))"

definition check_running :: "(service_mutex, ('p, 's) service_state_scheme, unit) prog" where
  "check_running = guarded RunningStateMutex (reading runningState (\<lambda>_. Return ()))"

definition GetSecure_prog :: "'p env \<Rightarrow> (service_mutex, ('p, 's) service_state_scheme, bool) prog" where
  "GetSecure_prog e =
     andthen check_running (\<lambda>_.
       let userId0 = (case localIdFromUid e (callingUid e) of None \<Rightarrow> 0 | Some u \<Rightarrow> u);
           userId = (if userId0 = 0 then (case foregroundLocalId e of None \<Rightarrow> userId0 | Some u \<Rightarrow> u) else userId0);
           stored = (let (result, count) = credentialInfoSync e userId in result = AUTH_SUCCESS \<and> count > 0)
       in if SUPPORT_WEAR_PAYMENT_APP e
          then calling (IsPaymentApp e) (\<lambda>payment. Return (if payment then isSecureMode e else stored))
          else Return stored)"

lemma screen_alone [simp]:
  "alone (SetScreenlocked_prog b u) s = ((), SetScreenlocked b u s)"
  "alone (IsScreenLocked_prog e) s = IsScreenLocked e s"
  "alone (IsLocked_prog e) s = IsLocked e s"
  "alone (IsLockedWithUserId_prog e u) s = IsLockedWithUserId e u s"
  "alone check_running s = ((), s)"
  "alone (GetSecure_prog e) s = GetSecure e s"
  by (auto simp: SetScreenlocked_prog_def IsScreenLocked_prog_def IsScreenLocked_def IsLocked_prog_def
      IsLocked_def IsLockedWithUserId_prog_def IsLockedWithUserId_def check_running_def GetSecure_prog_def
      GetSecure_def Let_def split_beta split: option.split)

lemma screen_order [simp]:
  "n \<le> 7 \<Longrightarrow> keeps_order n (SetScreenlocked_prog b u)"
  "n \<le> 7 \<Longrightarrow> keeps_order n (IsScreenLocked_prog e)"
  "n \<le> 7 \<Longrightarrow> keeps_order n (IsLocked_prog e)"
  "n \<le> 7 \<Longrightarrow> keeps_order n (IsLockedWithUserId_prog e u)"
  "n \<le> 11 \<Longrightarrow> keeps_order n check_running"
  "n \<le> 11 \<Longrightarrow> keeps_order n (GetSecure_prog e)"
  by (auto simp: SetScreenlocked_prog_def IsScreenLocked_prog_def IsLocked_prog_def IsLockedWithUserId_prog_def
      check_running_def GetSecure_prog_def Let_def intro!: order_rules split: option.split)

section \<open>Unlocking and locking\<close>

definition UnlockInner_prog ::
  "'p env \<Rightarrow> nat \<Rightarrow> (service_mutex, ('p, 's) service_state_scheme, status) prog"
where
  "UnlockInner_prog e listener =
     andthen check_running (\<lambda>_.
       if tokenTypeFlag e (callingTokenId e) \<noteq> TOKEN_NATIVE
          \<and> \<not> IsAppInForeground e (callingPid e) (callingTokenId e) \<and> \<not> CheckPermission e ACCESS_SCREEN_LOCK
       then Return (Code E_SCREENLOCK_NOT_FOCUS_APP)
       else
         let accept =
               andthen (guarded UnlockListenerMutex
                          (writing (\<lambda>s. s\<lparr>unlockVecListeners := unlockVecListeners s @ [listener]\<rparr>)
                            (writing (\<lambda>s. s\<lparr>unlockVecUserIds := unlockVecUserIds s @ [GetUserIdFromCallingUid e]\<rparr>)
                              (Return ()))))
                 (\<lambda>_. andthen (SystemEventCallBack_prog (SystemEvent UNLOCKSCREEN)) (\<lambda>_. Return OK))
         in if SUPPORT_WEAR_PAYMENT_APP e
            then andthen (guarded ScreenLockMutex (reading (screen_locked_of (GetUserIdFromCallingUid e)) Return))
                   (\<lambda>isScreenLocked.
                      if isScreenLocked then accept
                      else calling (IsPaymentApp e) (\<lambda>payment.
                             if \<not> payment then accept
                             else andthen (IsScreenLocked_prog e) (\<lambda>locked.
                                  calling (Watch_unlockScreen e locked) (\<lambda>watchUnlockResult.
                                    if watchUnlockResult \<noteq> OK then Return watchUnlockResult else accept))))
            else accept)"

definition Unlock_prog ::
  "'p env \<Rightarrow> nat \<Rightarrow> (service_mutex, ('p, 's) service_state_scheme, status) prog"
where
  "Unlock_prog e listener =
     (if \<not> IsSystemApp e then Return (Code E_SCREENLOCK_NOT_SYSTEM_APP) else UnlockInner_prog e listener)"

definition Lock_listener_prog ::
  "'p env \<Rightarrow> nat \<Rightarrow> (service_mutex, ('p, 's) service_state_scheme, status) prog"
where
  "Lock_listener_prog e listener =
     (if \<not> IsSystemApp e then Return (Code E_SCREENLOCK_NOT_SYSTEM_APP)
      else if \<not> CheckPermission e ACCESS_SCREEN_LOCK_INNER then Return (Code E_SCREENLOCK_NO_PERMISSION)
      else andthen (IsScreenLocked_prog e) (\<lambda>_.
           andthen (guarded LockListenerMutex
                      (writing (\<lambda>s. s\<lparr>lockVecListeners := lockVecListeners s @ [listener]\<rparr>) (Return ()))) (\<lambda>_.
           andthen (SystemEventCallBack_prog (SystemEvent LOCKSCREEN)) (\<lambda>_. Return OK))))"

definition Lock_user_prog ::
  "'p env \<Rightarrow> int \<Rightarrow> (service_mutex, ('p, 's) service_state_scheme, status) prog"
where
  "Lock_user_prog e userId =
     (if \<not> CheckPermission e ACCESS_SCREEN_LOCK_INNER then Return (Code E_SCREENLOCK_NO_PERMISSION)
      else andthen (IsScreenLocked_prog e) (\<lambda>_.
           andthen (SystemEventCallBack_prog (SystemEvent LOCKSCREEN)) (\<lambda>_. Return OK)))"

definition IsLockedWatch_prog ::
  "'p env \<Rightarrow> (service_mutex, ('p, 's) service_state_scheme, status \<times> out_value) prog"
where
  "IsLockedWatch_prog e =
     (if tokenTypeFlag e (callingTokenId e) = TOKEN_HAP \<and> \<not> IsSystemApp e
      then Return (Code E_SCREENLOCK_NOT_SYSTEM_APP, NoOut)
      else andthen (IsScreenLocked_prog e) (\<lambda>isScreenLocked.
             if isScreenLocked then Return (OK, BoolOut True)
             else reading (Watch_IsScreenLocked e isScreenLocked) (\<lambda>b. Return (OK, BoolOut b))))"

definition UnlockWatch_prog ::
  "'p env \<Rightarrow> nat \<Rightarrow> (service_mutex, ('p, 's) service_state_scheme, status) prog"
where
  "UnlockWatch_prog e listener =
     (if tokenTypeFlag e (callingTokenId e) = TOKEN_HAP \<and> \<not> IsSystemApp e
      then Return (Code E_SCREENLOCK_NOT_SYSTEM_APP)
      else andthen (IsScreenLocked_prog e) (\<lambda>isScreenLocked.
             if isScreenLocked then andthen (UnlockInner_prog e listener) (\<lambda>_. Return OK)
             else reading (Watch_IsScreenLocked e isScreenLocked) (\<lambda>isAppLocked.
                  calling (Watch_unlockScreen e isAppLocked) (\<lambda>_. Return OK))))"

lemma UnlockInner_alone [simp]: "alone (UnlockInner_prog e l) s = UnlockInner e l s"
  by (auto simp: UnlockInner_prog_def UnlockInner_def Let_def split_beta)

lemma unlock_alone [simp]:
  "alone (Unlock_prog e l) s = Unlock e l s"
  "alone (Lock_listener_prog e l) s = Lock_listener e l s"
  "alone (Lock_user_prog e u) s = Lock_user e u s"
  "alone (IsLockedWatch_prog e) s = IsLockedWatch e s"
  "alone (UnlockWatch_prog e l) s = UnlockWatch e l s"
  by (auto simp: Unlock_prog_def Unlock_def Lock_listener_prog_def Lock_listener_def Lock_user_prog_def
      Lock_user_def IsLockedWatch_prog_def IsLockedWatch_def UnlockWatch_prog_def UnlockWatch_def
      UnlockScreen_def split_beta)

lemma UnlockInner_order [simp]: "n \<le> 5 \<Longrightarrow> keeps_order n (UnlockInner_prog e l)"
  by (auto simp: UnlockInner_prog_def Let_def intro!: order_rules)

lemma unlock_order [simp]:
  "n \<le> 5 \<Longrightarrow> keeps_order n (Unlock_prog e l)"
  "n \<le> 6 \<Longrightarrow> keeps_order n (Lock_listener_prog e l)"
  "n \<le> 7 \<Longrightarrow> keeps_order n (Lock_user_prog e u)"
  "n \<le> 7 \<Longrightarrow> keeps_order n (IsLockedWatch_prog e)"
  "n \<le> 5 \<Longrightarrow> keeps_order n (UnlockWatch_prog e l)"
  by (auto simp: Unlock_prog_def Lock_listener_prog_def Lock_user_prog_def IsLockedWatch_prog_def
      UnlockWatch_prog_def intro!: order_rules)

section \<open>Results from the application\<close>

text \<open>The lambdas are submitted, and the event of a locked screen is published, under the mutex of the
  listeners.\<close>

definition NotifyDisplayEvent_prog ::
  "display_event \<Rightarrow> (service_mutex, ('p, 's) service_state_scheme, unit) prog"
where
  "NotifyDisplayEvent_prog ev =
     guarded QueueLock (reading queueSet (\<lambda>there.
       if \<not> there then Return () else writing (submit (NotifyDisplayTask ev)) (Return ())))"

definition LockScreenEvent_prog ::
  "'p env \<Rightarrow> int \<Rightarrow> (service_mutex, ('p, 's) service_state_scheme, unit) prog"
where
  "LockScreenEvent_prog e stateResult =
     (let succ = (stateResult = screen_change_code SCREEN_SUCC);
          userId = (if succ then GetUserIdFromCallingUid e else 0);
          publish = (if succ then writing (PublishEvent COMMON_EVENT_SCREEN_LOCKED userId) (Return ()) else Return ())
      in andthen (if succ then SetScreenlocked_prog True userId else Return ()) (\<lambda>_.
         guarded LockListenerMutex
           (reading lockVecListeners (\<lambda>ls.
              if ls \<noteq> [] then writing (submit (LockCallbackTask stateResult)) publish else publish))))"

definition NotifyUnlockListener_prog ::
  "'p env \<Rightarrow> int \<Rightarrow> (service_mutex, ('p, 's) service_state_scheme, unit) prog"
where
  "NotifyUnlockListener_prog e screenLockResult =
     guarded UnlockListenerMutex
       (reading unlockVecListeners (\<lambda>ls.
          if ls \<noteq> []
          then writing (submit (UnlockCallbackTask screenLockResult (GetUserIdFromCallingUid e))) (Return ())
          else Return ()))"

definition UnlockScreenEvent_prog ::
  "'p env \<Rightarrow> int \<Rightarrow> (service_mutex, ('p, 's) service_state_scheme, unit) prog"
where
  "UnlockScreenEvent_prog e stateResult =
     (if stateResult = screen_change_code ALREADY_UNLOCKED
      then NotifyUnlockListener_prog e (screen_change_code SCREEN_SUCC)
      else let userId = GetUserIdFromCallingUid e
      in if stateResult = screen_change_code EARLY_SUCCESS
      then andthen (SetScreenlocked_prog False userId)
             (\<lambda>_. writing (PublishEvent COMMON_EVENT_SCREEN_LOCK_EXITING userId) (Return ()))
      else andthen
             (if stateResult = screen_change_code SCREEN_SUCC
              then andthen (SetScreenlocked_prog False userId) (\<lambda>_.
                   andthen (NotifyDisplayEvent_prog DISPLAY_UNLOCK) (\<lambda>_.
                   writing (PublishEvent COMMON_EVENT_SCREEN_UNLOCKED userId) (Return ())))
              else Return ())
             (\<lambda>_. if stateResult \<noteq> screen_change_code SCREEN_FAIL then NotifyUnlockListener_prog e stateResult
                  else Return ()))"

definition SendScreenLockEvent_prog ::
  "'p env \<Rightarrow> string \<Rightarrow> int \<Rightarrow> (service_mutex, ('p, 's) service_state_scheme, status) prog"
where
  "SendScreenLockEvent_prog e event param =
     (if \<not> IsSystemApp e then Return (Code E_SCREENLOCK_NOT_SYSTEM_APP)
      else if \<not> CheckPermission e ACCESS_SCREEN_LOCK_INNER then Return (Code E_SCREENLOCK_NO_PERMISSION)
      else andthen
             (if event = UNLOCK_SCREEN_RESULT then UnlockScreenEvent_prog e param
              else if event = SCREEN_DRAWDONE then NotifyDisplayEvent_prog KEYGUARD_DRAWN
              else if event = LOCK_SCREEN_RESULT then LockScreenEvent_prog e param
              else Return ())
             (\<lambda>_. Return OK))"

lemma events_alone [simp]:
  "alone (NotifyDisplayEvent_prog ev) s = ((), NotifyDisplayEvent ev s)"
  "alone (LockScreenEvent_prog e r) s = ((), LockScreenEvent e r s)"
  "alone (NotifyUnlockListener_prog e r) s = ((), NotifyUnlockListener e r s)"
  "alone (UnlockScreenEvent_prog e r) s = ((), UnlockScreenEvent e r s)"
  "alone (SendScreenLockEvent_prog e evn p) s = SendScreenLockEvent e evn p s"
  by (auto simp: NotifyDisplayEvent_prog_def NotifyDisplayEvent_def LockScreenEvent_prog_def LockScreenEvent_def
      NotifyUnlockListener_prog_def NotifyUnlockListener_def UnlockScreenEvent_prog_def UnlockScreenEvent_def
      SendScreenLockEvent_prog_def SendScreenLockEvent_def Let_def)

lemma events_order [simp]:
  "n \<le> 10 \<Longrightarrow> keeps_order n (NotifyDisplayEvent_prog ev)"
  "n \<le> 6 \<Longrightarrow> keeps_order n (LockScreenEvent_prog e r)"
  "n \<le> 5 \<Longrightarrow> keeps_order n (NotifyUnlockListener_prog e r)"
  "n \<le> 5 \<Longrightarrow> keeps_order n (UnlockScreenEvent_prog e r)"
  "n \<le> 5 \<Longrightarrow> keeps_order n (SendScreenLockEvent_prog e evn p)"
  by (auto simp: NotifyDisplayEvent_prog_def LockScreenEvent_prog_def NotifyUnlockListener_prog_def
      UnlockScreenEvent_prog_def SendScreenLockEvent_prog_def Let_def intro!: order_rules)

section \<open>The disabled flag\<close>

definition IsScreenLockDisabled_prog ::
  "'p env \<Rightarrow> int \<Rightarrow> (service_mutex, ('p, 's) service_state_scheme, status \<times> out_value) prog"
where
  "IsScreenLockDisabled_prog e userId =
     (if \<not> preferencesUtil e then Return (Code E_SCREENLOCK_NULLPTR, NoOut)
      else if \<not> CheckPermission e ACCESS_SCREEN_LOCK then Return (Code E_SCREENLOCK_NO_PERMISSION, NoOut)
      else reading (ObtainBool (prefs e) (disabled_key userId) False) (\<lambda>isDisabled. Return (OK, BoolOut isDisabled)))"

definition FreshDisabledState_prog ::
  "'p env \<Rightarrow> bool \<Rightarrow> int \<Rightarrow> (service_mutex, ('p, 's) service_state_scheme, status) prog"
where
  "FreshDisabledState_prog e disable userId =
     (if \<not> preferencesUtil e then Return (Code E_SCREENLOCK_NULLPTR)
      else reading (ObtainBool (prefs e) (disabled_key userId) False) (\<lambda>isDisabled.
             if disable \<noteq> isDisabled
             then calling (SaveBool (prefs e) (disabled_key userId) disable) (\<lambda>_.
                  writing (Refresh (prefs e)) (Return OK))
             else Return OK))"

definition SetScreenLockDisabled_prog ::
  "'p env \<Rightarrow> bool \<Rightarrow> int \<Rightarrow> (service_mutex, ('p, 's) service_state_scheme, status) prog"
where
  "SetScreenLockDisabled_prog e disable userId =
     (if GetCurrentActiveOsAccountId e \<noteq> userId then Return (Change SCREEN_FAIL)
      else andthen (if disable then GetSecure_prog e else Return False) (\<lambda>secure.
             if disable \<and> secure then Return (Change SCREEN_FAIL)
             else if \<not> CheckPermission e ACCESS_SCREEN_LOCK then Return (Code E_SCREENLOCK_NO_PERMISSION)
             else FreshDisabledState_prog e disable userId))"

lemma disabled_alone [simp]:
  "alone (IsScreenLockDisabled_prog e u) s = IsScreenLockDisabled e u s"
  "alone (FreshDisabledState_prog e b u) s = FreshDisabledState e b u s"
  "alone (SetScreenLockDisabled_prog e b u) s = SetScreenLockDisabled e b u s"
  by (auto simp: IsScreenLockDisabled_prog_def IsScreenLockDisabled_def FreshDisabledState_prog_def
      FreshDisabledState_def SetScreenLockDisabled_prog_def SetScreenLockDisabled_def Let_def split_beta)

lemma disabled_order [simp]:
  "keeps_order n (IsScreenLockDisabled_prog e u)"
  "keeps_order n (FreshDisabledState_prog e b u)"
  "n \<le> 11 \<Longrightarrow> keeps_order n (SetScreenLockDisabled_prog e b u)"
  by (auto simp: IsScreenLockDisabled_prog_def FreshDisabledState_prog_def SetScreenLockDisabled_prog_def
      intro!: order_rules)

end
