(* ===== verification/Threaded_Requests.thy ===== *)
theory Threaded_Requests
  imports Threaded_Service System_Lifecycle
begin

text \<open>
  The rest of the service as programs of threads: the authentication state, the listeners, the policy,
  start and stop, the dump and the submitted work; then every request and everything that can happen to
  the service as one program each.
\<close>

section \<open>The authentication state\<close>

text \<open>The listeners of the device lock and of system events are told under the mutex of the state.\<close>

definition SetScreenLockAuthState_prog ::
  "'p env \<Rightarrow> int \<Rightarrow> int \<Rightarrow> string \<Rightarrow> (service_mutex, ('p, 's) service_state_scheme, status) prog"
where
  "SetScreenLockAuthState_prog e authState userId authToken =
     (if CheckSystemPermission e then Return (Code E_SCREENLOCK_NOT_SYSTEM_APP)
      else if \<not> CheckPermission e ACCESS_SCREEN_LOCK_INNER then Return (Code E_SCREENLOCK_NO_PERMISSION)
      else guarded AuthStateMutex
             (reading (\<lambda>s. mfind (authStateInfo s) userId) (\<lambda>iter.
                case iter of
                  Some old \<Rightarrow>
                    let nextState = GetDeviceLockedStateByAuth authState;
                        curState = GetDeviceLockedStateByAuth old
                    in andthen (if nextState \<noteq> curState
                                then OnStateChanged_prog userId (bool_int nextState) (listen_type DEVICE_LOCK)
                                else Return ()) (\<lambda>_.
                       writing (\<lambda>s. s\<lparr>authStateInfo := mput userId authState (authStateInfo s)\<rparr>)
                         (andthen (PreAuthStateNotify_prog userId authState) (\<lambda>_. Return OK)))
                | None \<Rightarrow>
                    writing (\<lambda>s. s\<lparr>authStateInfo := minsert userId authState (authStateInfo s)\<rparr>)
                      (andthen (PreAuthStateNotify_prog userId authState) (\<lambda>_. Return OK)))))"

definition GetScreenLockAuthState_prog ::
  "'p env \<Rightarrow> int \<Rightarrow> (service_mutex, ('p, 's) service_state_scheme, status \<times> out_value) prog"
where
  "GetScreenLockAuthState_prog e userId =
     (if CheckSystemPermission e then Return (Code E_SCREENLOCK_NOT_SYSTEM_APP, NoOut)
      else if \<not> CheckPermission e ACCESS_SCREEN_LOCK then Return (Code E_SCREENLOCK_NO_PERMISSION, NoOut)
      else guarded AuthStateMutex
             (reading (\<lambda>s. mfind (authStateInfo s) userId) (\<lambda>iter.
                case iter of Some a \<Rightarrow> Return (OK, IntOut a) | None \<Rightarrow> Return (OK, IntOut (auth_code UNAUTH)))))"

definition IsDeviceLocked_prog ::
  "'p env \<Rightarrow> int \<Rightarrow> (service_mutex, ('p, 's) service_state_scheme, status \<times> out_value) prog"
where
  "IsDeviceLocked_prog e userId =
     (if CheckSystemPermission e then Return (Code E_SCREENLOCK_NOT_SYSTEM_APP, NoOut)
      else guarded AuthStateMutex
             (reading (\<lambda>s. mfind (authStateInfo s) userId) (\<lambda>iter.
                case iter of Some a \<Rightarrow> Return (OK, BoolOut (GetDeviceLockedStateByAuth a))
                | None \<Rightarrow> Return (Code E_SCREENLOCK_USER_ID_INVALID, BoolOut True))))"

definition AuthStateInit_prog :: "int \<Rightarrow> (service_mutex, ('p, 's) service_state_scheme, unit) prog" where
  "AuthStateInit_prog userId =
     andthen (guarded AuthStateMutex
                (reading (\<lambda>s. mfind (authStateInfo s) userId) (\<lambda>authIter.
                   case authIter of
                     None \<Rightarrow> writing (\<lambda>s. s\<lparr>authStateInfo := minsert userId (auth_code UNAUTH) (authStateInfo s)\<rparr>)
                               (Return ())
                   | Some _ \<Rightarrow> Return ())))
       (\<lambda>_. guarded ScreenLockMutex
                (reading (\<lambda>s. mfind (isScreenlockedMap s) userId) (\<lambda>lockIter.
                   case lockIter of
                     None \<Rightarrow> writing (\<lambda>s. s\<lparr>isScreenlockedMap := minsert userId True (isScreenlockedMap s)\<rparr>)
                               (Return ())
                   | Some _ \<Rightarrow> Return ())))"

definition SetUnlockPolicy_prog ::
  "'p env \<Rightarrow> int \<Rightarrow> int \<Rightarrow> (service_mutex, ('p, 's) service_state_scheme, status) prog"
where
  "SetUnlockPolicy_prog e userId policy =
     (if \<not> CheckPermission e ACCESS_SCREEN_LOCK then Return (Code E_SCREENLOCK_NO_PERMISSION)
      else if \<not> IsNativeAccess e then Return (Code E_SCREENLOCK_NO_PERMISSION)
      else if \<not> preferencesUtil e then Return (Code E_SCREENLOCK_NULLPTR)
      else guarded AuthStateMutex
             (reading (\<lambda>s. mfind (authStateInfo s) userId) (\<lambda>iter.
                case iter of
                  Some _ \<Rightarrow>
                    reading (ObtainInt (prefs e) (preferKey userId) 0) (\<lambda>curPolicy.
                      if curPolicy = policy then Return OK
                      else calling (SaveInt (prefs e) (preferKey userId) policy) (\<lambda>_.
                           writing (Refresh (prefs e))
                             (andthen (SystemEventCallBack_prog
                                ((SystemEvent UNLOCK_POLICY_CHANGE)\<lparr>params := policy_params userId policy\<rparr>))
                                (\<lambda>_. Return OK))))
                | None \<Rightarrow> Return (Code E_SCREENLOCK_USER_ID_INVALID))))"

definition GetUnlockPolicy_prog ::
  "'p env \<Rightarrow> int \<Rightarrow> (service_mutex, ('p, 's) service_state_scheme, status \<times> out_value) prog"
where
  "GetUnlockPolicy_prog e userId =
     (if CheckSystemPermission e then Return (Code E_SCREENLOCK_NOT_SYSTEM_APP, NoOut)
      else if \<not> CheckPermission e ACCESS_SCREEN_LOCK then Return (Code E_SCREENLOCK_NO_PERMISSION, NoOut)
      else if \<not> preferencesUtil e then Return (Code E_SCREENLOCK_NULLPTR, NoOut)
      else guarded AuthStateMutex
             (reading (\<lambda>s. mfind (authStateInfo s) userId) (\<lambda>iter.
                case iter of
                  Some _ \<Rightarrow> reading (ObtainInt (prefs e) (preferKey userId) 0) (\<lambda>policy. Return (OK, IntOut policy))
                | None \<Rightarrow> Return (Code E_SCREENLOCK_USER_ID_INVALID, IntOut 0))))"

lemma auth_alone [simp]:
  "alone (SetScreenLockAuthState_prog e a u t) s = SetScreenLockAuthState e a u t s"
  "alone (GetScreenLockAuthState_prog e u) s = GetScreenLockAuthState e u s"
  "alone (IsDeviceLocked_prog e u) s = IsDeviceLocked e u s"
  "alone (AuthStateInit_prog u) s = ((), AuthStateInit u s)"
  "alone (SetUnlockPolicy_prog e u p) s = SetUnlockPolicy e u p s"
  "alone (GetUnlockPolicy_prog e u) s = GetUnlockPolicy e u s"
  by (auto simp: SetScreenLockAuthState_prog_def SetScreenLockAuthState_def GetScreenLockAuthState_prog_def
      GetScreenLockAuthState_def IsDeviceLocked_prog_def IsDeviceLocked_def AuthStateInit_prog_def AuthStateInit_def
      SetUnlockPolicy_prog_def SetUnlockPolicy_def GetUnlockPolicy_prog_def GetUnlockPolicy_def
      OnDeviceLockStateChanged_def UnlockPolicyChanged_def Let_def split_beta split: option.split)

lemma auth_order [simp]:
  "n \<le> 3 \<Longrightarrow> keeps_order n (SetScreenLockAuthState_prog e a u t)"
  "n \<le> 3 \<Longrightarrow> keeps_order n (GetScreenLockAuthState_prog e u)"
  "n \<le> 3 \<Longrightarrow> keeps_order n (IsDeviceLocked_prog e u)"
  "n \<le> 3 \<Longrightarrow> keeps_order n (AuthStateInit_prog u)"
  "n \<le> 3 \<Longrightarrow> keeps_order n (SetUnlockPolicy_prog e u p)"
  "n \<le> 3 \<Longrightarrow> keeps_order n (GetUnlockPolicy_prog e u)"
  by (auto simp: SetScreenLockAuthState_prog_def GetScreenLockAuthState_prog_def IsDeviceLocked_prog_def
      AuthStateInit_prog_def SetUnlockPolicy_prog_def GetUnlockPolicy_prog_def Let_def
      intro!: order_rules split: option.split)

section \<open>Strong authentication, inner listeners and the system-event listener\<close>

definition RequestStrongAuth_prog ::
  "'p env \<Rightarrow> int \<Rightarrow> int \<Rightarrow> (service_mutex, ('p, 's) service_state_scheme, status) prog"
where
  "RequestStrongAuth_prog e reasonFlag userId =
     (if IS_SO_CROP_H e then Return OK
      else if CheckSystemPermission e then Return (Code E_SCREENLOCK_NOT_SYSTEM_APP)
      else if \<not> CheckPermission e ACCESS_SCREEN_LOCK then Return (Code E_SCREENLOCK_NO_PERMISSION)
      else andthen (SetStrongAuthStat_prog e userId reasonFlag) (\<lambda>_. Return OK))"

definition GetStrongAuth_prog ::
  "'p env \<Rightarrow> int \<Rightarrow> (service_mutex, ('p, 's) service_state_scheme, status \<times> out_value) prog"
where
  "GetStrongAuth_prog e userId =
     (if IS_SO_CROP_H e then Return (OK, IntOut 0)
      else if CheckSystemPermission e then Return (Code E_SCREENLOCK_NOT_SYSTEM_APP, NoOut)
      else if \<not> CheckPermission e ACCESS_SCREEN_LOCK then Return (Code E_SCREENLOCK_NO_PERMISSION, NoOut)
      else andthen (GetStrongAuthStat_prog e userId) (\<lambda>reasonFlag. Return (OK, IntOut reasonFlag)))"

definition Service_RegisterInnerListener_prog ::
  "'p env \<Rightarrow> int \<Rightarrow> int \<Rightarrow> listener option \<Rightarrow> (service_mutex, ('p, 's) service_state_scheme, status) prog"
where
  "Service_RegisterInnerListener_prog e userId listenType listener =
     (if CheckSystemPermission e then Return (Code E_SCREENLOCK_NOT_SYSTEM_APP)
      else if listenType = listen_type STRONG_AUTH \<and> \<not> CheckPermission e ACCESS_SCREEN_LOCK
      then Return (Code E_SCREENLOCK_NO_PERMISSION)
      else RegisterInnerListener_prog e userId listenType listener)"

definition Service_UnRegisterInnerListener_prog ::
  "'p env \<Rightarrow> int \<Rightarrow> int \<Rightarrow> listener option \<Rightarrow> (service_mutex, ('p, 's) service_state_scheme, status) prog"
where
  "Service_UnRegisterInnerListener_prog e userId listenType listener =
     (if CheckSystemPermission e then Return (Code E_SCREENLOCK_NOT_SYSTEM_APP)
      else if listenType = listen_type STRONG_AUTH \<and> \<not> CheckPermission e ACCESS_SCREEN_LOCK
      then Return (Code E_SCREENLOCK_NO_PERMISSION)
      else UnRegisterInnerListener_prog listenType listener)"

definition OnSystemEvent_prog ::
  "'p env \<Rightarrow> nat option \<Rightarrow> (service_mutex, ('p, 's) service_state_scheme, status) prog"
where
  "OnSystemEvent_prog e listener =
     (if \<not> IsSystemApp e then Return (Code E_SCREENLOCK_NOT_SYSTEM_APP)
      else if \<not> CheckPermission e ACCESS_SCREEN_LOCK_INNER then Return (Code E_SCREENLOCK_NO_PERMISSION)
      else andthen (guarded ListenerMutex (writing (\<lambda>s. s\<lparr>systemEventListener := listener\<rparr>) (Return ()))) (\<lambda>_.
           writing (\<lambda>s. s\<lparr>stateValue := StateValue_Reset (stateValue s)\<rparr>)
             (andthen (guarded QueueLock (writing (queue_submit (SystemReadyTask 50)) (Return ()))) (\<lambda>_.
              writing (SetCurrentUser (GetUserIdFromCallingUid e)) (Return OK)))))"

lemma listener_requests_alone [simp]:
  "alone (RequestStrongAuth_prog e r u) s = RequestStrongAuth e r u s"
  "alone (GetStrongAuth_prog e u) s = GetStrongAuth e u s"
  "alone (Service_RegisterInnerListener_prog e u t lo) s = Service_RegisterInnerListener e u t lo s"
  "alone (Service_UnRegisterInnerListener_prog e u t lo) s = Service_UnRegisterInnerListener e u t lo s"
  "alone (OnSystemEvent_prog e l) s = OnSystemEvent e l s"
  by (auto simp: RequestStrongAuth_prog_def RequestStrongAuth_def GetStrongAuth_prog_def GetStrongAuth_def
      Service_RegisterInnerListener_prog_def Service_RegisterInnerListener_def Service_UnRegisterInnerListener_prog_def
      Service_UnRegisterInnerListener_def OnSystemEvent_prog_def OnSystemEvent_def Let_def)

lemma listener_requests_order [simp]:
  "n \<le> 4 \<Longrightarrow> keeps_order n (RequestStrongAuth_prog e r u)"
  "n \<le> 4 \<Longrightarrow> keeps_order n (GetStrongAuth_prog e u)"
  "n \<le> 8 \<Longrightarrow> keeps_order n (Service_RegisterInnerListener_prog e u t lo)"
  "n \<le> 8 \<Longrightarrow> keeps_order n (Service_UnRegisterInnerListener_prog e u t lo)"
  "n \<le> 9 \<Longrightarrow> keeps_order n (OnSystemEvent_prog e l)"
  by (auto simp: RequestStrongAuth_prog_def GetStrongAuth_prog_def Service_RegisterInnerListener_prog_def
      Service_UnRegisterInnerListener_prog_def OnSystemEvent_prog_def intro!: order_rules)

section \<open>Every request\<close>

definition without_out ::
  "(service_mutex, 'd, status) prog \<Rightarrow> (service_mutex, 'd, status \<times> out_value) prog" where
  "without_out p = andthen p (\<lambda>r. Return (r, NoOut))"

definition plain_bool ::
  "(service_mutex, 'd, bool) prog \<Rightarrow> (service_mutex, 'd, status \<times> out_value) prog" where
  "plain_bool p = andthen p (\<lambda>b. Return (OK, BoolOut b))"

fun serve_prog ::
  "'p env \<Rightarrow> request \<Rightarrow> (service_mutex, ('p, 's) service_state_scheme, status \<times> out_value) prog"
where
  "serve_prog e Req_IsLocked = IsLocked_prog e"
| "serve_prog e Req_IsScreenLocked = plain_bool (IsScreenLocked_prog e)"
| "serve_prog e (Req_IsLockedWithUserId u) = IsLockedWithUserId_prog e u"
| "serve_prog e Req_GetSecure = plain_bool (GetSecure_prog e)"
| "serve_prog e (Req_Unlock l) = without_out (Unlock_prog e l)"
| "serve_prog e (Req_UnlockScreen l) = without_out (UnlockInner_prog e l)"
| "serve_prog e (Req_Lock l) = without_out (Lock_listener_prog e l)"
| "serve_prog e (Req_LockUser u) = without_out (Lock_user_prog e u)"
| "serve_prog e (Req_OnSystemEvent l) = without_out (OnSystemEvent_prog e l)"
| "serve_prog e (Req_SendScreenLockEvent ev p) = without_out (SendScreenLockEvent_prog e ev p)"
| "serve_prog e (Req_IsScreenLockDisabled u) = IsScreenLockDisabled_prog e u"
| "serve_prog e (Req_SetScreenLockDisabled b u) = without_out (SetScreenLockDisabled_prog e b u)"
| "serve_prog e (Req_SetAuthState a u t) = without_out (SetScreenLockAuthState_prog e a u t)"
| "serve_prog e (Req_GetAuthState u) = GetScreenLockAuthState_prog e u"
| "serve_prog e (Req_RequestStrongAuth r u) = without_out (RequestStrongAuth_prog e r u)"
| "serve_prog e (Req_GetStrongAuth u) = GetStrongAuth_prog e u"
| "serve_prog e (Req_IsDeviceLocked u) = IsDeviceLocked_prog e u"
| "serve_prog e (Req_RegisterInnerListener u t l) = without_out (Service_RegisterInnerListener_prog e u t l)"
| "serve_prog e (Req_UnRegisterInnerListener u t l) = without_out (Service_UnRegisterInnerListener_prog e u t l)"
| "serve_prog e (Req_SetUnlockPolicy u p) = without_out (SetUnlockPolicy_prog e u p)"
| "serve_prog e (Req_GetUnlockPolicy u) = GetUnlockPolicy_prog e u"
| "serve_prog e Req_IsLockedWatch = IsLockedWatch_prog e"
| "serve_prog e (Req_UnlockWatch l) = without_out (UnlockWatch_prog e l)"

lemma serve_alone: "alone (serve_prog e req) s = serve e req s"
  by (cases req) (simp_all add: without_out_def plain_bool_def no_out_def only_out_def UnlockScreen_def split_beta)

lemma without_out_order [simp]:
  "keeps_order n (without_out p) \<longleftrightarrow> keeps_order n (andthen p (\<lambda>r. Return (r, NoOut)))"
  "keeps_order n (plain_bool q) \<longleftrightarrow> keeps_order n (andthen q (\<lambda>b. Return (OK, BoolOut b)))"
  by (simp_all add: without_out_def plain_bool_def)

lemma serve_order: "keeps_order 0 (serve_prog e req)"
  by (cases req) (simp_all add: keeps_order_andthen)

end
