(* ===== verification/Threaded_Events.thy ===== *)
theory Threaded_Events
  imports Threaded_Requests Service_History
begin

text \<open>
  Submitted work, start and stop, accounts, power events and the dump as programs of threads, and
  everything that can happen to the service as one program each.
\<close>

section \<open>Submitted work\<close>

definition Init_prog :: "'p env \<Rightarrow> (service_mutex, ('p, 's) service_state_scheme, status) prog" where
  "Init_prog e =
     calling (\<lambda>s. (publishService e (publishCalls s), s\<lparr>publishCalls := Suc (publishCalls s)\<rparr>)) (\<lambda>ret.
       if \<not> ret then Return (Code E_SCREENLOCK_PUBLISH_FAIL)
       else writing (\<lambda>s. s\<lparr>stateValue := StateValue_Reset (stateValue s)\<rparr>) (Return OK))"

definition RegisterDisplayPowerEventListener_prog ::
  "'p env \<Rightarrow> int \<Rightarrow> (service_mutex, ('p, 's) service_state_scheme, unit) prog"
where
  "RegisterDisplayPowerEventListener_prog e tries =
     (let tries' = tries + 1
      in calling (\<lambda>s. let ready = registerDisplayListener e (displayRegistrations s)
                      in (ready, s\<lparr>systemReady := ready, displayRegistrations := Suc (displayRegistrations s)\<rparr>))
           (\<lambda>ready.
             if \<not> ready \<and> tries' \<le> MAX_RETRY_TIMES
             then guarded QueueLock (writing (queue_submit (RegisterDisplayTask tries')) (Return ()))
             else if ready
             then guarded RunningStateMutex (writing (\<lambda>s. s\<lparr>runningState := STATE_RUNNING\<rparr>) (Return ()))
             else Return ()))"

text \<open>One turn of \<open>OnSystemReady\<close> calls the listener under its mutex.\<close>

definition OnSystemReady_turn_prog :: "nat \<Rightarrow> (service_mutex, ('p, 's) service_state_scheme, unit) prog" where
  "OnSystemReady_turn_prog tryTime =
     (if tryTime > 0
      then andthen
             (guarded ListenerMutex
                (reading systemEventListener (\<lambda>l. reading systemReady (\<lambda>ready.
                   case l of
                     Some listener \<Rightarrow>
                       if ready then writing (emit [SystemEventCallback listener (SystemEvent SYSTEM_READY)]) (Return True)
                       else Return False
                   | None \<Rightarrow> Return False))))
             (\<lambda>isExitFlag. if \<not> isExitFlag \<and> tryTime - 1 > 0
                           then writing (submit (SystemReadyTask (tryTime - 1))) (Return ()) else Return ())
      else Return ())"

definition LockCallback_prog :: "int \<Rightarrow> (service_mutex, ('p, 's) service_state_scheme, unit) prog" where
  "LockCallback_prog stateResult =
     guarded LockListenerMutex
       (writing (\<lambda>s. emit (map (\<lambda>l. LockCallback l stateResult) (lockVecListeners s)) s)
         (writing (\<lambda>s. s\<lparr>lockVecListeners := []\<rparr>) (Return ())))"

text \<open>
  The callback of the unlock listeners takes the mutex of the screen-lock states inside the one of the
  listeners.  Its result says whether every access was inside the vectors.
\<close>

fun unlock_callbacks_prog ::
  "nat list \<Rightarrow> int \<Rightarrow> int \<Rightarrow> (service_mutex, ('p, 's) service_state_scheme, bool) prog"
where
  "unlock_callbacks_prog [] result cur = Return True"
| "unlock_callbacks_prog (i # ks) result cur =
     reading (\<lambda>s. (vec_at (unlockVecUserIds s) i, vec_at (unlockVecListeners s) i)) (\<lambda>entry.
       case entry of
         (Some u, Some l) \<Rightarrow>
           if u = cur then writing (emit [UnlockCallback l result]) (unlock_callbacks_prog ks result cur)
           else andthen (guarded ScreenLockMutex (reading (screen_locked_of u) Return)) (\<lambda>isScreenLocked.
                  writing (emit [UnlockCallback l (if isScreenLocked then screen_change_code SCREEN_FAIL
                                                    else screen_change_code SCREEN_SUCC)])
                    (unlock_callbacks_prog ks result cur))
       | _ \<Rightarrow> Return False)"

definition UnlockCallback_prog :: "int \<Rightarrow> int \<Rightarrow> (service_mutex, ('p, 's) service_state_scheme, bool) prog" where
  "UnlockCallback_prog screenLockResult curUserId =
     guarded UnlockListenerMutex
       (reading (\<lambda>s. length (unlockVecListeners s)) (\<lambda>size.
          andthen (unlock_callbacks_prog [0..<size] screenLockResult curUserId) (\<lambda>inside.
            if \<not> inside then Return False
            else writing (\<lambda>s. s\<lparr>unlockVecListeners := []\<rparr>)
                   (writing (\<lambda>s. s\<lparr>unlockVecUserIds := []\<rparr>) (Return True)))))"

lemma work_alone [simp]:
  "alone (Init_prog e) s = Init e s"
  "alone (RegisterDisplayPowerEventListener_prog e n) s = ((), RegisterDisplayPowerEventListener e n s)"
  "alone (OnSystemReady_turn_prog k) s = ((), OnSystemReady_turn k s)"
  "alone (LockCallback_prog r) s = ((), LockCallback_run r s)"
  by (auto simp: Init_prog_def Init_def RegisterDisplayPowerEventListener_prog_def RegisterDisplayPowerEventListener_def
      OnSystemReady_turn_prog_def OnSystemReady_turn_def LockCallback_prog_def LockCallback_run_def Let_def
      split: option.split)

lemma unlock_callbacks_alone:
  "unlock_callbacks ks r u s = Some s' \<Longrightarrow> alone (unlock_callbacks_prog ks r u) s = (True, s')"
  by (induction ks arbitrary: s)
    (auto simp: CallbackUnlockListener_def Let_def split: option.splits if_splits)

lemma UnlockCallback_alone: "UnlockCallback_run r u s = Some s' \<Longrightarrow> alone (UnlockCallback_prog r u) s = (True, s')"
  by (auto simp: UnlockCallback_run_def UnlockCallback_prog_def unlock_callbacks_alone split: option.splits)

lemma unlock_callbacks_order [simp]: "n \<le> 7 \<Longrightarrow> keeps_order n (unlock_callbacks_prog ks r u)"
  by (induction ks) (auto intro!: order_rules split: option.split)

lemma work_order [simp]:
  "keeps_order n (Init_prog e)"
  "n \<le> 10 \<Longrightarrow> keeps_order n (RegisterDisplayPowerEventListener_prog e t)"
  "n \<le> 9 \<Longrightarrow> keeps_order n (OnSystemReady_turn_prog k)"
  "n \<le> 6 \<Longrightarrow> keeps_order n (LockCallback_prog r)"
  "n \<le> 5 \<Longrightarrow> keeps_order n (UnlockCallback_prog r u)"
  by (auto simp: Init_prog_def RegisterDisplayPowerEventListener_prog_def OnSystemReady_turn_prog_def
      LockCallback_prog_def UnlockCallback_prog_def Let_def intro!: order_rules split: option.split)

text \<open>A submitted lambda; the result says whether every access was inside the vectors.\<close>

fun task_prog :: "'p env \<Rightarrow> task \<Rightarrow> (service_mutex, ('p, 's) service_state_scheme, bool) prog" where
  "task_prog e InitTask = andthen (Init_prog e) (\<lambda>_. Return True)"
| "task_prog e (RegisterDisplayTask n) = andthen (RegisterDisplayPowerEventListener_prog e n) (\<lambda>_. Return True)"
| "task_prog e (SystemReadyTask n) = andthen (OnSystemReady_turn_prog n) (\<lambda>_. Return True)"
| "task_prog e (LockCallbackTask r) = andthen (LockCallback_prog r) (\<lambda>_. Return True)"
| "task_prog e (UnlockCallbackTask r u) = UnlockCallback_prog r u"
| "task_prog e (NotifyDisplayTask ev) = writing (emit [DisplayNotify ev]) (Return True)"

lemma task_alone: "run_task e t s = Some s' \<Longrightarrow> alone (task_prog e t) s = (True, s')"
  by (cases t) (auto simp: UnlockCallback_alone split_beta)

lemma task_order: "keeps_order 0 (task_prog e t)"
  by (cases t) (auto intro!: order_rules)

section \<open>Start and stop\<close>

definition OnStart_prog :: "'p env \<Rightarrow> (service_mutex, ('p, 's) service_state_scheme, unit) prog" where
  "OnStart_prog e =
     andthen (guarded InstanceLock (writing (\<lambda>s. s\<lparr>instanceSet := True\<rparr>) (Return ()))) (\<lambda>_.
     andthen (guarded RunningStateMutex (reading runningState Return)) (\<lambda>running.
       if running = STATE_RUNNING then Return ()
       else andthen (guarded QueueLock (writing InitServiceHandler (Return ()))) (\<lambda>_.
            andthen (Init_prog e) (\<lambda>r.
            andthen (if r \<noteq> OK then guarded QueueLock (writing (queue_submit InitTask) (Return ())) else Return ()) (\<lambda>_.
            writing (emit [ServiceCall ''AddSystemAbilityListener:DISPLAY_MANAGER''])
              (writing (emit [ServiceCall ''AddSystemAbilityListener:ACCOUNT''])
                (writing (emit [ServiceCall ''AddSystemAbilityListener:USERIDM''])
                  (writing (emit [ServiceCall ''AddSystemAbilityListener:USERAUTH''])
                    (if IS_SO_CROP_H e then Return ()
                     else guarded DumpLock (writing (RegisterCommand dump_all_command) (Return ())))))))))))"

definition RegistIamEventListener_prog :: "(service_mutex, ('p, 's) service_state_scheme, unit) prog" where
  "RegistIamEventListener_prog =
     andthen (guarded InstanceLock (writing (\<lambda>s. s\<lparr>credChangeListener := True\<rparr>) (Return ())))
       (\<lambda>_. writing (emit [ServiceCall ''RegistCredChangeEventListener'']) (Return ()))"

definition UnRegistIamEventListener_prog :: "(service_mutex, ('p, 's) service_state_scheme, unit) prog" where
  "UnRegistIamEventListener_prog =
     andthen (guarded InstanceLock
                (reading credChangeListener (\<lambda>there.
                   if there then writing (\<lambda>s. s\<lparr>credChangeListener := False\<rparr>) (Return True) else Return False)))
       (\<lambda>there. if there then writing (emit [ServiceCall ''UnRegistCredChangeEventListener'']) (Return ())
                else Return ())"

definition OnStop_prog :: "'p env \<Rightarrow> (service_mutex, ('p, 's) service_state_scheme, unit) prog" where
  "OnStop_prog e =
     andthen (guarded RunningStateMutex
                (reading runningState (\<lambda>running.
                   if running \<noteq> STATE_RUNNING then Return False
                   else writing (\<lambda>s. s\<lparr>runningState := STATE_NOT_START\<rparr>) (Return True)))) (\<lambda>running.
       if \<not> running then Return ()
       else andthen (guarded QueueLock (writing (\<lambda>s. s\<lparr>queueSet := False\<rparr>) (Return ()))) (\<lambda>_.
            andthen (guarded InstanceLock
                       (writing (\<lambda>s. s\<lparr>instanceSet := False\<rparr>)
                         (reading displayPowerEventListener (\<lambda>there.
                            if there then writing (emit [ServiceCall ''UnregisterDisplayPowerEventListener'']) (Return ())
                            else Return ())))) (\<lambda>_.
            andthen UnRegistIamEventListener_prog (\<lambda>_.
            andthen (if IS_SO_CROP_H e then Return () else DestroyAllStrongAuthTimer_prog) (\<lambda>_.
            andthen (guarded AccountSubscriberMutex
                       (writing (\<lambda>s. emit (map (\<lambda>p. AccountUnsubscribe (fst p)) (accountSubscribers s)) s) (Return ())))
              (\<lambda>_. writing RemoveSubscribeUserIamReady (Return ())))))))"

definition init_disabled_flag_prog ::
  "'p env \<Rightarrow> int \<Rightarrow> (service_mutex, ('p, 's) service_state_scheme, unit) prog"
where
  "init_disabled_flag_prog e userId =
     (if \<not> preferencesUtil e then Return ()
      else reading (ObtainBool (prefs e) (disabled_key userId) False) (\<lambda>set.
             if set then Return ()
             else calling (SaveBool (prefs e) (disabled_key userId) False) (\<lambda>_.
                  writing (Refresh (prefs e)) (Return ()))))"

definition InitUserId_prog :: "'p env \<Rightarrow> (service_mutex, ('p, 's) service_state_scheme, unit) prog" where
  "InitUserId_prog e =
     andthen (guarded AccountSubscriberMutex
                (writing (SubscribeAcccount ACTIVATED)
                  (writing (SubscribeAcccount REMOVED)
                    (if IS_SO_CROP_H e then Return () else writing (SubscribeAcccount UNLOCKED) (Return ()))))) (\<lambda>_.
     andthen (guarded EventLock (writing (SubscribeEvent e) (Return ()))) (\<lambda>_.
     writing SubscribeUserIamReady (init_disabled_flag_prog e (GetCurrentActiveOsAccountId e))))"

definition OnAddSystemAbility_prog ::
  "'p env \<Rightarrow> system_ability_id \<Rightarrow> (service_mutex, ('p, 's) service_state_scheme, unit) prog"
where
  "OnAddSystemAbility_prog e sa =
     andthen (if sa = DISPLAY_MANAGER_SA
              then andthen (guarded InstanceLock (writing (\<lambda>s. s\<lparr>displayPowerEventListener := True\<rparr>) (Return ())))
                     (\<lambda>_. RegisterDisplayPowerEventListener_prog e 0)
              else Return ()) (\<lambda>_.
     andthen (if sa = ACCOUNT_SA then InitUserId_prog e else Return ()) (\<lambda>_.
     andthen (if sa = USERIDM_SA then RegistIamEventListener_prog else Return ()) (\<lambda>_.
       if \<not> IS_SO_CROP_H e \<and> sa = USERAUTH_SA then RegistAuthEventListener_prog else Return ())))"

definition OnRemoveSystemAbility_prog ::
  "'p env \<Rightarrow> system_ability_id \<Rightarrow> (service_mutex, ('p, 's) service_state_scheme, unit) prog"
where
  "OnRemoveSystemAbility_prog e sa =
     andthen (if sa = USERIDM_SA then UnRegistIamEventListener_prog else Return ()) (\<lambda>_.
       if \<not> IS_SO_CROP_H e \<and> sa = USERAUTH_SA then UnRegistAuthEventListener_prog else Return ())"

lemma iam_alone [simp]:
  "alone RegistIamEventListener_prog s = ((), RegistIamEventListener s)"
  "alone UnRegistIamEventListener_prog s = ((), UnRegistIamEventListener s)"
  "alone (init_disabled_flag_prog e u) s = ((), init_disabled_flag e u s)"
  by (simp_all add: RegistIamEventListener_prog_def RegistIamEventListener_def UnRegistIamEventListener_prog_def
      UnRegistIamEventListener_def init_disabled_flag_prog_def init_disabled_flag_def split_beta)

lemma InitUserId_alone [simp]: "alone (InitUserId_prog e) s = ((), InitUserId e s)"
  by (simp add: InitUserId_prog_def InitUserId_def Let_def)

lemma life_alone [simp]:
  "alone (OnStart_prog e) s = ((), OnStart e s)"
  "alone (OnStop_prog e) s = ((), OnStop e s)"
  "alone (OnAddSystemAbility_prog e sa) s = ((), OnAddSystemAbility e sa s)"
  "alone (OnRemoveSystemAbility_prog e sa) s = ((), OnRemoveSystemAbility e sa s)"
  by (simp_all add: OnStart_prog_def OnStart_def OnStop_prog_def OnStop_def OnAddSystemAbility_prog_def
      OnAddSystemAbility_def OnRemoveSystemAbility_prog_def OnRemoveSystemAbility_def RegisterDumpCommand_def
      Let_def split_beta)

lemma iam_order [simp]:
  "n \<le> 12 \<Longrightarrow> keeps_order n RegistIamEventListener_prog"
  "n \<le> 12 \<Longrightarrow> keeps_order n UnRegistIamEventListener_prog"
  "keeps_order n (init_disabled_flag_prog e u)"
  "n \<le> 1 \<Longrightarrow> keeps_order n (InitUserId_prog e)"
  by (auto simp: RegistIamEventListener_prog_def UnRegistIamEventListener_prog_def init_disabled_flag_prog_def
      InitUserId_prog_def intro!: order_rules)

lemma life_order [simp]:
  "keeps_order 0 (OnStart_prog e)"
  "keeps_order 0 (OnStop_prog e)"
  "keeps_order 0 (OnAddSystemAbility_prog e sa)"
  "keeps_order 0 (OnRemoveSystemAbility_prog e sa)"
  by (auto simp: OnStart_prog_def OnStop_prog_def OnAddSystemAbility_prog_def OnRemoveSystemAbility_prog_def
      intro!: order_rules)

end
