(* ===== verification/Threaded_Happenings.thy ===== *)
theory Threaded_Happenings
  imports Threaded_Events
begin

text \<open>
  Accounts, credentials, power events and the dump as programs of threads, and everything that can happen
  to the service as one program each, with its agreement with \<open>happen\<close>.
\<close>

section \<open>Accounts and credentials\<close>

definition OnActiveUser_prog ::
  "'p env \<Rightarrow> int \<Rightarrow> int \<Rightarrow> (service_mutex, ('p, 's) service_state_scheme, unit) prog"
where
  "OnActiveUser_prog e lastUser targetUser =
     andthen (if IS_SO_CROP_H e then Return False else GetCredInfo_prog e targetUser) (\<lambda>_.
     andthen (AuthStateInit_prog targetUser) (\<lambda>_. init_disabled_flag_prog e targetUser))"

text \<open>The mutex of the screen-lock states is held until the policy is deleted.\<close>

definition OnRemoveUser_prog :: "'p env \<Rightarrow> int \<Rightarrow> (service_mutex, ('p, 's) service_state_scheme, unit) prog" where
  "OnRemoveUser_prog e userId =
     andthen (guarded AuthStateMutex
                (writing (\<lambda>s. s\<lparr>authStateInfo := merase userId (authStateInfo s)\<rparr>) (Return ()))) (\<lambda>_.
     guarded ScreenLockMutex
       (writing (\<lambda>s. s\<lparr>isScreenlockedMap := merase userId (isScreenlockedMap s)\<rparr>)
         (writing (DeleteUnlockPolicyForUser e userId) (Return ()))))"

definition OnAccountsChanged_prog ::
  "'p env \<Rightarrow> account_event \<Rightarrow> int \<Rightarrow> (service_mutex, ('p, 's) service_state_scheme, unit) prog"
where
  "OnAccountsChanged_prog e ev newId =
     reading (\<lambda>s. map_of (accountSubscribers s) ev) (\<lambda>subscriber.
       case subscriber of
         None \<Rightarrow> Return ()
       | Some lastUser \<Rightarrow>
           andthen (case ev of
                      ACTIVATED \<Rightarrow> OnActiveUser_prog e lastUser newId
                    | REMOVED \<Rightarrow> OnRemoveUser_prog e newId
                    | UNLOCKED \<Rightarrow> if IS_SO_CROP_H e then Return ()
                                  else NotifyStrongAuthChange_prog e newId (reason_code REASON_NONE))
             (\<lambda>_. writing (\<lambda>s. s\<lparr>accountSubscribers := AList.update ev newId (accountSubscribers s)\<rparr>) (Return ())))"

definition Service_OnNotifyCredChangeEvent_prog ::
  "'p env \<Rightarrow> int \<Rightarrow> auth_type \<Rightarrow> cred_change_event \<Rightarrow> bool
     \<Rightarrow> (service_mutex, ('p, 's) service_state_scheme, unit) prog"
where
  "Service_OnNotifyCredChangeEvent_prog e userId authType credEvent isSilent =
     (if callingUid e \<noteq> IDM_UID then Return ()
      else andthen (if GetCurrentActiveOsAccountId e = userId \<and> authType = PIN \<and> credEvent = ADD_CRED
                    then FreshDisabledState_prog e False userId else Return OK)
             (\<lambda>_. if IS_SO_CROP_H e then Return ()
                  else OnNotifyCredChangeEvent_prog e userId authType credEvent isSilent))"

lemma account_alone [simp]:
  "alone (OnActiveUser_prog e l u) s = ((), OnActiveUser e l u s)"
  "alone (OnRemoveUser_prog e u) s = ((), OnRemoveUser e u s)"
  "alone (Service_OnNotifyCredChangeEvent_prog e u a c b) s = ((), Service_OnNotifyCredChangeEvent e u a c b s)"
  by (simp_all add: OnActiveUser_prog_def OnActiveUser_def OnRemoveUser_prog_def OnRemoveUser_def
      Service_OnNotifyCredChangeEvent_prog_def Service_OnNotifyCredChangeEvent_def Let_def split_beta)

lemma OnAccountsChanged_alone [simp]: "alone (OnAccountsChanged_prog e ev u) s = ((), OnAccountsChanged e ev u s)"
  by (simp add: OnAccountsChanged_prog_def OnAccountsChanged_def Service_AccountUnlocked_def AccountUnlocked_def
      Let_def split: option.split account_event.split)

lemma account_order [simp]:
  "n \<le> 3 \<Longrightarrow> keeps_order n (OnActiveUser_prog e l u)"
  "n \<le> 3 \<Longrightarrow> keeps_order n (OnRemoveUser_prog e u)"
  "n \<le> 4 \<Longrightarrow> keeps_order n (Service_OnNotifyCredChangeEvent_prog e u a c b)"
  by (auto simp: OnActiveUser_prog_def OnRemoveUser_prog_def Service_OnNotifyCredChangeEvent_prog_def
      intro!: order_rules)

lemma OnAccountsChanged_order [simp]: "n \<le> 3 \<Longrightarrow> keeps_order n (OnAccountsChanged_prog e ev u)"
  by (auto simp: OnAccountsChanged_prog_def intro!: order_rules split: option.split account_event.split)

section \<open>Power events\<close>

text \<open>The four handlers: the state that begins or ends, and the event that says so.\<close>

definition power_prog ::
  "(int \<Rightarrow> ('p, 's) event_state_scheme \<Rightarrow> ('p, 's) event_state_scheme) \<Rightarrow> int \<Rightarrow> int \<Rightarrow> string \<Rightarrow> string \<Rightarrow> event_status
     \<Rightarrow> (service_mutex, ('p, 's) event_state_scheme, unit) prog"
where
  "power_prog setter begin_state end_state begin_event end_event status =
     (case status of
        STATUS_BEGIN \<Rightarrow> writing (setter begin_state) (SystemEventCallBack_prog (SystemEvent begin_event))
      | STATUS_END \<Rightarrow>
          writing (setter end_state) (SystemEventCallBack_prog ((SystemEvent begin_event)\<lparr>eventType := end_event\<rparr>))
      | STATUS_OTHER \<Rightarrow> SystemEventCallBack_prog (SystemEvent begin_event))"

definition OnDisplayPowerEvent_prog ::
  "display_power_event \<Rightarrow> event_status \<Rightarrow> (service_mutex, ('p, 's) service_state_scheme, unit) prog"
where
  "OnDisplayPowerEvent_prog event status =
     andthen (guarded InstanceLock (reading instanceSet Return)) (\<lambda>there.
       if \<not> there then Return ()
       else case event of
              WAKE_UP \<Rightarrow> power_prog SetInteractiveState (interactive_state_code INTERACTIVE_STATE_BEGIN_WAKEUP)
                            (interactive_state_code INTERACTIVE_STATE_END_WAKEUP) BEGIN_WAKEUP END_WAKEUP status
            | SLEEP \<Rightarrow> power_prog SetInteractiveState (interactive_state_code INTERACTIVE_STATE_BEGIN_SLEEP)
                            (interactive_state_code INTERACTIVE_STATE_END_SLEEP) BEGIN_SLEEP END_SLEEP status
            | DISPLAY_ON \<Rightarrow> power_prog SetScreenState (screen_state_code SCREEN_STATE_BEGIN_ON)
                            (screen_state_code SCREEN_STATE_END_ON) BEGIN_SCREEN_ON END_SCREEN_ON status
            | DISPLAY_OFF \<Rightarrow> power_prog SetScreenState (screen_state_code SCREEN_STATE_BEGIN_OFF)
                            (screen_state_code SCREEN_STATE_END_OFF) BEGIN_SCREEN_OFF END_SCREEN_OFF status
            | DESKTOP_READY \<Rightarrow> SystemEventCallBack_prog (SystemEvent EXIT_ANIMATION)
            | OTHER_POWER_EVENT \<Rightarrow> Return ())"

lemma OnDisplayPowerEvent_alone [simp]:
  "alone (OnDisplayPowerEvent_prog ev st) s = ((), OnDisplayPowerEvent (instanceSet s) ev st s)"
  by (cases ev; cases st)
    (simp_all add: OnDisplayPowerEvent_prog_def power_prog_def OnDisplayPowerEvent_def OnWakeUp_def OnSleep_def
      OnScreenOn_def OnScreenOff_def OnExitAnimation_def)

lemma power_order [simp]: "n \<le> 9 \<Longrightarrow> keeps_order n (power_prog f a b x y st)"
  by (simp add: power_prog_def split: event_status.split)

lemma OnDisplayPowerEvent_order [simp]: "n \<le> 9 \<Longrightarrow> keeps_order n (OnDisplayPowerEvent_prog ev st)"
  by (auto simp: OnDisplayPowerEvent_prog_def intro!: order_rules split: display_power_event.split)

definition UserIamReadyCallback_prog ::
  "string option \<Rightarrow> string option \<Rightarrow> (service_mutex, ('p, 's) event_state_scheme, unit) prog"
where
  "UserIamReadyCallback_prog key value =
     (case (key, value) of
        (Some k, Some v) \<Rightarrow>
          if k \<noteq> IAM_EVENT_KEY then Return () else SystemEventCallBack_prog ((SystemEvent USERIAM_READY)\<lparr>params := v\<rparr>)
      | _ \<Rightarrow> Return ())"

lemma UserIamReadyCallback_alone [simp]: "alone (UserIamReadyCallback_prog k v) s = ((), UserIamReadyCallback k v s)"
  by (simp add: UserIamReadyCallback_prog_def UserIamReadyCallback_def UserIamReadyNotify_def split: option.split)

lemma UserIamReadyCallback_order [simp]: "n \<le> 9 \<Longrightarrow> keeps_order n (UserIamReadyCallback_prog k v)"
  by (simp add: UserIamReadyCallback_prog_def split: option.split)

section \<open>The dump\<close>

text \<open>The action of the command takes the mutexes of the states one after the other, all inside the one
  of the table of commands; the help reads the table without it.\<close>

fun dump_strong_prog ::
  "'p env \<Rightarrow> int list \<Rightarrow> (service_mutex, ('p, 's) service_state_scheme, string) prog"
where
  "dump_strong_prog e [] = Return ''''"
| "dump_strong_prog e (u # us) =
     andthen (GetStrongAuthStat_prog e u) (\<lambda>reasonFlag.
     andthen (GetStrongAuthTimeTrigger_prog u) (\<lambda>timeTrigger.
     andthen (dump_strong_prog e us) (\<lambda>rest.
       Return ('' * strongAuth  '' @ tab @ tab @ to_string u @ tab @ tab @ to_string reasonFlag @ tab @ tab
               @ to_string timeTrigger @ nl @ rest))))"

definition dump_all_prog ::
  "'p env \<Rightarrow> string \<Rightarrow> (service_mutex, ('p, 's) service_state_scheme, string) prog"
where
  "dump_all_prog e output =
     reading (\<lambda>s. AppendPrintOtherInfo (stateValue s) output) (\<lambda>other.
     andthen (guarded AuthStateMutex (reading (\<lambda>s. concat (map dump_auth_line (authStateInfo s))) Return)) (\<lambda>auth.
     andthen (guarded ScreenLockMutex (reading isScreenlockedMap Return)) (\<lambda>screens.
     andthen (dump_strong_prog e (map fst screens)) (\<lambda>strong.
       Return (other @ auth @ concat (map dump_lock_line screens) @ strong)))))"

definition Dispatch_prog ::
  "'p env \<Rightarrow> string list \<Rightarrow> (service_mutex, ('p, 's) service_state_scheme, string \<times> bool) prog"
where
  "Dispatch_prog e args =
     (let rule = nl @ ''---------------------------------'' @ nl
      in if args = [] \<or> hd args = ''-h''
         then reading cmdHandler (\<lambda>handlers.
                Return (rule @ nl @ pad_right 15 ''Option'' @ ''  '' @ pad_right 20 ''Description''
                   @ concat (map (\<lambda>p. nl @ pad_right 15 (GetFormat (snd p)) @ '': ''
                                        @ pad_right 20 (ShowHelp (snd p)) @ nl) handlers), False))
         else guarded DumpLock
                (reading (\<lambda>s. mfind (cmdHandler s) (hd args)) (\<lambda>handler.
                   case handler of
                     Some cmd \<Rightarrow>
                       andthen (if cmd_dumps_all cmd then dump_all_prog e '''' else Return '''')
                         (\<lambda>output. Return (rule @ output @ nl, True))
                   | None \<Rightarrow> Return (rule, False))))"

definition Dump_prog :: "'p env \<Rightarrow> string list \<Rightarrow> (service_mutex, ('p, 's) service_state_scheme, string) prog" where
  "Dump_prog e args =
     (if IS_SO_CROP_H e then Return ''''
      else if callingUid e > 10000 then Return ''''
      else andthen (Dispatch_prog e args) (\<lambda>r. Return (fst r)))"

lemma dump_strong_alone [simp]:
  "alone (dump_strong_prog e us) s = (concat (map (\<lambda>u. dump_strong_line e u s) us), s)"
  by (induction us) (simp_all add: dump_strong_line_def)

lemma Dispatch_alone [simp]: "alone (Dispatch_prog e args) s = (Dispatch e args s, s)"
  by (auto simp: Dispatch_prog_def Dispatch_def DoAction_def dump_all_prog_def dump_all_def Let_def split: option.split)

lemma Dump_alone [simp]: "alone (Dump_prog e args) s = (Dump e args s, s)"
  by (simp add: Dump_prog_def Dump_def)

lemma dump_strong_order [simp]: "n \<le> 4 \<Longrightarrow> keeps_order n (dump_strong_prog e us)"
  by (induction us) (auto intro!: order_rules)

lemma Dump_order [simp]: "keeps_order 0 (Dump_prog e args)"
  by (auto simp: Dump_prog_def Dispatch_prog_def dump_all_prog_def Let_def intro!: order_rules split: option.split)

section \<open>Everything that can happen\<close>

text \<open>
  A pending task is taken out of the queue and run; the callbacks of the watch are one access each.  The
  result says whether every access was inside the vectors.
\<close>

definition inside :: "(service_mutex, 'd, 'a) prog \<Rightarrow> (service_mutex, 'd, bool) prog" where
  "inside p = andthen p (\<lambda>_. Return True)"

fun happen_prog :: "'p env \<Rightarrow> happening \<Rightarrow> (service_mutex, 'p service_state, bool) prog" where
  "happen_prog e (Request req) = inside (serve_prog e req)"
| "happen_prog e (PendingTask i) =
     calling (\<lambda>s. if i < length (tasks s) then (Some (tasks s ! i), s\<lparr>tasks := remove_at i (tasks s)\<rparr>) else (None, s))
       (\<lambda>t. case t of None \<Rightarrow> Return True | Some task \<Rightarrow> task_prog e task)"
| "happen_prog e Started = inside (OnStart_prog e)"
| "happen_prog e (AbilityAdded sa) = inside (OnAddSystemAbility_prog e sa)"
| "happen_prog e (AbilityRemoved sa) = inside (OnRemoveSystemAbility_prog e sa)"
| "happen_prog e (AccountChanged ev u) = inside (OnAccountsChanged_prog e ev u)"
| "happen_prog e (DisplayPower pe st) = inside (OnDisplayPowerEvent_prog pe st)"
| "happen_prog e (IamReady k v) = inside (UserIamReadyCallback_prog k v)"
| "happen_prog e (CredChanged u a c b) = inside (Service_OnNotifyCredChangeEvent_prog e u a c b)"
| "happen_prog e (AuthSucceeded u a w) = inside (OnNotifyAuthSuccessEvent_prog e u a w)"
| "happen_prog e (CredReported u r n) = inside (OnCredentialInfo_prog e u r n)"
| "happen_prog e (TimerFired t) = inside (OnTrigger_prog e t)"
| "happen_prog e (CommonEventReceived act par) = writing (OnReceiveEvent e act par) (Return True)"
| "happen_prog e (ClientDied ro) = inside (OnRemoteDied_prog ro)"
| "happen_prog e (WindowHidden b) = writing (OnWindowHidden e b) (Return True)"
| "happen_prog e SettingChanged = writing (LeaveWrist_OnChange e) (Return True)"
| "happen_prog e (SensorReported ev) = writing (WearSensorCallback e ev) (Return True)"
| "happen_prog e (WearDisplay pe st) = writing (WearDisplay_OnDisplayPowerEvent e pe st) (Return True)"
| "happen_prog e QueueReset = guarded QueueLock (writing ResetFfrtQueue (Return True))"

lemma inside_alone [simp]: "alone (inside p) s = (True, snd (alone p s))"
  by (simp add: inside_def split_beta)

lemma inside_order [simp]: "keeps_order n p \<Longrightarrow> keeps_order n (inside p)"
  by (simp add: inside_def keeps_order_andthen)

lemma happen_alone: "happen e h s = Some s' \<Longrightarrow> alone (happen_prog e h) s = (True, s')"
  by (cases h) (auto simp: serve_alone task_alone split: if_splits)

lemma happen_order: "keeps_order 0 (happen_prog e h)"
  by (cases h) (auto simp: serve_order task_order intro!: order_rules split: option.split)

end
