(* ===== verification/Mutex_Rules.thy ===== *)
theory Mutex_Rules
  imports Mutex_Sections
begin

text \<open>
  How a program is shown to work in sections.  \<open>ends_with\<close> is about the inside of a section, where the
  guarded part is the program's own; \<open>each_section\<close> says that every section of a program relates the part
  before to the part after, and is closed under the ways programs are composed.  Last, a program that
  nothing interferes with reaches what \<open>alone\<close> says, so every sequential run is a schedule.
\<close>

section \<open>Inside a section\<close>

primrec ends_with ::
  "'m \<Rightarrow> ('d \<Rightarrow> 'v) \<Rightarrow> ('v \<Rightarrow> 'r \<Rightarrow> bool) \<Rightarrow> ('m, 'd, 'r) prog \<Rightarrow> 'v \<Rightarrow> bool"
where
  "ends_with m view Q (Return r) = (\<lambda>v. Q v r)"
| "ends_with m view Q (Acquire k p) = (\<lambda>v. k \<noteq> m \<and> ends_with m view Q p v)"
| "ends_with m view Q (Release k p) = (\<lambda>v. k \<noteq> m \<and> ends_with m view Q p v)"
| "ends_with m view Q (Act f) = (\<lambda>v. \<forall>d. view d = v \<longrightarrow>
     (case (map_prod id (ends_with m view Q) \<circ> f) d of (d', rest) \<Rightarrow> rest (view d')))"

lemma ends_with_Act [simp]:
  "ends_with m view Q (Act f) v \<longleftrightarrow> (\<forall>d. view d = v \<longrightarrow> ends_with m view Q (snd (f d)) (view (fst (f d))))"
  by (auto simp: case_prod_beta)

declare ends_with.simps(4) [simp del]

lemma ends_with_reading [simp]:
  "ends_with m view Q (reading g k) v \<longleftrightarrow> (\<forall>d. view d = v \<longrightarrow> ends_with m view Q (k (g d)) v)"
  by (auto simp: reading_def)

lemma ends_with_writing [simp]:
  "ends_with m view Q (writing f p) v \<longleftrightarrow> (\<forall>d. view d = v \<longrightarrow> ends_with m view Q p (view (f d)))"
  by (simp add: writing_def)

lemma ends_with_calling [simp]:
  "ends_with m view Q (calling f k) v
     \<longleftrightarrow> (\<forall>d. view d = v \<longrightarrow> ends_with m view Q (k (fst (f d))) (view (snd (f d))))"
  by (simp add: calling_def split_beta)

lemma ends_with_andthen:
  "ends_with m view (\<lambda>v a. ends_with m view Q (k a) v) p v \<Longrightarrow> ends_with m view Q (andthen p k) v"
  by (induction p arbitrary: v rule: prog_induct) auto

lemma ends_with_quiet:
  "quiet m view p \<Longrightarrow> (\<And>a. Q v a) \<Longrightarrow> ends_with m view Q p v"
  by (induction p rule: prog_induct) auto

lemma ends_with_mono:
  "ends_with m view Q p v \<Longrightarrow> (\<And>v a. Q v a \<Longrightarrow> Q' v a) \<Longrightarrow> ends_with m view Q' p v"
  by (induction p arbitrary: v rule: prog_induct) auto

lemma ends_with_quiet_andthen:
  "quiet m view p \<Longrightarrow> (\<And>a. ends_with m view Q (k a) v) \<Longrightarrow> ends_with m view Q (andthen p k) v"
  by (rule ends_with_andthen) (rule ends_with_quiet)

text \<open>A section, and what follows it.\<close>

lemma in_sections_inside:
  assumes "ends_with m view (\<lambda>v' a. in_sections m view okay (k a) done (Some (v0, v', n))) p v"
  shows "in_sections m view okay (andthen p k) done (Some (v0, v, n))"
  using assms by (induction p arbitrary: v rule: prog_induct) auto

lemma in_sections_guarded:
  assumes "\<And>v. ends_with m view
      (\<lambda>v' a. okay (done @ [(v, v')]) None \<and> in_sections m view okay (k a) (done @ [(v, v')]) None) p v"
  shows "in_sections m view okay (andthen (guarded m p) k) done None"
proof -
  have "andthen (andthen p (\<lambda>a. Release m (Return a))) k = andthen p (\<lambda>a. Release m (k a))"
    by (induction p rule: prog_induct) (auto simp: fun_eq_iff split_beta map_prod_def)
  moreover have "in_sections m view okay (andthen p (\<lambda>a. Release m (k a))) done (Some (v, v, 0))" for v
    using ends_with_mono [OF assms [of v]] by (intro in_sections_inside) simp
  ultimately show ?thesis by (simp add: guarded_def)
qed

lemma andthen_Return [simp]: "andthen p Return = p"
  by (induction p rule: prog_induct) (auto simp: fun_eq_iff prod_eq_iff)

lemmas in_sections_guarded_last = in_sections_guarded [where k = Return, simplified]

section \<open>Every section\<close>

definition all_steps :: "('v \<Rightarrow> 'v \<Rightarrow> bool) \<Rightarrow> ('v \<times> 'v) list \<Rightarrow> bool" where
  "all_steps R steps \<longleftrightarrow> (\<forall>x \<in> set steps. R (fst x) (snd x))"

lemma all_steps_simps [simp]:
  "all_steps R []" "all_steps R (x # xs) \<longleftrightarrow> R (fst x) (snd x) \<and> all_steps R xs"
  "all_steps R (steps @ [(v, v')]) \<longleftrightarrow> all_steps R steps \<and> R v v'"
  by (auto simp: all_steps_def)

definition each_section :: "'m \<Rightarrow> ('d \<Rightarrow> 'v) \<Rightarrow> ('v \<Rightarrow> 'v \<Rightarrow> bool) \<Rightarrow> ('m, 'd, 'r) prog \<Rightarrow> bool" where
  "each_section m view R p \<longleftrightarrow>
     (\<forall>steps. all_steps R steps \<longrightarrow> in_sections m view (\<lambda>steps r. all_steps R steps) p steps None)"

lemma each_section_quiet: "quiet m view p \<Longrightarrow> each_section m view R p"
  by (auto simp: each_section_def intro: in_sections_quiet)

lemma each_section_Return [simp]: "each_section m view R (Return r)"
  by (simp add: each_section_def)

lemma each_section_reading: "(\<And>d. each_section m view R (k (g d))) \<Longrightarrow> each_section m view R (reading g k)"
  by (simp add: each_section_def)

lemma each_section_writing:
  "(\<And>d. view (f d) = view d) \<Longrightarrow> each_section m view R p \<Longrightarrow> each_section m view R (writing f p)"
  by (simp add: each_section_def)

lemma each_section_calling:
  "(\<And>d. view (snd (f d)) = view d) \<Longrightarrow> (\<And>a. each_section m view R (k a)) \<Longrightarrow> each_section m view R (calling f k)"
  by (simp add: each_section_def calling_def split_beta)

lemma in_sections_then:
  assumes "in_sections m view (\<lambda>steps r. all_steps R steps) p steps x"
    and "\<And>a. each_section m view R (k a)"
  shows "in_sections m view (\<lambda>steps r. all_steps R steps) (andthen p k) steps x"
  using assms(1)
proof (induction p arbitrary: steps x rule: prog_induct)
  case (Return a)
  then show ?case using assms(2) [of a] by (simp add: each_section_def)
next
  case (Acquire l p)
  then show ?case by (cases x) auto
next
  case (Release l p)
  then show ?case by (cases x) (auto split: nat.splits)
next
  case (Act f)
  then show ?case by (cases x) auto
qed

lemma each_section_andthen:
  "each_section m view R p \<Longrightarrow> (\<And>a. each_section m view R (k a)) \<Longrightarrow> each_section m view R (andthen p k)"
  using in_sections_then by (fastforce simp: each_section_def)

lemma each_section_guarded:
  "(\<And>v. ends_with m view (\<lambda>v' a. R v v') p v) \<Longrightarrow> each_section m view R (guarded m p)"
  unfolding each_section_def
  by (intro allI impI in_sections_guarded_last) (auto elim: ends_with_mono)

lemma each_section_guarded_other:
  assumes "k \<noteq> m" and "each_section m view R p"
  shows "each_section m view R (guarded k p)"
proof -
  have "each_section m view R (andthen p (\<lambda>a. Release k (Return a)))"
    using assms by (intro each_section_andthen) (simp_all add: each_section_def)
  with assms(1) show ?thesis by (simp add: guarded_def each_section_def)
qed

lemma in_sections_mono:
  assumes "\<And>steps r. okay steps r \<Longrightarrow> okay' steps r"
  shows "in_sections m view okay p steps x \<Longrightarrow> in_sections m view okay' p steps x"
proof (induction p arbitrary: steps x rule: prog_induct)
  case (Act f)
  then show ?case by (cases x) auto
qed (auto split: option.splits nat.splits intro: assms)

lemma each_section_mono:
  assumes p: "each_section m view R p" and R: "\<And>v v'. R v v' \<Longrightarrow> R' v v'"
  shows "each_section m view R' p"
proof -
  have "in_sections m view (\<lambda>steps r. all_steps R steps) q steps x \<Longrightarrow> all_steps R' steps'
      \<Longrightarrow> in_sections m view (\<lambda>steps r. all_steps R' steps) q steps' x" for q steps steps' x
  proof (induction q arbitrary: steps steps' x rule: prog_induct)
    case (Release l q)
    have "all_steps R' (steps' @ [(v0, v)])" if "R v0 v" for v0 v using Release.prems R that by simp
    with Release show ?case by (auto split: option.splits nat.splits)
  next
    case (Act f)
    then show ?case by (cases x) (fastforce simp del: split_paired_All)+
  qed (auto split: option.splits nat.splits intro: R, fastforce+)
  note weaker = this
  have "in_sections m view (\<lambda>steps r. all_steps R steps) p [] None" using p by (simp add: each_section_def)
  from weaker [OF this] show ?thesis by (simp add: each_section_def)
qed

lemmas section_rules =
  each_section_reading each_section_writing each_section_calling each_section_andthen each_section_guarded_other

text \<open>What every section of every thread keeps holds whenever nobody holds the mutex.\<close>

lemma linked_fold:
  "linked v h w \<Longrightarrow> \<forall>(i, a, b) \<in> set h. b = g i a \<Longrightarrow> w = fold g (map fst h) v"
  by (induction v h w rule: linked.induct) auto

lemma linked_append: "linked v (h1 @ h2) w \<longleftrightarrow> (\<exists>u. linked v h1 u \<and> linked u h2 w)"
  by (induction h1 arbitrary: v) auto

lemma sections_of_single:
  assumes "sections_of i h = [(a, b)]"
  obtains h1 h2 where "h = h1 @ (i, a, b) # h2" "i \<notin> fst ` set h1" "i \<notin> fst ` set h2"
proof -
  obtain x where x: "filter (\<lambda>x. fst x = i) h = [x]" "snd x = (a, b)"
    using assms by (auto simp: sections_of_def)
  then have "x \<in> set (filter (\<lambda>x. fst x = i) h)" by simp
  then have "fst x = i" by simp
  with x have "filter (\<lambda>x. fst x = i) h = [(i, a, b)]" by (cases x) simp
  then obtain h1 h2 where "h = h1 @ (i, a, b) # h2" "\<forall>x \<in> set h1. fst x \<noteq> i" "filter (\<lambda>x. fst x = i) h2 = []"
    unfolding filter_eq_Cons_iff by metis
  then show thesis by (intro that) (auto simp: filter_empty_conv)
qed

lemma linked_keeps:
  "linked v h w \<Longrightarrow> I v \<Longrightarrow> (\<And>x. x \<in> set h \<Longrightarrow> I (fst (snd x)) \<Longrightarrow> I (snd (snd x))) \<Longrightarrow> I w"
proof (induction v h w rule: linked.induct)
  case (2 v i a b h w)
  then have "I b" by force
  with 2 show ?case by simp
qed simp

lemma linked_befores:
  "linked v h w \<Longrightarrow> I v \<Longrightarrow> (\<And>x. x \<in> set h \<Longrightarrow> I (fst (snd x)) \<longrightarrow> I (snd (snd x)))
     \<Longrightarrow> \<forall>x \<in> set h. I (fst (snd x))"
proof (induction v h w rule: linked.induct)
  case (2 v i a b h w)
  then have "I b" by force
  with 2 show ?case by simp
qed simp

theorem mutex_keeps:
  assumes run: "reaches recursive (started ps d) (ts, d')"
    and sections: "\<And>p. p \<in> set ps \<Longrightarrow> each_section m view (\<lambda>v v'. I v \<longrightarrow> I v') p"
    and I: "I (view d)" and free: "\<forall>t \<in> set ts. m \<notin> set (fst t)"
  shows "I (view d')"
proof -
  let ?R = "\<lambda>v v'. I v \<longrightarrow> I v'"
  have "in_sections m view (\<lambda>steps r. all_steps ?R steps) (ps ! i) [] None" if "i < length ps" for i
    using sections [of "ps ! i"] that by (auto simp: each_section_def)
  from sections_in_some_order [OF run this]
  obtain h w where h: "linked (view d) h w" "(\<forall>i < length ts. m \<notin> set (fst (ts ! i))) \<longrightarrow> view d' = w"
    "\<forall>x \<in> set h. fst x < length ts"
    and okay: "\<And>i. i < length ts \<Longrightarrow> sections_of i h \<noteq> [] \<longrightarrow> all_steps ?R (sections_of i h)"
    by blast
  have "?R (fst (snd x)) (snd (snd x))" if "x \<in> set h" for x
  proof -
    have "snd x \<in> set (sections_of (fst x) h)" using that by (auto simp: sections_of_def)
    with okay [of "fst x"] h(3) that show ?thesis by (auto simp: all_steps_def)
  qed
  with linked_keeps [OF h(1), of I] I have "I w" by blast
  with h(2) free show ?thesis by simp
qed

section \<open>Sequential runs are schedules\<close>

definition idle :: "('m, 'd, 'r) thread \<Rightarrow> bool" where
  "idle t \<longleftrightarrow> fst t = []"

lemma runs_alone:
  assumes "in_order rank recursive [] p H" and "alone p d = (r, d')" and "i < length ts" and "ts ! i = (H, p)"
    and "\<And>j. j < length ts \<Longrightarrow> j \<noteq> i \<Longrightarrow> idle (ts ! j)"
  shows "reaches recursive (ts, d) (ts[i := ([], Return r)], d')"
  using assms
proof (induction p arbitrary: H d ts rule: prog_induct)
  case (Return a)
  then have "ts[i := ([], Return r)] = ts" by (metis alone.simps(1) in_order.simps(1) list_update_id prod.inject)
  with Return.prems show ?case by (auto intro: reaches.start)
next
  case (Acquire m p)
  have "thread_step recursive i (ts, d) = Some (ts[i := (m # H, p)], d)"
    using Acquire.prems
    by (force simp: thread_step_def may_acquire_def held_by_others_def idle_def)
  moreover have "reaches recursive (ts[i := (m # H, p)], d) (ts[i := (m # H, p), i := ([], Return r)], d')"
    using Acquire.prems by (intro Acquire.IH) auto
  ultimately show ?case by (auto intro: reaches_trans reaches.step [OF reaches.start])
next
  case (Release m p)
  have "thread_step recursive i (ts, d) = Some (ts[i := (remove1 m H, p)], d)"
    using Release.prems by (simp add: thread_step_def)
  moreover have "reaches recursive (ts[i := (remove1 m H, p)], d) (ts[i := (remove1 m H, p), i := ([], Return r)], d')"
    using Release.prems by (intro Release.IH) auto
  ultimately show ?case by (auto intro: reaches_trans reaches.step [OF reaches.start])
next
  case (Act f)
  obtain d1 p where f: "f d = (d1, p)" by fastforce
  have "thread_step recursive i (ts, d) = Some (ts[i := (H, p)], d1)"
    using Act.prems f by (simp add: thread_step_def)
  moreover have "in_order rank recursive [] (snd (f d)) H" using Act.prems(1) by simp
  moreover have "alone (snd (f d)) d1 = (r, d')" using Act.prems(2) f by simp
  ultimately have step: "thread_step recursive i (ts, d) = Some (ts[i := (H, p)], d1)"
    and ok: "in_order rank recursive [] (snd (f d)) H" "alone (snd (f d)) d1 = (r, d')" by blast+
  have "reaches recursive (ts[i := (H, p)], d1) (ts[i := (H, p), i := ([], Return r)], d')"
    using Act.IH [OF ok, of "ts[i := (H, p)]"] Act.prems(3-) f by simp
  with step show ?case by (auto intro: reaches_trans reaches.step [OF reaches.start])
qed

end
