(* ===== verification/Thread_Pool.thy ===== *)
theory Thread_Pool
  imports Threaded_Happenings Mutex_Rules
begin

text \<open>
  The service with any number of threads at once: callers of the stub, the queue, the callbacks of other
  services, the dump and the end of the service.  The mutexes never block the threads for ever, and
  without interference the threads do what the histories of \<open>Service_Spec\<close> say.
\<close>

section \<open>Activities\<close>

text \<open>What a thread of the service process does; the answer of a request is kept.\<close>

datatype 'p activity =
    Asks "'p env" request
  | Happens "'p env" happening
  | Dumps "'p env" "string list"
  | Stops "'p env"

fun activity_prog :: "'p activity \<Rightarrow> (service_mutex, 'p service_state, status \<times> out_value) prog" where
  "activity_prog (Asks e req) = serve_prog e req"
| "activity_prog (Happens e h) = plain_bool (happen_prog e h)"
| "activity_prog (Dumps e args) = plain_bool (inside (Dump_prog e args))"
| "activity_prog (Stops e) = plain_bool (inside (OnStop_prog e))"

lemma plain_bool_alone [simp]: "alone (plain_bool p) s = (case alone p s of (b, s') \<Rightarrow> ((OK, BoolOut b), s'))"
  by (simp add: plain_bool_def split_beta)

lemma activity_order: "keeps_order 0 (activity_prog a)"
  by (cases a) (simp_all add: serve_order happen_order keeps_order_andthen)

lemma pool_in_order: "p \<in> set (map activity_prog as) \<Longrightarrow> in_order lock_rank recursive_mutex [] p []"
  using activity_order by (auto intro: in_order_keeps)

text \<open>The threads of a pool: each does one activity, from a common state.\<close>

definition pool :: "'p activity list \<Rightarrow> 'p service_state \<Rightarrow> (service_mutex, 'p service_state, status \<times> out_value) config" where
  "pool as s = started (map activity_prog as) s"

abbreviation pool_reaches ::
  "'p activity list \<Rightarrow> 'p service_state \<Rightarrow> (service_mutex, 'p service_state, status \<times> out_value) config \<Rightarrow> bool"
where
  "pool_reaches as s c \<equiv> reaches recursive_mutex (pool as s) c"

section \<open>The service never blocks\<close>

text \<open>C1: whatever the service does at the same time, in whatever interleaving, its mutexes never block it for
  good: while some thread has not finished, some thread can go on; from everywhere all threads can finish;
  and no schedule runs for ever, so however they are scheduled they do finish.\<close>

theorem service_never_blocks:
  assumes "pool_reaches as s c"
  shows "((\<exists>t \<in> set (fst c). \<not> finished t) \<longrightarrow> (\<exists>i c'. thread_step recursive_mutex i c = Some c'))
       \<and> (\<exists>c'. reaches recursive_mutex c c' \<and> (\<forall>t \<in> set (fst c'). finished t))
       \<and> \<not> (\<exists>f. f 0 = c \<and> (\<forall>n. \<exists>i. thread_step recursive_mutex i (f n) = Some (f (Suc n))))"
proof (intro conjI)
  note run = assms [unfolded pool_def]
  have "ordered_threads lock_rank recursive_mutex (fst c)" by (rule reaches_ordered [OF run pool_in_order])
  moreover have "exclusive (fst c)" by (rule reaches_exclusive [OF run])
  ultimately show "(\<exists>t \<in> set (fst c). \<not> finished t) \<longrightarrow> (\<exists>i c'. thread_step recursive_mutex i c = Some c')"
    using some_thread_steps [of lock_rank recursive_mutex "fst c" "snd c"] by auto
  show "\<exists>c'. reaches recursive_mutex c c' \<and> (\<forall>t \<in> set (fst c'). finished t)"
    by (rule all_threads_finish [OF pool_in_order run])
  show "\<not> (\<exists>f. f 0 = c \<and> (\<forall>n. \<exists>i. thread_step recursive_mutex i (f n) = Some (f (Suc n))))"
    using wf_thread_step [of recursive_mutex, unfolded wf_iff_no_infinite_down_chain] by auto
qed

theorem service_never_blocks_witness:
  "\<exists>c'. reaches recursive_mutex
       (pool [Asks sample_env (Req_SetAuthState 4 100 ''token''), Dumps sample_env [''-all''], Stops sample_env,
              Happens sample_env (AccountChanged REMOVED 100)] (initial_service [])) c'
     \<and> (\<forall>t \<in> set (fst c'). finished t)"
  using service_never_blocks [OF reaches.start] by blast

section \<open>Sequential histories\<close>

definition finished_well :: "(service_mutex, 'p service_state, status \<times> out_value) thread" where
  "finished_well = ([], Return (OK, BoolOut True))"

lemma run_is_schedule:
  assumes "run hs s = Some (cs, t)" and "\<forall>x \<in> set pre. idle x"
  shows "reaches recursive_mutex (pre @ map (Pair [] \<circ> activity_prog \<circ> (\<lambda>(e, h). Happens e h)) hs, s)
    (pre @ map (\<lambda>_. finished_well) hs, t)"
  using assms
proof (induction hs arbitrary: pre s cs)
  case Nil
  then show ?case by (simp add: run_def reaches.start)
next
  case (Cons x hs)
  obtain e h where x: "x = (e, h)" by (cases x)
  from Cons.prems(1) obtain s1 ds where s1: "happen e h s = Some s1" "run hs s1 = Some (ds, t)"
    by (auto simp: run_def x split: option.splits)
  let ?rest = "map (Pair [] \<circ> activity_prog \<circ> (\<lambda>(e, h). Happens e h)) hs"
  let ?ts = "pre @ ([], activity_prog (Happens e h)) # ?rest"
  have alone: "alone (activity_prog (Happens e h)) s = ((OK, BoolOut True), s1)"
    by (simp add: happen_alone [OF s1(1)])
  have "reaches recursive_mutex (?ts, s) (?ts[length pre := ([], Return (OK, BoolOut True))], s1)"
    using Cons.prems(2)
    by (intro runs_alone [OF in_order_keeps [OF activity_order] alone]) (auto simp: nth_append nth_Cons' idle_def)
  then have first: "reaches recursive_mutex (?ts, s) ((pre @ [finished_well]) @ ?rest, s1)"
    by (simp add: finished_well_def)
  have "reaches recursive_mutex ((pre @ [finished_well]) @ ?rest, s1)
      ((pre @ [finished_well]) @ map (\<lambda>_. finished_well) hs, t)"
    using Cons.prems(2) by (intro Cons.IH [OF s1(2)]) (auto simp: finished_well_def idle_def)
  from reaches_trans [OF this first] show ?case by (simp add: x comp_def)
qed

text \<open>C1: what the histories of \<open>Service_History\<close> say is what the threads do when one runs after the other: a
  history is a schedule of its happenings' threads, every thread finishes without an access outside the
  vectors, and the state is the one of the history.\<close>

theorem histories_are_schedules:
  assumes "run hs s = Some (cs, t)"
  shows "pool_reaches (map (\<lambda>(e, h). Happens e h) hs) s (map (\<lambda>_. finished_well) hs, t)"
  using run_is_schedule [where pre = "[]", OF assms] by (simp add: pool_def started_def comp_assoc)

theorem histories_are_schedules_witness:
  "\<exists>cs t. run sample_history (initial_service []) = Some (cs, t)
     \<and> pool_reaches (map (\<lambda>(e, h). Happens e h) sample_history) (initial_service [])
         (map (\<lambda>_. finished_well) sample_history, t)"
  using sample_history_run histories_are_schedules by blast

end
