(* ===== verification/Thread_Frames.thy ===== *)
theory Thread_Frames
  imports Thread_Pool
begin

text \<open>
  Programs that do not touch the data of the requests: the states of screens and devices and the waiting
  listeners, with the four mutexes that guard them.  Inner listeners, system events, strong
  authentication, the watch and the life cycle are such programs, so every section of them is empty.
\<close>

named_theorems quiet_progs "programs that leave a guarded part alone"

definition state_mutexes :: "service_mutex set" where
  "state_mutexes = {AuthStateMutex, ScreenLockMutex, UnlockListenerMutex, LockListenerMutex}"

lemma not_state_mutexes [simp]:
  "DumpLock \<notin> state_mutexes" "AccountSubscriberMutex \<notin> state_mutexes" "EventLock \<notin> state_mutexes"
  "StrongAuthTimerMutex \<notin> state_mutexes" "InnerMutex \<notin> state_mutexes" "ListenerMutex \<notin> state_mutexes"
  "QueueLock \<notin> state_mutexes" "RunningStateMutex \<notin> state_mutexes" "InstanceLock \<notin> state_mutexes"
  "StrongAuthInstanceLock \<notin> state_mutexes"
  by (simp_all add: state_mutexes_def)

type_synonym core = "nat list \<times> int list \<times> nat list \<times> (int, int) stdmap \<times> (int, bool) stdmap"

definition core_view :: "('p, 's) service_state_scheme \<Rightarrow> core" where
  "core_view s = (unlockVecListeners s, unlockVecUserIds s, lockVecListeners s, authStateInfo s, isScreenlockedMap s)"

lemma core_frames [simp]:
  "core_view (emit es s) = core_view s"
  "core_view (s\<lparr>strongAuthStateInfo := a\<rparr>) = core_view s" "core_view (s\<lparr>strongAuthTimerInfo := b\<rparr>) = core_view s"
  "core_view (s\<lparr>authSuccessListener := c\<rparr>) = core_view s" "core_view (s\<lparr>stateValue := f\<rparr>) = core_view s"
  "core_view (s\<lparr>systemEventListener := g\<rparr>) = core_view s" "core_view (s\<lparr>tasks := h\<rparr>) = core_view s"
  "core_view (s\<lparr>queueSet := i\<rparr>) = core_view s" "core_view (s\<lparr>instanceSet := j\<rparr>) = core_view s"
  "core_view (s\<lparr>credChangeListener := k\<rparr>) = core_view s" "core_view (s\<lparr>runningState := l\<rparr>) = core_view s"
  "core_view (s\<lparr>displayPowerEventListener := n\<rparr>) = core_view s" "core_view (s\<lparr>accountSubscribers := q\<rparr>) = core_view s"
  "core_view (s\<lparr>publishCalls := o'\<rparr>) = core_view s" "core_view (s\<lparr>systemReady := r, displayRegistrations := t\<rparr>) = core_view s"
  by (simp_all add: core_view_def emit_def)

lemma core_of_svc: "svc_view s' = svc_view s \<Longrightarrow> core_view s' = core_view s"
  by (simp add: svc_view_def core_view_def)

section \<open>Programs that leave it alone\<close>

lemma quiet_calling [simp]:
  "quiet m view (calling f k) \<longleftrightarrow> (\<forall>d. view (snd (f d)) = view d \<and> quiet m view (k (fst (f d))))"
  by (simp add: calling_def split_beta)

lemma quiet_coarser:
  assumes "\<And>s s'. view s' = view s \<Longrightarrow> view2 s' = view2 s"
  shows "quiet m view p \<Longrightarrow> quiet m view2 p"
proof (induction p rule: prog_induct)
  case (Act f)
  have "view2 (fst (f d)) = view2 d" for d using Act.prems by (intro assms) simp
  with Act show ?case by simp
qed simp_all

definition leaves_core :: "(service_mutex, ('p, 's) service_state_scheme, 'r) prog \<Rightarrow> bool" where
  "leaves_core p \<longleftrightarrow> (\<forall>m \<in> state_mutexes. quiet m core_view p)"

lemma leaves_core_simps [simp]:
  "leaves_core (Return r)"
  "leaves_core (reading g k) \<longleftrightarrow> (\<forall>d. leaves_core (k (g d)))"
  by (auto simp: leaves_core_def)

lemma leaves_core_writing: "(\<And>d. core_view (f d) = core_view d) \<Longrightarrow> leaves_core p \<Longrightarrow> leaves_core (writing f p)"
  by (simp add: leaves_core_def)

lemma leaves_core_calling:
  "(\<And>d. core_view (snd (f d)) = core_view d) \<Longrightarrow> (\<And>a. leaves_core (k a)) \<Longrightarrow> leaves_core (calling f k)"
  by (simp add: leaves_core_def calling_def split_beta)

lemma leaves_core_andthen: "leaves_core p \<Longrightarrow> (\<And>a. leaves_core (k a)) \<Longrightarrow> leaves_core (andthen p k)"
  by (simp add: leaves_core_def quiet_andthen)

lemma leaves_core_guarded: "k \<notin> state_mutexes \<Longrightarrow> leaves_core p \<Longrightarrow> leaves_core (guarded k p)"
  by (auto simp: leaves_core_def intro!: quiet_guarded)

lemmas core_rules = leaves_core_writing leaves_core_calling leaves_core_andthen leaves_core_guarded

section \<open>Notices and inner listeners\<close>

lemma notice_core [quiet_progs]: "leaves_core (SystemEventCallBack_prog ev)"
  by (auto simp: SystemEventCallBack_prog_def intro!: core_rules split: option.split)

lemma tell_core [quiet_progs]: "leaves_core (tell_listeners ls u st)"
  by (induction ls) (auto intro: core_rules)

lemma notices_core [quiet_progs]:
  "leaves_core (StrongAuthChanged_prog u r)"
  "leaves_core (PreAuthStateNotify_prog u r)"
  "leaves_core (getListenerSet_prog u ty)"
  by (auto simp: StrongAuthChanged_prog_def PreAuthStateNotify_prog_def getListenerSet_prog_def quiet_progs
      intro!: core_rules)

lemma state_changed_core [quiet_progs]: "leaves_core (OnStateChanged_prog u st ty)"
  by (auto simp: OnStateChanged_prog_def quiet_progs intro!: core_rules)

lemma strong_notice_core [quiet_progs]: "leaves_core (NotifyStrongAuthChange_prog e u r)"
  by (auto simp: NotifyStrongAuthChange_prog_def Let_def quiet_progs intro!: core_rules)

lemma core_svc_frames [simp]:
  "core_view (snd (AddDeathRecipient e ty lo t)) = core_view t"
  "core_view (snd (RemoveDeathRecipient lo t)) = core_view t"
  "core_view (snd (AddInnerListener u ty l t)) = core_view t"
  "core_view (snd (RemoveInnerListener ty l t)) = core_view t"
  "core_view (snd (SaveBool np ks b t)) = core_view t" "core_view (snd (SaveInt np ks i t)) = core_view t"
  "core_view (snd (RemoveKey np ks t)) = core_view t"
  "core_view (Refresh np t) = core_view t"
  "core_view (snd (IsPaymentApp e t)) = core_view t" "core_view (snd (Watch_unlockScreen e b t)) = core_view t"
  "core_view (OnWindowHidden e bn t) = core_view t" "core_view (LeaveWrist_OnChange e t) = core_view t"
  "core_view (WearSensorCallback e sev t) = core_view t"
  "core_view (WearDisplay_OnDisplayPowerEvent e pe st t) = core_view t"
  by (rule core_of_svc, simp add: recipient_views table_views sl_frame)+

lemma inner_core [quiet_progs]:
  "leaves_core (RegisterInnerListener_prog e u ty lo)"
  "leaves_core (UnRegisterInnerListener_prog ty lo)"
  by (auto simp: RegisterInnerListener_prog_def UnRegisterInnerListener_prog_def Let_def
      intro!: core_rules split: option.split)

lemma unregister_dead_core [quiet_progs]: "leaves_core (unregister_dead_prog r d)"
  by (induction r d rule: unregister_dead_prog.induct) (auto simp: quiet_progs intro!: core_rules)

lemma death_core [quiet_progs]: "leaves_core (OnRemoteDied_prog ro)"
  by (auto simp: OnRemoteDied_prog_def GetDeathRecipient_prog_def quiet_progs intro!: core_rules split: option.split)

section \<open>Strong authentication\<close>

lemma core_timers [simp]:
  "core_view (destroy_timers ts t) = core_view t"
  by (induction ts t rule: destroy_timers.induct) (simp_all add: Let_def)

lemma core_time [simp]:
  "core_view (snd (CreateTimer e ti t)) = core_view t" "core_view (snd (GetBootTimeMs e t)) = core_view t"
  by (simp_all add: core_view_def CreateTimer_def GetBootTimeMs_def Let_def)

lemma reason_core [quiet_progs]:
  "leaves_core (SetStrongAuthStat_prog e u r)"
  "leaves_core (GetStrongAuthStat_prog e u)"
  "leaves_core (GetStrongAuthTimeTrigger_prog u)"
  "leaves_core (DestroyStrongAuthStateInfo_prog u)"
  "leaves_core (InitStrongAuthStat_prog e u r)"
  "leaves_core (IsUserExitInStrongAuthInfo_prog u)"
  by (auto simp: SetStrongAuthStat_prog_def GetStrongAuthStat_prog_def GetStrongAuthTimeTrigger_prog_def
      DestroyStrongAuthStateInfo_prog_def DestroyStrongAuthStateInfo_def InitStrongAuthStat_prog_def
      IsUserExitInStrongAuthInfo_prog_def quiet_progs intro!: core_rules split: option.split)

lemma timer_core [quiet_progs]:
  "leaves_core (StartStrongAuthTimer_period_prog e u p)"
  "leaves_core (SetCredChangeTriggerPeriod_prog e u p)"
  "leaves_core (GetStrongAuthTriggerPeriod_prog e u)"
  "leaves_core (DestroyStrongAuthTimer_prog u)"
  "leaves_core DestroyAllStrongAuthTimer_prog"
  by (auto simp: StartStrongAuthTimer_period_prog_def SetCredChangeTriggerPeriod_prog_def
      GetStrongAuthTriggerPeriod_prog_def DestroyStrongAuthTimer_prog_def DestroyAllStrongAuthTimer_prog_def
      DestroyAllStrongAuthTimer_def Let_def intro!: core_rules split: option.split)

lemma reset_core [quiet_progs]: "leaves_core (ResetStrongAuthTimer_prog e u p)"
  by (auto simp: ResetStrongAuthTimer_prog_def quiet_progs intro!: core_rules)

lemma strong_callbacks_core [quiet_progs]:
  "leaves_core (OnTrigger_prog e ti)"
  "leaves_core RegistAuthEventListener_prog"
  "leaves_core UnRegistAuthEventListener_prog"
  "leaves_core (OnNotifyAuthSuccessEvent_prog e u a w)"
  "leaves_core (OnNotifyCredChangeEvent_prog e u a c b)"
  "leaves_core (GetCredInfo_prog e u)"
  "leaves_core (OnCredentialInfo_prog e u res n)"
  by (auto simp: OnTrigger_prog_def StrongAuthTimerCallback_prog_def RegistAuthEventListener_prog_def
      UnRegistAuthEventListener_prog_def OnNotifyAuthSuccessEvent_prog_def OnNotifyCredChangeEvent_prog_def
      GetCredInfo_prog_def OnCredentialInfo_prog_def quiet_progs intro!: core_rules)

section \<open>The life cycle and the requests without data of their own\<close>

lemma life_core [quiet_progs]:
  "leaves_core check_running" "leaves_core (GetSecure_prog e)" "leaves_core (NotifyDisplayEvent_prog ev)"
  "leaves_core (IsScreenLockDisabled_prog e u)" "leaves_core (FreshDisabledState_prog e b u)"
  "leaves_core (Init_prog e)" "leaves_core (RegisterDisplayPowerEventListener_prog e n)"
  "leaves_core (OnSystemReady_turn_prog k)" "leaves_core RegistIamEventListener_prog"
  "leaves_core UnRegistIamEventListener_prog" "leaves_core (init_disabled_flag_prog e u)"
  by (auto simp: check_running_def GetSecure_prog_def NotifyDisplayEvent_prog_def IsScreenLockDisabled_prog_def
      FreshDisabledState_prog_def Init_prog_def RegisterDisplayPowerEventListener_prog_def OnSystemReady_turn_prog_def
      RegistIamEventListener_prog_def UnRegistIamEventListener_prog_def init_disabled_flag_prog_def
      submit_def queue_submit_def Let_def
      intro!: core_rules split: option.split)


lemma core_life_frames [simp]:
  "core_view (InitServiceHandler s) = core_view s" "core_view (RegisterCommand cmd s) = core_view s"
  "core_view (SubscribeAcccount ev s) = core_view s" "core_view (SubscribeEvent e s) = core_view s"
  "core_view (SubscribeUserIamReady s) = core_view s" "core_view (RemoveSubscribeUserIamReady s) = core_view s"
  "core_view (ResetFfrtQueue s) = core_view s"
  "core_view (SetScreenState i s) = core_view s" "core_view (SetInteractiveState i s) = core_view s"
  "core_view (SetCurrentUser u s) = core_view s" "core_view (PublishEvent c u s) = core_view s"
  "core_view (submit t s) = core_view s" "core_view (queue_submit t s) = core_view s"
  by (simp_all add: core_view_def InitServiceHandler_def RegisterCommand_def SubscribeAcccount_def SubscribeEvent_def
      SubscribeUserIamReady_def RemoveSubscribeUserIamReady_def ResetFfrtQueue_def SetScreenState_def
      SetInteractiveState_def SetCurrentUser_def PublishEvent_def submit_def queue_submit_def Let_def
      split: option.split)

lemma core_prefs_frames [simp]:
  "core_view (OnReceiveEvent e act par s) = core_view s" "core_view (DeleteUnlockPolicyForUser e u s) = core_view s"
  by (simp_all add: OnReceiveEvent_def DeleteUnlockPolicyForUser_def Let_def)

lemma start_stop_core [quiet_progs]:
  "leaves_core (OnStart_prog e)" "leaves_core (OnStop_prog e)" "leaves_core (OnAddSystemAbility_prog e sa)"
  "leaves_core (OnRemoveSystemAbility_prog e sa)"
  by (auto simp: OnStart_prog_def OnStop_prog_def OnAddSystemAbility_prog_def OnRemoveSystemAbility_prog_def
      InitUserId_prog_def quiet_progs intro!: core_rules)

lemma event_core [quiet_progs]:
  "leaves_core (Service_OnNotifyCredChangeEvent_prog e u a c b)" "leaves_core (OnDisplayPowerEvent_prog pe st)"
  "leaves_core (UserIamReadyCallback_prog key v)"
  by (auto simp: Service_OnNotifyCredChangeEvent_prog_def OnDisplayPowerEvent_prog_def power_prog_def
      UserIamReadyCallback_prog_def quiet_progs
      intro!: core_rules split: option.split display_power_event.split event_status.split)

lemma dump_strong_core [quiet_progs]: "leaves_core (dump_strong_prog e us)"
  by (induction us) (auto simp: quiet_progs intro!: core_rules)

lemma request_core [quiet_progs]:
  "leaves_core (SetScreenLockDisabled_prog e b u)" "leaves_core (OnSystemEvent_prog e lo)"
  "leaves_core (RequestStrongAuth_prog e r u)" "leaves_core (GetStrongAuth_prog e u)"
  "leaves_core (Service_RegisterInnerListener_prog e u ty lis)"
  "leaves_core (Service_UnRegisterInnerListener_prog e u ty lis)"
  by (auto simp: SetScreenLockDisabled_prog_def OnSystemEvent_prog_def RequestStrongAuth_prog_def
      GetStrongAuth_prog_def Service_RegisterInnerListener_prog_def Service_UnRegisterInnerListener_prog_def
      quiet_progs intro!: core_rules)

section \<open>Programs around others\<close>

lemma wrapped_sections:
  "each_section m view R p \<Longrightarrow> each_section m view R (without_out p)"
  "each_section m view R q \<Longrightarrow> each_section m view R (plain_bool q)"
  "each_section m view R c \<Longrightarrow> each_section m view R (inside c)"
  by (simp_all add: without_out_def plain_bool_def inside_def each_section_andthen)

text \<open>The answer of a program that returns whether every access was inside the vectors.\<close>

lemma in_sections_mapped:
  assumes "\<And>steps. okay steps None \<Longrightarrow> okay' steps None" and "\<And>steps a. okay steps (Some a) \<Longrightarrow> okay' steps (Some (g a))"
  shows "in_sections m view okay p steps x \<Longrightarrow> in_sections m view okay' (andthen p (\<lambda>a. Return (g a))) steps x"
proof (induction p arbitrary: steps x rule: prog_induct)
  case (Act f)
  then show ?case by (cases x) auto
qed (auto split: option.splits nat.splits intro: assms)

end
