(* ===== verification/Thread_Auth_State.thy ===== *)
theory Thread_Auth_State
  imports Thread_Frames
begin

text \<open>
  The authentication state under its mutex.  However the threads of the service interleave, the requests
  about it are carried out one after the other, each at one moment between its call and its return, and
  each is answered by the state of that moment.
\<close>

section \<open>The sections of each program\<close>

text \<open>What an activity makes of the authentication states.\<close>

fun happening_auth :: "happening \<Rightarrow> (int, int) stdmap \<Rightarrow> (int, int) stdmap" where
  "happening_auth (Request (Req_SetAuthState a u t)) v = mput u a v"
| "happening_auth (AccountChanged ACTIVATED u) v = minsert u (auth_code UNAUTH) v"
| "happening_auth (AccountChanged REMOVED u) v = merase u v"
| "happening_auth _ v = v"

fun activity_auth :: "'p activity \<Rightarrow> (int, int) stdmap \<Rightarrow> (int, int) stdmap" where
  "activity_auth (Asks e req) v = happening_auth (Request req) v"
| "activity_auth (Happens e h) v = happening_auth h v"
| "activity_auth _ v = v"

abbreviation auth_sections :: "((int, int) stdmap \<Rightarrow> (int, int) stdmap \<Rightarrow> bool)
    \<Rightarrow> (service_mutex, ('p, 's) service_state_scheme, 'r) prog \<Rightarrow> bool" where
  "auth_sections R p \<equiv> each_section AuthStateMutex authStateInfo R p"

lemma auth_core: "core_view s' = core_view s \<Longrightarrow> authStateInfo s' = authStateInfo s"
  by (simp add: core_view_def)

lemma auth_quiet_core: "leaves_core p \<Longrightarrow> quiet AuthStateMutex authStateInfo p"
  by (rule quiet_coarser [where view = core_view]) (simp_all add: leaves_core_def state_mutexes_def core_view_def)

lemmas auth_quiet = quiet_progs [THEN auth_quiet_core]

lemmas auth_frames [simp] = core_svc_frames [THEN auth_core]

lemmas auth_life_frames [simp] = core_life_frames [THEN auth_core] core_prefs_frames [THEN auth_core]

lemma screen_auth [simp]: "authStateInfo (SetScreenlocked b u s) = authStateInfo s"
  by (simp add: SetScreenlocked_def split: option.split)

lemma screen_quiet_auth [simp]:
  "quiet AuthStateMutex authStateInfo (SetScreenlocked_prog b u)"
  "quiet AuthStateMutex authStateInfo (IsScreenLocked_prog e)"
  "quiet AuthStateMutex authStateInfo (IsLockedWithUserId_prog e u)"
  "quiet AuthStateMutex authStateInfo (UnlockInner_prog e l)"
  "quiet AuthStateMutex authStateInfo (Lock_listener_prog e l)"
  "quiet AuthStateMutex authStateInfo (Lock_user_prog e u)"
  "quiet AuthStateMutex authStateInfo (LockScreenEvent_prog e r)"
  "quiet AuthStateMutex authStateInfo (NotifyUnlockListener_prog e r)"
  "quiet AuthStateMutex authStateInfo (UnlockScreenEvent_prog e r)"
  by (auto simp: SetScreenlocked_prog_def IsScreenLocked_prog_def IsLockedWithUserId_prog_def auth_quiet
    UnlockInner_prog_def Lock_listener_prog_def Lock_user_prog_def LockScreenEvent_prog_def
    NotifyUnlockListener_prog_def UnlockScreenEvent_prog_def Let_def
     intro!: quiet_andthen quiet_guarded split: option.split)


lemma screen_auth_quiet2 [simp]:
  "quiet AuthStateMutex authStateInfo (IsLocked_prog e)"
  "quiet AuthStateMutex authStateInfo (Unlock_prog e l)"
  "quiet AuthStateMutex authStateInfo (IsLockedWatch_prog e)"
  "quiet AuthStateMutex authStateInfo (UnlockWatch_prog e l)"
  "quiet AuthStateMutex authStateInfo (SendScreenLockEvent_prog e ev r)"
  by (auto simp: IsLocked_prog_def Unlock_prog_def IsLockedWatch_prog_def UnlockWatch_prog_def
      SendScreenLockEvent_prog_def auth_quiet intro!: quiet_andthen quiet_guarded)

text \<open>The requests about the state, and how they are answered at their moment.\<close>

fun auth_answer :: "request \<Rightarrow> (int, int) stdmap \<Rightarrow> (status \<times> out_value) option" where
  "auth_answer (Req_SetAuthState a u t) v = Some (OK, NoOut)"
| "auth_answer (Req_GetAuthState u) v =
     Some (OK, IntOut (case mfind v u of Some a \<Rightarrow> a | None \<Rightarrow> auth_code UNAUTH))"
| "auth_answer (Req_IsDeviceLocked u) v =
     Some (case mfind v u of Some a \<Rightarrow> (OK, BoolOut (GetDeviceLockedStateByAuth a))
           | None \<Rightarrow> (Code E_SCREENLOCK_USER_ID_INVALID, BoolOut True))"
| "auth_answer _ v = None"

definition auth_okay ::
  "'p activity \<Rightarrow> ((int, int) stdmap \<times> (int, int) stdmap) list \<Rightarrow> (status \<times> out_value) option \<Rightarrow> bool"
where
  "auth_okay a steps answer \<longleftrightarrow>
     all_steps (\<lambda>v v'. v' = activity_auth a v) steps
   \<and> (\<forall>e req r. a = Asks e req \<and> gate e req = None \<and> auth_answer req [] \<noteq> None \<and> answer = Some r
        \<longrightarrow> (\<exists>v. steps = [(v, activity_auth a v)] \<and> auth_answer req v = Some r))"

lemma auth_okay_other:
  assumes "auth_sections (\<lambda>v v'. v' = activity_auth a v) p"
    and "\<And>e req. a = Asks e req \<Longrightarrow> gate e req = None \<Longrightarrow> auth_answer req [] = None"
  shows "in_sections AuthStateMutex authStateInfo (auth_okay a) p [] None"
  by (rule in_sections_mono [where okay = "\<lambda>steps r. all_steps (\<lambda>v v'. v' = activity_auth a v) steps"])
    (use assms in \<open>auto simp: auth_okay_def each_section_def\<close>)

lemma set_auth_in_sections:
  "in_sections AuthStateMutex authStateInfo (auth_okay (Asks e (Req_SetAuthState a u t)))
     (serve_prog e (Req_SetAuthState a u t)) [] None"
proof (cases "gate e (Req_SetAuthState a u t)")
  case None
  then show ?thesis
    by (auto simp: without_out_def SetScreenLockAuthState_prog_def gate_defs Let_def auth_okay_def minsert_def
        intro!: in_sections_guarded ends_with_quiet_andthen [OF auth_quiet_core [OF notices_core(2)]]
          ends_with_quiet_andthen [OF auth_quiet_core [OF state_changed_core]] split: option.split)
next
  case (Some c)
  then show ?thesis
    by (auto simp: without_out_def SetScreenLockAuthState_prog_def gate_defs auth_okay_def split: if_splits)
qed


lemma ask_auth_in_sections:
  "in_sections AuthStateMutex authStateInfo (auth_okay (Asks e (Req_GetAuthState u))) (serve_prog e (Req_GetAuthState u)) [] None"
  "in_sections AuthStateMutex authStateInfo (auth_okay (Asks e (Req_IsDeviceLocked u)))
     (serve_prog e (Req_IsDeviceLocked u)) [] None"
  by (auto simp: GetScreenLockAuthState_prog_def IsDeviceLocked_prog_def gate_defs auth_okay_def
      intro!: in_sections_guarded_last split: option.split)

lemma auth_own_sections [simp]:
  "auth_sections (\<lambda>v v'. v' = minsert u 0 v) (AuthStateInit_prog u)"
  "auth_sections (\<lambda>v v'. v' = merase u v) (OnRemoveUser_prog e u)"
  "auth_sections (\<lambda>v v'. v' = v) (SetUnlockPolicy_prog e u p)"
  "auth_sections (\<lambda>v v'. v' = v) (GetUnlockPolicy_prog e u)"
  "auth_sections (\<lambda>v v'. v' = mput u a v) (SetScreenLockAuthState_prog e a u t)"
  "auth_sections (\<lambda>v v'. v' = v) (GetScreenLockAuthState_prog e u)"
  "auth_sections (\<lambda>v v'. v' = v) (IsDeviceLocked_prog e u)"
  by (auto simp: AuthStateInit_prog_def OnRemoveUser_prog_def SetUnlockPolicy_prog_def GetUnlockPolicy_prog_def
      SetScreenLockAuthState_prog_def GetScreenLockAuthState_prog_def IsDeviceLocked_prog_def Let_def minsert_def
      DeleteUnlockPolicyForUser_def auth_quiet
      intro!: each_section_guarded each_section_andthen each_section_quiet [OF quiet_guarded]
        ends_with_quiet_andthen [OF auth_quiet_core [OF notice_core]]
        ends_with_quiet_andthen [OF auth_quiet_core [OF notices_core(2)]]
        ends_with_quiet_andthen [OF auth_quiet_core [OF state_changed_core]] split: option.split)


section \<open>Every activity\<close>

lemma auth_leaf: "quiet AuthStateMutex authStateInfo p \<Longrightarrow> auth_sections R p"
  by (rule each_section_quiet)

lemma serve_auth_sections: "auth_sections (\<lambda>v v'. v' = happening_auth (Request req) v) (serve_prog e req)"
  by (cases req) (simp_all add: wrapped_sections auth_leaf auth_quiet)

lemma unlock_callbacks_auth: "quiet AuthStateMutex authStateInfo (unlock_callbacks_prog ks r u)"
  by (induction ks) (auto intro!: quiet_andthen quiet_guarded split: option.split)

lemma task_auth_quiet: "quiet AuthStateMutex authStateInfo (task_prog e t)"
  by (cases t) (auto simp: auth_quiet LockCallback_prog_def UnlockCallback_prog_def unlock_callbacks_auth
      intro!: quiet_andthen quiet_guarded)

lemma dump_auth_sections [simp]: "auth_sections (\<lambda>v v'. v' = v) (Dump_prog e args)"
proof -
  have "auth_sections (\<lambda>v v'. v' = v) (dump_all_prog e out)" for out
    unfolding dump_all_prog_def
    by (intro each_section_andthen each_section_reading)
      (simp_all add: each_section_guarded auth_leaf quiet_guarded auth_quiet)
  then show ?thesis
    by (auto simp: Dump_prog_def Dispatch_prog_def Let_def intro!: section_rules split: option.split)
qed

lemma happen_auth_sections: "auth_sections (\<lambda>v v'. v' = happening_auth h v) (happen_prog e h)"
proof (cases h)
  case (Request req)
  then show ?thesis by (simp only: happen_prog.simps) (intro wrapped_sections serve_auth_sections)
next
  case (PendingTask i)
  then show ?thesis
    by (auto intro!: each_section_calling auth_leaf task_auth_quiet split: option.split)
next
  case (AccountChanged ev u)
  have "auth_sections (\<lambda>v v'. v' = happening_auth h v) (OnAccountsChanged_prog e ev u)"
    using AccountChanged
    by (cases ev) (auto simp: OnAccountsChanged_prog_def OnActiveUser_prog_def auth_leaf auth_quiet
        intro!: section_rules split: option.split)
  then show ?thesis unfolding AccountChanged happen_prog.simps by (rule wrapped_sections)
qed (simp_all add: wrapped_sections auth_leaf auth_quiet quiet_guarded)

lemma activity_in_sections:
  "in_sections AuthStateMutex authStateInfo (auth_okay a) (activity_prog a) [] None"
proof (cases a)
  case (Asks e req)
  show ?thesis
  proof (cases "auth_answer req [] = None")
    case True
    with Asks show ?thesis using serve_auth_sections [of req e] by (intro auth_okay_other) auto
  next
    case False
    with Asks show ?thesis by (cases req) (simp_all only: activity_prog.simps set_auth_in_sections ask_auth_in_sections
        auth_answer.simps not_True_eq_False simp_thms)
  qed
qed (auto intro!: auth_okay_other simp: wrapped_sections happen_auth_sections auth_leaf auth_quiet)

section \<open>One after the other\<close>

lemma auth_moments:
  assumes "pool_reaches as s (ts, s')"
  shows "\<exists>log w. linked (authStateInfo s) log w
    \<and> ((\<forall>t \<in> set ts. AuthStateMutex \<notin> set (fst t)) \<longrightarrow> authStateInfo s' = w)
    \<and> (\<forall>(i, v, v') \<in> set log. i < length as \<and> v' = activity_auth (as ! i) v)
    \<and> (\<forall>i < length as. \<forall>e req H r. as ! i = Asks e req \<and> gate e req = None \<and> auth_answer req [] \<noteq> None
         \<and> ts ! i = (H, Return r)
         \<longrightarrow> (\<exists>v. sections_of i log = [(v, activity_auth (as ! i) v)] \<and> auth_answer req v = Some r))"
proof -
  have okay: "in_sections AuthStateMutex authStateInfo (auth_okay (as ! i)) (map activity_prog as ! i) [] None"
    if "i < length (map activity_prog as)" for i
    using that activity_in_sections [of "as ! i"] by simp
  have len: "length ts = length as" using reaches_length [OF assms [unfolded pool_def started_def]] by simp
  obtain log w where "linked (authStateInfo s) log w"
    and free: "(\<forall>i < length ts. AuthStateMutex \<notin> set (fst (ts ! i))) \<longrightarrow> authStateInfo s' = w"
    and threads: "\<forall>x \<in> set log. fst x < length ts"
    and steps: "\<And>i. i < length ts \<Longrightarrow> sections_of i log \<noteq> [] \<longrightarrow> auth_okay (as ! i) (sections_of i log) None"
    and ended: "\<And>i H r. i < length ts \<Longrightarrow> ts ! i = (H, Return r) \<longrightarrow> auth_okay (as ! i) (sections_of i log) (Some r)"
    using sections_in_some_order [OF assms [unfolded pool_def] okay] by blast
  moreover have "i < length as \<and> v' = activity_auth (as ! i) v" if "(i, v, v') \<in> set log" for i v v'
  proof -
    have "i < length ts" "(v, v') \<in> set (sections_of i log)"
      using that threads by (auto simp: sections_of_def image_iff)
    with steps [of i] len show ?thesis by (auto simp: auth_okay_def all_steps_def)
  qed
  moreover have "\<exists>v. sections_of i log = [(v, activity_auth (as ! i) v)] \<and> auth_answer req v = Some r"
    if "i < length as" "as ! i = Asks e req" "gate e req = None" "auth_answer req [] \<noteq> None" "ts ! i = (H, Return r)"
    for i e req H r
    using ended [of i H r] that len unfolding auth_okay_def by metis
  moreover have "(\<forall>t \<in> set ts. AuthStateMutex \<notin> set (fst t)) \<longrightarrow> authStateInfo s' = w"
    using free by (meson nth_mem)
  ultimately show ?thesis by (intro exI [of _ log] exI [of _ w] conjI) blast+
qed


lemma finished_holds_nothing:
  assumes "pool_reaches as s (ts, s')" and "t \<in> set ts" and "finished t"
  shows "fst t = []"
proof -
  have "ordered_threads lock_rank recursive_mutex ts"
    using reaches_ordered [OF assms(1) [unfolded pool_def] pool_in_order] by simp
  with assms(2,3) show ?thesis by (cases t; cases "snd t") (auto simp: ordered_threads_def)
qed

text \<open>C1: whatever else the service does meanwhile, the requests about the authentication state are carried out
  as if one after the other.  When all threads have finished there is an order of the activities that
  changed or asked for the state, in which every admitted request occurs once: what is stored is what the
  changes make in this order, and each request was answered by what was stored at its turn.\<close>

theorem auth_requests_in_some_order:
  assumes "pool_reaches as s (ts, s')" and "\<forall>t \<in> set ts. finished t"
  shows "\<exists>order. set order \<subseteq> {..<length as}
    \<and> authStateInfo s' = fold (\<lambda>i. activity_auth (as ! i)) order (authStateInfo s)
    \<and> (\<forall>i < length as. \<forall>e req H r. as ! i = Asks e req \<and> gate e req = None \<and> auth_answer req [] \<noteq> None
         \<and> ts ! i = (H, Return r)
         \<longrightarrow> (\<exists>before after. order = before @ i # after \<and> i \<notin> set before \<and> i \<notin> set after
               \<and> auth_answer req (fold (\<lambda>i. activity_auth (as ! i)) before (authStateInfo s)) = Some r))"
proof -
  let ?g = "\<lambda>i. activity_auth (as ! i)"
  obtain log w where log: "linked (authStateInfo s) log w"
    and w: "(\<forall>t \<in> set ts. AuthStateMutex \<notin> set (fst t)) \<longrightarrow> authStateInfo s' = w"
    and steps: "\<forall>(i, v, v') \<in> set log. i < length as \<and> v' = activity_auth (as ! i) v"
    and asked: "\<forall>i < length as. \<forall>e req H r. as ! i = Asks e req \<and> gate e req = None \<and> auth_answer req [] \<noteq> None
         \<and> ts ! i = (H, Return r)
         \<longrightarrow> (\<exists>v. sections_of i log = [(v, activity_auth (as ! i) v)] \<and> auth_answer req v = Some r)"
    using auth_moments [OF assms(1)] by (elim exE conjE)
  show ?thesis
  proof (rule exI [of _ "map fst log"], intro conjI allI impI)
    show "set (map fst log) \<subseteq> {..<length as}" using steps by fastforce
    have "\<forall>t \<in> set ts. AuthStateMutex \<notin> set (fst t)"
      using finished_holds_nothing [OF assms(1)] assms(2) by simp
    then have "w = authStateInfo s'" using w by simp
    moreover have "\<forall>(i, a, b) \<in> set log. b = ?g i a"
    proof (rule ballI, clarify)
      fix i a b assume "(i, a, b) \<in> set log"
      then show "b = ?g i a" using steps by blast
    qed
    then have "w = fold ?g (map fst log) (authStateInfo s)" by (rule linked_fold [OF log])
    ultimately show "authStateInfo s' = fold ?g (map fst log) (authStateInfo s)" by simp
  next
    fix i e req H r
    assume i: "i < length as" and ask: "as ! i = Asks e req \<and> gate e req = None \<and> auth_answer req [] \<noteq> None
         \<and> ts ! i = (H, Return r)"
    from asked [rule_format, OF i ask] obtain v where v: "sections_of i log = [(v, activity_auth (as ! i) v)]"
      "auth_answer req v = Some r" by blast
    from v(1) obtain h1 h2 where h: "log = h1 @ (i, v, activity_auth (as ! i) v) # h2"
      "i \<notin> fst ` set h1" "i \<notin> fst ` set h2" by (rule sections_of_single)
    with log have "linked (authStateInfo s) h1 v" by (auto simp: linked_append)
    moreover have "\<forall>(i, a, b) \<in> set h1. b = ?g i a"
    proof (rule ballI, clarify)
      fix i a b assume "(i, a, b) \<in> set h1"
      then have "(i, a, b) \<in> set log" using h(1) by simp
      then show "b = ?g i a" using steps by blast
    qed
    ultimately have v1: "v = fold ?g (map fst h1) (authStateInfo s)" by (rule linked_fold)
    have "map fst log = map fst h1 @ i # map fst h2" by (simp add: h(1))
    moreover have "auth_answer req (fold ?g (map fst h1) (authStateInfo s)) = Some r" using v(2) unfolding v1 .
    ultimately show "\<exists>before after. map fst log = before @ i # after \<and> i \<notin> set before \<and> i \<notin> set after
               \<and> auth_answer req (fold ?g before (authStateInfo s)) = Some r"
      using h(2,3) by (intro exI [of _ "map fst h1"] exI [of _ "map fst h2"]) simp
  qed
qed

text \<open>Three threads at once: a query of the screen, one of the device and a report of an authentication.\<close>

definition auth_pool :: "sample_store activity list" where
  "auth_pool = [Asks sample_env (Req_SetAuthState 4 100 ''token''), Asks sample_env (Req_IsDeviceLocked 100),
     Asks sample_env Req_IsScreenLocked]"

theorem auth_requests_in_some_order_witness:
  "\<exists>ts s' order. pool_reaches auth_pool (initial_service []) (ts, s') \<and> set order \<subseteq> {..<3}
     \<and> authStateInfo s' = fold (\<lambda>i. activity_auth (auth_pool ! i)) order []
     \<and> mfind (authStateInfo s') 100 = Some 4"
proof -
  have "case schedule recursive_mutex [2, 1, 2, 1, 2, 1, 2, 0, 0, 0, 0, 0] (pool auth_pool (initial_service [])) of
      None \<Rightarrow> False
    | Some (ts, s') \<Rightarrow> list_all finished ts \<and> mfind (authStateInfo s') 100 = Some 4"
    by code_simp
  then obtain ts s' where run: "pool_reaches auth_pool (initial_service []) (ts, s')"
    and ended: "list_all finished ts \<and> mfind (authStateInfo s') 100 = Some 4" by (rule schedule_example)
  then have "\<forall>t \<in> set ts. finished t" by (simp add: list_all_iff)
  from auth_requests_in_some_order [OF run this] obtain order where "set order \<subseteq> {..<length auth_pool}"
    "authStateInfo s' = fold (\<lambda>i. activity_auth (auth_pool ! i)) order
       (authStateInfo (initial_service [] :: sample_store service_state))"
    by (elim exE conjE) (rule that, assumption+)
  moreover have "authStateInfo (initial_service [] :: sample_store service_state) = []" "length auth_pool = 3"
    by (simp_all add: auth_pool_def initial_service_def)
  ultimately show ?thesis using run ended
    by (intro exI [of _ ts] exI [of _ s'] exI [of _ order]) simp
qed

end
