(* ===== verification/Thread_Waiting.thy ===== *)
theory Thread_Waiting
  imports Thread_Frames
begin

text \<open>
  The listeners that wait for an unlock, under the mutex of their two vectors.  However the threads
  interleave, the vectors stay of one length and no thread reads outside them.
\<close>

section \<open>The sections of each program\<close>

definition waiting_view :: "('p, 's) service_state_scheme \<Rightarrow> nat list \<times> int list" where
  "waiting_view s = (unlockVecListeners s, unlockVecUserIds s)"

definition paired :: "nat list \<times> int list \<Rightarrow> bool" where
  "paired v \<longleftrightarrow> length (fst v) = length (snd v)"

definition keeps_paired :: "nat list \<times> int list \<Rightarrow> nat list \<times> int list \<Rightarrow> bool" where
  "keeps_paired v v' \<longleftrightarrow> (paired v \<longrightarrow> paired v')"

abbreviation waiting_sections :: "(service_mutex, ('p, 's) service_state_scheme, 'r) prog \<Rightarrow> bool" where
  "waiting_sections p \<equiv> each_section UnlockListenerMutex waiting_view keeps_paired p"

lemma waiting_core: "core_view s' = core_view s \<Longrightarrow> waiting_view s' = waiting_view s"
  by (simp add: core_view_def waiting_view_def)

lemma waiting_quiet_core: "leaves_core p \<Longrightarrow> quiet UnlockListenerMutex waiting_view p"
  by (rule quiet_coarser [where view = core_view]) (simp_all add: leaves_core_def state_mutexes_def core_view_def waiting_view_def)

lemmas waiting_quiet = quiet_progs [THEN waiting_quiet_core]

lemmas waiting_frames [simp] =
  core_svc_frames [THEN waiting_core] core_life_frames [THEN waiting_core] core_prefs_frames [THEN waiting_core]
  core_frames [THEN waiting_core]

lemma waiting_updates [simp]:
  "waiting_view (s\<lparr>authStateInfo := a\<rparr>) = waiting_view s" "waiting_view (s\<lparr>isScreenlockedMap := b\<rparr>) = waiting_view s"
  "waiting_view (s\<lparr>lockVecListeners := c\<rparr>) = waiting_view s" "waiting_view (SetScreenlocked x u s) = waiting_view s"
  by (simp_all add: waiting_view_def SetScreenlocked_def split: option.split)

lemma screen_waiting [simp]:
  "quiet UnlockListenerMutex waiting_view (SetScreenlocked_prog b u)"
  "quiet UnlockListenerMutex waiting_view (IsScreenLocked_prog e)"
  "quiet UnlockListenerMutex waiting_view (IsLockedWithUserId_prog e u)"
  "quiet UnlockListenerMutex waiting_view (Lock_user_prog e u)"
  "quiet UnlockListenerMutex waiting_view (Lock_listener_prog e l)"
  "quiet UnlockListenerMutex waiting_view (LockScreenEvent_prog e r)"
  by (auto simp: SetScreenlocked_prog_def IsScreenLocked_prog_def IsLockedWithUserId_prog_def Lock_user_prog_def
      Lock_listener_prog_def LockScreenEvent_prog_def waiting_quiet Let_def
      intro!: quiet_andthen quiet_guarded split: option.split)

lemma auth_waiting [simp]:
  "quiet UnlockListenerMutex waiting_view (SetScreenLockAuthState_prog e a u t)"
  "quiet UnlockListenerMutex waiting_view (GetScreenLockAuthState_prog e u)"
  "quiet UnlockListenerMutex waiting_view (IsDeviceLocked_prog e u)"
  "quiet UnlockListenerMutex waiting_view (AuthStateInit_prog u)"
  "quiet UnlockListenerMutex waiting_view (SetUnlockPolicy_prog e u p)"
  "quiet UnlockListenerMutex waiting_view (GetUnlockPolicy_prog e u)"
  "quiet UnlockListenerMutex waiting_view (IsLocked_prog e)"
  "quiet UnlockListenerMutex waiting_view (IsLockedWatch_prog e)"
  "quiet UnlockListenerMutex waiting_view (OnRemoveUser_prog e u)"
  "quiet UnlockListenerMutex waiting_view (LockCallback_prog r)"
  by (auto simp: SetScreenLockAuthState_prog_def GetScreenLockAuthState_prog_def IsDeviceLocked_prog_def
      AuthStateInit_prog_def SetUnlockPolicy_prog_def GetUnlockPolicy_prog_def IsLocked_prog_def
      IsLockedWatch_prog_def OnRemoveUser_prog_def LockCallback_prog_def waiting_quiet Let_def
      intro!: quiet_andthen quiet_guarded split: option.split)

lemma account_waiting [simp]:
  "quiet UnlockListenerMutex waiting_view (OnAccountsChanged_prog e ev u)"
  "quiet UnlockListenerMutex waiting_view (Dump_prog e args)"
  by (auto simp: OnAccountsChanged_prog_def OnActiveUser_prog_def Dump_prog_def Dispatch_prog_def dump_all_prog_def
      waiting_quiet Let_def intro!: quiet_andthen quiet_guarded split: option.split account_event.split)

text \<open>A listener is added with its user in one section.\<close>

lemma accept_section:
  "waiting_sections (guarded UnlockListenerMutex
     (writing (\<lambda>s. s\<lparr>unlockVecListeners := unlockVecListeners s @ [l]\<rparr>)
       (writing (\<lambda>s. s\<lparr>unlockVecUserIds := unlockVecUserIds s @ [u]\<rparr>) (Return ()))))"
  by (intro each_section_guarded) (auto simp: keeps_paired_def paired_def waiting_view_def)

lemma waiting_leaf: "quiet UnlockListenerMutex waiting_view p \<Longrightarrow> waiting_sections p"
  by (rule each_section_quiet)

lemma unlock_waiting:
  "waiting_sections (UnlockInner_prog e l)"
  by (auto simp: UnlockInner_prog_def Let_def accept_section waiting_leaf waiting_quiet
      intro!: each_section_andthen each_section_calling)

lemma unlock_event_waiting [simp]:
  "quiet UnlockListenerMutex waiting_view (NotifyDisplayEvent_prog ev)"
  "waiting_sections (NotifyUnlockListener_prog e r)"
  by (simp add: waiting_quiet)
    (auto simp: NotifyUnlockListener_prog_def submit_def keeps_paired_def waiting_view_def intro!: each_section_guarded)

lemma unlock_result_waiting [simp]:
  "waiting_sections (UnlockScreenEvent_prog e r)"
  by (auto simp: UnlockScreenEvent_prog_def Let_def waiting_leaf intro!: section_rules)

lemma send_event_waiting [simp]:
  "waiting_sections (SendScreenLockEvent_prog e ev r)" "waiting_sections (Unlock_prog e l)"
  "waiting_sections (UnlockWatch_prog e l)"
  by (auto simp: SendScreenLockEvent_prog_def Unlock_prog_def UnlockWatch_prog_def waiting_leaf unlock_waiting
      waiting_quiet intro!: section_rules)

lemma serve_waiting: "waiting_sections (serve_prog e req)"
  by (cases req) (simp_all add: wrapped_sections waiting_leaf waiting_quiet unlock_waiting)

section \<open>The callbacks of the waiting listeners\<close>

lemma unlock_callbacks_waiting: "quiet UnlockListenerMutex waiting_view (unlock_callbacks_prog ks r u)"
  by (induction ks) (auto intro!: quiet_andthen quiet_guarded split: option.split)

text \<open>While the mutex is held, the vectors are what they were at its start, so every index is inside them.\<close>

lemma unlock_callbacks_inside:
  "paired v \<Longrightarrow> \<forall>k \<in> set ks. k < length (fst v)
     \<Longrightarrow> ends_with UnlockListenerMutex waiting_view (\<lambda>v' inside. v' = v \<and> inside) (unlock_callbacks_prog ks r u) v"
proof (induction ks)
  case (Cons k ks)
  show ?case
    unfolding unlock_callbacks_prog.simps ends_with_reading
  proof (intro allI impI, goal_cases)
    case (1 s)
    with Cons.prems obtain w l where "vec_at (unlockVecUserIds s) k = Some w" "vec_at (unlockVecListeners s) k = Some l"
      by (auto simp: vec_at_def paired_def waiting_view_def)
    with 1 Cons show ?case by (auto intro!: ends_with_quiet_andthen quiet_guarded)
  qed
qed simp

definition inside_okay :: "((nat list \<times> int list) \<times> (nat list \<times> int list)) list \<Rightarrow> bool option \<Rightarrow> bool" where
  "inside_okay steps answer \<longleftrightarrow>
     all_steps keeps_paired steps \<and> ((\<forall>x \<in> set steps. paired (fst x)) \<longrightarrow> answer \<noteq> Some False)"

lemma inside_okay_simps [simp]:
  "inside_okay [] answer \<longleftrightarrow> answer \<noteq> Some False"
  "inside_okay [(v, v')] answer \<longleftrightarrow> (paired v \<longrightarrow> paired v') \<and> (paired v \<longrightarrow> answer \<noteq> Some False)"
  by (auto simp: inside_okay_def keeps_paired_def)

lemma UnlockCallback_waiting:
  "in_sections UnlockListenerMutex waiting_view inside_okay (UnlockCallback_prog r u) [] None"
  unfolding UnlockCallback_prog_def
proof (rule in_sections_guarded_last, goal_cases)
  case (1 v)
  show ?case
  proof (cases "paired v")
    case True
    have "ends_with UnlockListenerMutex waiting_view (\<lambda>v' inside. v' = v \<and> inside)
        (unlock_callbacks_prog [0..<length (fst v)] r u) v"
      by (rule unlock_callbacks_inside [OF True]) simp
    then show ?thesis
      by (auto simp: waiting_view_def paired_def intro!: ends_with_andthen elim!: ends_with_mono)
  next
    case False
    then show ?thesis
      by (auto intro!: ends_with_quiet_andthen [OF unlock_callbacks_waiting])
  qed
qed

lemma inside_okay_leaf:
  "waiting_sections p \<Longrightarrow> in_sections UnlockListenerMutex waiting_view inside_okay (inside p) [] None"
  unfolding inside_def each_section_def
  by (rule in_sections_mapped [where okay = "\<lambda>steps r. all_steps keeps_paired steps"]) (auto simp: inside_okay_def)

lemma inside_okay_quiet:
  "quiet UnlockListenerMutex waiting_view p \<Longrightarrow> in_sections UnlockListenerMutex waiting_view inside_okay (inside p) [] None"
  by (intro inside_okay_leaf waiting_leaf)


lemma task_inside: "in_sections UnlockListenerMutex waiting_view inside_okay (task_prog e t) [] None"
proof (cases t)
  case (UnlockCallbackTask r u)
  then show ?thesis by (simp add: UnlockCallback_waiting)
next
  case (NotifyDisplayTask ev)
  then show ?thesis by (simp add: inside_okay_def)
qed (simp_all add: inside_okay_quiet [unfolded inside_def] waiting_quiet)

lemma happen_inside: "in_sections UnlockListenerMutex waiting_view inside_okay (happen_prog e h) [] None"
proof (cases h)
  case (PendingTask i)
  have frame: "waiting_view (s\<lparr>tasks := ts\<rparr>) = waiting_view s" for s :: "'a service_state" and ts
    by (simp add: waiting_view_def)
  from PendingTask show ?thesis by (auto simp: calling_def frame task_inside split: option.split)
next
  case QueueReset
  then show ?thesis by (simp add: guarded_def inside_okay_def)
qed (simp_all add: inside_okay_quiet inside_okay_leaf serve_waiting waiting_quiet inside_okay_def)

section \<open>In every interleaving\<close>

definition activity_okay ::
  "'p activity \<Rightarrow> ((nat list \<times> int list) \<times> (nat list \<times> int list)) list \<Rightarrow> (status \<times> out_value) option \<Rightarrow> bool"
where
  "activity_okay a steps answer \<longleftrightarrow>
     all_steps keeps_paired steps
   \<and> (\<forall>e h b. a = Happens e h \<and> answer = Some (OK, BoolOut b) \<and> (\<forall>x \<in> set steps. paired (fst x)) \<longrightarrow> b)"

lemma activity_okay_other:
  assumes "waiting_sections p" and "\<And>e h. a \<noteq> Happens e h"
  shows "in_sections UnlockListenerMutex waiting_view (activity_okay a) p [] None"
  by (rule in_sections_mono [where okay = "\<lambda>steps r. all_steps keeps_paired steps"])
    (use assms in \<open>auto simp: activity_okay_def each_section_def\<close>)

lemma activity_inside:
  "in_sections UnlockListenerMutex waiting_view (activity_okay a) (activity_prog a) [] None"
proof (cases a)
  case (Happens e h)
  then show ?thesis
    unfolding Happens activity_prog.simps plain_bool_def
    by (intro in_sections_mapped [OF _ _ happen_inside]) (auto simp: activity_okay_def inside_okay_def)
qed (simp_all add: activity_okay_other serve_waiting wrapped_sections waiting_leaf waiting_quiet)

text \<open>C1: in no interleaving of requests, submitted callbacks and events does a thread that answers the listeners
  waiting for an unlock read outside the two vectors; and whenever nobody holds their mutex, each waiting
  listener has its user: the vectors are of one length.\<close>

theorem waiting_listeners_safe:
  assumes "pool_reaches as s (ts, s')" and "length (unlockVecListeners s) = length (unlockVecUserIds s)"
  shows "((\<forall>t \<in> set ts. UnlockListenerMutex \<notin> set (fst t))
            \<longrightarrow> length (unlockVecListeners s') = length (unlockVecUserIds s'))
       \<and> (\<forall>i < length as. \<forall>e h H b. as ! i = Happens e h \<and> ts ! i = (H, Return (OK, BoolOut b)) \<longrightarrow> b)"
proof -
  have okay: "in_sections UnlockListenerMutex waiting_view (activity_okay (as ! i)) (map activity_prog as ! i) [] None"
    if "i < length (map activity_prog as)" for i
    using that activity_inside [of "as ! i"] by simp
  have len: "length ts = length as" using reaches_length [OF assms(1) [unfolded pool_def started_def]] by simp
  obtain log w where log: "linked (waiting_view s) log w"
    and free: "(\<forall>i < length ts. UnlockListenerMutex \<notin> set (fst (ts ! i))) \<longrightarrow> waiting_view s' = w"
    and threads: "\<forall>x \<in> set log. fst x < length ts"
    and steps: "\<And>i. i < length ts \<Longrightarrow> sections_of i log \<noteq> [] \<longrightarrow> activity_okay (as ! i) (sections_of i log) None"
    and ended: "\<And>i H r. i < length ts \<Longrightarrow> ts ! i = (H, Return r) \<longrightarrow> activity_okay (as ! i) (sections_of i log) (Some r)"
    using sections_in_some_order [OF assms(1) [unfolded pool_def] okay] by blast
  have kept: "paired (fst (snd x)) \<longrightarrow> paired (snd (snd x))" if "x \<in> set log" for x
  proof -
    have "snd x \<in> set (sections_of (fst x) log)" using that by (auto simp: sections_of_def)
    with steps [of "fst x"] threads that show ?thesis
      by (auto simp: activity_okay_def all_steps_def keeps_paired_def)
  qed
  have start: "paired (waiting_view s)" using assms(2) by (simp add: paired_def waiting_view_def)
  have "paired w" using linked_keeps [OF log, of paired] start kept by blast
  moreover have befores: "\<forall>x \<in> set log. paired (fst (snd x))" using linked_befores [OF log, of paired] start kept by blast
  moreover have "b" if "i < length as" "as ! i = Happens e h" "ts ! i = (H, Return (OK, BoolOut b))" for i e h H b
  proof -
    have "\<forall>x \<in> set (sections_of i log). paired (fst x)" using befores by (auto simp: sections_of_def)
    with ended [of i H "(OK, BoolOut b)"] that len show ?thesis by (auto simp: activity_okay_def)
  qed
  moreover have "(\<forall>t \<in> set ts. UnlockListenerMutex \<notin> set (fst t)) \<longrightarrow> waiting_view s' = w"
    using free by (meson nth_mem)
  ultimately show ?thesis by (auto simp: paired_def waiting_view_def)
qed

text \<open>A callback of one waiting listener, and two callers that add theirs meanwhile.\<close>

definition waiting_start :: "sample_store service_state" where
  "waiting_start = (initial_service [])\<lparr>unlockVecListeners := [7], unlockVecUserIds := [100], tasks := [UnlockCallbackTask 0 100]\<rparr>"

definition waiting_pool :: "sample_store activity list" where
  "waiting_pool = [Happens sample_env (PendingTask 0), Asks sample_env (Req_Unlock 8), Asks sample_env (Req_Unlock 9)]"

theorem waiting_listeners_safe_witness:
  "\<exists>ts s'. pool_reaches waiting_pool waiting_start (ts, s') \<and> ts ! 0 = finished_well
     \<and> length (unlockVecListeners s') = length (unlockVecUserIds s')"
proof -
  have "case schedule recursive_mutex [0, 1, 0, 1, 0, 1, 2, 0, 2, 0, 2, 0, 0, 0, 1, 1, 1, 1, 2, 1, 2, 1, 2, 1, 2, 2, 2, 2]
       (pool waiting_pool waiting_start) of
      None \<Rightarrow> False
    | Some (ts, s') \<Rightarrow> list_all (\<lambda>t. UnlockListenerMutex \<notin> set (fst t)) ts
         \<and> (case ts ! 0 of (H, Return r) \<Rightarrow> H = [] \<and> r = (OK, BoolOut True) | _ \<Rightarrow> False)"
    by code_simp
  then obtain ts s' where run: "pool_reaches waiting_pool waiting_start (ts, s')"
    and ended: "list_all (\<lambda>t. UnlockListenerMutex \<notin> set (fst t)) ts
         \<and> (case ts ! 0 of (H, Return r) \<Rightarrow> H = [] \<and> r = (OK, BoolOut True) | _ \<Rightarrow> False)" by (rule schedule_example)
  have "ts ! 0 = finished_well" using ended by (auto simp: finished_well_def split: prod.splits prog.splits)
  moreover have "length (unlockVecListeners s') = length (unlockVecUserIds s')"
    using waiting_listeners_safe [OF run] ended by (simp add: waiting_start_def list_all_iff)
  ultimately show ?thesis using run by blast
qed

end
