(* ===== verification/Thread_Timers.thy ===== *)
theory Thread_Timers
  imports Thread_Frames
begin

text \<open>
  Strong authentication under its mutex: the reason flags, the timers, and the timers alive in the time
  service.  However the threads interleave, AFTER_BOOT is not weakened and no timer is lost or leaked.
\<close>

section \<open>What the mutex guards\<close>

type_synonym guarded_timers = "(int, int) stdmap \<times> (int, timer_info) stdmap \<times> nat \<times> nat list"

definition timer_view :: "('p, 's) strong_state_scheme \<Rightarrow> guarded_timers" where
  "timer_view s = (strongAuthStateInfo s, strongAuthTimerInfo s, timersCreated s, live_timers (trace s))"

lemma timer_view_emit [simp]: "timer_free es \<Longrightarrow> timer_view (emit es s) = timer_view s"
  by (simp add: timer_view_def)

lemma timer_free_Cons [simp]:
  "timer_free (x # es) \<longleftrightarrow> (case x of TimerCreate n t \<Rightarrow> False | TimerDestroy n \<Rightarrow> False | _ \<Rightarrow> True) \<and> timer_free es"
  by (simp add: timer_free_def)

lemma timer_free_maps [simp]:
  "timer_free (map (\<lambda>l. LockCallback l i) ls)" "timer_free (map (\<lambda>p. AccountUnsubscribe (fst p)) as)"
  by (simp_all add: timer_free_def list_all_iff)

lemma timer_updates [simp]:
  "timer_view (s\<lparr>store := z\<rparr>) = timer_view s" "timer_view (s\<lparr>deathRecipientMap := dm\<rparr>) = timer_view s"
  "timer_view (s\<lparr>innerListenMap := im\<rparr>) = timer_view s" "timer_view (s\<lparr>stateValue := f\<rparr>) = timer_view s"
  "timer_view (s\<lparr>systemEventListener := g\<rparr>) = timer_view s" "timer_view (s\<lparr>authSuccessListener := b\<rparr>) = timer_view s"
  "timer_view (s\<lparr>clockReads := k\<rparr>) = timer_view s"
  by (simp_all add: timer_view_def)

lemma timer_watch_updates [simp]:
  "timer_view (s\<lparr>isWearOn := b\<rparr>) = timer_view s" "timer_view (s\<lparr>isWristUnlock := b\<rparr>) = timer_view s"
  "timer_view (s\<lparr>appStateObserver := b\<rparr>) = timer_view s" "timer_view (s\<lparr>leaveWristSettingObserver := b\<rparr>) = timer_view s"
  "timer_view (s\<lparr>unlockedRecord := r\<rparr>) = timer_view s" "timer_view (s\<lparr>sensorRegistered := b\<rparr>) = timer_view s"
  "timer_view (s\<lparr>wearDisplayRegistered := b\<rparr>) = timer_view s"
  by (simp_all add: timer_view_def)

lemma timer_service_updates [simp]:
  "timer_view (s\<lparr>runningState := a1\<rparr>) = timer_view s" "timer_view (s\<lparr>instanceSet := a2\<rparr>) = timer_view s"
  "timer_view (s\<lparr>queueSet := a3\<rparr>) = timer_view s" "timer_view (s\<lparr>accountSubscribers := a4\<rparr>) = timer_view s"
  "timer_view (s\<lparr>displayPowerEventListener := a5\<rparr>) = timer_view s" "timer_view (s\<lparr>systemReady := a6\<rparr>) = timer_view s"
  "timer_view (s\<lparr>unlockVecListeners := a7\<rparr>) = timer_view s" "timer_view (s\<lparr>unlockVecUserIds := a8\<rparr>) = timer_view s"
  "timer_view (s\<lparr>lockVecListeners := a9\<rparr>) = timer_view s" "timer_view (s\<lparr>authStateInfo := b1\<rparr>) = timer_view s"
  "timer_view (s\<lparr>isScreenlockedMap := b2\<rparr>) = timer_view s" "timer_view (s\<lparr>credChangeListener := b3\<rparr>) = timer_view s"
  "timer_view (s\<lparr>eventSubscriber := b4\<rparr>) = timer_view s" "timer_view (s\<lparr>cmdHandler := b5\<rparr>) = timer_view s"
  "timer_view (s\<lparr>tasks := b6\<rparr>) = timer_view s" "timer_view (s\<lparr>displayRegistrations := b7\<rparr>) = timer_view s"
  "timer_view (s\<lparr>publishCalls := b8\<rparr>) = timer_view s"
  by (simp_all add: timer_view_def)

lemma timer_prefs [simp]:
  "timer_view (snd (SaveBool np ks b s)) = timer_view s" "timer_view (snd (SaveInt np ks i s)) = timer_view s"
  "timer_view (snd (RemoveKey np ks s)) = timer_view s" "timer_view (Refresh np s) = timer_view s"
  by (simp_all add: prefs_write_defs flush_store_def Let_def split_def)

lemma timer_inner [simp]:
  "timer_view (snd (AddDeathRecipient e ty lo s)) = timer_view s" "timer_view (snd (RemoveDeathRecipient lo s)) = timer_view s"
  "timer_view (snd (AddInnerListener u ty l s)) = timer_view s" "timer_view (snd (RemoveInnerListener ty l s)) = timer_view s"
  by (simp_all add: AddDeathRecipient_def RemoveDeathRecipient_def AddInnerListener_def RemoveInnerListener_def Let_def
      split: option.split prod.split)

lemma timer_watch_parts [simp]:
  "timer_view (snd (IsPaymentApp e s)) = timer_view s" "timer_view (snd (BeginWidgetAuth e s)) = timer_view s"
  "timer_view (registerAppStateObserver e s) = timer_view s" "timer_view (unregisterAppStateObserver e s) = timer_view s"
  "timer_view (registerLeaveWristSettingObserver e s) = timer_view s"
  "timer_view (unregisterLeaveWristSettingObserver e s) = timer_view s"
  "timer_view (RegisterSensorListener s) = timer_view s" "timer_view (WearDisplay_Register s) = timer_view s"
  by (simp_all add: IsPaymentApp_def GetPaymentServices_def BeginWidgetAuth_def ReportFaultCode_def SendEvent_def
      observer_defs RegisterSensorListener_def WearDisplay_Register_def Let_def split_def)

lemma timer_records [simp]:
  "timer_view (snd (UnlockedRecord_add e b s)) = timer_view s" "timer_view (snd (UnlockedRecord_remove e b s)) = timer_view s"
  "timer_view (UnlockedRecord_clear e s) = timer_view s"
  by (simp_all add: UnlockedRecord_add_def UnlockedRecord_remove_def UnlockedRecord_clear_def Let_def)

lemma timer_watch [simp]:
  "timer_view (snd (Watch_unlockScreen e b s)) = timer_view s" "timer_view (OnWindowHidden e h s) = timer_view s"
  "timer_view (LeaveWrist_OnChange e s) = timer_view s" "timer_view (WearSensorCallback e ev s) = timer_view s"
  "timer_view (WearDisplay_OnDisplayPowerEvent e pe st s) = timer_view s"
  by (simp_all add: Watch_unlockScreen_def watch_handlers Let_def split_def split: option.split)

lemma timer_service [simp]:
  "timer_view (InitServiceHandler t) = timer_view t" "timer_view (RegisterCommand cmd t) = timer_view t"
  "timer_view (SubscribeAcccount ev t) = timer_view t" "timer_view (SubscribeEvent e t) = timer_view t"
  "timer_view (SubscribeUserIamReady t) = timer_view t" "timer_view (RemoveSubscribeUserIamReady t) = timer_view t"
  "timer_view (ResetFfrtQueue t) = timer_view t"
  "timer_view (SetScreenState i t) = timer_view t" "timer_view (SetInteractiveState i t) = timer_view t"
  "timer_view (SetCurrentUser u t) = timer_view t" "timer_view (PublishEvent c u t) = timer_view t"
  "timer_view (submit tk t) = timer_view t" "timer_view (queue_submit tk t) = timer_view t"
  "timer_view (SetScreenlocked b u t) = timer_view t" "timer_view (OnReceiveEvent e act par t) = timer_view t"
  "timer_view (DeleteUnlockPolicyForUser e u t) = timer_view t"
  by (simp_all add: InitServiceHandler_def RegisterCommand_def SubscribeAcccount_def SubscribeEvent_def
      SubscribeUserIamReady_def RemoveSubscribeUserIamReady_def ResetFfrtQueue_def SetScreenState_def
      SetInteractiveState_def SetCurrentUser_def PublishEvent_def submit_def queue_submit_def SetScreenlocked_def
      OnReceiveEvent_def DeleteUnlockPolicyForUser_def Let_def split: option.split)


section \<open>Programs that leave it alone\<close>

abbreviation leaves_timers :: "(service_mutex, ('p, 's) strong_state_scheme, 'r) prog \<Rightarrow> bool" where
  "leaves_timers p \<equiv> quiet StrongAuthTimerMutex timer_view p"

lemmas timer_rules = quiet_andthen quiet_guarded

lemma notice_timers [simp]:
  "leaves_timers (SystemEventCallBack_prog ev)"
  by (auto simp: SystemEventCallBack_prog_def intro!: timer_rules split: option.split)

lemma tell_timers [simp]: "leaves_timers (tell_listeners ls u st)"
  by (induction ls) auto

lemma notices_timers [simp]:
  "leaves_timers (StrongAuthChanged_prog u r)"
  "leaves_timers (PreAuthStateNotify_prog u r)"
  "leaves_timers (getListenerSet_prog u ty)"
  by (auto simp: StrongAuthChanged_prog_def PreAuthStateNotify_prog_def getListenerSet_prog_def)

lemma state_changed_timers [simp]: "leaves_timers (OnStateChanged_prog u st ty)"
  by (auto simp: OnStateChanged_prog_def intro!: timer_rules)

lemma strong_notice_timers [simp]: "leaves_timers (NotifyStrongAuthChange_prog e u r)"
  by (auto simp: NotifyStrongAuthChange_prog_def Let_def intro!: timer_rules)

lemma inner_timers [simp]:
  "leaves_timers (RegisterInnerListener_prog e u ty lo)"
  "leaves_timers (UnRegisterInnerListener_prog ty lo)"
  by (auto simp: RegisterInnerListener_prog_def UnRegisterInnerListener_prog_def Let_def
      intro!: timer_rules split: option.split)

lemma unregister_dead_timers [simp]: "leaves_timers (unregister_dead_prog r d)"
  by (induction r d rule: unregister_dead_prog.induct) (auto intro!: timer_rules)

lemma death_timers [simp]: "leaves_timers (OnRemoteDied_prog ro)"
  by (auto simp: OnRemoteDied_prog_def GetDeathRecipient_prog_def intro!: timer_rules split: option.split)

lemma listener_timers [simp]:
  "leaves_timers RegistAuthEventListener_prog" "leaves_timers UnRegistAuthEventListener_prog"
  by (auto simp: RegistAuthEventListener_prog_def UnRegistAuthEventListener_prog_def intro!: timer_rules)

lemma screen_timers [simp]:
  "leaves_timers (SetScreenlocked_prog b u)" "leaves_timers (IsScreenLocked_prog e)" "leaves_timers check_running"
  "leaves_timers (IsLockedWithUserId_prog e u)"
  by (auto simp: SetScreenlocked_prog_def IsScreenLocked_prog_def check_running_def IsLockedWithUserId_prog_def Let_def
      intro!: timer_rules split: option.split)

lemma unlock_timers [simp]:
  "leaves_timers (IsLocked_prog e)" "leaves_timers (GetSecure_prog e)" "leaves_timers (UnlockInner_prog e l)"
  "leaves_timers (Lock_listener_prog e l)" "leaves_timers (Lock_user_prog e u)" "leaves_timers (IsLockedWatch_prog e)"
  by (auto simp: IsLocked_prog_def GetSecure_prog_def UnlockInner_prog_def Lock_listener_prog_def Lock_user_prog_def
      IsLockedWatch_prog_def Let_def intro!: timer_rules)

lemma results_timers [simp]:
  "leaves_timers (NotifyDisplayEvent_prog ev)" "leaves_timers (LockScreenEvent_prog e r)"
  "leaves_timers (NotifyUnlockListener_prog e r)"
  by (auto simp: NotifyDisplayEvent_prog_def LockScreenEvent_prog_def NotifyUnlockListener_prog_def Let_def
      intro!: timer_rules)

lemma events_timers [simp]:
  "leaves_timers (Unlock_prog e l)" "leaves_timers (UnlockWatch_prog e l)"
  "leaves_timers (UnlockScreenEvent_prog e r)"
  by (auto simp: Unlock_prog_def UnlockWatch_prog_def UnlockScreenEvent_prog_def Let_def intro!: timer_rules)

lemma requests_timers [simp]:
  "leaves_timers (SendScreenLockEvent_prog e evn r)" "leaves_timers (IsScreenLockDisabled_prog e u)"
  "leaves_timers (FreshDisabledState_prog e b u)" "leaves_timers (SetScreenLockAuthState_prog e a u t)"
  "leaves_timers (GetScreenLockAuthState_prog e u)" "leaves_timers (IsDeviceLocked_prog e u)"
  "leaves_timers (AuthStateInit_prog u)" "leaves_timers (SetUnlockPolicy_prog e u p)"
  "leaves_timers (GetUnlockPolicy_prog e u)" "leaves_timers (OnSystemEvent_prog e lo)"
  by (auto simp: SendScreenLockEvent_prog_def IsScreenLockDisabled_prog_def FreshDisabledState_prog_def
      SetScreenLockAuthState_prog_def GetScreenLockAuthState_prog_def IsDeviceLocked_prog_def AuthStateInit_prog_def
      SetUnlockPolicy_prog_def GetUnlockPolicy_prog_def OnSystemEvent_prog_def Let_def
      intro!: timer_rules split: option.split)

lemma more_requests_timers [simp]:
  "leaves_timers (SetScreenLockDisabled_prog e b u)"
  "leaves_timers (Service_RegisterInnerListener_prog e u ty lis)"
  "leaves_timers (Service_UnRegisterInnerListener_prog e u ty lis)"
  by (auto simp: SetScreenLockDisabled_prog_def Service_RegisterInnerListener_prog_def
      Service_UnRegisterInnerListener_prog_def intro!: timer_rules)

lemma unlock_callbacks_timers [simp]: "leaves_timers (unlock_callbacks_prog ks r u)"
  by (induction ks) (auto intro!: timer_rules split: option.split)

lemma work_timers [simp]:
  "leaves_timers (Init_prog e)" "leaves_timers (RegisterDisplayPowerEventListener_prog e n)"
  "leaves_timers (OnSystemReady_turn_prog k)" "leaves_timers (LockCallback_prog r)" "leaves_timers (UnlockCallback_prog r u)"
  by (auto simp: Init_prog_def RegisterDisplayPowerEventListener_prog_def OnSystemReady_turn_prog_def
      LockCallback_prog_def UnlockCallback_prog_def Let_def intro!: timer_rules split: option.split)

lemma task_timers [simp]: "leaves_timers (task_prog e t)"
  by (cases t) (auto intro!: timer_rules)

lemma start_timers [simp]:
  "leaves_timers RegistIamEventListener_prog" "leaves_timers UnRegistIamEventListener_prog"
  "leaves_timers (init_disabled_flag_prog e u)"
  by (auto simp: RegistIamEventListener_prog_def UnRegistIamEventListener_prog_def init_disabled_flag_prog_def
      intro!: timer_rules)

lemma life_timers [simp]:
  "leaves_timers (OnStart_prog e)" "leaves_timers (OnAddSystemAbility_prog e sa)"
  "leaves_timers (OnRemoveSystemAbility_prog e sa)" "leaves_timers (OnRemoveUser_prog e u)"
  "leaves_timers (OnDisplayPowerEvent_prog pe st)" "leaves_timers (UserIamReadyCallback_prog k v)"
  by (auto simp: OnStart_prog_def OnAddSystemAbility_prog_def OnRemoveSystemAbility_prog_def InitUserId_prog_def
      OnRemoveUser_prog_def OnDisplayPowerEvent_prog_def power_prog_def UserIamReadyCallback_prog_def
      intro!: timer_rules split: option.split display_power_event.split event_status.split)

end
