(* ===== verification/Thread_Strong.thy ===== *)
theory Thread_Strong
  imports Thread_Timers
begin

text \<open>
  What each section under the mutex of strong authentication does, and what therefore holds in every
  interleaving: AFTER_BOOT gives way only to those that may reset it, and the live timers are those
  recorded.
\<close>

section \<open>The changes\<close>

text \<open>The steps a section is made of; \<open>tm\<close> numbers the timers, \<open>resets\<close> says whose reason may be reset.\<close>

inductive timer_change :: "(nat \<Rightarrow> nat) \<Rightarrow> (int \<Rightarrow> bool) \<Rightarrow> guarded_timers \<Rightarrow> guarded_timers \<Rightarrow> bool" for tm resets where
  same: "timer_change tm resets v v"
| reason: "(mfind a u = Some (reason_code AFTER_BOOT) \<longrightarrow> r = reason_code REASON_NONE \<and> resets u)
     \<Longrightarrow> timer_change tm resets (a, x) (mput u r a, x)"
| forgotten: "resets u \<Longrightarrow> timer_change tm resets (a, x) (merase u a, x)"
| created: "(case mfind m u of None \<Rightarrow> True | Some ti \<Rightarrow> timerId ti = 0) \<Longrightarrow> timerId t = tm n
     \<Longrightarrow> timer_change tm resets (a, m, n, l) (a, minsert u t m, Suc n, l @ [tm n])"
| period: "mfind m u = Some ti \<Longrightarrow> timerId t = timerId ti
     \<Longrightarrow> timer_change tm resets (a, m, n, l) (a, mput u t m, n, l)"
| destroyed: "mfind m u = Some ti \<Longrightarrow> timerId ti \<noteq> 0
     \<Longrightarrow> timer_change tm resets (a, m, n, l) (a, merase u m, n, filter (\<lambda>k. k \<noteq> timerId ti) l)"
| trans: "timer_change tm resets v v' \<Longrightarrow> timer_change tm resets v' v'' \<Longrightarrow> timer_change tm resets v v''"

abbreviation timer_sections where
  "timer_sections tm resets p \<equiv> each_section StrongAuthTimerMutex timer_view (timer_change tm resets) p"

lemma timer_leaf: "leaves_timers p \<Longrightarrow> timer_sections tm resets p"
  by (rule each_section_quiet)

lemma SetStrongAuthStat_sections [simp]:
  assumes "r = reason_code REASON_NONE \<longrightarrow> resets u"
  shows "timer_sections tm resets (SetStrongAuthStat_prog e u r)"
  unfolding SetStrongAuthStat_prog_def
  using assms
  by (intro each_section_andthen each_section_guarded)
    (auto simp: timer_leaf timer_view_def minsert_def
      intro!: ends_with_quiet_andthen timer_change.same timer_change.reason split: option.split)

lemma reason_sections [simp]:
  "timer_sections tm resets (GetStrongAuthStat_prog e u)"
  "timer_sections tm resets (GetStrongAuthTimeTrigger_prog u)"
  "resets u \<Longrightarrow> timer_sections tm resets (DestroyStrongAuthStateInfo_prog u)"
  "timer_sections tm resets (InitStrongAuthStat_prog e u r)"
  "timer_sections tm resets (IsUserExitInStrongAuthInfo_prog u)"
  unfolding GetStrongAuthStat_prog_def GetStrongAuthTimeTrigger_prog_def
      DestroyStrongAuthStateInfo_prog_def InitStrongAuthStat_prog_def IsUserExitInStrongAuthInfo_prog_def
  by (intro each_section_guarded; auto simp: DestroyStrongAuthStateInfo_def timer_leaf timer_view_def minsert_def
      intro!: ends_with_quiet timer_change.same timer_change.reason timer_change.forgotten split: option.split)+


lemma GetTimerId_zero: "GetTimerId u s = 0 \<longleftrightarrow> (case mfind (strongAuthTimerInfo s) u of None \<Rightarrow> True | Some ti \<Rightarrow> timerId ti = 0)"
  by (simp add: GetTimerId_def split: option.split)

lemma GetTimerId_some:
  "GetTimerId u s \<noteq> 0 \<Longrightarrow> \<exists>ti. mfind (strongAuthTimerInfo s) u = Some ti \<and> timerId ti = GetTimerId u s"
  by (auto simp: GetTimerId_def split: option.splits)

lemma start_section [simp]:
  assumes "createTimer e = tm"
  shows "timer_sections tm resets (StartStrongAuthTimer_period_prog e u p)"
  unfolding StartStrongAuthTimer_period_prog_def
  by (intro each_section_guarded)
    (auto simp: timer_view_def GetTimerId_zero CreateTimer_def GetBootTimeMs_def Let_def live_timers_append assms
      intro!: timer_change.same timer_change.created)

lemma period_section [simp]:
  "timer_sections tm resets (SetCredChangeTriggerPeriod_prog e u p)"
  "timer_sections tm resets (GetStrongAuthTriggerPeriod_prog e u)"
proof -
  show "timer_sections tm resets (SetCredChangeTriggerPeriod_prog e u p)"
    unfolding SetCredChangeTriggerPeriod_prog_def
    by (intro each_section_guarded)
      (auto simp: timer_view_def GetBootTimeMs_def intro!: timer_change.same timer_change.period split: option.split)
  show "timer_sections tm resets (GetStrongAuthTriggerPeriod_prog e u)"
    unfolding GetStrongAuthTriggerPeriod_prog_def
    by (intro each_section_calling each_section_guarded)
      (auto simp: timer_view_def GetBootTimeMs_def Let_def advance_stage_timerId
        intro!: timer_change.same timer_change.period split: option.split)
qed

lemma destroyed_view:
  assumes "GetTimerId u s \<noteq> 0"
  shows "timer_change tm resets (timer_view s) (timer_view ((emit [TimerStop (GetTimerId u s), TimerDestroy (GetTimerId u s)] s)
     \<lparr>strongAuthTimerInfo := merase u (strongAuthTimerInfo s)\<rparr>))"
proof -
  obtain ti where ti: "mfind (strongAuthTimerInfo s) u = Some ti" "timerId ti = GetTimerId u s"
    using GetTimerId_some [OF assms] by blast
  from timer_change.destroyed [OF ti(1), of tm resets "strongAuthStateInfo s" "timersCreated s" "live_timers (trace s)"] ti assms
  show ?thesis by (simp add: timer_view_def live_timers_append)
qed

lemma destroy_timers_view: "timer_change tm resets (timer_view s) (timer_view (destroy_timers ts s))"
proof (induction ts s rule: destroy_timers.induct)
  case (1 s)
  then show ?case by (simp add: timer_change.same)
next
  case (2 u ti rest s)
  show ?case
  proof (cases "GetTimerId u s = 0")
    case True
    with 2 show ?thesis by simp
  next
    case False
    with 2 show ?thesis by (auto simp: Let_def intro: timer_change.trans [OF destroyed_view])
  qed
qed

lemma destroy_section [simp]:
  "timer_sections tm resets (DestroyStrongAuthTimer_prog u)"
  "timer_sections tm resets DestroyAllStrongAuthTimer_prog"
proof -
  show "timer_sections tm resets (DestroyStrongAuthTimer_prog u)"
    unfolding DestroyStrongAuthTimer_prog_def
  proof (intro each_section_guarded, unfold ends_with_reading, intro allI impI, goal_cases)
    case (1 v s)
    show ?case
    proof (cases "GetTimerId u s = 0")
      case True
      then show ?thesis by (simp add: timer_change.same)
    next
      case False
      then obtain ti where ti: "mfind (strongAuthTimerInfo s) u = Some ti" "timerId ti = GetTimerId u s" "GetTimerId u s \<noteq> 0"
        using GetTimerId_some by blast
      with 1 timer_change.destroyed [OF ti(1), of tm resets "strongAuthStateInfo s" "timersCreated s" "live_timers (trace s)"]
      show ?thesis by (auto simp: timer_view_def live_timers_append)
    qed
  qed
  show "timer_sections tm resets DestroyAllStrongAuthTimer_prog"
    unfolding DestroyAllStrongAuthTimer_prog_def
    by (intro each_section_guarded) (simp add: DestroyAllStrongAuthTimer_def, metis destroy_timers_view)
qed

lemma read_timer_section [simp]: "timer_sections tm resets (guarded StrongAuthTimerMutex (reading (GetTimerId u) Return))"
  by (intro each_section_guarded) (simp add: timer_change.same)

lemma reset_section [simp]:
  assumes "createTimer e = tm"
  shows "timer_sections tm resets (ResetStrongAuthTimer_prog e u p)"
  unfolding ResetStrongAuthTimer_prog_def
  using assms by (intro each_section_andthen) (auto simp: GetBootTimeMs_def intro!: each_section_calling each_section_writing)

section \<open>The callbacks\<close>

lemma callback_sections [simp]:
  "timer_sections tm resets (OnTrigger_prog e t)"
  "timer_sections tm resets (GetCredInfo_prog e u)"
  "createTimer e = tm \<Longrightarrow> timer_sections tm resets (OnCredentialInfo_prog e u res n)"
  unfolding OnTrigger_prog_def StrongAuthTimerCallback_prog_def GetCredInfo_prog_def OnCredentialInfo_prog_def
  by (auto simp: timer_change.same intro!: each_section_andthen each_section_guarded each_section_writing)

lemma success_sections [simp]:
  "createTimer e = tm \<Longrightarrow> (a = PIN \<and> \<not> w \<longrightarrow> resets u) \<Longrightarrow> timer_sections tm resets (OnNotifyAuthSuccessEvent_prog e u a w)"
  "createTimer e = tm \<Longrightarrow> (a = PIN \<and> c \<in> {DEL_USER, ENFORCE_DEL_USER} \<longrightarrow> resets u)
     \<Longrightarrow> timer_sections tm resets (OnNotifyCredChangeEvent_prog e u a c b)"
  unfolding OnNotifyAuthSuccessEvent_prog_def OnNotifyCredChangeEvent_prog_def
  by (auto intro!: each_section_andthen)

text \<open>Whose reason an activity may reset: an admitted request, a success with the password, or a deletion.\<close>

fun may_reset :: "happening \<Rightarrow> int \<Rightarrow> bool" where
  "may_reset (Request (Req_RequestStrongAuth r u)) w = (r = reason_code REASON_NONE \<and> w = u)"
| "may_reset (AuthSucceeded u a b) w = (a = PIN \<and> \<not> b \<and> w = u)"
| "may_reset (CredChanged u a c b) w = (a = PIN \<and> c \<in> {DEL_USER, ENFORCE_DEL_USER} \<and> w = u)"
| "may_reset _ w = False"

fun activity_resets :: "'p activity \<Rightarrow> int \<Rightarrow> bool" where
  "activity_resets (Asks e req) w = (gate e req = None \<and> may_reset (Request req) w)"
| "activity_resets (Happens e h) w = may_reset h w"
| "activity_resets _ w = False"

lemma serve_timers:
  assumes "\<And>w. gate e req = None \<Longrightarrow> may_reset (Request req) w \<Longrightarrow> resets w"
  shows "timer_sections tm resets (serve_prog e req)"
proof (cases req)
  case (Req_RequestStrongAuth r u)
  then show ?thesis
    using assms
    by (auto simp: without_out_def RequestStrongAuth_prog_def gate_defs intro!: each_section_andthen)
next
  case (Req_GetStrongAuth u)
  then show ?thesis by (auto simp: GetStrongAuth_prog_def intro!: each_section_andthen)
qed (simp_all add: wrapped_sections timer_leaf)

lemma happen_timers:
  assumes "\<And>w. may_reset h w \<Longrightarrow> resets w" and "createTimer e = tm"
  shows "timer_sections tm resets (happen_prog e h)"
proof (cases h)
  case (Request req)
  with assms(1) show ?thesis unfolding Request happen_prog.simps by (intro wrapped_sections serve_timers) blast
next
  case (PendingTask i)
  then show ?thesis by (auto intro!: each_section_calling split: option.split simp: timer_leaf)
next
  case (AccountChanged ev u)
  then show ?thesis
    by (cases ev) (auto simp: OnAccountsChanged_prog_def OnActiveUser_prog_def timer_leaf
        intro!: wrapped_sections each_section_andthen each_section_reading split: option.split)
next
  case (CredChanged u a c b)
  with assms show ?thesis
    by (auto simp: Service_OnNotifyCredChangeEvent_prog_def timer_leaf intro!: wrapped_sections each_section_andthen)
qed (use assms in \<open>simp_all add: wrapped_sections timer_leaf quiet_guarded\<close>)

lemma dump_timers: "timer_sections tm resets (Dump_prog e args)"
proof -
  have strong: "timer_sections tm resets (dump_strong_prog e us)" for us
    by (induction us) (auto intro!: each_section_andthen)
  have "timer_sections tm resets (dump_all_prog e out)" for out
    by (auto simp: dump_all_prog_def strong timer_leaf quiet_guarded intro!: each_section_andthen each_section_reading)
  then show ?thesis
    by (auto simp: Dump_prog_def Dispatch_prog_def Let_def
        intro!: each_section_andthen each_section_reading each_section_guarded_other split: option.split)
qed

lemma stop_timers: "timer_sections tm resets (OnStop_prog e)"
  by (auto simp: OnStop_prog_def timer_leaf quiet_guarded intro!: each_section_andthen each_section_writing)

definition timer_source :: "'p activity \<Rightarrow> nat \<Rightarrow> nat" where
  "timer_source a = (case a of Asks e req \<Rightarrow> createTimer e | Happens e h \<Rightarrow> createTimer e
     | Dumps e args \<Rightarrow> createTimer e | Stops e \<Rightarrow> createTimer e)"

lemma activity_timers:
  assumes "\<And>w. activity_resets a w \<Longrightarrow> resets w" and "timer_source a = tm"
  shows "timer_sections tm resets (activity_prog a)"
  using assms by (cases a) (auto simp: timer_source_def dump_timers stop_timers intro!: wrapped_sections serve_timers happen_timers)

section \<open>AFTER_BOOT in every interleaving\<close>

lemma after_boot_change:
  "timer_change tm resets v v' \<Longrightarrow> \<not> resets u \<Longrightarrow> mfind (fst v) u = Some (reason_code AFTER_BOOT)
     \<Longrightarrow> mfind (fst v') u = Some (reason_code AFTER_BOOT)"
  by (induction rule: timer_change.induct) (auto simp: sl_find)


text \<open>C1: whatever threads run, and however they interleave: a user whose reason is AFTER_BOOT keeps it until a
  thread that may reset it has done so.  If none of the threads is an admitted request for no reason, a
  success with the password or a deletion of this user, then the reason is AFTER_BOOT whenever nobody holds
  the mutex; timers that expire, other requests and answers about credentials never weaken it.\<close>

theorem after_boot_survives_threads:
  assumes "pool_reaches as s (ts, s')" and "\<forall>t \<in> set ts. StrongAuthTimerMutex \<notin> set (fst t)"
    and "mfind (strongAuthStateInfo s) u = Some (reason_code AFTER_BOOT)"
    and "\<forall>a \<in> set as. \<not> activity_resets a u"
  shows "mfind (strongAuthStateInfo s') u = Some (reason_code AFTER_BOOT)"
proof -
  let ?I = "\<lambda>v :: guarded_timers. mfind (fst v) u = Some (reason_code AFTER_BOOT)"
  have "each_section StrongAuthTimerMutex timer_view (\<lambda>v v'. ?I v \<longrightarrow> ?I v') (activity_prog a)" if "a \<in> set as" for a
  proof (rule each_section_mono)
    show "timer_sections (timer_source a) (\<lambda>w. w \<noteq> u) (activity_prog a)"
      using that assms(4) by (intro activity_timers) auto
  qed (auto dest: after_boot_change)
  then have "?I (timer_view s')"
    using assms(2,3)
    by (intro mutex_keeps [where view = timer_view and I = ?I, OF assms(1) [unfolded pool_def]])
      (auto simp: timer_view_def)
  then show ?thesis by (simp add: timer_view_def)
qed

text \<open>A timer that expires, a request and a query at once, all about a user after boot.\<close>

definition boot_start :: "sample_store service_state" where
  "boot_start = (initial_service [])\<lparr>strongAuthStateInfo := [(100, 1)]\<rparr>"

definition boot_pool :: "sample_store activity list" where
  "boot_pool = [Happens sample_env (TimerFired (SetUserId 100 (SetCallbackInfo True (authTimer sample_env True 0 True False)))),
     Asks sample_env (Req_RequestStrongAuth 2 100), Asks sample_env (Req_GetStrongAuth 100)]"

theorem after_boot_survives_threads_witness:
  "\<exists>ts s'. pool_reaches boot_pool boot_start (ts, s') \<and> (\<forall>t \<in> set ts. finished t)
     \<and> mfind (strongAuthStateInfo s') 100 = Some 1"
proof -
  have "case schedule recursive_mutex [0, 0, 0, 1, 1, 1, 2, 2, 2, 0, 0, 0] (pool boot_pool boot_start) of
      None \<Rightarrow> False
    | Some (ts, s') \<Rightarrow> list_all (\<lambda>t. finished t \<and> fst t = []) ts"
    by code_simp
  then obtain ts s' where run: "pool_reaches boot_pool boot_start (ts, s')"
    and ended: "list_all (\<lambda>t. finished t \<and> fst t = []) ts" by (rule schedule_example)
  have "mfind (strongAuthStateInfo s') 100 = Some (reason_code AFTER_BOOT)"
    by (rule after_boot_survives_threads [OF run])
      (use ended in \<open>auto simp: list_all_iff boot_pool_def boot_start_def\<close>)
  with run ended show ?thesis by (auto simp: list_all_iff)
qed

section \<open>The timers in every interleaving\<close>

definition timers_ok :: "(nat \<Rightarrow> nat) \<Rightarrow> guarded_timers \<Rightarrow> bool" where
  "timers_ok tm v = (case v of (a, m, n, l) \<Rightarrow>
     mwf m \<and> distinct (map (timerId \<circ> snd) m) \<and> set l = (timerId \<circ> snd) ` set m
   \<and> (timerId \<circ> snd) ` set m \<subseteq> tm ` {..<n})"

lemma timers_ok_view: "timers_ok tm (timer_view s) = timers_inv tm s"
  by (simp add: timers_ok_def timer_view_def timers_inv_def)

lemma any_timer_view:
  obtains s :: "nat strong_state" where "strongAuthTimerInfo s = m" "timersCreated s = n" "live_timers (trace s) = l"
proof
  let ?es = "map (\<lambda>k. TimerCreate k (SetUserId 0 undefined)) l"
  let ?s = "(empty_strong (0::nat))\<lparr>strongAuthTimerInfo := m, timersCreated := n, trace := ?es\<rparr>"
  have "fold live_step (map (\<lambda>k. TimerCreate k (SetUserId 0 undefined)) l) ks = ks @ l" for ks
    by (induction l arbitrary: ks) simp_all
  then show "live_timers (trace ?s) = l" by (simp add: live_timers_def)
qed simp_all

lemma timers_ok_state:
  "timers_ok tm (a, strongAuthTimerInfo s, timersCreated s, live_timers (trace s)) = timers_inv tm s"
  by (simp add: timers_ok_def timers_inv_def)

lemma timers_ok_created:
  assumes ok: "timer_service_ok tm" and inv: "timers_ok tm (a, m, n, l)" and none: "mfind m u = None" and t: "timerId t = tm n"
  shows "timers_ok tm (a, mput u t m, Suc n, l @ [tm n])"
proof -
  have wf: "mwf m" using inv by (simp add: timers_ok_def)
  have fresh: "tm n \<notin> tm ` {..<n}" using ok by (auto simp: timer_service_ok_def inj_def)
  have "distinct (map (timerId \<circ> snd) (mput u t m))"
    using inv fresh t by (intro distinct_mput_new [OF none]) (auto simp: timers_ok_def)
  then show ?thesis
    using inv wf t unfolding timers_ok_def by (auto simp: map_snd_mput_new [OF none wf] lessThan_Suc)
qed

lemma timers_ok_change:
  assumes ok: "timer_service_ok tm"
  shows "timer_change tm resets v v' \<Longrightarrow> timers_ok tm v \<Longrightarrow> timers_ok tm v'"
proof (induction rule: timer_change.induct)
  case (created m u t n a l)
  obtain s :: "nat strong_state" where s: "strongAuthTimerInfo s = m" "timersCreated s = n" "live_timers (trace s) = l"
    by (rule any_timer_view)
  with created.prems have "timers_inv tm s" using timers_ok_state [of tm a s] by simp
  with created.hyps(1) s have "mfind m u = None"
    using timers_inv_nonzero [OF ok, of s u] by (auto split: option.splits)
  with created show ?case by (simp add: minsert_def timers_ok_created [OF ok])
next
  case (period m u ti t a n l)
  obtain s :: "nat strong_state" where s: "strongAuthTimerInfo s = m" "timersCreated s = n" "live_timers (trace s) = l"
    by (rule any_timer_view)
  with period.prems have inv: "timers_inv tm s" using timers_ok_state [of tm a s] by simp
  have "timers_inv tm (s\<lparr>strongAuthTimerInfo := mput u t m\<rparr>)"
    using s period.hyps by (intro timers_inv_update [OF inv, of u ti t]) simp_all
  with s timers_ok_state [of tm a "s\<lparr>strongAuthTimerInfo := mput u t m\<rparr>"] show ?case by simp
next
  case (destroyed m u ti a n l)
  obtain s :: "nat strong_state" where s: "strongAuthTimerInfo s = m" "timersCreated s = n" "live_timers (trace s) = l"
    by (rule any_timer_view)
  with destroyed.prems have inv: "timers_inv tm s" using timers_ok_state [of tm a s] by simp
  let ?s = "(emit [TimerStop (timerId ti), TimerDestroy (timerId ti)] s)\<lparr>strongAuthTimerInfo := merase u m\<rparr>"
  have "timers_inv tm ?s" using timers_inv_destroy [OF inv, of u ti] s destroyed.hyps by simp
  with s timers_ok_state [of tm a ?s] show ?case by (simp add: live_timers_append)
qed (simp_all add: timers_ok_def)

text \<open>C1: with a time service that never fails and never reuses an identifier, no interleaving of the threads
  loses or leaks a timer: whenever nobody holds the mutex, the timers alive in the time service are those
  recorded for the users, one each.\<close>

theorem timers_do_not_leak_threads:
  assumes "pool_reaches as s (ts, s')" and "\<forall>t \<in> set ts. StrongAuthTimerMutex \<notin> set (fst t)"
    and "timers_inv tm s" and "timer_service_ok tm" and "\<forall>a \<in> set as. timer_source a = tm"
  shows "set (live_timers (trace s')) = (timerId \<circ> snd) ` set (strongAuthTimerInfo s')
       \<and> distinct (map (timerId \<circ> snd) (strongAuthTimerInfo s')) \<and> 0 \<notin> set (live_timers (trace s'))"
proof -
  have "each_section StrongAuthTimerMutex timer_view (\<lambda>v v'. timers_ok tm v \<longrightarrow> timers_ok tm v') (activity_prog a)"
    if "a \<in> set as" for a
  proof (rule each_section_mono)
    show "timer_sections tm (\<lambda>w. True) (activity_prog a)"
      using that assms(5) by (intro activity_timers) auto
  qed (auto dest: timers_ok_change [OF assms(4)])
  then have "timers_ok tm (timer_view s')"
    using assms(2,3)
    by (intro mutex_keeps [where view = timer_view and I = "timers_ok tm", OF assms(1) [unfolded pool_def]])
      (auto simp: timers_ok_view)
  then have inv: "timers_inv tm s'" by (simp add: timers_ok_view)
  then have "set (live_timers (trace s')) \<subseteq> tm ` {..<timersCreated s'}" by (simp add: timers_inv_def)
  moreover have "0 \<notin> range tm" using assms(4) unfolding timer_service_ok_def by (metis rangeE)
  ultimately show ?thesis using inv by (auto simp: timers_inv_def)
qed


text \<open>The answer about a credential, which starts the timer, and a success that restarts it.\<close>

definition timer_pool :: "sample_store activity list" where
  "timer_pool = [Happens sample_env (CredReported 100 AUTH_SUCCESS 1), Happens sample_env (AuthSucceeded 100 PIN False),
     Asks sample_env (Req_GetStrongAuth 100)]"

theorem timers_do_not_leak_threads_witness:
  "\<exists>ts s'. pool_reaches timer_pool (initial_service []) (ts, s') \<and> (\<forall>t \<in> set ts. finished t)
     \<and> set (live_timers (trace s')) = (timerId \<circ> snd) ` set (strongAuthTimerInfo s') \<and> strongAuthTimerInfo s' \<noteq> []"
proof -
  have "case schedule recursive_mutex
      (replicate 13 0 @ [1, 1, 1, 1, 2, 1, 2, 1, 2] @ concat (replicate 6 [0, 1]) @ 0 # replicate 18 1)
      (pool timer_pool (initial_service [])) of
      None \<Rightarrow> False
    | Some (ts, s') \<Rightarrow> list_all (\<lambda>t. finished t \<and> fst t = []) ts \<and> strongAuthTimerInfo s' \<noteq> []"
    by code_simp
  then obtain ts s' where run: "pool_reaches timer_pool (initial_service []) (ts, s')"
    and ended: "list_all (\<lambda>t. finished t \<and> fst t = []) ts \<and> strongAuthTimerInfo s' \<noteq> []" by (rule schedule_example)
  have free: "\<forall>t \<in> set ts. StrongAuthTimerMutex \<notin> set (fst t)" using ended by (auto simp: list_all_iff)
  have inv: "timers_inv Suc (initial_service [] :: sample_store service_state)"
    by (simp add: timers_inv_def initial_service_def live_timers_def)
  have source: "\<forall>a \<in> set timer_pool. timer_source a = Suc"
    by (simp add: timer_pool_def timer_source_def sample_env_def)
  from timers_do_not_leak_threads [OF run free inv Suc_service source] run ended show ?thesis
    by (intro exI [of _ ts] exI [of _ s']) (simp add: list_all_iff)
qed

section \<open>What the mutex does not cover\<close>

text \<open>
  The listeners of a known user are told after the mutex is released, so of two requests at once the one
  that is stored last can be told first: the last notice then is not the reason that is stored.
\<close>

definition notice_start :: "sample_store service_state" where
  "notice_start = SetCurrentUser 100 ((initial_service [])\<lparr>strongAuthStateInfo := [(100, 0)], systemEventListener := Some 5\<rparr>)"

definition notice_pool :: "sample_store activity list" where
  "notice_pool = [Asks sample_env (Req_RequestStrongAuth 2 100), Asks sample_env (Req_RequestStrongAuth 4 100)]"

definition reported_reasons :: "effect list \<Rightarrow> string list" where
  "reported_reasons es = map (\<lambda>f. case f of SystemEventCallback l ev \<Rightarrow> params ev | _ \<Rightarrow> ''?'') es"

theorem last_notice_can_be_stale:
  "\<exists>ts s'. pool_reaches notice_pool notice_start (ts, s') \<and> (\<forall>t \<in> set ts. finished t)
     \<and> mfind (strongAuthStateInfo s') 100 = Some 4 \<and> reported_reasons (trace s') = [''4'', ''2'']"
proof -
  have "case schedule recursive_mutex ([0, 0, 0, 0] @ replicate 20 1 @ replicate 16 0) (pool notice_pool notice_start) of
      None \<Rightarrow> False
    | Some (ts, s') \<Rightarrow> list_all finished ts \<and> mfind (strongAuthStateInfo s') 100 = Some 4
        \<and> reported_reasons (trace s') = [''4'', ''2'']"
    by code_simp
  then obtain ts s' where "pool_reaches notice_pool notice_start (ts, s')" "list_all finished ts \<and>
      mfind (strongAuthStateInfo s') 100 = Some 4 \<and> reported_reasons (trace s') = [''4'', ''2'']"
    by (rule schedule_example)
  then show ?thesis by (intro exI [of _ ts] exI [of _ s']) (simp add: list_all_iff)
qed

text \<open>
  \<open>ResetStrongAuthTimer\<close> restarts the timer between its two sections: when the user is deleted meanwhile, a
  timer is started that has been destroyed, and none is recorded.
\<close>

definition reset_start :: "sample_store service_state" where
  "reset_start = OnCredentialInfo sample_env 100 AUTH_SUCCESS 1 (initial_service [])"

definition reset_pool :: "sample_store activity list" where
  "reset_pool = [Happens (sample_env\<lparr>callingUid := IDM_UID\<rparr>) (CredChanged 100 PIN ADD_CRED False),
     Happens (sample_env\<lparr>callingUid := IDM_UID\<rparr>) (CredChanged 100 PIN DEL_USER False)]"

theorem reset_can_start_destroyed_timer:
  "\<exists>ts s'. pool_reaches reset_pool reset_start (ts, s') \<and> (\<forall>t \<in> set ts. finished t)
     \<and> strongAuthTimerInfo s' = []
     \<and> drop 2 (trace s') = [TimerStop 1, TimerDestroy 1, TimerStop 1, TimerStart 1 3601000]"
proof -
  have "case schedule recursive_mutex (replicate 7 0 @ replicate 22 1 @ replicate 6 0) (pool reset_pool reset_start) of
      None \<Rightarrow> False
    | Some (ts, s') \<Rightarrow> list_all finished ts \<and> strongAuthTimerInfo s' = []
        \<and> drop 2 (trace s') = [TimerStop 1, TimerDestroy 1, TimerStop 1, TimerStart 1 3601000]"
    by code_simp
  then obtain ts s' where "pool_reaches reset_pool reset_start (ts, s')" "list_all finished ts
      \<and> strongAuthTimerInfo s' = []
      \<and> drop 2 (trace s') = [TimerStop 1, TimerDestroy 1, TimerStop 1, TimerStart 1 3601000]"
    by (rule schedule_example)
  then show ?thesis by (intro exI [of _ ts] exI [of _ s']) (simp add: list_all_iff)
qed

end
