(* ===== verification/Spec2Isabelle.thy ===== *)
theory Spec2Isabelle
  imports Answer_Order Listener_History Script_Histories Script_Resources Ani_Runtime
    Thread_Auth_State Thread_Waiting Thread_Strong
begin

text \<open>
  A verification development for the screen-lock service (\<open>theme_screenlock_mgr\<close>): the system ability
  that keeps the lock and authentication state of every user, the IPC layer in front of it, the client
  library and the two script bindings on top.

  \<^bold>\<open>The program.\<close>  A script calls a binding (\<open>frameworks/js/napi\<close>, \<open>frameworks/ets/ani\<close>); the binding
  calls the manager object of its process (\<open>frameworks/native/src/screenlock_manager.cpp\<close>); that object
  holds the proxy (\<open>screenlock_manager_proxy.cpp\<close>), which marshals the request; the stub in the service
  (\<open>services/src/screenlock_manager_stub.cpp\<close>) unmarshals it and calls \<open>ScreenLockSystemAbility\<close>.  The
  service consults the caller's identity, changes its state, tells the screen-lock application through
  system events, and answers waiting listeners through callback proxies.  It owns an inner-listener manager
  (\<open>innerlistenermanager.cpp\<close>), a strong-authentication manager (\<open>strongauthmanager.cpp\<close>), a preferences
  wrapper (\<open>preferences_util.cpp\<close>) and, in the wearable build, the application lock of \<open>watch/\<close>.

  \<^bold>\<open>Ground.\<close>  \<open>SL_Prelude\<close>: conversions, decimal rendering, fact collections (\<open>sl_find\<close>, \<open>sl_frame\<close>,
  \<open>sl_ops\<close>).  \<open>Std_Containers\<close>: ordered maps and sets.  \<open>SL_Common\<close>: the enumerations of
  \<open>screenlock_common.h\<close>, the objects that cross processes, the effects.  \<open>SL_Environment\<close>: the caller and
  the services outside the repository, with the permission checks of \<open>screenlock_system_ability.cpp\<close> and
  \<open>common_helper.h\<close>.  \<open>Preferences_Util\<close>: \<open>preferences_util.cpp\<close>.

  \<^bold>\<open>The service.\<close>  Its state is one record, extended component by component in the order
  \<open>base_state\<close> (the trace), \<open>prefs_state\<close>, \<open>inner_state\<close>, \<open>event_state\<close>, \<open>strong_state\<close>, \<open>watch_state\<close>,
  \<open>service_state\<close>, so that an operation of a component is polymorphic in what is added later.
  \<^item> \<open>Inner_Listener_Manager\<close>: \<open>innerlistenermanager.cpp\<close>; \<open>Inner_Listener_Props\<close>: the invariant of its tables,
    refinement of an abstract set of registrations, delivery, and a registration that outlives its client.
  \<^item> \<open>System_Events\<close>: the system events of \<open>screenlock_system_ability.cpp\<close> and the display state they keep;
    the display state is what a listener can reconstruct.
  \<^item> \<open>Strong_Auth_Manager\<close>: \<open>strongauthmanager.cpp\<close>; \<open>Strong_Auth_Props\<close>: what ends the AFTER_BOOT reason,
    periods of the timers, no leak of timers, delivery of changes.
  \<^item> \<open>Watch_App_Lock\<close>: \<open>watch/src\<close>; \<open>Watch_Props\<close>: lock decisions, the record of unlocked applications
    and its observers, bounded retries.
  \<^item> \<open>System_Ability\<close>: the requests; \<open>System_Lifecycle\<close>: start, stop, accounts, \<open>commeventsubscriber.cpp\<close>,
    \<open>command.cpp\<close>, \<open>dump_helper.cpp\<close>, the dispatcher \<open>serve\<close> and the step relation \<open>service_step\<close>.
  \<^item> \<open>System_Frames\<close> and \<open>System_Invariant\<close>: what each operation leaves alone, and the invariant of every
    reachable state; \<open>System_Props\<close>: access control, states read back, users isolated, pending work.

  \<^bold>\<open>Histories.\<close>  A history is a list of happenings, each with the environment it happens in: a request of
  somebody, a task or timer that runs, an event of another service.  \<open>service_step\<close> is exactly the relation
  the happenings make, so what holds after every history holds in every reachable state.
  \<^item> \<open>Quiet_Frames\<close>: what each operation leaves alone of the answers given, of the account of a user and of
    the listener tables.
  \<^item> \<open>Service_Spec\<close>: the abstract account of a user (\<open>user_view\<close>), the changes of it and the meaning of every
    happening in these terms; \<open>Service_History\<close>: the locale \<open>changes_refined\<close> (a step that acts on a view as
    its meaning does) and its first interpretation, with what follows for an unlocked screen or device.
  \<^item> \<open>Answer_Order\<close>: the second, the lines of waiting listeners; listeners are answered in their order.
  \<^item> \<open>Listener_History\<close>: the third, the registered listeners; who is told of a change of the device lock.

  \<^bold>\<open>IPC and clients.\<close>
  \<^item> \<open>Ipc_Parcel\<close>: the laws of the parcel library, codes and descriptors; \<open>Manager_Stub\<close>: handlers, table and
    dispatcher; \<open>Manager_Proxy\<close>: one function per request, and the contract \<open>wire_contract\<close> between both ends.
  \<^item> \<open>Callback_Ipc\<close>: proxies and stubs of the three callback interfaces and the wrapper of inner listeners.
  \<^item> \<open>Screenlock_Client\<close>: \<open>screenlock_manager.cpp\<close>; a request of a client is the request of the service, and
    what happens when the service cannot be reached.

  \<^bold>\<open>Scripts.\<close>
  \<^item> \<open>Js_Errors\<close>: codes and messages; \<open>Napi_Ability\<close>: \<open>napi_screenlock_ability.cpp\<close>, \<open>async_call.cpp\<close>,
    \<open>screenlock_callback.cpp\<close>; \<open>Napi_Props\<close>: argument checks, errors from the service to the script;
    \<open>Lock_Answers\<close>: a lock or unlock is refused at once or its callback waits.
  \<^item> \<open>Async_Call\<close>: \<open>async_call.h\<close>, \<open>async_call.cpp\<close>, the context structures of \<open>napi_screenlock_ability.h\<close> and
    the lambdas of every asynchronous function, with a ledger of what is allocated; \<open>Async_Props\<close>: they do
    what \<open>Napi_Ability\<close> says of the request they queue, and release what they take.
  \<^item> \<open>Script_Resources\<close>: \<open>uv_queue.cpp\<close> and the ledger of a lock or unlock and of a listener for events.
  \<^item> \<open>Ani_Ability\<close>: \<open>ani_screenlock_ability.cpp\<close> and \<open>ani_screenlock_callback.cpp\<close>, and the agreement of both
    bindings; \<open>Ani_Runtime\<close>: \<open>ani_error_handler.h\<close>, \<open>ani_screenlock_util.cpp\<close> and a runtime that fails.
  \<^item> \<open>Script_Events\<close>: \<open>screenlock_system_ability_callback.cpp\<close> and \<open>ani_screenlock_system_ability_callback.cpp\<close>;
    what reaches a script of a system event.
  \<^item> \<open>Script_Exports\<close>: the tables by which both modules export or bind their functions, loading, and what a call
    by name asks; \<open>Script_Histories\<close>: a program of such calls through client, wire and stub is a list of
    requests of the service.
  \<^item> This theory: an unlock from the script through client, wire and service and back to the script.

  \<^bold>\<open>How the code is read.\<close>  An operation takes the environment of its call and the state and returns its
  result and the new state; a status is a constructor inside the service and an integer on the wire.  What
  somebody outside can observe is an effect, appended to \<open>trace\<close>.  Work submitted to a queue, a timer, a
  posted task or a thread is a value or a definition of its own that runs later as a separate step, so
  interleavings are sequences of steps.  A request or a step is atomic: mutexes are not modelled, nor are
  races inside one function.  Fields of
  32 bits that are only stored and compared are unbounded integers; where the code converts (periods of
  timers, statuses as unsigned error codes, error codes as signed ones) the conversion is written out.
  Access to a vector outside its bounds is \<open>None\<close>.

  \<^bold>\<open>Bounds.\<close>  The retries of the code are counted: the ready event is tried 50 times, the display listener is
  registered 21 times at most, the wear observers retry up to \<open>MAX_RETRIES\<close>.  The recursions over them end
  by their counters; no definition needs fuel.

  \<^bold>\<open>Parameters.\<close>  Code outside the repository is an argument: the caller's token and process, accounts,
  bundles, focus, time service, user authentication, sensors, settings (fields of \<open>env\<close>), the preferences
  store (\<open>native_prefs\<close>), the parcel library and \<open>iface_cast\<close> (\<open>ipc\<close>), the registry of system abilities
  (\<open>client_env\<close>), the script engines and the steps in which they can fail (\<open>napi\<close>, \<open>ani\<close>, \<open>engine\<close>,
  \<open>ani_steps\<close>, \<open>ani_loader\<close>).  Their documented laws are the hypotheses
  \<open>prefs_laws\<close>, \<open>ipc_laws\<close> and \<open>napi_laws\<close>, each with an instance that satisfies it.

  \<^bold>\<open>Interfaces.\<close>  Locales state what one component relies on in another and are interpreted on the
  definitions that provide it: \<open>lookup_table\<close> (containers), \<open>settings_store\<close> and its extension
  \<open>user_settings\<close> (preferences), \<open>notifier\<close> (inner listeners),
  \<open>membership_record\<close> (the watch record), \<open>gated_requests\<close> (access control), \<open>wire_contract\<close> and
  \<open>remote_method\<close> (proxy and stub), \<open>changes_refined\<close> (histories), \<open>async_function\<close> (the lambdas of an
  asynchronous function), \<open>event_listener\<close> (events in both bindings).

  \<^bold>\<open>Not modelled.\<close>  Logs, traces and the tests have no effect on the state.  \<open>screenlock_js_util.cpp\<close>, the
  attaching of threads in \<open>ani_screenlock_util.cpp\<close> and \<open>screenlock_get_info_callback.cpp\<close> are never used.
  The part of the ANI binding that is written in the script language (\<open>@ohos.screenLock.ets\<close>) only declares
  the native functions and wraps them.  A failing allocation is modelled where the code goes on after it with
  a result of its own, and in the ledgers of the script bindings.  Engine calls whose status the code ignores
  are taken to succeed.  The state of a second service object in one process, and the destruction order of
  static objects, are outside the model.
\<close>

section \<open>From the script to the script\<close>

text \<open>An accepted unlock records its listener and the caller's user at the end of the two vectors.\<close>

lemma UnlockInner_users:
  "fst (UnlockInner e l s) = OK \<Longrightarrow> unlockVecUserIds (snd (UnlockInner e l s))
     = unlockVecUserIds s @ [GetUserIdFromCallingUid e]"
proof -
  have users: "unlockVecUserIds (SystemEventCallBack ev t) = unlockVecUserIds t"
    for ev and t :: "('x, 'y) service_state_scheme"
    by (simp add: SystemEventCallBack_def split: option.split)
  let ?s1 = "snd (IsPaymentApp e s)"
  let ?s2 = "snd (IsScreenLocked e ?s1)"
  have "svc_view ?s1 = svc_view s" "svc_view (snd (Watch_unlockScreen e b ?s2)) = svc_view s" for b
    by (simp_all add: sl_frame)
  then have "unlockVecUserIds ?s1 = unlockVecUserIds s"
    "unlockVecUserIds (snd (Watch_unlockScreen e b ?s2)) = unlockVecUserIds s" for b
    by (simp_all add: svc_view_def)
  moreover assume "fst (UnlockInner e l s) = OK"
  ultimately show ?thesis
    by (auto simp: UnlockInner_def users Let_def split_beta split: if_splits)
qed

lemma unlock_accepted:
  assumes "a \<noteq> ACTION_LOCK" and "fst (fst (serve e (lock_request a l) s)) = OK"
  shows "unlockVecListeners (snd (serve e (lock_request a l) s)) = unlockVecListeners s @ [l]"
    and "unlockVecUserIds (snd (serve e (lock_request a l) s)) = unlockVecUserIds s @ [GetUserIdFromCallingUid e]"
  using assms lock_request_waiting [of a e l s]
  by (cases a; auto simp: waiting_def no_out_def UnlockScreen_def Unlock_def UnlockInner_users split: if_splits)+

text \<open>The result the waiting listeners of the user get for a result event.\<close>

definition reported_result :: "int \<Rightarrow> int" where
  "reported_result r = (if r = screen_change_code ALREADY_UNLOCKED then screen_change_code SCREEN_SUCC else r)"

lemma UnlockScreenEvent_submits:
  assumes "unlockVecListeners s \<noteq> []"
    and "r \<in> {screen_change_code SCREEN_SUCC, screen_change_code SCREEN_CANCEL, screen_change_code ALREADY_UNLOCKED}"
  shows "\<exists>ts. tasks (UnlockScreenEvent e r s) = ts @ [UnlockCallbackTask (reported_result r) (GetUserIdFromCallingUid e)]"
    and "unlockVecListeners (UnlockScreenEvent e r s) = unlockVecListeners s"
    and "unlockVecUserIds (UnlockScreenEvent e r s) = unlockVecUserIds s"
proof -
  have set: "unlockVecListeners (SetScreenlocked b u s) = unlockVecListeners s"
    "unlockVecUserIds (SetScreenlocked b u s) = unlockVecUserIds s" for b u
    by (simp_all add: SetScreenlocked_def split: option.split)
  show "\<exists>ts. tasks (UnlockScreenEvent e r s) = ts @ [UnlockCallbackTask (reported_result r) (GetUserIdFromCallingUid e)]"
    "unlockVecListeners (UnlockScreenEvent e r s) = unlockVecListeners s"
    "unlockVecUserIds (UnlockScreenEvent e r s) = unlockVecUserIds s"
    using assms
    by (auto simp: UnlockScreenEvent_def reported_result_def NotifyUnlockListener_def submit_def PublishEvent_def
        NotifyDisplayEvent_def set Let_def)
qed



end
